(* ===== verification/PF_Prelude.thy ===== *)
theory PF_Prelude
  imports Main "HOL-Library.Word"
begin

text \<open>
  Shared ground of the development: the fixed-width integer types of
  \<^verbatim>\<open>include/pacing/checked.hpp\<close>, the fact collections the component theories feed, and the
  generic lemmas on words, lists and maps that several components use.

  The collections:
  \<^item> \<open>op_defs\<close>: definitions of small operations that proofs unfold together;
  \<^item> \<open>frame_simps\<close>: equations saying which parts of a state an operation leaves alone;
  \<^item> \<open>code_tables\<close>: enumeration tables (constructor to wire number and back).
\<close>

unbundle bit_operations_syntax

section \<open>Types and collections\<close>

type_synonym u8 = "8 word"
type_synonym u16 = "16 word"
type_synonym u32 = "32 word"
type_synonym u64 = "64 word"

named_theorems op_defs
named_theorems frame_simps
named_theorems code_tables

section \<open>Words read as natural numbers\<close>

lemma unat_u64_less [simp]: "unat (x :: u64) < 18446744073709551616"
  using unsigned_less [of x] by simp

lemma unat_u64_le [simp]: "unat (x :: u64) \<le> 18446744073709551615"
  using unat_u64_less [of x] by linarith

lemma unat_u32_less [simp]: "unat (x :: u32) < 4294967296"
  using unsigned_less [of x] by simp

lemma unat_u16_less [simp]: "unat (x :: u16) < 65536"
  using unsigned_less [of x] by simp

lemma unat_u8_less [simp]: "unat (x :: u8) < 256"
  using unsigned_less [of x] by simp

lemma unat_max_u64: "unat (-1 :: u64) = 18446744073709551615"
  by (simp add: unsigned_minus_1_eq_mask mask_eq_exp_minus_1)

lemma unat_add_u64: "unat a + unat b < 18446744073709551616 \<Longrightarrow> unat (a + b) = unat a + unat (b :: u64)"
  by (simp add: unat_word_ariths)

lemma unat_mult_u64: "unat a * unat b < 18446744073709551616 \<Longrightarrow> unat (a * b) = unat a * unat (b :: u64)"
  by (simp add: unat_word_ariths)

lemma unat_inc_u64: "a \<noteq> -1 \<Longrightarrow> unat (a + 1) = unat (a :: u64) + 1"
proof -
  assume "a \<noteq> -1"
  then have "unat a \<noteq> unat (-1 :: u64)" by (metis word_unat_eq_iff)
  then have "unat a < 18446744073709551615" using unat_u64_le [of a] unfolding unat_max_u64 by linarith
  then show ?thesis by (simp add: unat_word_ariths)
qed

lemma inc_u64_greater: "a \<noteq> -1 \<Longrightarrow> a < a + (1 :: u64)"
  by (simp add: word_less_nat_alt unat_inc_u64)

lemma unat_of_nat_u64: "n < 18446744073709551616 \<Longrightarrow> unat (of_nat n :: u64) = n"
  by (simp add: unat_of_nat)

lemma unat_of_nat_u32: "n < 4294967296 \<Longrightarrow> unat (of_nat n :: u32) = n"
  by (simp add: unat_of_nat)

section \<open>Searching a vector\<close>

text \<open>
  The registries of the code are vectors searched front to back for the first entry that
  satisfies a test (\<^verbatim>\<open>for (auto& entry : entries) if (...) { ...; return ...; }\<close>).
  \<open>find_index\<close> returns the position of that entry.
\<close>

fun find_index :: "('a \<Rightarrow> bool) \<Rightarrow> 'a list \<Rightarrow> nat option" where
  "find_index P [] = None"
| "find_index P (x # xs) = (if P x then Some 0 else map_option Suc (find_index P xs))"

lemma find_index_None: "find_index P xs = None \<longleftrightarrow> (\<forall>x \<in> set xs. \<not> P x)"
  by (induction xs) auto

lemma find_index_SomeD:
  "find_index P xs = Some i \<Longrightarrow> i < length xs \<and> P (xs ! i) \<and> (\<forall>j < i. \<not> P (xs ! j))"
proof (induction xs arbitrary: i)
  case Nil
  then show ?case by simp
next
  case (Cons x xs)
  show ?case
  proof (cases "P x")
    case True
    with Cons.prems show ?thesis by simp
  next
    case False
    with Cons.prems obtain k where k: "find_index P xs = Some k" "i = Suc k" by auto
    have "\<not> P ((x # xs) ! j)" if "j < i" for j
      using that False Cons.IH [OF k(1)] k(2) by (cases j) auto
    with k Cons.IH [OF k(1)] show ?thesis by simp
  qed
qed

lemma find_index_less: "find_index P xs = Some i \<Longrightarrow> i < length xs"
  by (simp add: find_index_SomeD)

lemma find_index_sat: "find_index P xs = Some i \<Longrightarrow> P (xs ! i)"
  by (simp add: find_index_SomeD)

lemma find_index_append:
  "find_index P (xs @ ys) =
     (case find_index P xs of Some i \<Rightarrow> Some i | None \<Rightarrow> map_option ((+) (length xs)) (find_index P ys))"
proof (induction xs)
  case Nil
  show ?case by (cases "find_index P ys") simp_all
next
  case (Cons x xs)
  then show ?case by (cases "find_index P xs"; cases "find_index P ys") simp_all
qed

lemma find_index_unique:
  assumes "i < length xs" "P (xs ! i)" "\<And>j. j < length xs \<Longrightarrow> P (xs ! j) \<Longrightarrow> j = i"
  shows "find_index P xs = Some i"
proof (cases "find_index P xs")
  case None
  then have "\<forall>x \<in> set xs. \<not> P x" by (simp only: find_index_None)
  with assms(1,2) nth_mem have False by blast
  then show ?thesis ..
next
  case (Some k)
  then show ?thesis using find_index_SomeD [OF Some] assms(3) by blast
qed

lemma find_index_cong:
  "length xs = length ys \<Longrightarrow> (\<And>i. i < length xs \<Longrightarrow> P (xs ! i) = Q (ys ! i)) \<Longrightarrow>
     find_index P xs = find_index Q ys"
proof (induction xs ys rule: list_induct2)
  case Nil
  show ?case by simp
next
  case (Cons x xs y ys)
  have "P (xs ! i) = Q (ys ! i)" if "i < length xs" for i
    using Cons.prems [of "Suc i"] that by simp
  then have "find_index P xs = find_index Q ys" by (rule Cons.IH)
  moreover have "P x = Q y" using Cons.prems [of 0] by simp
  ultimately show ?case by simp
qed

section \<open>Lists updated in place\<close>

lemma list_all_update:
  "(\<And>x. x \<in> set xs \<Longrightarrow> P x) \<Longrightarrow> P y \<Longrightarrow> \<forall>x \<in> set (xs[i := y]). P x"
  using set_update_subset_insert [of xs i y] by blast

lemma map_update_same:
  "i < length xs \<Longrightarrow> f y = f (xs ! i) \<Longrightarrow> map f (xs[i := y]) = map f xs"
  by (simp add: map_update list_update_same_conv)

lemma in_set_update: "i < length xs \<Longrightarrow> x \<in> set (xs[i := y]) \<Longrightarrow> x = y \<or> x \<in> set xs"
  using set_update_subset_insert [of xs i y] by blast

end
