(* ===== verification/PF_Status.thy ===== *)
theory PF_Status
  imports PF_Prelude
begin

text \<open>
  \<^verbatim>\<open>include/pacing/status.hpp\<close> and \<^verbatim>\<open>src/status.cpp\<close>: the closed error taxonomy, the
  status object and the result type. \<^verbatim>\<open>Result<T>\<close> holds a value or a status, so it is the
  sum \<open>status + 'a\<close>. An enumerator \<^verbatim>\<open>ErrorCode::X\<close> is the constructor \<open>EC_X\<close>. The
  decoders cast a wire number to \<^verbatim>\<open>ErrorCode\<close> without a range check, and a C++ enumeration
  with a fixed underlying type can hold any of its numbers, so \<open>EC_Other\<close> stands for a value
  that is no enumerator.
\<close>

datatype error_code =
    EC_Ok
  | EC_InvalidArgument | EC_MalformedInput | EC_Oversized | EC_OutOfRange
  | EC_ArithmeticOverflow | EC_Unsupported
  | EC_NotFound | EC_AlreadyExists | EC_UnknownAuthority
  | EC_StaleGeneration | EC_StaleEpoch | EC_StaleBoot | EC_StalePolicy | EC_StaleRateGrant
  | EC_StalePath | EC_StaleResource | EC_RequiresRevalidation
  | EC_CeilingExceeded | EC_EntitlementMint | EC_FloorExceedsCeiling | EC_BurstExceedsBound
  | EC_InvalidState | EC_Cancelled | EC_Revoked | EC_Fenced | EC_Duplicate | EC_Ambiguous
  | EC_BackendUnavailable | EC_BackendRejected | EC_BackendFailure | EC_ReadbackUnavailable
  | EC_ReadbackMismatch | EC_IntegrityFailure
  | EC_ResourceExhausted | EC_IoFailure | EC_Internal
  | EC_ClockRegression
  | EC_Other u16

text \<open>The enumerators in declaration order, so that position is the underlying value.\<close>

definition error_codes :: "error_code list" where
  "error_codes =
    [EC_Ok, EC_InvalidArgument, EC_MalformedInput, EC_Oversized, EC_OutOfRange,
     EC_ArithmeticOverflow, EC_Unsupported, EC_NotFound, EC_AlreadyExists, EC_UnknownAuthority,
     EC_StaleGeneration, EC_StaleEpoch, EC_StaleBoot, EC_StalePolicy, EC_StaleRateGrant,
     EC_StalePath, EC_StaleResource, EC_RequiresRevalidation, EC_CeilingExceeded,
     EC_EntitlementMint, EC_FloorExceedsCeiling, EC_BurstExceedsBound, EC_InvalidState,
     EC_Cancelled, EC_Revoked, EC_Fenced, EC_Duplicate, EC_Ambiguous, EC_BackendUnavailable,
     EC_BackendRejected, EC_BackendFailure, EC_ReadbackUnavailable, EC_ReadbackMismatch,
     EC_IntegrityFailure, EC_ResourceExhausted, EC_IoFailure, EC_Internal, EC_ClockRegression]"

fun error_code_num :: "error_code \<Rightarrow> u16" where
  "error_code_num EC_Ok = 0"
| "error_code_num EC_InvalidArgument = 1"
| "error_code_num EC_MalformedInput = 2"
| "error_code_num EC_Oversized = 3"
| "error_code_num EC_OutOfRange = 4"
| "error_code_num EC_ArithmeticOverflow = 5"
| "error_code_num EC_Unsupported = 6"
| "error_code_num EC_NotFound = 7"
| "error_code_num EC_AlreadyExists = 8"
| "error_code_num EC_UnknownAuthority = 9"
| "error_code_num EC_StaleGeneration = 10"
| "error_code_num EC_StaleEpoch = 11"
| "error_code_num EC_StaleBoot = 12"
| "error_code_num EC_StalePolicy = 13"
| "error_code_num EC_StaleRateGrant = 14"
| "error_code_num EC_StalePath = 15"
| "error_code_num EC_StaleResource = 16"
| "error_code_num EC_RequiresRevalidation = 17"
| "error_code_num EC_CeilingExceeded = 18"
| "error_code_num EC_EntitlementMint = 19"
| "error_code_num EC_FloorExceedsCeiling = 20"
| "error_code_num EC_BurstExceedsBound = 21"
| "error_code_num EC_InvalidState = 22"
| "error_code_num EC_Cancelled = 23"
| "error_code_num EC_Revoked = 24"
| "error_code_num EC_Fenced = 25"
| "error_code_num EC_Duplicate = 26"
| "error_code_num EC_Ambiguous = 27"
| "error_code_num EC_BackendUnavailable = 28"
| "error_code_num EC_BackendRejected = 29"
| "error_code_num EC_BackendFailure = 30"
| "error_code_num EC_ReadbackUnavailable = 31"
| "error_code_num EC_ReadbackMismatch = 32"
| "error_code_num EC_IntegrityFailure = 33"
| "error_code_num EC_ResourceExhausted = 34"
| "error_code_num EC_IoFailure = 35"
| "error_code_num EC_Internal = 36"
| "error_code_num EC_ClockRegression = 37"
| "error_code_num (EC_Other n) = n"

definition error_code_of_num :: "u16 \<Rightarrow> error_code" where
  "error_code_of_num n =
     (if unat n < length error_codes then error_codes ! unat n else EC_Other n)"

text \<open>A code is genuine when it is one of the enumerators.\<close>

definition genuine_code :: "error_code \<Rightarrow> bool" where
  "genuine_code c = (case c of EC_Other n \<Rightarrow> length error_codes \<le> unat n | _ \<Rightarrow> True)"

lemma error_codes_length [simp]: "length error_codes = 38"
  by (simp add: error_codes_def)

lemma error_code_of_num_num: "genuine_code c \<Longrightarrow> error_code_of_num (error_code_num c) = c"
  by (cases c) (simp_all add: genuine_code_def error_code_of_num_def error_codes_def)

lemma genuine_code_simps [simp]:
  "genuine_code (EC_Other n) = (38 \<le> unat n)"
  "\<not> (\<exists>n. c = EC_Other n) \<Longrightarrow> genuine_code c"
  by (auto simp: genuine_code_def split: error_code.splits)

section \<open>Classification\<close>

fun is_retryable :: "error_code \<Rightarrow> bool" where
  "is_retryable EC_BackendUnavailable = True"
| "is_retryable EC_BackendFailure = True"
| "is_retryable EC_ReadbackUnavailable = True"
| "is_retryable EC_IoFailure = True"
| "is_retryable EC_ResourceExhausted = True"
| "is_retryable _ = False"

fun is_staleness :: "error_code \<Rightarrow> bool" where
  "is_staleness EC_StaleGeneration = True"
| "is_staleness EC_StaleEpoch = True"
| "is_staleness EC_StaleBoot = True"
| "is_staleness EC_StalePolicy = True"
| "is_staleness EC_StaleRateGrant = True"
| "is_staleness EC_StalePath = True"
| "is_staleness EC_StaleResource = True"
| "is_staleness EC_RequiresRevalidation = True"
| "is_staleness EC_Fenced = True"
| "is_staleness _ = False"

lemma staleness_not_retryable: "is_staleness c \<Longrightarrow> \<not> is_retryable c"
  by (cases c) simp_all

section \<open>Status and result\<close>

datatype status = Status (st_code: error_code) (st_detail: string)

text \<open>
  The detail is prose. Goals rarely turn on it, so the simplifier leaves it alone: this
  congruence rule keeps it from walking through the characters of every message.
\<close>

lemma Status_cong [cong]: "c = c' \<Longrightarrow> Status c d = Status c' d"
  by simp

definition success :: status where
  "success = Status EC_Ok []"

definition st_ok :: "status \<Rightarrow> bool" where
  "st_ok s = (st_code s = EC_Ok)"

text \<open>Two statuses are equal for the code when their codes are (\<^verbatim>\<open>operator==\<close>).\<close>

definition status_eq :: "status \<Rightarrow> status \<Rightarrow> bool" where
  "status_eq a b = (st_code a = st_code b)"

lemma st_ok_simps [simp]:
  "st_ok success" "st_ok (Status c d) = (c = EC_Ok)" "st_code success = EC_Ok" "st_detail success = []"
  by (simp_all add: success_def st_ok_def)

lemma success_neq_Status [simp]:
  "c \<noteq> EC_Ok \<Longrightarrow> success \<noteq> Status c d" "c \<noteq> EC_Ok \<Longrightarrow> Status c d \<noteq> success"
  by (auto simp: success_def)

type_synonym 'a status_or = "status + 'a"

definition so_ok :: "'a status_or \<Rightarrow> bool" where
  "so_ok r = (case r of Inl _ \<Rightarrow> False | Inr _ \<Rightarrow> True)"

definition so_code :: "'a status_or \<Rightarrow> error_code" where
  "so_code r = (case r of Inl s \<Rightarrow> st_code s | Inr _ \<Rightarrow> EC_Ok)"

lemma so_simps [simp]:
  "so_ok (Inr x)" "\<not> so_ok (Inl s)" "so_code (Inr x) = EC_Ok" "so_code (Inl s) = st_code s"
  by (simp_all add: so_ok_def so_code_def)

end
