(* ===== verification/PF_Checked.thy ===== *)
theory PF_Checked
  imports PF_Status
begin

text \<open>
  \<^verbatim>\<open>include/pacing/checked.hpp\<close>: exact, checked 64-bit arithmetic. A C++ routine that
  returns \<^verbatim>\<open>bool\<close> and writes an output parameter is a function into \<open>option\<close>: \<open>Some\<close> of
  the output where the routine returns true, \<open>None\<close> where it returns false (every caller
  ignores the output then). The machine word operations wrap, as the C++ ones do; the lemmas
  show that the guards make each result exact.
\<close>

definition kU64Max :: u64 where
  "kU64Max = -1"

lemma unat_kU64Max [simp]: "unat kU64Max = 18446744073709551615"
  by (simp add: kU64Max_def unat_max_u64)

section \<open>Guarded operations\<close>

definition checked_add :: "u64 \<Rightarrow> u64 \<Rightarrow> u64 option" where
  "checked_add a b = (if a > kU64Max - b then None else Some (a + b))"

definition checked_sub :: "u64 \<Rightarrow> u64 \<Rightarrow> u64 option" where
  "checked_sub a b = (if b > a then None else Some (a - b))"

definition checked_mul :: "u64 \<Rightarrow> u64 \<Rightarrow> u64 option" where
  "checked_mul a b =
     (if a = 0 \<or> b = 0 then Some 0
      else if a > kU64Max div b then None
      else Some (a * b))"

definition checked_div :: "u64 \<Rightarrow> u64 \<Rightarrow> u64 option" where
  "checked_div a b = (if b = 0 then None else Some (a div b))"

section \<open>128-bit product by limbs\<close>

definition umul128 :: "u64 \<Rightarrow> u64 \<Rightarrow> u64 \<times> u64" where
  "umul128 a b =
     (let a_lo = a AND 0xFFFFFFFF;
          a_hi = drop_bit 32 a;
          b_lo = b AND 0xFFFFFFFF;
          b_hi = drop_bit 32 b;
          t0 = a_lo * b_lo;
          w0 = t0 AND 0xFFFFFFFF;
          k0 = drop_bit 32 t0;
          t1 = a_hi * b_lo + k0;
          w1 = t1 AND 0xFFFFFFFF;
          w2 = drop_bit 32 t1;
          t2 = a_lo * b_hi + w1;
          k1 = drop_bit 32 t2;
          lo = push_bit 32 t2 + w0;
          hi = a_hi * b_hi + w2 + k1
      in (hi, lo))"

section \<open>Exact multiply-divide\<close>

text \<open>
  One round of the restoring division for bit \<open>i\<close> of the 128-bit dividend \<open>(hi, lo)\<close>:
  \<open>divide_step hi lo d i (q, r)\<close> is the loop body of \<^verbatim>\<open>mul_div_mod\<close>, and
  \<open>divide_loop hi lo d n (q, r)\<close> runs it for \<open>i = n - 1, ..., 0\<close>.
\<close>

definition dividend_bit :: "u64 \<Rightarrow> u64 \<Rightarrow> nat \<Rightarrow> u64" where
  "dividend_bit hi lo i =
     (if i \<ge> 64 then drop_bit (i - 64) hi AND 1 else drop_bit i lo AND 1)"

definition divide_step :: "u64 \<Rightarrow> u64 \<Rightarrow> u64 \<Rightarrow> nat \<Rightarrow> u64 \<times> u64 \<Rightarrow> u64 \<times> u64" where
  "divide_step hi lo d i qr =
     (let (q, r) = qr;
          b = dividend_bit hi lo i;
          r2 = push_bit 1 r OR b;
          carry = (drop_bit 63 r \<noteq> 0);
          ge = (carry \<or> r2 \<ge> d);
          r2' = (if ge then r2 - d else r2);
          q' = (if ge \<and> i < 64 then q OR push_bit i 1 else q)
      in (q', r2'))"

fun divide_loop :: "u64 \<Rightarrow> u64 \<Rightarrow> u64 \<Rightarrow> nat \<Rightarrow> u64 \<times> u64 \<Rightarrow> u64 \<times> u64" where
  "divide_loop hi lo d 0 qr = qr"
| "divide_loop hi lo d (Suc i) qr = divide_loop hi lo d i (divide_step hi lo d i qr)"

definition mul_div_mod :: "u64 \<Rightarrow> u64 \<Rightarrow> u64 \<Rightarrow> (u64 \<times> u64) option" where
  "mul_div_mod a b d =
     (if d = 0 then None
      else let (hi, lo) = umul128 a b in
        if hi \<ge> d then None
        else if hi = 0 then Some (lo div d, lo mod d)
        else Some (divide_loop hi lo d 128 (0, 0)))"

definition mul_div_floor :: "u64 \<Rightarrow> u64 \<Rightarrow> u64 \<Rightarrow> u64 option" where
  "mul_div_floor a b d = map_option fst (mul_div_mod a b d)"

definition mul_div_ceil :: "u64 \<Rightarrow> u64 \<Rightarrow> u64 \<Rightarrow> u64 option" where
  "mul_div_ceil a b d =
     (case mul_div_mod a b d of
        None \<Rightarrow> None
      | Some (q, r) \<Rightarrow>
          if r \<noteq> 0 then (if q = kU64Max then None else Some (q + 1)) else Some q)"

definition sat_mul :: "u64 \<Rightarrow> u64 \<Rightarrow> u64" where
  "sat_mul a b = (case checked_mul a b of None \<Rightarrow> kU64Max | Some v \<Rightarrow> v)"

definition sat_add :: "u64 \<Rightarrow> u64 \<Rightarrow> u64" where
  "sat_add a b = (case checked_add a b of None \<Rightarrow> kU64Max | Some v \<Rightarrow> v)"

definition narrow_u32 :: "u64 \<Rightarrow> u32 option" where
  "narrow_u32 v = (if v > 0xFFFFFFFF then None else Some (ucast v))"

definition narrow_u16 :: "u64 \<Rightarrow> u16 option" where
  "narrow_u16 v = (if v > 0xFFFF then None else Some (ucast v))"

definition ppm_of :: "u64 \<Rightarrow> u64 \<Rightarrow> u64 option" where
  "ppm_of value ppm = mul_div_floor value ppm 1000000"

section \<open>Identity digests\<close>

text \<open>
  \<^verbatim>\<open>Digest64\<close>: FNV-1a over bytes. A digest under construction is its \<^verbatim>\<open>state_\<close>; each
  \<^verbatim>\<open>mix_\<close> method is a function from the old state to the new one.
\<close>

definition digest_init :: u64 where
  "digest_init = 0xCBF29CE484222325"

definition mix_byte :: "u8 \<Rightarrow> u64 \<Rightarrow> u64" where
  "mix_byte b s = (s XOR ucast b) * 0x100000001B3"

definition mix_u64 :: "u64 \<Rightarrow> u64 \<Rightarrow> u64" where
  "mix_u64 v s = fold (\<lambda>i. mix_byte (ucast (drop_bit (8 * i) v AND 0xFF))) [0..<8] s"

definition mix_u32 :: "u32 \<Rightarrow> u64 \<Rightarrow> u64" where
  "mix_u32 v = mix_u64 (ucast v)"

definition mix_bool :: "bool \<Rightarrow> u64 \<Rightarrow> u64" where
  "mix_bool v = mix_byte (if v then 1 else 0)"

section \<open>The limb product is exact\<close>

lemma unat_low32: "unat (x AND 0xFFFFFFFF :: u64) = unat x mod 4294967296"
proof -
  have "x AND 0xFFFFFFFF = take_bit 32 x"
    by (simp add: take_bit_eq_mask mask_eq_exp_minus_1)
  then have "unat (x AND 0xFFFFFFFF) = take_bit 32 (unat x)"
    by (simp only: unsigned_take_bit_eq)
  then show ?thesis by (simp add: take_bit_eq_mod)
qed

lemma unat_drop_bit: "unat (drop_bit n x :: u64) = unat x div 2 ^ n"
  unfolding unat_drop_bit_eq by (simp add: drop_bit_eq_div)

lemma unat_push32: "unat (push_bit 32 x :: u64) = unat x mod 4294967296 * 4294967296"
proof -
  have "unat (push_bit 32 x :: u64) = (unat x * 4294967296) mod (4294967296 * 4294967296)"
    unfolding unsigned_push_bit_eq by (simp add: take_bit_eq_mod push_bit_eq_mult)
  then show ?thesis by (simp only: mult_mod_left)
qed

lemma limb_product:
  fixes M :: nat
  assumes "A = al * bl" "T1 = ah * bl + A div M" "T2 = al * bh + T1 mod M"
  shows "(ah * bh + T1 div M + T2 div M) * (M * M) + (T2 mod M * M + A mod M)
         = (ah * M + al) * (bh * M + bl)"
proof -
  have t2: "T2 div M * (M * M) + T2 mod M * M = T2 * M"
    using div_mult_mod_eq [of T2 M] by (metis add_mult_distrib mult.assoc)
  have t1: "T1 div M * (M * M) + T1 mod M * M = T1 * M"
    using div_mult_mod_eq [of T1 M] by (metis add_mult_distrib mult.assoc)
  have a: "A div M * M + A mod M = A" by (rule div_mult_mod_eq)
  have "(ah * bh + T1 div M + T2 div M) * (M * M) + (T2 mod M * M + A mod M)
        = ah * bh * (M * M) + T1 div M * (M * M) + (T2 div M * (M * M) + T2 mod M * M) + A mod M"
    by (simp add: add_mult_distrib)
  also have "\<dots> = ah * bh * (M * M) + T1 div M * (M * M) + (al * bh * M + T1 mod M * M) + A mod M"
    unfolding t2 by (simp only: assms(3) add_mult_distrib)
  also have "\<dots> = ah * bh * (M * M) + al * bh * M + (T1 div M * (M * M) + T1 mod M * M) + A mod M"
    by simp
  also have "\<dots> = ah * bh * (M * M) + al * bh * M + (ah * bl * M + (A div M * M + A mod M))"
    unfolding t1 by (simp only: assms(2) add_mult_distrib add.assoc)
  also have "\<dots> = ah * bh * (M * M) + al * bh * M + ah * bl * M + al * bl"
    unfolding a assms(1) by simp
  also have "\<dots> = (ah * M + al) * (bh * M + bl)"
    by (simp add: add_mult_distrib add_mult_distrib2 algebra_simps)
  finally show ?thesis .
qed

lemma umul128_exact:
  assumes "umul128 a b = (hi, lo)"
  shows "unat hi * 18446744073709551616 + unat lo = unat a * unat b"
proof -
  let ?M = "4294967296 :: nat"
  define al ah bl bh where "al = unat a mod ?M" "ah = unat a div ?M" "bl = unat b mod ?M" "bh = unat b div ?M"
  define A T1 T2 where "A = al * bl" "T1 = ah * bl + A div ?M" "T2 = al * bh + T1 mod ?M"
  have a: "unat a = ah * ?M + al" and b: "unat b = bh * ?M + bl"
    by (simp_all add: al_ah_bl_bh_def)
  have bnd: "al < ?M" "bl < ?M" "ah < ?M" "bh < ?M"
    using unat_u64_less [of a] unat_u64_less [of b] by (simp_all add: al_ah_bl_bh_def less_mult_imp_div_less)
  have prod_le: "x * y \<le> (?M - 1) * (?M - 1)" if "x < ?M" "y < ?M" for x y :: nat
    using that by (intro mult_le_mono) auto
  have A: "A < ?M * ?M" using prod_le [OF bnd(1) bnd(2)] by (simp add: A_T1_T2_def)
  then have "A div ?M < ?M" by (simp add: less_mult_imp_div_less)
  then have T1: "T1 < ?M * ?M" using prod_le [OF bnd(3) bnd(2)] by (simp add: A_T1_T2_def)
  have T2: "T2 < ?M * ?M" using prod_le [OF bnd(1) bnd(4)] mod_less_divisor [of ?M T1] by (simp add: A_T1_T2_def)
  define hn ln where "hn = ah * bh + T1 div ?M + T2 div ?M" "ln = T2 mod ?M * ?M + A mod ?M"
  have total: "hn * (?M * ?M) + ln = unat a * unat b"
    unfolding hn_ln_def a b by (rule limb_product) (simp_all add: A_T1_T2_def)
  have "hn * (?M * ?M) < (?M * ?M) * (?M * ?M)"
  proof -
    have "unat a * unat b < (?M * ?M) * (?M * ?M)"
      using unat_u64_less [of a] unat_u64_less [of b] by (intro mult_strict_mono) auto
    with total show ?thesis by linarith
  qed
  then have hn: "hn < ?M * ?M" by simp
  have ln: "ln < ?M * ?M"
  proof -
    have "T2 mod ?M * ?M \<le> (?M - 1) * ?M" by (intro mult_le_mono) (simp_all add: Suc_leI flip: less_Suc_eq_le)
    moreover have "A mod ?M < ?M" by simp
    ultimately show ?thesis unfolding hn_ln_def by linarith
  qed
  have low: "unat (a AND 0xFFFFFFFF) = al" "unat (drop_bit 32 a) = ah"
    "unat (b AND 0xFFFFFFFF) = bl" "unat (drop_bit 32 b) = bh"
    by (simp_all add: unat_low32 unat_drop_bit al_ah_bl_bh_def)
  have w0: "unat ((a AND 0xFFFFFFFF) * (b AND 0xFFFFFFFF)) = A"
    using A by (subst unat_mult_u64) (simp_all add: low A_T1_T2_def)
  have w1: "unat (drop_bit 32 a * (b AND 0xFFFFFFFF) + drop_bit 32 ((a AND 0xFFFFFFFF) * (b AND 0xFFFFFFFF))) = T1"
    (is "unat (?x * ?y + ?z) = _")
  proof -
    have m: "unat (?x * ?y) = ah * bl"
      using T1 by (subst unat_mult_u64) (simp_all add: low A_T1_T2_def)
    have z: "unat ?z = A div ?M" by (simp add: unat_drop_bit w0)
    show ?thesis using T1 by (subst unat_add_u64) (simp_all add: m z A_T1_T2_def)
  qed
  let ?t0 = "(a AND 0xFFFFFFFF) * (b AND 0xFFFFFFFF)"
  let ?t1 = "drop_bit 32 a * (b AND 0xFFFFFFFF) + drop_bit 32 ?t0"
  let ?t2 = "(a AND 0xFFFFFFFF) * drop_bit 32 b + (?t1 AND 0xFFFFFFFF)"
  have w2: "unat ?t2 = T2"
  proof -
    have m: "unat ((a AND 0xFFFFFFFF) * drop_bit 32 b) = al * bh"
      using T2 by (subst unat_mult_u64) (simp_all add: low A_T1_T2_def)
    have z: "unat (?t1 AND 0xFFFFFFFF) = T1 mod ?M" by (simp add: unat_low32 w1)
    show ?thesis using T2 by (subst unat_add_u64) (simp_all add: m z A_T1_T2_def)
  qed
  have hl: "hi = drop_bit 32 a * drop_bit 32 b + drop_bit 32 ?t1 + drop_bit 32 ?t2"
    "lo = push_bit 32 ?t2 + (?t0 AND 0xFFFFFFFF)"
    using assms by (auto simp only: umul128_def Let_def prod.inject)
  have "unat lo = ln"
    unfolding hl using ln
    by (subst unat_add_u64) (simp_all add: unat_push32 unat_low32 w2 w0 hn_ln_def)
  moreover have "unat hi = hn"
  proof -
    have m: "unat (drop_bit 32 a * drop_bit 32 b) = ah * bh"
      using hn by (subst unat_mult_u64) (simp_all add: low hn_ln_def)
    have p: "unat (drop_bit 32 a * drop_bit 32 b + drop_bit 32 ?t1) = ah * bh + T1 div ?M"
      using hn by (subst unat_add_u64) (simp_all add: m w1 unat_drop_bit hn_ln_def)
    show ?thesis
      unfolding hl using hn by (subst unat_add_u64) (simp_all add: p w2 unat_drop_bit hn_ln_def)
  qed
  ultimately show ?thesis using total by simp
qed

section \<open>The restoring division is exact\<close>

lemma dividend_bit_nat:
  "i < 128 \<Longrightarrow> unat (dividend_bit hi lo i) = (unat hi * 18446744073709551616 + unat lo) div 2 ^ i mod 2"
proof -
  assume "i < 128"
  have one: "unat (x AND 1 :: u64) = unat x mod 2" for x
    by (simp add: and_one_eq unat_mod)
  show ?thesis
  proof (cases "i \<ge> 64")
    case True
    then obtain j where j: "i = 64 + j" using le_Suc_ex by blast
    have "(unat hi * 2 ^ 64 + unat lo) div 2 ^ i = unat hi div 2 ^ j"
      using unat_u64_less [of lo] by (simp add: j power_add div_mult2_eq)
    then show ?thesis by (simp add: dividend_bit_def one unat_drop_bit j)
  next
    case False
    then obtain j where j: "64 = Suc j + i" by (metis add.commute add_Suc less_imp_Suc_add not_le)
    have "(2::nat) ^ 64 = 2 * 2 ^ j * 2 ^ i" by (simp only: j power_add power_Suc)
    then have "unat hi * 2 ^ 64 + unat lo = (unat hi * 2 ^ j * 2) * 2 ^ i + unat lo"
      by (simp only: ac_simps)
    then have "(unat hi * 2 ^ 64 + unat lo) div 2 ^ i = unat hi * 2 ^ j * 2 + unat lo div 2 ^ i"
      by (metis div_mult_self3 power_not_zero zero_neq_numeral)
    then have "(unat hi * 2 ^ 64 + unat lo) div 2 ^ i mod 2 = unat lo div 2 ^ i mod 2" by simp
    with False show ?thesis by (simp add: dividend_bit_def one unat_drop_bit)
  qed
qed

text \<open>One round keeps the remainder below the divisor and appends one quotient bit.\<close>

lemma divide_step_exact:
  assumes r: "unat r < unat d" and i: "i < 128"
    and s: "divide_step hi lo d i (q, r) = (q', r')"
  defines "b \<equiv> (unat hi * 18446744073709551616 + unat lo) div 2 ^ i mod 2"
  shows "unat r' = (2 * unat r + b) mod unat d"
    and "q' = (if (2 * unat r + b) div unat d = 1 \<and> i < 64 then q OR push_bit i 1 else q)"
    and "(2 * unat r + b) div unat d \<le> 1"
proof -
  let ?W = "18446744073709551616 :: nat"
  let ?v = "2 * unat r + b"
  let ?r2 = "push_bit 1 r OR dividend_bit hi lo i"
  have b01: "b = 0 \<or> b = 1" unfolding b_def by (auto simp: mod_2_eq_odd)
  have bit: "unat (dividend_bit hi lo i) = b" using i by (simp add: dividend_bit_nat b_def)
  have p: "push_bit 1 r = 2 * r" by (simp add: push_bit_eq_mult mult.commute)
  have r2: "?r2 = 2 * r + dividend_bit hi lo i"
  proof -
    have "dividend_bit hi lo i = 0 \<or> dividend_bit hi lo i = 1"
      by (auto simp: dividend_bit_def and_one_eq)
    then show ?thesis unfolding p by (auto simp: or_one_eq)
  qed
  have d: "unat d \<le> ?W - 1" by simp
  have lt: "?v < 2 * unat d" using r b01 by auto
  have d0: "0 < unat d" using r by simp
  show "?v div unat d \<le> 1"
    using lt d0 by (metis One_nat_def less_Suc_eq_le less_mult_imp_div_less numeral_2_eq_2)
  have wrap: "unat ?r2 = ?v mod ?W"
    unfolding r2 by (simp add: unat_word_ariths bit mod_simps)
  have carry: "(drop_bit 63 r \<noteq> 0) = (?W \<le> 2 * unat r)"
  proof -
    have "(drop_bit 63 r \<noteq> 0) = (unat (drop_bit 63 r) \<noteq> 0)" by (simp add: unat_eq_zero)
    also have "\<dots> = (unat r div 2 ^ 63 \<noteq> 0)" by (simp only: unat_drop_bit)
    also have "\<dots> = (?W \<le> 2 * unat r)" by (simp add: div_eq_0_iff not_less)
    finally show ?thesis .
  qed
  have even_carry: "(?W \<le> 2 * unat r) = (?W \<le> ?v)" using b01 by presburger
  define ge where "ge = (drop_bit 63 r \<noteq> 0 \<or> ?r2 \<ge> d)"
  have ge: "ge = (unat d \<le> ?v)"
  proof (cases "?W \<le> ?v")
    case True
    then have "unat d \<le> ?v" using d by linarith
    with True show ?thesis by (simp add: ge_def carry even_carry)
  next
    case False
    then show ?thesis using wrap by (simp add: ge_def carry even_carry word_le_nat_alt)
  qed
  have r': "r' = (if ge then ?r2 - d else ?r2)"
    and q': "q' = (if ge \<and> i < 64 then q OR push_bit i 1 else q)"
    using s unfolding divide_step_def Let_def ge_def by (simp_all only: prod.case prod.inject)
  show "unat r' = ?v mod unat d"
  proof (cases ge)
    case True
    then have le: "unat d \<le> ?v" by (simp add: ge)
    then have v: "?v mod unat d = ?v - unat d" using lt by (simp add: le_mod_geq)
    have "unat (?r2 - d) = ?v - unat d"
    proof (cases "?W \<le> ?v")
      case W: True
      then have u: "unat ?r2 = ?v - ?W" using wrap lt d by (simp add: le_mod_geq)
      then have "unat ?r2 < unat d" using lt d W by linarith
      then show ?thesis using u W d by (simp add: unat_sub_if')
    next
      case False
      then have "unat ?r2 = ?v" using wrap by simp
      with le show ?thesis by (simp add: unat_sub_if')
    qed
    with True v show ?thesis by (simp add: r')
  next
    case False
    then have nle: "?v < unat d" by (simp add: ge)
    then have "?v < ?W" using d by linarith
    then have "?v mod ?W = ?v" by (rule mod_less)
    then have "unat ?r2 = ?v" using wrap by simp
    with False nle show ?thesis by (simp add: r')
  qed
  have "(?v div unat d = 1) = ge"
  proof (cases ge)
    case True
    then have le: "unat d \<le> ?v" by (simp add: ge)
    then show ?thesis using True lt d0 by (simp add: le_div_geq)
  next
    case False
    then show ?thesis by (simp add: ge)
  qed
  then show "q' = (if ?v div unat d = 1 \<and> i < 64 then q OR push_bit i 1 else q)"
    by (simp add: q')
qed

lemma or_shifted_bit: "Q * 2 ^ Suc i OR 2 ^ i = Q * 2 ^ Suc i + (2 :: nat) ^ i"
proof -
  have "Q * 2 ^ Suc i = push_bit i (2 * Q)" "2 ^ i = push_bit i (1 :: nat)"
    by (simp_all add: push_bit_eq_mult mult_ac)
  then have "Q * 2 ^ Suc i OR 2 ^ i = push_bit i (2 * Q) OR push_bit i 1" by (simp only:)
  also have "\<dots> = push_bit i (2 * Q OR 1)" by (simp only: push_bit_or)
  also have "2 * Q OR 1 = 2 * Q + 1" by (simp only: or_one_eq) simp
  also have "push_bit i (2 * Q + 1) = Q * 2 ^ Suc i + 2 ^ i" by (simp add: push_bit_eq_mult algebra_simps)
  finally show ?thesis .
qed

lemma unat_or_bit:
  "i < 64 \<Longrightarrow> unat q = Q * 2 ^ Suc i \<Longrightarrow> unat (q OR push_bit i 1 :: u64) = unat q + 2 ^ i"
proof -
  assume i: "i < 64" and q: "unat q = Q * 2 ^ Suc i"
  have "unat (push_bit i 1 :: u64) = take_bit 64 (push_bit i 1)"
    unfolding unsigned_push_bit_eq by simp
  also have "\<dots> = 2 ^ i mod 2 ^ 64" by (simp add: push_bit_eq_mult take_bit_eq_mod)
  also have "\<dots> = 2 ^ i" using i by (intro mod_less power_strict_increasing) auto
  finally show ?thesis unfolding unsigned_or_eq by (simp only: q or_shifted_bit)
qed

lemma divide_loop_exact:
  assumes "unat hi < unat d" "n \<le> 128"
    and "unat q = (unat hi * 18446744073709551616 + unat lo) div 2 ^ n div unat d * 2 ^ n"
    and "unat r = (unat hi * 18446744073709551616 + unat lo) div 2 ^ n mod unat d"
    and "divide_loop hi lo d n (q, r) = (q', r')"
  shows "unat q' = (unat hi * 18446744073709551616 + unat lo) div unat d
       \<and> unat r' = (unat hi * 18446744073709551616 + unat lo) mod unat d"
  using assms(2-)
proof (induction n arbitrary: q r)
  case 0
  then show ?case by simp
next
  case (Suc i)
  let ?N = "unat hi * 18446744073709551616 + unat lo"
  let ?Q = "?N div 2 ^ Suc i div unat d"
  define b where "b = ?N div 2 ^ i mod 2"
  let ?c = "(2 * unat r + b) div unat d"
  obtain q1 r1 where st: "divide_step hi lo d i (q, r) = (q1, r1)" by force
  have i: "i < 128" and d0: "0 < unat d" using Suc.prems(1) assms(1) by auto
  have rd: "unat r < unat d" using Suc.prems(3) d0 by simp
  note step = divide_step_exact [OF rd i st, folded b_def]
  have half: "?N div 2 ^ i = 2 * (?N div 2 ^ Suc i) + b"
    by (simp only: power_Suc2 div_mult2_eq b_def) simp
  have "?N div 2 ^ Suc i = unat d * ?Q + unat r" using Suc.prems(3) by simp
  then have split: "?N div 2 ^ i = (2 * unat r + b) + unat d * (2 * ?Q)"
    unfolding half by (simp add: algebra_simps)
  have quot: "?N div 2 ^ i div unat d = 2 * ?Q + ?c" and rem: "?N div 2 ^ i mod unat d = (2 * unat r + b) mod unat d"
    unfolding split using d0 by simp_all
  have hi0: "?c = 0" if "64 \<le> i"
  proof -
    obtain j where j: "i = 64 + j" using le_Suc_ex \<open>64 \<le> i\<close> by blast
    have "?N div 2 ^ i = unat hi div 2 ^ j"
      using unat_u64_less [of lo] by (simp add: j power_add div_mult2_eq)
    also have "\<dots> \<le> unat hi" by simp
    finally have "?N div 2 ^ i div unat d = 0" using assms(1) by simp
    then show ?thesis using quot by simp
  qed
  have q1: "unat q1 = ?N div 2 ^ i div unat d * 2 ^ i"
  proof (cases "?c = 1")
    case True
    then have "i < 64" using hi0 by (cases "64 \<le> i") auto
    then have "unat q1 = unat q + 2 ^ i"
      using True step(2) unat_or_bit [OF _ Suc.prems(2)] by simp
    with True show ?thesis by (simp add: quot Suc.prems(2) add_mult_distrib)
  next
    case False
    then have "?c = 0" using step(3) by linarith
    then show ?thesis using step(2) by (simp add: quot Suc.prems(2))
  qed
  have r1: "unat r1 = ?N div 2 ^ i mod unat d" using step(1) rem by simp
  have "divide_loop hi lo d i (q1, r1) = (q', r')" using Suc.prems(4) st by simp
  then show ?case using Suc.IH [of q1 r1] q1 r1 Suc.prems(1) by simp
qed

lemma mul_div_mod_exact:
  "mul_div_mod a b d =
     (if d = 0 \<or> unat a * unat b div unat d \<ge> 2 ^ 64 then None
      else Some (of_nat (unat a * unat b div unat d), of_nat (unat a * unat b mod unat d)))"
proof (cases "d = 0")
  case True
  then show ?thesis by (simp add: mul_div_mod_def)
next
  case d: False
  then have d0: "0 < unat d" by (simp add: unat_gt_0)
  let ?N = "unat a * unat b"
  obtain hi lo where u: "umul128 a b = (hi, lo)" by force
  have N: "unat hi * 18446744073709551616 + unat lo = ?N" by (rule umul128_exact [OF u])
  have big: "(?N div unat d \<ge> 2 ^ 64) = (d \<le> hi)"
  proof
    assume "d \<le> hi"
    then have "unat d * 2 ^ 64 \<le> ?N" using N by (simp add: word_le_nat_alt)
    then show "2 ^ 64 \<le> ?N div unat d" using d0 by (simp add: less_eq_div_iff_mult_less_eq mult.commute)
  next
    assume "2 ^ 64 \<le> ?N div unat d"
    then have "18446744073709551616 * unat d \<le> ?N" using d0 by (simp add: less_eq_div_iff_mult_less_eq)
    then have "18446744073709551616 * unat d \<le> unat hi * 18446744073709551616 + unat lo" by (simp only: N)
    then have "unat d * 18446744073709551616 < (unat hi + 1) * 18446744073709551616"
      using unat_u64_less [of lo] unfolding add_mult_distrib by linarith
    then have "unat d < unat hi + 1" by simp
    then show "d \<le> hi" by (simp add: word_le_nat_alt)
  qed
  show ?thesis
  proof (cases "d \<le> hi")
    case True
    then show ?thesis using big by (simp add: mul_div_mod_def u)
  next
    case False
    then have hd: "unat hi < unat d" by (simp add: word_le_nat_alt)
    have small: "mul_div_mod a b d = Some (q, r) \<Longrightarrow> unat q = ?N div unat d \<and> unat r = ?N mod unat d" for q r
    proof (cases "hi = 0")
      case True
      assume "mul_div_mod a b d = Some (q, r)"
      then show ?thesis using True False d N by (auto simp: mul_div_mod_def u unat_div unat_mod)
    next
      case hi: False
      assume "mul_div_mod a b d = Some (q, r)"
      then have l: "divide_loop hi lo d 128 (0, 0) = (q, r)" 
        using hi False d by (simp only: mul_div_mod_def u Let_def prod.case if_False option.inject)
      have "?N < 340282366920938463463374607431768211456"
        using N unat_u64_less [of hi] unat_u64_less [of lo] by linarith
      then have z: "?N div 2 ^ 128 = 0" by simp
      show ?thesis using divide_loop_exact [OF hd order_refl _ _ l] z unfolding N by simp
    qed
    have "mul_div_mod a b d \<noteq> None" using False d by (simp add: mul_div_mod_def u)
    then obtain qr where "mul_div_mod a b d = Some qr" by blast
    moreover obtain q r where "qr = (q, r)" by force
    ultimately have "mul_div_mod a b d = Some (q, r)" by simp
    moreover have "of_nat (unat q) = q" "of_nat (unat r) = r" by simp_all
    ultimately have "mul_div_mod a b d = Some (of_nat (?N div unat d), of_nat (?N mod unat d))"
      using small by metis
    with False d big show ?thesis by simp
  qed
qed

section \<open>What the guards guarantee\<close>

section \<open>Guarded operations in terms of exact arithmetic\<close>

lemma checked_add_eq:
  "checked_add a b = (if unat a + unat b < 18446744073709551616 then Some (a + b) else None)"
proof -
  have nat: "(K - y < x) = (\<not> x + y < K + 1)" if "y \<le> K" for x y K :: nat
    using that by arith
  have "unat (kU64Max - b) = 18446744073709551615 - unat b"
    by (simp add: unat_sub_if')
  then have "(a > kU64Max - b) = (\<not> unat a + unat b < 18446744073709551616)"
    using nat [OF unat_u64_le [of b], of "unat a"] by (simp add: word_less_nat_alt)
  then show ?thesis by (simp add: checked_add_def)
qed

lemma checked_add_SomeD: "checked_add a b = Some c \<Longrightarrow> unat c = unat a + unat b"
  by (auto simp: checked_add_eq unat_add_u64 split: if_splits)

lemma checked_add_None: "checked_add a b = None \<longleftrightarrow> 18446744073709551616 \<le> unat a + unat b"
  by (auto simp: checked_add_eq)

lemma checked_sub_SomeD: "checked_sub a b = Some c \<Longrightarrow> unat c + unat b = unat a"
  by (auto simp: checked_sub_def unat_sub_if' word_le_nat_alt word_less_nat_alt split: if_splits)

lemma less_W: "(n :: nat) < 18446744073709551616 \<longleftrightarrow> n \<le> 18446744073709551615"
  by (rule iffI) linarith+

lemma checked_mul_eq:
  "checked_mul a b = (if unat a * unat b < 18446744073709551616 then Some (a * b) else None)"
proof (cases "a = 0 \<or> b = 0")
  case True
  then show ?thesis by (auto simp: checked_mul_def)
next
  case False
  then have b: "0 < unat b" by (simp add: unat_gt_0)
  have "(a > kU64Max div b) = (unat a > 18446744073709551615 div unat b)"
    by (simp add: word_less_nat_alt unat_div)
  also have "\<dots> = (\<not> unat a * unat b \<le> 18446744073709551615)"
    using b div_le_mono [of "unat a * unat b" 18446744073709551615 "unat b"] 
    by (simp add: div_less_iff_less_mult not_le)
  also have "\<dots> = (\<not> unat a * unat b < 18446744073709551616)" by (simp only: less_W)
  finally show ?thesis using False by (simp add: checked_mul_def)
qed

lemma checked_mul_SomeD: "checked_mul a b = Some c \<Longrightarrow> unat c = unat a * unat b"
  by (auto simp: checked_mul_eq unat_mult_u64 split: if_splits)

lemma mul_div_mod_SomeD:
  assumes "mul_div_mod a b d = Some (q, r)"
  shows "d \<noteq> 0" "unat q = unat a * unat b div unat d" "unat r = unat a * unat b mod unat d"
proof -
  have s: "d \<noteq> 0" "unat a * unat b div unat d < 2 ^ 64"
    and q: "q = of_nat (unat a * unat b div unat d)" and r: "r = of_nat (unat a * unat b mod unat d)"
    using assms by (auto simp: mul_div_mod_exact split: if_splits)
  show "d \<noteq> 0" by (rule s)
  show "unat q = unat a * unat b div unat d" using s(2) by (simp add: q unat_of_nat_u64)
  have "unat a * unat b mod unat d < unat d" using s(1) by (simp add: unat_gt_0)
  then have "unat a * unat b mod unat d < 18446744073709551616"
    using unat_u64_less [of d] by linarith
  then show "unat r = unat a * unat b mod unat d" unfolding r by (rule unat_of_nat_u64)
qed

lemma mul_div_floor_SomeD:
  "mul_div_floor a b d = Some q \<Longrightarrow> d \<noteq> 0 \<and> unat q = unat a * unat b div unat d"
  by (auto simp: mul_div_floor_def dest: mul_div_mod_SomeD)

lemma mul_div_floor_eq:
  "mul_div_floor a b d =
     (if d = 0 \<or> unat a * unat b div unat d \<ge> 18446744073709551616 then None
      else Some (of_nat (unat a * unat b div unat d)))"
  by (simp add: mul_div_floor_def mul_div_mod_exact)

lemma ceil_div_nat:
  fixes n d :: nat
  assumes "0 < d"
  shows "(n + d - 1) div d = n div d + (if n mod d = 0 then 0 else 1)"
proof (cases "n mod d = 0")
  case True
  then obtain k where "n = d * k" by (auto simp: mod_eq_0_iff_dvd)
  then have e: "n + d - 1 = (d - 1) + d * k" using assms by simp
  have z: "(d - 1) div d = 0" using assms by simp
  have "((d - 1) + d * k) div d = k + (d - 1) div d" using assms by (intro div_mult_self2) simp
  then have "(n + d - 1) div d = k" unfolding e z by simp
  then show ?thesis using True assms \<open>n = d * k\<close> by simp
next
  case False
  define x m where "x = d * (n div d)" and "m = n mod d"
  have "n = x + m" unfolding x_def m_def by (rule mult_div_mod_eq [symmetric])
  moreover have "0 < m" using False by (simp add: m_def)
  ultimately have "n + d - 1 = (m - 1) + (x + d)" by simp
  then have e: "n + d - 1 = (n mod d - 1) + d * (n div d + 1)" by (simp add: x_def m_def)
  have z: "(n mod d - 1) div d = 0"
    by (rule div_less) (use assms mod_less_divisor [of d n] in linarith)
  have "((n mod d - 1) + d * (n div d + 1)) div d = (n div d + 1) + (n mod d - 1) div d"
    using assms by (intro div_mult_self2) simp
  then show ?thesis unfolding e z using False by simp
qed

lemma mul_div_ceil_SomeD:
  "mul_div_ceil a b d = Some q \<Longrightarrow>
     d \<noteq> 0 \<and> unat q = (unat a * unat b + unat d - 1) div unat d"
proof -
  assume c: "mul_div_ceil a b d = Some q"
  then obtain q0 r where m: "mul_div_mod a b d = Some (q0, r)"
    by (auto simp: mul_div_ceil_def split: option.splits)
  have d: "d \<noteq> 0" and q0: "unat q0 = unat a * unat b div unat d"
    and r: "unat r = unat a * unat b mod unat d"
    using mul_div_mod_SomeD [OF m] by auto
  have z: "(r = 0) = (unat a * unat b mod unat d = 0)" using r by (metis unat_0_iff)
  have "unat q = unat q0 + (if r = 0 then 0 else 1)"
    using c unat_inc_u64 [of q0] by (auto simp: mul_div_ceil_def m kU64Max_def split: if_splits)
  with d z q0 ceil_div_nat [of "unat d" "unat a * unat b"] show ?thesis by (simp add: unat_gt_0)
qed

lemma sat_mul_eq: "unat (sat_mul a b) = min (unat a * unat b) 18446744073709551615"
  by (auto simp: sat_mul_def checked_mul_eq unat_mult_u64)

lemma sat_add_eq: "unat (sat_add a b) = min (unat a + unat b) 18446744073709551615"
  by (auto simp: sat_add_def checked_add_eq unat_add_u64)

lemma narrow_u32_SomeD: "narrow_u32 v = Some w \<Longrightarrow> unat w = unat v"
  by (auto simp: narrow_u32_def unsigned_ucast_eq take_bit_eq_mod word_less_nat_alt split: if_splits)

lemma narrow_u16_SomeD: "narrow_u16 v = Some w \<Longrightarrow> unat w = unat v"
  by (auto simp: narrow_u16_def unsigned_ucast_eq take_bit_eq_mod word_less_nat_alt split: if_splits)

lemma ppm_of_SomeD: "ppm_of v p = Some w \<Longrightarrow> unat w = unat v * unat p div 1000000"
  by (auto simp: ppm_of_def dest!: mul_div_floor_SomeD)

lemma ppm_of_le: "ppm_of v p = Some w \<Longrightarrow> p \<le> 1000000 \<Longrightarrow> w \<le> v"
proof -
  assume w: "ppm_of v p = Some w" and "p \<le> 1000000"
  then have "unat p \<le> 1000000" by (simp add: word_le_nat_alt)
  then have "unat v * unat p div 1000000 \<le> unat v * 1000000 div 1000000"
    by (intro div_le_mono mult_le_mono2)
  then show "w \<le> v" using ppm_of_SomeD [OF w] by (simp add: word_le_nat_alt)
qed

end
