(* ===== verification/PF_Ids.thy ===== *)
theory PF_Ids
  imports PF_Checked
begin

text \<open>
  \<^verbatim>\<open>include/pacing/id.hpp\<close> and \<^verbatim>\<open>src/id.cpp\<close>: identities, generations, epochs, boots
  and the authority vector. The C++ template parameter of \<^verbatim>\<open>Id\<close> and \<^verbatim>\<open>GenRef\<close> is a phantom
  type parameter here, so that a flow identity does not type-check as a resource identity.
\<close>

section \<open>Identities\<close>

datatype flow_tag = Flow_Tag
datatype resource_tag = Resource_Tag
datatype policy_tag = Policy_Tag
datatype envelope_tag = Envelope_Tag
datatype backend_tag = Backend_Tag
datatype attempt_tag = Attempt_Tag
datatype grant_tag = Grant_Tag
datatype path_tag = Path_Tag
datatype service_class_tag = Service_Class_Tag
datatype provenance_tag = Provenance_Tag
datatype tenant_tag = Tenant_Tag

datatype 'tag ident = Id (id_value: u64)

type_synonym flow_id = "flow_tag ident"
type_synonym resource_id = "resource_tag ident"
type_synonym policy_id = "policy_tag ident"
type_synonym envelope_id = "envelope_tag ident"
type_synonym backend_id = "backend_tag ident"
type_synonym attempt_id = "attempt_tag ident"
type_synonym grant_id = "grant_tag ident"
type_synonym path_id = "path_tag ident"
type_synonym service_class_id = "service_class_tag ident"
type_synonym provenance_id = "provenance_tag ident"
type_synonym tenant_id = "tenant_tag ident"

definition id_valid :: "'tag ident \<Rightarrow> bool" where
  "id_valid i = (id_value i \<noteq> 0)"

instantiation ident :: (type) linorder
begin
definition less_eq_ident :: "'a ident \<Rightarrow> 'a ident \<Rightarrow> bool" where
  "less_eq_ident a b = (id_value a \<le> id_value b)"
definition less_ident :: "'a ident \<Rightarrow> 'a ident \<Rightarrow> bool" where
  "less_ident a b = (id_value a < id_value b)"
instance
  by standard (auto simp: less_eq_ident_def less_ident_def ident.expand)
end

lemma id_value_eq [simp]: "id_value a = id_value b \<longleftrightarrow> a = b"
  by (cases a; cases b) simp

section \<open>Generations and epochs\<close>

datatype generation = Generation (gen_value: u64)

instantiation generation :: linorder
begin
definition less_eq_generation :: "generation \<Rightarrow> generation \<Rightarrow> bool" where
  "less_eq_generation a b = (gen_value a \<le> gen_value b)"
definition less_generation :: "generation \<Rightarrow> generation \<Rightarrow> bool" where
  "less_generation a b = (gen_value a < gen_value b)"
instance
  by standard (auto simp: less_eq_generation_def less_generation_def generation.expand)
end

lemma gen_value_eq [simp]: "gen_value a = gen_value b \<longleftrightarrow> a = b"
  by (cases a; cases b) simp

definition gen_unknown :: generation where
  "gen_unknown = Generation 0"

definition gen_first :: generation where
  "gen_first = Generation 1"

definition gen_known :: "generation \<Rightarrow> bool" where
  "gen_known g = (gen_value g \<noteq> 0)"

text \<open>\<^verbatim>\<open>next(exhausted)\<close> returns the generation and the exhausted flag.\<close>

definition gen_next :: "generation \<Rightarrow> generation \<times> bool" where
  "gen_next g = (if gen_value g = kU64Max then (g, True) else (Generation (gen_value g + 1), False))"

datatype epoch = Epoch (epoch_value: u64)

instantiation epoch :: linorder
begin
definition less_eq_epoch :: "epoch \<Rightarrow> epoch \<Rightarrow> bool" where
  "less_eq_epoch a b = (epoch_value a \<le> epoch_value b)"
definition less_epoch :: "epoch \<Rightarrow> epoch \<Rightarrow> bool" where
  "less_epoch a b = (epoch_value a < epoch_value b)"
instance
  by standard (auto simp: less_eq_epoch_def less_epoch_def epoch.expand)
end

lemma epoch_value_eq [simp]: "epoch_value a = epoch_value b \<longleftrightarrow> a = b"
  by (cases a; cases b) simp

definition epoch_none :: epoch where
  "epoch_none = Epoch 0"

definition epoch_valid :: "epoch \<Rightarrow> bool" where
  "epoch_valid e = (epoch_value e \<noteq> 0)"

definition epoch_advanced :: "epoch \<Rightarrow> epoch \<times> bool" where
  "epoch_advanced e =
     (if epoch_value e = kU64Max then (e, True) else (Epoch (epoch_value e + 1), False))"

section \<open>Boots and generation-bound references\<close>

record boot_id =
  bo_counter :: u64
  bo_nonce :: u64

definition boot_valid :: "boot_id \<Rightarrow> bool" where
  "boot_valid b = (bo_counter b \<noteq> 0 \<and> bo_nonce b \<noteq> 0)"

record worker_boot =
  wb_incarnation :: u64
  wb_nonce :: u64

definition worker_valid :: "worker_boot \<Rightarrow> bool" where
  "worker_valid w = (wb_incarnation w \<noteq> 0 \<and> wb_nonce w \<noteq> 0)"

record 'tag gen_ref =
  gr_id :: "'tag ident"
  gr_gen :: generation

type_synonym flow_ref = "flow_tag gen_ref"
type_synonym resource_ref = "resource_tag gen_ref"
type_synonym policy_ref = "policy_tag gen_ref"
type_synonym grant_ref = "grant_tag gen_ref"
type_synonym path_ref = "path_tag gen_ref"
type_synonym backend_ref = "backend_tag gen_ref"
type_synonym envelope_ref = "envelope_tag gen_ref"

definition ref_known :: "'tag gen_ref \<Rightarrow> bool" where
  "ref_known r = (id_valid (gr_id r) \<and> gen_known (gr_gen r))"

abbreviation mk_ref :: "'tag ident \<Rightarrow> generation \<Rightarrow> 'tag gen_ref" where
  "mk_ref i g \<equiv> \<lparr>gr_id = i, gr_gen = g\<rparr>"

abbreviation no_ref :: "'tag gen_ref" where
  "no_ref \<equiv> mk_ref (Id 0) (Generation 0)"

section \<open>The authority vector\<close>

record authority_vector =
  av_flow :: flow_ref
  av_resource :: resource_ref
  av_policy :: policy_ref
  av_grant :: grant_ref
  av_path :: path_ref
  av_epoch :: epoch
  av_boot :: boot_id

definition av_complete :: "authority_vector \<Rightarrow> bool" where
  "av_complete a =
     (ref_known (av_flow a) \<and> ref_known (av_resource a) \<and> ref_known (av_policy a) \<and>
      ref_known (av_grant a) \<and> ref_known (av_path a) \<and> epoch_valid (av_epoch a) \<and>
      boot_valid (av_boot a))"

text \<open>The \<^verbatim>\<open>mix_u64\<close> calls of a digest method, in their order.\<close>

definition mix_all :: "u64 list \<Rightarrow> u64 \<Rightarrow> u64" where
  "mix_all vs = fold mix_u64 vs"

definition av_digest :: "authority_vector \<Rightarrow> u64" where
  "av_digest a =
     mix_all
      [id_value (gr_id (av_flow a)), gen_value (gr_gen (av_flow a)),
       id_value (gr_id (av_resource a)), gen_value (gr_gen (av_resource a)),
       id_value (gr_id (av_policy a)), gen_value (gr_gen (av_policy a)),
       id_value (gr_id (av_grant a)), gen_value (gr_gen (av_grant a)),
       id_value (gr_id (av_path a)), gen_value (gr_gen (av_path a)),
       epoch_value (av_epoch a), bo_counter (av_boot a), bo_nonce (av_boot a)]
      digest_init"

datatype authority_drift =
    AD_None | AD_Flow | AD_Resource | AD_Policy | AD_RateGrant | AD_Path | AD_Epoch
  | AD_CoordinatorBoot | AD_Incomplete

definition compare_authority :: "authority_vector \<Rightarrow> authority_vector \<Rightarrow> authority_drift" where
  "compare_authority held current =
     (if \<not> av_complete held then AD_Incomplete
      else if av_flow held \<noteq> av_flow current then AD_Flow
      else if av_resource held \<noteq> av_resource current then AD_Resource
      else if av_policy held \<noteq> av_policy current then AD_Policy
      else if av_grant held \<noteq> av_grant current then AD_RateGrant
      else if av_path held \<noteq> av_path current then AD_Path
      else if av_epoch held \<noteq> av_epoch current then AD_Epoch
      else if \<not> (av_boot held = av_boot current) then AD_CoordinatorBoot
      else AD_None)"

fun drift_name :: "authority_drift \<Rightarrow> string" where
  "drift_name AD_None = ''none''"
| "drift_name AD_Flow = ''flow-generation''"
| "drift_name AD_Resource = ''resource-generation''"
| "drift_name AD_Policy = ''policy-generation''"
| "drift_name AD_RateGrant = ''rate-grant-generation''"
| "drift_name AD_Path = ''path-generation''"
| "drift_name AD_Epoch = ''coordinator-epoch''"
| "drift_name AD_CoordinatorBoot = ''coordinator-boot''"
| "drift_name AD_Incomplete = ''incomplete-authority''"

section \<open>Laws\<close>

lemma id_valid_Id [simp]: "id_valid (Id n) = (n \<noteq> 0)"
  by (simp add: id_valid_def)

lemma gen_known_Generation [simp]: "gen_known (Generation n) = (n \<noteq> 0)"
  by (simp add: gen_known_def)

lemma epoch_valid_Epoch [simp]: "epoch_valid (Epoch n) = (n \<noteq> 0)"
  by (simp add: epoch_valid_def)

lemma ref_known_mk_ref [simp]: "ref_known (mk_ref i g) = (id_valid i \<and> gen_known g)"
  by (simp add: ref_known_def)

lemma gen_next_cases:
  obtains (exhausted) "gen_next g = (g, True)" "gen_value g = kU64Max"
  | (advanced) h where "gen_next g = (h, False)" "g < h" "gen_known h" "gen_value h = gen_value g + 1"
proof (cases "gen_value g = kU64Max")
  case True
  then show thesis by (intro exhausted) (simp_all add: gen_next_def)
next
  case False
  then have "unat (gen_value g + 1) = unat (gen_value g) + 1" by (simp add: kU64Max_def unat_inc_u64)
  then have "gen_value g + 1 \<noteq> 0" "gen_value g < gen_value g + 1"
    by (auto simp: word_less_nat_alt)
  with False show thesis
    by (intro advanced [of "Generation (gen_value g + 1)"]) (simp_all add: gen_next_def less_generation_def)
qed

lemma gen_next_greater: "gen_next g = (h, False) \<Longrightarrow> g < h"
  by (cases rule: gen_next_cases [of g]) auto

lemma gen_next_known: "gen_next g = (h, False) \<Longrightarrow> gen_known h"
  by (cases rule: gen_next_cases [of g]) auto

lemma epoch_advanced_greater: "epoch_advanced e = (e', False) \<Longrightarrow> e < e' \<and> epoch_valid e'"
proof -
  assume a: "epoch_advanced e = (e', False)"
  then have n: "epoch_value e \<noteq> -1" and e': "e' = Epoch (epoch_value e + 1)"
    by (auto simp: epoch_advanced_def kU64Max_def split: if_splits)
  have "unat (epoch_value e + 1) = unat (epoch_value e) + 1" using n by (rule unat_inc_u64)
  then have "epoch_value e < epoch_value e + 1" "epoch_value e + 1 \<noteq> 0"
    by (auto simp: word_less_nat_alt)
  then show ?thesis by (simp add: e' less_epoch_def)
qed

lemma compare_authority_None:
  "compare_authority held current = AD_None \<longleftrightarrow> av_complete held \<and> held = current"
  by (cases held, cases current) (simp add: compare_authority_def)

lemma compare_authority_self: "av_complete a \<Longrightarrow> compare_authority a a = AD_None"
  by (simp add: compare_authority_None)

lemma compare_authority_Incomplete:
  "compare_authority held current = AD_Incomplete \<longleftrightarrow> \<not> av_complete held"
  by (simp add: compare_authority_def)

lemma drift_name_inj: "drift_name a = drift_name b \<Longrightarrow> a = b"
  by (cases a; cases b) simp_all

lemma av_complete_epoch_update:
  "av_complete a \<Longrightarrow> epoch_valid e \<Longrightarrow> av_complete (a\<lparr>av_epoch := e\<rparr>)"
  by (simp add: av_complete_def)

end
