(* ===== verification/PF_Time.thy ===== *)
theory PF_Time
  imports PF_Ids
begin

text \<open>
  \<^verbatim>\<open>include/pacing/time.hpp\<close> and \<^verbatim>\<open>src/time.cpp\<close>: instants, the manual clock, ticks and
  deadlines. The steady clock reads the host, so its value is an input wherever it is used;
  the function that turns the host's signed count into an instant is \<open>steady_now\<close>.
\<close>

definition kNanosPerSecond :: u64 where
  "kNanosPerSecond = 1000000000"

lemma unat_kNanosPerSecond [simp]: "unat kNanosPerSecond = 1000000000"
  by (simp add: kNanosPerSecond_def)

datatype instant = Instant (inst_ns: u64)

instantiation instant :: linorder
begin
definition less_eq_instant :: "instant \<Rightarrow> instant \<Rightarrow> bool" where
  "less_eq_instant a b = (inst_ns a \<le> inst_ns b)"
definition less_instant :: "instant \<Rightarrow> instant \<Rightarrow> bool" where
  "less_instant a b = (inst_ns a < inst_ns b)"
instance
  by standard (auto simp: less_eq_instant_def less_instant_def instant.expand)
end

lemma inst_ns_eq [simp]: "inst_ns a = inst_ns b \<longleftrightarrow> a = b"
  by (cases a; cases b) simp

definition steady_now :: "int \<Rightarrow> instant" where
  "steady_now ns = (if ns \<le> 0 then Instant 1 else Instant (word_of_int ns))"

record manual_clock =
  mc_now_ns :: u64

definition manual_now :: "manual_clock \<Rightarrow> instant" where
  "manual_now c = Instant (mc_now_ns c)"

definition manual_advance :: "u64 \<Rightarrow> manual_clock \<Rightarrow> manual_clock" where
  "manual_advance delta c = c\<lparr>mc_now_ns := mc_now_ns c + delta\<rparr>"

definition manual_set :: "u64 \<Rightarrow> manual_clock \<Rightarrow> manual_clock" where
  "manual_set ns c = c\<lparr>mc_now_ns := ns\<rparr>"

datatype tick = Tick (tick_index: u64)

definition tick_next :: "tick \<Rightarrow> tick" where
  "tick_next t = Tick (tick_index t + 1)"

definition tick_advance :: "u64 \<Rightarrow> tick \<Rightarrow> tick" where
  "tick_advance delta t = Tick (tick_index t + delta)"

definition tick_delta_to :: "tick \<Rightarrow> tick \<Rightarrow> u64" where
  "tick_delta_to t later = tick_index later - tick_index t"

definition tick_for :: "instant \<Rightarrow> u64 \<Rightarrow> tick option" where
  "tick_for i period = (if period = 0 then None else Some (Tick (inst_ns i div period)))"

record deadline =
  dl_instant :: instant
  dl_set :: bool

definition deadline_at :: "instant \<Rightarrow> deadline" where
  "deadline_at i = \<lparr>dl_instant = i, dl_set = True\<rparr>"

definition deadline_none :: deadline where
  "deadline_none = \<lparr>dl_instant = Instant 0, dl_set = False\<rparr>"

definition deadline_expired_at :: "deadline \<Rightarrow> instant \<Rightarrow> bool" where
  "deadline_expired_at d now = (dl_set d \<and> now \<ge> dl_instant d)"

section \<open>Laws\<close>

text \<open>Tick arithmetic is modular: a counter that rolls over measures the same distances.\<close>

lemma tick_rollover: "tick_delta_to t (tick_advance delta t) = delta"
  by (simp add: tick_delta_to_def tick_advance_def)

lemma tick_advance_add: "tick_advance b (tick_advance a t) = tick_advance (a + b) t"
  by (simp add: tick_advance_def add.assoc)

lemma tick_delta_chain:
  "tick_delta_to a c = tick_delta_to a b + tick_delta_to b c"
  by (simp add: tick_delta_to_def)

lemma tick_for_mono:
  "tick_for i p = Some s \<Longrightarrow> tick_for j p = Some t \<Longrightarrow> i \<le> j \<Longrightarrow> tick_index s \<le> tick_index t"
  by (auto simp: tick_for_def less_eq_instant_def word_le_nat_alt unat_div div_le_mono split: if_splits)

lemma deadline_expired_at_simps [simp]:
  "deadline_expired_at (deadline_at i) now = (now \<ge> i)"
  "\<not> deadline_expired_at deadline_none now"
  by (simp_all add: deadline_expired_at_def deadline_at_def deadline_none_def)

lemma deadline_expired_mono:
  "deadline_expired_at d a \<Longrightarrow> a \<le> b \<Longrightarrow> deadline_expired_at d b"
  by (auto simp: deadline_expired_at_def)

end
