(* ===== verification/PF_Limits.thy ===== *)
theory PF_Limits
  imports PF_Time
begin

text \<open>
  \<^verbatim>\<open>include/pacing/limits.hpp\<close> and \<^verbatim>\<open>src/limits.cpp\<close>: the bounds every externally
  influenced quantity is checked against, their defaults and the coherence check run before a
  fabric starts.
\<close>

record limits =
  l_max_rate_bps :: u64
  l_max_quantum_bytes :: u64
  l_max_burst_bytes :: u64
  l_max_burst_packets :: u64
  l_min_window_ns :: u64
  l_max_window_ns :: u64
  l_max_interval_ns :: u64
  l_max_burst_horizon_ns :: u64
  l_max_envelope_lifetime_ns :: u64
  l_max_service_class_exceptions :: u32
  l_max_policies :: u32
  l_max_flows :: u32
  l_max_envelopes :: u32
  l_max_attempts :: u32
  l_max_backends :: u32
  l_max_resources :: u32
  l_max_journal_records :: u32
  l_max_journal_bytes :: u64
  l_max_durable_record_bytes :: u64
  l_max_compaction_batch :: u32
  l_max_frame_bytes :: u32
  l_max_frame_payload_bytes :: u32
  l_max_connections :: u32
  l_max_explanation_bytes :: u32
  l_max_name_bytes :: u32
  l_max_retries :: u32
  l_max_workers :: u32

definition default_limits :: limits where
  "default_limits =
    \<lparr>l_max_rate_bps = 400000000000,
     l_max_quantum_bytes = 2 ^ 24,
     l_max_burst_bytes = 2 ^ 30,
     l_max_burst_packets = 2 ^ 24,
     l_min_window_ns = 1000,
     l_max_window_ns = 10 * kNanosPerSecond,
     l_max_interval_ns = 10 * kNanosPerSecond,
     l_max_burst_horizon_ns = 100 * 1000000,
     l_max_envelope_lifetime_ns = 5 * kNanosPerSecond,
     l_max_service_class_exceptions = 64,
     l_max_policies = 4096,
     l_max_flows = 2 ^ 20,
     l_max_envelopes = 2 ^ 20,
     l_max_attempts = 2 ^ 21,
     l_max_backends = 64,
     l_max_resources = 2 ^ 16,
     l_max_journal_records = 2 ^ 20,
     l_max_journal_bytes = 256 * 2 ^ 20,
     l_max_durable_record_bytes = 2 ^ 20,
     l_max_compaction_batch = 2 ^ 16,
     l_max_frame_bytes = 2 ^ 20,
     l_max_frame_payload_bytes = 2 ^ 20 - 64,
     l_max_connections = 256,
     l_max_explanation_bytes = 8192,
     l_max_name_bytes = 128,
     l_max_retries = 4,
     l_max_workers = 256\<rparr>"

definition limits_are_coherent :: "limits \<Rightarrow> bool" where
  "limits_are_coherent l =
     (l_max_rate_bps l \<noteq> 0 \<and> l_max_quantum_bytes l \<noteq> 0 \<and> l_max_burst_bytes l \<noteq> 0 \<and>
      l_max_burst_packets l \<noteq> 0 \<and> l_min_window_ns l \<noteq> 0 \<and>
      \<not> l_min_window_ns l > l_max_window_ns l \<and> l_max_interval_ns l \<noteq> 0 \<and>
      l_max_burst_horizon_ns l \<noteq> 0 \<and> l_max_envelope_lifetime_ns l \<noteq> 0 \<and>
      l_max_service_class_exceptions l \<noteq> 0 \<and> l_max_policies l \<noteq> 0 \<and> l_max_flows l \<noteq> 0 \<and>
      l_max_envelopes l \<noteq> 0 \<and> l_max_attempts l \<noteq> 0 \<and> l_max_backends l \<noteq> 0 \<and>
      l_max_resources l \<noteq> 0 \<and> l_max_journal_records l \<noteq> 0 \<and> l_max_journal_bytes l \<noteq> 0 \<and>
      l_max_durable_record_bytes l \<noteq> 0 \<and>
      \<not> l_max_durable_record_bytes l > l_max_journal_bytes l \<and> l_max_compaction_batch l \<noteq> 0 \<and>
      l_max_frame_bytes l \<noteq> 0 \<and> l_max_frame_payload_bytes l \<noteq> 0 \<and>
      \<not> l_max_frame_payload_bytes l \<ge> l_max_frame_bytes l \<and> l_max_connections l \<noteq> 0 \<and>
      l_max_explanation_bytes l \<noteq> 0 \<and> l_max_name_bytes l \<noteq> 0 \<and> l_max_workers l \<noteq> 0)"

lemma limits_are_coherentD:
  assumes "limits_are_coherent l"
  shows "0 < l_min_window_ns l" "l_min_window_ns l \<le> l_max_window_ns l"
    "l_max_frame_payload_bytes l < l_max_frame_bytes l"
    "l_max_durable_record_bytes l \<le> l_max_journal_bytes l"
    "0 < l_max_attempts l" "0 < l_max_policies l" "0 < l_max_flows l"
  using assms by (simp_all add: limits_are_coherent_def not_less word_gt_0 not_le)

lemma default_limits_coherent: "limits_are_coherent default_limits"
  by (simp add: limits_are_coherent_def default_limits_def kNanosPerSecond_def)

end
