(* ===== verification/PF_Rate.thy ===== *)
theory PF_Rate
  imports PF_Limits
begin

text \<open>
  \<^verbatim>\<open>include/pacing/rate.hpp\<close> and \<^verbatim>\<open>src/rate.cpp\<close>: cadence shapes, the derived cadence, its
  interval, burst capacity and effective rate, and the structural check on a cadence. The
  lemmas turn each checked computation into exact arithmetic on natural numbers.
\<close>

datatype cadence_shape = CS_Uniform | CS_Windowed | CS_TokenBucket

fun shape_num :: "cadence_shape \<Rightarrow> u8" where
  "shape_num CS_Uniform = 0"
| "shape_num CS_Windowed = 1"
| "shape_num CS_TokenBucket = 2"

fun shape_name :: "cadence_shape \<Rightarrow> string" where
  "shape_name CS_Uniform = ''uniform''"
| "shape_name CS_Windowed = ''windowed''"
| "shape_name CS_TokenBucket = ''token-bucket''"

definition parse_cadence_shape :: "string \<Rightarrow> cadence_shape option" where
  "parse_cadence_shape s =
     (if s = ''uniform'' then Some CS_Uniform
      else if s = ''windowed'' then Some CS_Windowed
      else if s = ''token-bucket'' then Some CS_TokenBucket
      else None)"

record cadence =
  c_rate_bps :: u64
  c_quantum_bytes :: u64
  c_interval_ns :: u64
  c_window_ns :: u64
  c_grants_per_window :: u64
  c_bytes_per_window :: u64
  c_burst_bytes :: u64
  c_burst_packets :: u64
  c_shape :: cadence_shape

definition kBitsPerByte :: u64 where
  "kBitsPerByte = 8"

definition derive_interval_ns :: "u64 \<Rightarrow> u64 \<Rightarrow> u64 option" where
  "derive_interval_ns quantum rate =
     (if quantum = 0 \<or> rate = 0 then None
      else case checked_mul quantum (kBitsPerByte * kNanosPerSecond) of
             None \<Rightarrow> None
           | Some numerator \<Rightarrow>
               (case mul_div_ceil numerator 1 rate of
                  None \<Rightarrow> None
                | Some interval \<Rightarrow> if interval \<noteq> 0 then Some interval else None))"

definition burst_capacity_bytes :: "u64 \<Rightarrow> u64 \<Rightarrow> u64 option" where
  "burst_capacity_bytes rate horizon =
     (if rate = 0 then Some 0
      else case checked_mul rate horizon of
             None \<Rightarrow> None
           | Some bits \<Rightarrow> mul_div_floor bits 1 (kBitsPerByte * kNanosPerSecond))"

definition effective_rate_bps :: "cadence \<Rightarrow> u64 option" where
  "effective_rate_bps c =
     (if c_window_ns c = 0 then None
      else case checked_mul (c_bytes_per_window c) (kBitsPerByte * kNanosPerSecond) of
             None \<Rightarrow> None
           | Some bits \<Rightarrow> mul_div_floor bits 1 (c_window_ns c))"

definition validate_cadence :: "cadence \<Rightarrow> u64 \<Rightarrow> u64 \<Rightarrow> u64 \<Rightarrow> status" where
  "validate_cadence c max_rate_bps max_burst_bytes max_burst_packets =
     (if c_rate_bps c = 0 then Status EC_OutOfRange ''cadence rate is zero''
      else if c_rate_bps c > max_rate_bps then Status EC_OutOfRange ''cadence rate above limit''
      else if c_quantum_bytes c = 0 then Status EC_InvalidArgument ''cadence quantum is zero''
      else if c_interval_ns c = 0 then Status EC_InvalidArgument ''cadence interval is zero''
      else if c_window_ns c = 0 then Status EC_InvalidArgument ''cadence window is zero''
      else if c_burst_bytes c = 0 then Status EC_InvalidArgument ''cadence burst is zero''
      else if c_burst_packets c = 0 then
        Status EC_InvalidArgument ''cadence burst packets is zero''
      else if c_burst_bytes c > max_burst_bytes then
        Status EC_BurstExceedsBound ''cadence burst exceeds byte bound''
      else if c_burst_packets c > max_burst_packets then
        Status EC_BurstExceedsBound ''cadence burst exceeds packet bound''
      else case checked_mul (c_grants_per_window c) (c_quantum_bytes c) of
        None \<Rightarrow> Status EC_ArithmeticOverflow ''cadence window bytes overflow''
      | Some bytes_per_window \<Rightarrow>
          if bytes_per_window \<noteq> c_bytes_per_window c then
            Status EC_InvalidState ''cadence window accounting is inconsistent''
          else case effective_rate_bps c of
            None \<Rightarrow> Status EC_ArithmeticOverflow ''cadence effective rate overflow''
          | Some effective \<Rightarrow>
              if effective > c_rate_bps c then
                Status EC_CeilingExceeded ''cadence effective rate exceeds authorized rate''
              else success)"

section \<open>Parsing shapes\<close>

lemma parse_cadence_shape_name: "parse_cadence_shape (shape_name s) = Some s"
  by (cases s) (simp_all add: parse_cadence_shape_def)

lemma parse_cadence_shape_SomeD: "parse_cadence_shape t = Some s \<Longrightarrow> t = shape_name s"
  by (auto simp: parse_cadence_shape_def split: if_splits)

lemma shape_num_inj [simp]: "shape_num a = shape_num b \<longleftrightarrow> a = b"
  by (cases a; cases b) simp_all

section \<open>Exact readings of the checked computations\<close>

lemma bits_ns: "kBitsPerByte * kNanosPerSecond = 8000000000"
  by (simp add: kBitsPerByte_def kNanosPerSecond_def)

lemma derive_interval_SomeD:
  assumes "derive_interval_ns q r = Some i"
  shows "q \<noteq> 0" "r \<noteq> 0" "i \<noteq> 0"
    and "unat i = (unat q * 8000000000 + unat r - 1) div unat r"
  using assms
  by (auto simp: derive_interval_ns_def bits_ns dest!: checked_mul_SomeD mul_div_ceil_SomeD
           split: if_splits option.splits)

text \<open>A ceiling quotient times the divisor covers the dividend.\<close>

lemma ceil_div_covers:
  fixes n d :: nat
  assumes "0 < d"
  shows "n \<le> (n + d - 1) div d * d"
proof (cases "n mod d = 0")
  case True
  then show ?thesis unfolding ceil_div_nat [OF assms] by auto
next
  case False
  have "n mod d < d" using assms by simp
  moreover have "n = n div d * d + n mod d" by (simp only: div_mult_mod_eq)
  ultimately have "n \<le> n div d * d + d" by linarith
  with False show ?thesis unfolding ceil_div_nat [OF assms] by (simp add: add.commute)
qed

text \<open>The interval is long enough: a quantum every \<open>i\<close> nanoseconds stays within rate \<open>r\<close>.\<close>

lemma derive_interval_covers:
  assumes "derive_interval_ns q r = Some i"
  shows "unat q * 8000000000 \<le> unat i * unat r"
proof -
  have "0 < unat r" using derive_interval_SomeD(2) [OF assms] by (simp add: unat_gt_0)
  then show ?thesis unfolding derive_interval_SomeD(4) [OF assms] by (rule ceil_div_covers)
qed

text \<open>And it is the shortest such interval.\<close>

lemma derive_interval_least:
  assumes "derive_interval_ns q r = Some i" and "unat q * 8000000000 \<le> k * unat r"
  shows "unat i \<le> k"
proof -
  have r: "0 < unat r" using derive_interval_SomeD(2) [OF assms(1)] by (simp add: unat_gt_0)
  have "unat q * 8000000000 + unat r - 1 < (k + 1) * unat r"
    using assms(2) r by (simp add: add_mult_distrib) 
  then have "(unat q * 8000000000 + unat r - 1) div unat r < k + 1"
    using r by (simp only: div_less_iff_less_mult)
  then show ?thesis unfolding derive_interval_SomeD(4) [OF assms(1)] by simp
qed

lemma burst_capacity_SomeD:
  "burst_capacity_bytes r h = Some b \<Longrightarrow> unat b = unat r * unat h div 8000000000"
  by (auto simp: burst_capacity_bytes_def bits_ns dest!: checked_mul_SomeD mul_div_floor_SomeD
           split: if_splits option.splits)

lemma effective_rate_SomeD:
  "effective_rate_bps c = Some e \<Longrightarrow>
     c_window_ns c \<noteq> 0 \<and>
     unat e = unat (c_bytes_per_window c) * 8000000000 div unat (c_window_ns c)"
  by (auto simp: effective_rate_bps_def bits_ns dest!: checked_mul_SomeD mul_div_floor_SomeD
           split: if_splits option.splits)

section \<open>What an accepted cadence guarantees\<close>

definition cadence_ok :: "cadence \<Rightarrow> u64 \<Rightarrow> u64 \<Rightarrow> u64 \<Rightarrow> bool" where
  "cadence_ok c max_rate max_bytes max_packets =
     (0 < c_rate_bps c \<and> c_rate_bps c \<le> max_rate \<and> 0 < c_quantum_bytes c \<and>
      0 < c_interval_ns c \<and> 0 < c_window_ns c \<and>
      0 < c_burst_bytes c \<and> c_burst_bytes c \<le> max_bytes \<and>
      0 < c_burst_packets c \<and> c_burst_packets c \<le> max_packets \<and>
      unat (c_bytes_per_window c) = unat (c_grants_per_window c) * unat (c_quantum_bytes c) \<and>
      unat (c_bytes_per_window c) * 8000000000 \<le> 18446744073709551615 \<and>
      unat (c_bytes_per_window c) * 8000000000 div unat (c_window_ns c) \<le> unat (c_rate_bps c))"

lemma window_product_eq:
  "unat g * unat q < 18446744073709551616 \<Longrightarrow> g * q = b \<longleftrightarrow> unat b = unat g * unat (q :: u64)"
  by (metis unat_mult_u64 word_unat_eq_iff)

lemma effective_rate_eq:
  "effective_rate_bps c =
     (if c_window_ns c = 0 \<or> 18446744073709551615 < unat (c_bytes_per_window c) * 8000000000 then None
      else Some (of_nat (unat (c_bytes_per_window c) * 8000000000 div unat (c_window_ns c))))"
proof (cases "unat (c_bytes_per_window c) * 8000000000 \<le> 18446744073709551615")
  case True
  then have "unat (c_bytes_per_window c * 8000000000) = unat (c_bytes_per_window c) * 8000000000"
    by (simp add: unat_mult_u64)
  moreover have "unat (c_bytes_per_window c) * 8000000000 div unat (c_window_ns c) \<le> 18446744073709551615"
    using True div_le_dividend le_trans by blast
  ultimately show ?thesis using True
    by (simp add: effective_rate_bps_def bits_ns checked_mul_eq mul_div_floor_eq)
next
  case False
  then show ?thesis by (simp add: effective_rate_bps_def bits_ns checked_mul_eq)
qed

lemma effective_within:
  "(case effective_rate_bps c of None \<Rightarrow> False | Some e \<Rightarrow> e \<le> r) \<longleftrightarrow>
     c_window_ns c \<noteq> 0 \<and> unat (c_bytes_per_window c) * 8000000000 \<le> 18446744073709551615 \<and>
     unat (c_bytes_per_window c) * 8000000000 div unat (c_window_ns c) \<le> unat r"
proof (cases "c_window_ns c = 0 \<or> 18446744073709551615 < unat (c_bytes_per_window c) * 8000000000")
  case True
  then show ?thesis unfolding effective_rate_eq by auto
next
  case False
  then have "unat (c_bytes_per_window c) * 8000000000 div unat (c_window_ns c) \<le> 18446744073709551615"
    by (meson div_le_dividend le_trans not_less)
  then show ?thesis
    unfolding effective_rate_eq using False
    by (simp only: if_False option.case word_le_nat_alt unat_of_nat_u64 less_W) auto
qed

lemma window_within:
  "(case checked_mul g q of None \<Rightarrow> False | Some b' \<Rightarrow> b' = b \<and> P) \<longleftrightarrow>
     unat b = unat g * unat q \<and> P"
proof (cases "unat g * unat q < 18446744073709551616")
  case True
  then show ?thesis by (simp add: checked_mul_eq window_product_eq)
next
  case False
  then have "unat b \<noteq> unat g * unat q" using unat_u64_less [of b] by linarith
  with False show ?thesis by (simp add: checked_mul_eq)
qed

lemma validate_cadence_iff:
  "st_ok (validate_cadence c mr mb mp) \<longleftrightarrow> cadence_ok c mr mb mp"
proof -
  let ?E = "case effective_rate_bps c of None \<Rightarrow> False | Some e \<Rightarrow> e \<le> c_rate_bps c"
  let ?W = "case checked_mul (c_grants_per_window c) (c_quantum_bytes c) of
              None \<Rightarrow> False | Some b \<Rightarrow> b = c_bytes_per_window c \<and> ?E"
  have "st_ok (validate_cadence c mr mb mp) \<longleftrightarrow>
          c_rate_bps c \<noteq> 0 \<and> c_rate_bps c \<le> mr \<and> c_quantum_bytes c \<noteq> 0 \<and> c_interval_ns c \<noteq> 0 \<and>
          c_window_ns c \<noteq> 0 \<and> c_burst_bytes c \<noteq> 0 \<and> c_burst_packets c \<noteq> 0 \<and>
          c_burst_bytes c \<le> mb \<and> c_burst_packets c \<le> mp \<and> ?W"
    unfolding validate_cadence_def by (auto simp: not_less split: option.splits)
  then show ?thesis
    unfolding window_within effective_within cadence_ok_def word_gt_0 by (simp add: eq_commute [of 0]) blast
qed

end
