(* ===== verification/PF_Registry.thy ===== *)
theory PF_Registry
  imports PF_Ids
begin

text \<open>
  The interface the coordinator relies on when it keeps generation-bound publications: the
  policy store of \<^verbatim>\<open>src/policy.cpp\<close> and the binding registry of \<^verbatim>\<open>src/binding.cpp\<close> both
  implement it. Both classes keep a vector of \<^verbatim>\<open>Entry{item, live}\<close>, which is \<open>entry list\<close>
  here. The locale \<open>registry\<close> states what a publication, a lookup and a removal promise; the
  locale \<open>persistent_registry\<close> adds that a generation, once issued for a key, is never issued
  again, even across a removal.
\<close>

record 'a entry =
  en_item :: 'a
  en_live :: bool

abbreviation live_entry :: "'a \<Rightarrow> 'a entry" where
  "live_entry x \<equiv> \<lparr>en_item = x, en_live = True\<rparr>"

definition live_items :: "'a entry list \<Rightarrow> 'a list" where
  "live_items es = map en_item (filter en_live es)"

section \<open>The contract\<close>

locale registry =
  fixes wf :: "'s \<Rightarrow> bool"
    and get :: "'k \<Rightarrow> 's \<Rightarrow> 'v option"
    and put :: "'v \<Rightarrow> 's \<Rightarrow> 's option"
    and drop :: "'k \<Rightarrow> 's \<Rightarrow> 's option"
    and key :: "'v \<Rightarrow> 'k"
    and gen :: "'v \<Rightarrow> generation"
  assumes put_wf: "wf s \<Longrightarrow> put v s = Some s' \<Longrightarrow> wf s'"
    and drop_wf: "wf s \<Longrightarrow> drop k s = Some s' \<Longrightarrow> wf s'"
    and put_get: "wf s \<Longrightarrow> put v s = Some s' \<Longrightarrow> \<exists>w. get (key v) s' = Some w \<and> key w = key v"
    and get_known: "wf s \<Longrightarrow> get k s = Some v \<Longrightarrow> gen_known (gen v) \<and> key v = k"
    and put_other: "wf s \<Longrightarrow> put v s = Some s' \<Longrightarrow> k \<noteq> key v \<Longrightarrow> get k s' = get k s"
    and put_advances: "wf s \<Longrightarrow> put v s = Some s' \<Longrightarrow> get (key v) s = Some old \<Longrightarrow>
                         get (key v) s' = Some new \<Longrightarrow> gen old < gen new"
    and drop_get: "wf s \<Longrightarrow> drop k s = Some s' \<Longrightarrow> get k s' = None"
    and drop_other: "wf s \<Longrightarrow> drop k s = Some s' \<Longrightarrow> j \<noteq> k \<Longrightarrow> get j s' = get j s"
begin

text \<open>A publication always changes what a holder of the previous publication would compare.\<close>

lemma put_invalidates:
  assumes "wf s" "get k s = Some old" "put v s = Some s'" "key v = k"
  shows "\<exists>new. get k s' = Some new \<and> gen new \<noteq> gen old \<and> gen_known (gen new)"
proof -
  obtain new where new: "get (key v) s' = Some new" using put_get [OF assms(1,3)] by blast
  have "gen old < gen new" using put_advances [OF assms(1,3)] assms(2,4) new by simp
  moreover have "gen_known (gen new)" using get_known [OF put_wf [OF assms(1,3)] new] by simp
  ultimately show ?thesis using new assms(4) by auto
qed

lemma put_puts_advance:
  assumes "wf s" "put v s = Some s'" "put v' s' = Some s''" "key v' = key v"
  shows "\<exists>a b. get (key v) s' = Some a \<and> get (key v) s'' = Some b \<and> gen a < gen b"
proof -
  note wf' = put_wf [OF assms(1,2)]
  obtain a where a: "get (key v) s' = Some a" using put_get [OF assms(1,2)] by blast
  obtain b where b: "get (key v') s'' = Some b" using put_get [OF wf' assms(3)] by blast
  show ?thesis using put_advances [OF wf' assms(3)] a b assms(4) by auto
qed

end

section \<open>Histories\<close>

text \<open>A history is a list of publications (\<open>Inl\<close>) and removals (\<open>Inr\<close>); a refused operation
  leaves the registry as it was.\<close>

locale persistent_registry = registry +
  fixes issued :: "'b \<Rightarrow> 'a \<Rightarrow> generation option"
  assumes get_issued: "wf s \<Longrightarrow> get k s = Some v \<Longrightarrow> issued k s = Some (gen v)"
    and put_issued: "wf s \<Longrightarrow> put v s = Some s' \<Longrightarrow> issued (key v) s = Some g \<Longrightarrow>
                       \<exists>g'. issued (key v) s' = Some g' \<and> g < g'"
    and put_issued_other: "wf s \<Longrightarrow> put v s = Some s' \<Longrightarrow> k \<noteq> key v \<Longrightarrow> issued k s' = issued k s"
    and drop_issued: "wf s \<Longrightarrow> drop k s = Some s' \<Longrightarrow> issued j s' = issued j s"
begin

primrec apply_op :: "'c + 'b \<Rightarrow> 'a \<Rightarrow> 'a" where
  "apply_op (Inl v) s = (case put v s of None \<Rightarrow> s | Some s' \<Rightarrow> s')"
| "apply_op (Inr k) s = (case drop k s of None \<Rightarrow> s | Some s' \<Rightarrow> s')"

lemma apply_op_wf: "wf s \<Longrightarrow> wf (apply_op p s)"
  by (cases p) (auto split: option.splits intro: put_wf drop_wf)

lemma apply_op_issued:
  assumes "wf s" "issued k s = Some g"
  shows "(issued k (apply_op p s) = Some g \<and> (get k (apply_op p s) = get k s \<or> get k (apply_op p s) = None))
         \<or> (\<exists>g'. issued k (apply_op p s) = Some g' \<and> g < g')"
proof (cases p)
  case (Inl v)
  show ?thesis
  proof (cases "put v s")
    case None
    with assms Inl show ?thesis by simp
  next
    case (Some s')
    show ?thesis
    proof (cases "k = key v")
      case True
      with put_issued [OF assms(1) Some] assms(2) Some Inl show ?thesis by auto
    next
      case False
      with put_issued_other [OF assms(1) Some False] put_other [OF assms(1) Some False] assms(2) Some Inl
      show ?thesis by simp
    qed
  qed
next
  case (Inr j)
  show ?thesis
  proof (cases "drop j s")
    case None
    with assms Inr show ?thesis by simp
  next
    case (Some s')
    have "get k s' = get k s \<or> get k s' = None"
      using drop_get [OF assms(1) Some] drop_other [OF assms(1) Some] by (cases "k = j") auto
    with drop_issued [OF assms(1) Some] assms(2) Some Inr show ?thesis by simp
  qed
qed

lemma history_issued:
  assumes "wf s" "issued k s = Some g" "get k s = None \<or> get k s = Some v"
  shows "wf (fold apply_op ps s) \<and>
         ((issued k (fold apply_op ps s) = Some g \<and>
             (get k (fold apply_op ps s) = None \<or> get k (fold apply_op ps s) = Some v))
          \<or> (\<exists>g'. issued k (fold apply_op ps s) = Some g' \<and> g < g'))"
  using assms
proof (induction ps arbitrary: s g v)
  case Nil
  then show ?case by simp
next
  case (Cons p ps)
  have w: "wf (apply_op p s)" using Cons.prems(1) by (rule apply_op_wf)
  from apply_op_issued [OF Cons.prems(1,2), of p] show ?case
  proof
    assume a: "issued k (apply_op p s) = Some g \<and>
               (get k (apply_op p s) = get k s \<or> get k (apply_op p s) = None)"
    then have "get k (apply_op p s) = None \<or> get k (apply_op p s) = Some v" using Cons.prems(3) by auto
    with Cons.IH [OF w, of g v] a show ?case by simp
  next
    assume "\<exists>g'. issued k (apply_op p s) = Some g' \<and> g < g'"
    then obtain g' where g': "issued k (apply_op p s) = Some g'" "g < g'" by blast
    have "\<exists>u. get k (apply_op p s) = None \<or> get k (apply_op p s) = Some u"
      by (cases "get k (apply_op p s)") auto
    then obtain u where "get k (apply_op p s) = None \<or> get k (apply_op p s) = Some u" ..
    with Cons.IH [OF w g'(1)] g'(2) show ?case by (auto intro: less_trans)
  qed
qed

text \<open>
  No generation is reused: whatever happens between two lookups of a key, equal generations mean
  the identical publication.
\<close>

lemma no_reuse:
  assumes "wf s" "get k s = Some v" "get k (fold apply_op ps s) = Some v'" "gen v' = gen v"
  shows "v' = v"
proof -
  have "issued k s = Some (gen v)" using get_issued [OF assms(1,2)] .
  then have h: "wf (fold apply_op ps s) \<and>
         ((issued k (fold apply_op ps s) = Some (gen v) \<and>
             (get k (fold apply_op ps s) = None \<or> get k (fold apply_op ps s) = Some v))
          \<or> (\<exists>g'. issued k (fold apply_op ps s) = Some g' \<and> gen v < g'))"
    by (intro history_issued [OF assms(1)]) (simp_all add: assms(2))
  then have "issued k (fold apply_op ps s) = Some (gen v')" using get_issued assms(3) by blast
  with h assms(3,4) show ?thesis by auto
qed

end

section \<open>Vectors of entries\<close>

text \<open>
  The facts both implementations share, for entries with a key projection. Lookups of live
  entries use the test \<open>live_at\<close>.
\<close>

definition live_at :: "('a \<Rightarrow> 'k) \<Rightarrow> 'k \<Rightarrow> 'a entry \<Rightarrow> bool" where
  "live_at key k e = (en_live e \<and> key (en_item e) = k)"

definition lookup_live :: "('a \<Rightarrow> 'k) \<Rightarrow> 'k \<Rightarrow> 'a entry list \<Rightarrow> 'a option" where
  "lookup_live key k es = map_option (\<lambda>i. en_item (es ! i)) (find_index (live_at key k) es)"

text \<open>At most one live entry per key.\<close>

definition live_unique :: "('a \<Rightarrow> 'k) \<Rightarrow> 'a entry list \<Rightarrow> bool" where
  "live_unique key es = (\<forall>i < length es. \<forall>j < length es.
     en_live (es ! i) \<longrightarrow> en_live (es ! j) \<longrightarrow> key (en_item (es ! i)) = key (en_item (es ! j)) \<longrightarrow> i = j)"

lemma lookup_live_Some:
  assumes "live_unique key es"
  shows "lookup_live key k es = Some v \<longleftrightarrow>
           (\<exists>i < length es. en_live (es ! i) \<and> en_item (es ! i) = v \<and> key v = k)"
proof
  assume "lookup_live key k es = Some v"
  then obtain i where "find_index (live_at key k) es = Some i" "v = en_item (es ! i)"
    by (auto simp: lookup_live_def)
  then show "\<exists>i < length es. en_live (es ! i) \<and> en_item (es ! i) = v \<and> key v = k"
    using find_index_SomeD by (fastforce simp: live_at_def)
next
  assume "\<exists>i < length es. en_live (es ! i) \<and> en_item (es ! i) = v \<and> key v = k"
  then obtain i where i: "i < length es" "en_live (es ! i)" "en_item (es ! i) = v" "key v = k" by blast
  have "find_index (live_at key k) es = Some i"
    using i assms unfolding live_unique_def by (intro find_index_unique) (auto simp: live_at_def)
  then show "lookup_live key k es = Some v" using i by (simp add: lookup_live_def)
qed

lemma lookup_live_None:
  "lookup_live key k es = None \<longleftrightarrow> (\<forall>i < length es. en_live (es ! i) \<longrightarrow> key (en_item (es ! i)) \<noteq> k)"
  by (auto simp: lookup_live_def find_index_None live_at_def all_set_conv_all_nth)

lemma lookup_live_eqI:
  assumes "live_unique key es" "live_unique key es'"
    and "\<And>v. key v = k \<Longrightarrow>
           (\<exists>i < length es. en_live (es ! i) \<and> en_item (es ! i) = v) =
           (\<exists>i < length es'. en_live (es' ! i) \<and> en_item (es' ! i) = v)"
  shows "lookup_live key k es = lookup_live key k es'"
proof -
  have "lookup_live key k es = Some v \<longleftrightarrow> lookup_live key k es' = Some v" for v
    unfolding lookup_live_Some [OF assms(1)] lookup_live_Some [OF assms(2)] using assms(3) [of v] by blast
  then show ?thesis by (metis option.exhaust)
qed

text \<open>Replacing entry \<open>i\<close>, which has key \<open>k\<close>, by a live entry of the same key.\<close>

lemma live_unique_replace:
  assumes "live_unique key es" "i < length es" "key v = key (en_item (es ! i))"
    and "\<And>j. j < length es \<Longrightarrow> en_live (es ! j) \<Longrightarrow> key (en_item (es ! j)) = key v \<Longrightarrow> j = i"
  shows "live_unique key (es[i := \<lparr>en_item = v, en_live = b\<rparr>])"
  unfolding live_unique_def
proof (intro allI impI)
  fix a b'
  let ?es = "es[i := \<lparr>en_item = v, en_live = b\<rparr>]"
  assume h: "a < length ?es" "b' < length ?es" "en_live (?es ! a)" "en_live (?es ! b')"
    "key (en_item (?es ! a)) = key (en_item (?es ! b'))"
  show "a = b'"
  proof (cases "a = i"; cases "b' = i")
    assume "a = i" "b' \<noteq> i"
    with h assms(4) [of b'] show ?thesis by simp
  next
    assume "a \<noteq> i" "b' = i"
    with h assms(4) [of a] show ?thesis by simp
  next
    assume "a \<noteq> i" "b' \<noteq> i"
    with h assms(1) show ?thesis unfolding live_unique_def by simp
  qed simp
qed

lemma lookup_live_replace:
  assumes "live_unique key es" "i < length es" "key v = key (en_item (es ! i))"
    and "\<And>j. j < length es \<Longrightarrow> en_live (es ! j) \<Longrightarrow> key (en_item (es ! j)) = key v \<Longrightarrow> j = i"
  shows "lookup_live key k (es[i := live_entry v]) = (if k = key v then Some v else lookup_live key k es)"
proof -
  note u = live_unique_replace [OF assms, of True]
  show ?thesis
  proof (cases "k = key v")
    case True
    then show ?thesis
      using assms(2) unfolding True by (simp add: lookup_live_Some [OF u]) (intro exI [of _ i], simp)
  next
    case False
    have "lookup_live key k (es[i := live_entry v]) = lookup_live key k es"
    proof (rule lookup_live_eqI [OF u assms(1)])
      fix w assume w: "key w = k"
      show "(\<exists>j < length (es[i := live_entry v]). en_live (es[i := live_entry v] ! j) \<and>
               en_item (es[i := live_entry v] ! j) = w) =
            (\<exists>j < length es. en_live (es ! j) \<and> en_item (es ! j) = w)"
        using False w assms(2,3) by (auto simp: nth_list_update)
    qed
    with False show ?thesis by simp
  qed
qed

text \<open>Marking entry \<open>i\<close> dead.\<close>

lemma item_kill [simp]: "en_item (es[i := (es ! i)\<lparr>en_live := b\<rparr>] ! j) = en_item (es ! j)"
proof (cases "i < length es")
  case True
  then show ?thesis by (cases "i = j") simp_all
next
  case False
  then have "es[i := (es ! i)\<lparr>en_live := b\<rparr>] = es" by (intro list_update_beyond) simp
  then show ?thesis by (simp only:)
qed

lemma live_unique_kill:
  "live_unique key es \<Longrightarrow> live_unique key (es[i := (es ! i)\<lparr>en_live := False\<rparr>])"
  unfolding live_unique_def by (cases "i < length es") (auto simp: nth_list_update)

lemma lookup_live_kill:
  assumes "live_unique key es" "i < length es" "en_live (es ! i)" "key (en_item (es ! i)) = j"
  shows "lookup_live key k (es[i := (es ! i)\<lparr>en_live := False\<rparr>])
           = (if k = j then None else lookup_live key k es)"
proof (cases "k = j")
  case True
  have "lookup_live key k (es[i := (es ! i)\<lparr>en_live := False\<rparr>]) = None"
    using assms unfolding lookup_live_None live_unique_def True by (auto simp: nth_list_update)
  with True show ?thesis by simp
next
  case False
  have "lookup_live key k (es[i := (es ! i)\<lparr>en_live := False\<rparr>]) = lookup_live key k es"
    using False assms
    by (intro lookup_live_eqI live_unique_kill) (auto simp: nth_list_update)
  with False show ?thesis by simp
qed

text \<open>Appending a live entry with a key that no live entry has.\<close>

lemma live_unique_push:
  assumes "live_unique key es" "lookup_live key (key v) es = None"
  shows "live_unique key (es @ [live_entry v])"
  using assms unfolding live_unique_def lookup_live_None by (auto simp: nth_append less_Suc_eq)

lemma lookup_live_push:
  assumes "live_unique key es" "lookup_live key (key v) es = None"
  shows "lookup_live key k (es @ [live_entry v]) = (if k = key v then Some v else lookup_live key k es)"
proof -
  note u = live_unique_push [OF assms]
  show ?thesis
  proof (cases "k = key v")
    case True
    then show ?thesis unfolding True by (simp add: lookup_live_Some [OF u]) (intro exI [of _ "length es"], simp)
  next
    case False
    have "lookup_live key k (es @ [live_entry v]) = lookup_live key k es"
      using False by (intro lookup_live_eqI [OF u assms(1)]) (auto simp: nth_append less_Suc_eq)
    with False show ?thesis by simp
  qed
qed

end
