(* ===== verification/PF_Policy.thy ===== *)
theory PF_Policy
  imports PF_Rate PF_Registry
begin

text \<open>
  \<^verbatim>\<open>include/pacing/policy.hpp\<close> and \<^verbatim>\<open>src/policy.cpp\<close>: authored policies, their validation,
  the service-class exceptions and the policy store. A store is the vector \<^verbatim>\<open>policies_\<close>; the
  \<^verbatim>\<open>limits_\<close> reference is an argument. The store implements the \<open>persistent_registry\<close>
  contract.
\<close>

section \<open>Data\<close>

datatype pacing_layer = PL_Resource | PL_Flow

fun layer_num :: "pacing_layer \<Rightarrow> u8" where
  "layer_num PL_Resource = 0"
| "layer_num PL_Flow = 1"

fun layer_name :: "pacing_layer \<Rightarrow> string" where
  "layer_name PL_Resource = ''resource''"
| "layer_name PL_Flow = ''flow''"

definition parse_pacing_layer :: "string \<Rightarrow> pacing_layer option" where
  "parse_pacing_layer s =
     (if s = ''resource'' then Some PL_Resource else if s = ''flow'' then Some PL_Flow else None)"

lemma parse_pacing_layer_name: "parse_pacing_layer (layer_name x) = Some x"
  by (cases x) (simp_all add: parse_pacing_layer_def)

record sc_exception =
  x_service_class :: service_class_id
  x_min_rate_bps :: u64
  x_rate_share_ppm :: u64
  x_burst_bytes :: u64
  x_burst_packets :: u64
  x_priority :: u32

record policy =
  p_ref :: policy_ref
  p_layer :: pacing_layer
  p_resource :: resource_id
  p_flow :: flow_id
  p_rate_share_ppm :: u64
  p_rate_bps :: u64
  p_min_rate_bps :: u64
  p_burst_bytes :: u64
  p_burst_packets :: u64
  p_quantum_bytes :: u64
  p_window_ns :: u64
  p_shape :: cadence_shape
  p_grants_per_window_hint :: u64
  p_path :: path_ref
  p_default_service_class :: service_class_id
  p_exceptions :: "sc_exception list"
  p_tenant :: tenant_id
  p_provenance :: provenance_id
  p_published_at :: instant

definition applies_to :: "policy \<Rightarrow> flow_id \<Rightarrow> resource_id \<Rightarrow> bool" where
  "applies_to p candidate candidate_resource =
     (if p_layer p = PL_Flow then p_flow p = candidate else p_resource p = candidate_resource)"

section \<open>Validation\<close>

fun check_exceptions :: "limits \<Rightarrow> sc_exception list \<Rightarrow> status" where
  "check_exceptions l [] = success"
| "check_exceptions l (ex # rest) =
     (if \<not> id_valid (x_service_class ex) then
        Status EC_InvalidArgument ''service class exception has zero id''
      else if x_rate_share_ppm ex > 1000000 then
        Status EC_OutOfRange ''exception rate share exceeds 1000000 ppm''
      else if x_min_rate_bps ex > l_max_rate_bps l then
        Status EC_OutOfRange ''exception floor above configured limit''
      else if x_burst_bytes ex > l_max_burst_bytes l then
        Status EC_BurstExceedsBound ''exception burst bytes above limit''
      else if x_burst_packets ex > l_max_burst_packets l then
        Status EC_BurstExceedsBound ''exception burst packets above limit''
      else if list_ex (\<lambda>other. x_service_class other = x_service_class ex) rest then
        Status EC_InvalidArgument ''duplicate service class exception''
      else check_exceptions l rest)"

definition validate_policy :: "policy \<Rightarrow> limits \<Rightarrow> status" where
  "validate_policy p l =
     (if \<not> id_valid (gr_id (p_ref p)) then Status EC_InvalidArgument ''policy id is zero''
      else if \<not> gen_known (gr_gen (p_ref p)) then
        Status EC_InvalidArgument ''policy generation is unknown''
      else if p_layer p = PL_Resource \<and> \<not> id_valid (p_resource p) then
        Status EC_InvalidArgument ''resource-layer policy has no resource''
      else if p_layer p = PL_Flow \<and> \<not> id_valid (p_flow p) then
        Status EC_InvalidArgument ''flow-layer policy has no flow''
      else if \<not> ref_known (p_path p) then
        Status EC_InvalidArgument ''policy path binding is not generation-bound''
      else if p_rate_share_ppm p > 1000000 then
        Status EC_OutOfRange ''policy rate share exceeds 1000000 ppm''
      else if p_rate_bps p > l_max_rate_bps l then
        Status EC_OutOfRange ''policy rate above configured limit''
      else if p_min_rate_bps p > l_max_rate_bps l then
        Status EC_OutOfRange ''policy floor above configured limit''
      else if p_quantum_bytes p = 0 \<or> p_quantum_bytes p > l_max_quantum_bytes l then
        Status EC_OutOfRange ''policy quantum out of range''
      else if p_window_ns p < l_min_window_ns l \<or> p_window_ns p > l_max_window_ns l then
        Status EC_OutOfRange ''policy window out of range''
      else if p_burst_bytes p > l_max_burst_bytes l then
        Status EC_BurstExceedsBound ''policy burst bytes above limit''
      else if p_burst_packets p > l_max_burst_packets l then
        Status EC_BurstExceedsBound ''policy burst packets above limit''
      else if p_grants_per_window_hint p > kNanosPerSecond then
        Status EC_OutOfRange ''policy grants-per-window hint above bound''
      else if length (p_exceptions p) > unat (l_max_service_class_exceptions l) then
        Status EC_Oversized ''policy exception table above bound''
      else check_exceptions l (p_exceptions p))"

definition find_exception :: "policy \<Rightarrow> service_class_id \<Rightarrow> sc_exception option" where
  "find_exception p service_class =
     (if \<not> id_valid service_class then None
      else find (\<lambda>ex. x_service_class ex = service_class) (p_exceptions p))"

section \<open>The store\<close>

type_synonym policy_store = "policy entry list"

abbreviation policy_key :: "policy \<Rightarrow> policy_id" where
  "policy_key p \<equiv> gr_id (p_ref p)"

abbreviation policy_gen :: "policy \<Rightarrow> generation" where
  "policy_gen p \<equiv> gr_gen (p_ref p)"

abbreviation with_policy_gen :: "generation \<Rightarrow> policy \<Rightarrow> policy" where
  "with_policy_gen g p \<equiv> p\<lparr>p_ref := (p_ref p)\<lparr>gr_gen := g\<rparr>\<rparr>"

definition policy_publish :: "limits \<Rightarrow> policy \<Rightarrow> policy_store \<Rightarrow> policy_ref status_or \<times> policy_store" where
  "policy_publish l policy0 es =
     (let p = (if \<not> gen_known (policy_gen policy0) then with_policy_gen gen_first policy0 else policy0);
          valid = validate_policy p l
      in if \<not> st_ok valid then (Inl valid, es)
         else case find_index (\<lambda>e. policy_key (en_item e) = policy_key p) es of
           Some i \<Rightarrow>
             (let e = es ! i in
              if \<not> en_live e \<and> length es \<ge> unat (l_max_policies l) then
                (Inl (Status EC_ResourceExhausted ''policy store is full''), es)
              else if policy_gen p \<le> policy_gen (en_item e) then
                (let (g, exhausted) = gen_next (policy_gen (en_item e)) in
                 if exhausted then
                   (Inl (Status EC_ResourceExhausted ''policy generation exhausted''), es)
                 else (let p' = with_policy_gen g p in
                       (Inr (p_ref p'), es[i := live_entry p'])))
              else (Inr (p_ref p), es[i := live_entry p]))
         | None \<Rightarrow>
             if length es \<ge> unat (l_max_policies l) then
               (Inl (Status EC_ResourceExhausted ''policy store is full''), es)
             else (Inr (p_ref p), es @ [live_entry p]))"

definition policy_restore :: "limits \<Rightarrow> policy \<Rightarrow> policy_store \<Rightarrow> status \<times> policy_store" where
  "policy_restore l p es =
     (let valid = validate_policy p l in
      if \<not> st_ok valid then (valid, es)
      else case find_index (\<lambda>e. policy_key (en_item e) = policy_key p) es of
        Some i \<Rightarrow> (success, es[i := live_entry p])
      | None \<Rightarrow>
          if length es \<ge> unat (l_max_policies l) then
            (Status EC_ResourceExhausted ''policy store is full'', es)
          else (success, es @ [live_entry p]))"

definition live_policies :: "policy_store \<Rightarrow> policy list" where
  "live_policies es = live_items es"

definition policy_get :: "policy_id \<Rightarrow> policy_store \<Rightarrow> policy status_or" where
  "policy_get i es =
     (case find_index (live_at policy_key i) es of
        Some k \<Rightarrow> Inr (en_item (es ! k))
      | None \<Rightarrow> Inl (Status EC_NotFound ''policy not found''))"

text \<open>
  \<open>resolve_loop\<close> is the loop of \<^verbatim>\<open>resolve\<close>: a live flow-layer policy that applies ends it; a
  resource-layer one replaces \<open>best\<close> when its generation is higher.
\<close>

fun resolve_loop :: "flow_id \<Rightarrow> resource_id \<Rightarrow> policy option \<Rightarrow> policy_store \<Rightarrow> policy option" where
  "resolve_loop flow resource best [] = best"
| "resolve_loop flow resource best (e # es) =
     (if \<not> en_live e then resolve_loop flow resource best es
      else if \<not> applies_to (en_item e) flow resource then resolve_loop flow resource best es
      else if p_layer (en_item e) = PL_Flow then Some (en_item e)
      else resolve_loop flow resource
             (case best of
                None \<Rightarrow> Some (en_item e)
              | Some b \<Rightarrow> if policy_gen (en_item e) > policy_gen b then Some (en_item e) else best) es)"

definition policy_resolve :: "flow_id \<Rightarrow> resource_id \<Rightarrow> policy_store \<Rightarrow> policy status_or" where
  "policy_resolve flow resource es =
     (case resolve_loop flow resource None es of
        Some p \<Rightarrow> Inr p
      | None \<Rightarrow> Inl (Status EC_NotFound ''no policy governs this flow/resource binding''))"

definition policy_remove :: "policy_id \<Rightarrow> policy_store \<Rightarrow> status \<times> policy_store" where
  "policy_remove k es =
     (case find_index (live_at policy_key k) es of
        Some i \<Rightarrow> (success, es[i := (es ! i)\<lparr>en_live := False\<rparr>])
      | None \<Rightarrow> (Status EC_NotFound ''policy not found'', es))"

section \<open>Publication\<close>

lemma validate_policy_okD:
  assumes "st_ok (validate_policy p l)"
  shows "id_valid (policy_key p)" "gen_known (policy_gen p)" "ref_known (p_path p)"
    "p_rate_bps p \<le> l_max_rate_bps l" "p_min_rate_bps p \<le> l_max_rate_bps l"
    "p_rate_share_ppm p \<le> 1000000" "p_quantum_bytes p \<noteq> 0"
  using assms by (simp_all add: validate_policy_def not_less split: if_splits)

lemma policy_key_with_gen [simp]: "policy_key (with_policy_gen g p) = policy_key p"
  by simp

lemma policy_publish_InrE:
  assumes "policy_publish l p0 es = (Inr r, es')"
  obtains
    (replace) i g where
      "find_index (\<lambda>e. policy_key (en_item e) = policy_key p0) es = Some i"
      "policy_gen (en_item (es ! i)) < g" "gen_known g" "r = mk_ref (policy_key p0) g"
      "es' = es[i := live_entry (with_policy_gen g p0)]"
  | (push) g where
      "find_index (\<lambda>e. policy_key (en_item e) = policy_key p0) es = None"
      "length es < unat (l_max_policies l)" "gen_known g" "r = mk_ref (policy_key p0) g"
      "es' = es @ [live_entry (with_policy_gen g p0)]"
proof -
  define p where "p = (if \<not> gen_known (policy_gen p0) then with_policy_gen gen_first p0 else p0)"
  have key: "policy_key p = policy_key p0" by (simp add: p_def)
  have p: "p = with_policy_gen (policy_gen p) p0" by (auto simp: p_def)
  have upd: "with_policy_gen g p = with_policy_gen g p0" for g by (simp add: p_def)
  have ref: "p_ref (with_policy_gen g p0) = mk_ref (policy_key p0) g" for g
    by (cases "p_ref p0") simp
  have valid: "st_ok (validate_policy p l)"
    using assms by (auto simp: policy_publish_def p_def [symmetric] Let_def split: if_splits)
  have known: "gen_known (policy_gen p)" using valid by (rule validate_policy_okD)
  show thesis
  proof (cases "find_index (\<lambda>e. policy_key (en_item e) = policy_key p0) es")
    case None
    have "es' = es @ [live_entry p]" "r = p_ref p" "length es < unat (l_max_policies l)"
      using assms valid None
      by (auto simp: policy_publish_def p_def [symmetric] key not_le split: if_splits)
    then show thesis using push [OF None _ known] p ref by metis
  next
    case (Some i)
    have "(policy_gen p \<le> policy_gen (en_item (es ! i)) \<and>
           (\<exists>g. gen_next (policy_gen (en_item (es ! i))) = (g, False) \<and>
              r = p_ref (with_policy_gen g p) \<and> es' = es[i := live_entry (with_policy_gen g p)]))
          \<or> (policy_gen (en_item (es ! i)) < policy_gen p \<and> r = p_ref p \<and> es' = es[i := live_entry p])"
      using assms valid Some
      by (auto simp: policy_publish_def p_def [symmetric] key Let_def not_le split: if_splits prod.splits)
    then show thesis
    proof
      assume "policy_gen p \<le> policy_gen (en_item (es ! i)) \<and>
           (\<exists>g. gen_next (policy_gen (en_item (es ! i))) = (g, False) \<and>
              r = p_ref (with_policy_gen g p) \<and> es' = es[i := live_entry (with_policy_gen g p)])"
      then obtain g where g: "gen_next (policy_gen (en_item (es ! i))) = (g, False)"
        and r: "r = p_ref (with_policy_gen g p)" and e: "es' = es[i := live_entry (with_policy_gen g p)]"
        by blast
      show thesis
        using replace [OF Some gen_next_greater [OF g] gen_next_known [OF g]] r e unfolding upd ref by blast
    next
      assume "policy_gen (en_item (es ! i)) < policy_gen p \<and> r = p_ref p \<and> es' = es[i := live_entry p]"
      then show thesis using replace [OF Some _ known] p ref by metis
    qed
  qed
qed

section \<open>The store implements the contract\<close>

definition policy_wf :: "policy_store \<Rightarrow> bool" where
  "policy_wf es =
     ((\<forall>i < length es. \<forall>j < length es.
         policy_key (en_item (es ! i)) = policy_key (en_item (es ! j)) \<longrightarrow> i = j) \<and>
      (\<forall>e \<in> set es. gen_known (policy_gen (en_item e))))"

definition policy_lookup :: "policy_id \<Rightarrow> policy_store \<Rightarrow> policy option" where
  "policy_lookup k es = (case policy_get k es of Inl _ \<Rightarrow> None | Inr p \<Rightarrow> Some p)"

definition policy_put :: "limits \<Rightarrow> policy \<Rightarrow> policy_store \<Rightarrow> policy_store option" where
  "policy_put l p es = (case policy_publish l p es of (Inr _, es') \<Rightarrow> Some es' | _ \<Rightarrow> None)"

definition policy_drop :: "policy_id \<Rightarrow> policy_store \<Rightarrow> policy_store option" where
  "policy_drop k es = (let (s, es') = policy_remove k es in if st_ok s then Some es' else None)"

text \<open>The generation last issued for an identity, whether or not its entry is live.\<close>

definition policy_issued :: "policy_id \<Rightarrow> policy_store \<Rightarrow> generation option" where
  "policy_issued k es =
     map_option (\<lambda>i. policy_gen (en_item (es ! i))) (find_index (\<lambda>e. policy_key (en_item e) = k) es)"

lemma policy_lookup_live: "policy_lookup k es = lookup_live policy_key k es"
  by (simp add: policy_lookup_def policy_get_def lookup_live_def split: option.splits)

lemma policy_wf_unique: "policy_wf es \<Longrightarrow> live_unique policy_key es"
  by (simp add: policy_wf_def live_unique_def)

lemma policy_find_key:
  assumes "policy_wf es" "i < length es" "policy_key (en_item (es ! i)) = k"
  shows "find_index (\<lambda>e. policy_key (en_item e) = k) es = Some i"
  using assms unfolding policy_wf_def by (intro find_index_unique) auto

lemma policy_wf_replace:
  assumes "policy_wf es" "i < length es" "policy_key p = policy_key (en_item (es ! i))"
    "gen_known (policy_gen p)"
  shows "policy_wf (es[i := \<lparr>en_item = p, en_live = b\<rparr>])"
proof -
  have "map (\<lambda>e. policy_key (en_item e)) (es[i := \<lparr>en_item = p, en_live = b\<rparr>])
          = map (\<lambda>e. policy_key (en_item e)) es"
    using assms(2,3) by (intro map_update_same) simp_all
  then have k: "policy_key (en_item (es[i := \<lparr>en_item = p, en_live = b\<rparr>] ! j)) = policy_key (en_item (es ! j))"
    if "j < length es" for j
    using that by (metis (no_types, lifting) length_list_update nth_map)
  have "\<forall>e \<in> set (es[i := \<lparr>en_item = p, en_live = b\<rparr>]). gen_known (policy_gen (en_item e))"
    using assms(1,4) by (intro list_all_update) (auto simp: policy_wf_def)
  then show ?thesis using assms(1) unfolding policy_wf_def by (simp add: k)
qed

lemma policy_wf_push:
  assumes "policy_wf es" "find_index (\<lambda>e. policy_key (en_item e) = policy_key p) es = None"
    "gen_known (policy_gen p)"
  shows "policy_wf (es @ [live_entry p])"
proof -
  have "\<forall>j < length es. policy_key (en_item (es ! j)) \<noteq> policy_key p"
    using assms(2) by (auto simp: find_index_None)
  then show ?thesis using assms(1,3) unfolding policy_wf_def
    by (auto simp: nth_append less_Suc_eq)
qed

lemma policy_publish_wf:
  assumes "policy_wf es" "policy_publish l p es = (Inr r, es')"
  shows "policy_wf es'"
  using assms(2)
proof (cases rule: policy_publish_InrE)
  case (replace i g)
  show ?thesis
    unfolding replace(5) using find_index_SomeD [OF replace(1)] replace(3)
    by (intro policy_wf_replace [OF assms(1)]) simp_all
next
  case (push g)
  show ?thesis unfolding push(5) using push by (intro policy_wf_push [OF assms(1)]) simp_all
qed

lemma policy_publish_lookup:
  assumes "policy_wf es" "policy_publish l p es = (Inr r, es')"
  shows "policy_lookup k es' =
           (if k = policy_key p then Some (with_policy_gen (gr_gen r) p) else policy_lookup k es)"
  using assms(2)
proof (cases rule: policy_publish_InrE)
  case (replace i g)
  note i = find_index_SomeD [OF replace(1)]
  have "lookup_live policy_key k (es[i := live_entry (with_policy_gen g p)])
          = (if k = policy_key (with_policy_gen g p) then Some (with_policy_gen g p)
             else lookup_live policy_key k es)"
    using i assms(1) unfolding policy_wf_def
    by (intro lookup_live_replace policy_wf_unique [OF assms(1)]) auto
  then show ?thesis unfolding policy_lookup_live replace(4,5) by simp
next
  case (push g)
  have "lookup_live policy_key (policy_key (with_policy_gen g p)) es = None"
    using push(1) by (auto simp: lookup_live_None find_index_None)
  from lookup_live_push [OF policy_wf_unique [OF assms(1)] this] show ?thesis
    unfolding policy_lookup_live push(4,5) by simp
qed

lemma policy_publish_issued_less:
  assumes "policy_publish l p es = (Inr r, es')" "policy_issued (policy_key p) es = Some g0"
  shows "g0 < gr_gen r"
  using assms(1)
proof (cases rule: policy_publish_InrE)
  case (replace i g)
  with assms(2) show ?thesis by (simp add: policy_issued_def)
next
  case (push g)
  with assms(2) show ?thesis by (simp add: policy_issued_def)
qed

lemma policy_publish_issued:
  assumes "policy_wf es" "policy_publish l p es = (Inr r, es')"
  shows "policy_issued k es' = (if k = policy_key p then Some (gr_gen r) else policy_issued k es)"
  using assms(2)
proof (cases rule: policy_publish_InrE)
  case (replace i g)
  note i = find_index_SomeD [OF replace(1)]
  show ?thesis
  proof (cases "k = policy_key p")
    case True
    have "find_index (\<lambda>e. policy_key (en_item e) = policy_key p) es' = Some i"
      using i unfolding replace(5)
      by (intro policy_find_key policy_wf_replace [OF assms(1)]) (simp_all add: replace(3))
    then show ?thesis using i by (simp add: True policy_issued_def replace(4,5))
  next
    case False
    let ?f = "find_index (\<lambda>e. policy_key (en_item e) = k)"
    have f: "?f es' = ?f es"
      unfolding replace(5)
    proof (rule find_index_cong)
      fix m assume "m < length (es[i := live_entry (with_policy_gen g p)])"
      then show "(policy_key (en_item (es[i := live_entry (with_policy_gen g p)] ! m)) = k)
                   = (policy_key (en_item (es ! m)) = k)"
        using i False by (cases "m = i") simp_all
    qed simp
    show ?thesis
    proof (cases "?f es")
      case (Some m)
      then have "m \<noteq> i" using i False find_index_sat [OF Some] by auto
      then show ?thesis using False Some f by (simp add: policy_issued_def replace(5))
    qed (use False f in \<open>simp add: policy_issued_def\<close>)
  qed
next
  case (push g)
  show ?thesis
  proof (cases "find_index (\<lambda>e. policy_key (en_item e) = k) es")
    case None
    then show ?thesis using push by (auto simp: policy_issued_def find_index_append nth_append)
  next
    case (Some j)
    then have "k \<noteq> policy_key p" using push(1) by auto
    then show ?thesis using Some find_index_less [OF Some]
      by (simp add: policy_issued_def push(5) find_index_append nth_append)
  qed
qed

lemma policy_removeE:
  assumes "policy_remove k es = (s, es')" "st_ok s"
  obtains i where "i < length es" "en_live (es ! i)" "policy_key (en_item (es ! i)) = k"
    "es' = es[i := (es ! i)\<lparr>en_live := False\<rparr>]"
proof (cases "find_index (live_at policy_key k) es")
  case None
  with assms show ?thesis by (auto simp: policy_remove_def)
next
  case (Some i)
  with assms have "es' = es[i := (es ! i)\<lparr>en_live := False\<rparr>]" by (auto simp: policy_remove_def)
  then show ?thesis using that find_index_less [OF Some] find_index_sat [OF Some]
    by (simp add: live_at_def)
qed

lemma policy_wf_kill: "policy_wf es \<Longrightarrow> policy_wf (es[i := (es ! i)\<lparr>en_live := False\<rparr>])"
  by (simp add: policy_wf_def all_set_conv_all_nth)

lemma policy_put_SomeD: "policy_put l p es = Some es' \<Longrightarrow> \<exists>r. policy_publish l p es = (Inr r, es')"
  by (auto simp: policy_put_def split: prod.splits sum.splits)

lemma policy_drop_SomeE:
  assumes "policy_drop k es = Some es'"
  obtains i where "i < length es" "en_live (es ! i)" "policy_key (en_item (es ! i)) = k"
    "es' = es[i := (es ! i)\<lparr>en_live := False\<rparr>]"
  using assms by (auto simp: policy_drop_def split: prod.splits if_splits elim: policy_removeE)

lemma policy_lookup_SomeE:
  assumes "policy_wf es" "policy_lookup k es = Some v"
  obtains i where "i < length es" "en_live (es ! i)" "en_item (es ! i) = v" "policy_key v = k"
  using assms by (auto simp: policy_lookup_live lookup_live_Some [OF policy_wf_unique])

lemma policy_issued_kill:
  "policy_issued j (es[i := (es ! i)\<lparr>en_live := False\<rparr>]) = policy_issued j es"
proof -
  have "find_index (\<lambda>e. policy_key (en_item e) = j) (es[i := (es ! i)\<lparr>en_live := False\<rparr>])
          = find_index (\<lambda>e. policy_key (en_item e) = j) es"
    by (intro find_index_cong) simp_all
  then show ?thesis unfolding policy_issued_def by simp
qed

interpretation policies: persistent_registry policy_wf policy_lookup "policy_put l" policy_drop
  policy_key policy_gen policy_issued for l
proof (unfold_locales, goal_cases)
  case (1 s v s')
  then show ?case by (auto dest!: policy_put_SomeD intro: policy_publish_wf)
next
  case (2 s k s')
  then show ?case by (auto elim!: policy_drop_SomeE intro: policy_wf_kill)
next
  case (3 s v s')
  then show ?case by (auto dest!: policy_put_SomeD simp: policy_publish_lookup)
next
  case (4 s k v)
  then obtain i where "i < length s" "en_item (s ! i) = v" "policy_key v = k"
    by (elim policy_lookup_SomeE)
  with 4 show ?case unfolding policy_wf_def by auto
next
  case (5 s v s' k)
  then show ?case by (auto dest!: policy_put_SomeD simp: policy_publish_lookup)
next
  case (6 s v s' old new)
  then obtain r where r: "policy_publish l v s = (Inr r, s')" by (auto dest: policy_put_SomeD)
  obtain i where i: "i < length s" "en_item (s ! i) = old" "policy_key old = policy_key v"
    using 6 by (elim policy_lookup_SomeE [OF 6(1)])
  have "policy_issued (policy_key v) s = Some (policy_gen old)"
    using policy_find_key [OF 6(1) i(1)] i by (simp add: policy_issued_def)
  then have "policy_gen old < gr_gen r" by (rule policy_publish_issued_less [OF r])
  moreover have "new = with_policy_gen (gr_gen r) v"
    using 6(4) policy_publish_lookup [OF 6(1) r] by simp
  ultimately show ?case by simp
next
  case (7 s k s')
  then obtain i where "i < length s" "en_live (s ! i)" "policy_key (en_item (s ! i)) = k"
    "s' = s[i := (s ! i)\<lparr>en_live := False\<rparr>]" by (elim policy_drop_SomeE)
  then show ?case using 7(1) by (simp add: policy_lookup_live lookup_live_kill [OF policy_wf_unique])
next
  case (8 s k s' j)
  then obtain i where "i < length s" "en_live (s ! i)" "policy_key (en_item (s ! i)) = k"
    "s' = s[i := (s ! i)\<lparr>en_live := False\<rparr>]" by (elim policy_drop_SomeE)
  then show ?case using 8(1,3) by (simp add: policy_lookup_live lookup_live_kill [OF policy_wf_unique])
next
  case (9 s k v)
  then obtain i where i: "i < length s" "en_item (s ! i) = v" "policy_key v = k"
    by (elim policy_lookup_SomeE)
  then show ?case using policy_find_key [OF 9(1) i(1)] by (simp add: policy_issued_def)
next
  case (10 s v s' g)
  then show ?case by (auto dest!: policy_put_SomeD simp: policy_publish_issued policy_publish_issued_less)
next
  case (11 s v s' k)
  then show ?case by (auto dest!: policy_put_SomeD simp: policy_publish_issued)
next
  case (12 s k s' j)
  then show ?case by (auto elim!: policy_drop_SomeE simp: policy_issued_kill)
qed

section \<open>Resolution\<close>

lemma resolve_loop_None:
  "resolve_loop f r best es = None \<longleftrightarrow>
     best = None \<and> (\<forall>e \<in> set es. en_live e \<longrightarrow> \<not> applies_to (en_item e) f r)"
  by (induction es arbitrary: best) (auto split: option.splits)

lemma resolve_loop_from:
  "resolve_loop f r best es = Some p \<Longrightarrow>
     best = Some p \<or> (\<exists>e \<in> set es. en_live e \<and> en_item e = p \<and> applies_to p f r)"
  by (induction es arbitrary: best) (auto split: if_splits option.splits)

text \<open>A live flow-layer policy that applies wins over every resource-layer policy.\<close>

lemma resolve_loop_flow:
  "e \<in> set es \<Longrightarrow> en_live e \<Longrightarrow> p_layer (en_item e) = PL_Flow \<Longrightarrow> applies_to (en_item e) f r \<Longrightarrow>
     resolve_loop f r best es = Some p \<Longrightarrow> p_layer p = PL_Flow"
  by (induction es arbitrary: best) (auto split: if_splits)

text \<open>Without one, the result has the highest generation of the candidates.\<close>

lemma resolve_loop_max:
  "resolve_loop f r best es = Some p \<Longrightarrow> p_layer p \<noteq> PL_Flow \<Longrightarrow>
     (\<forall>b. best = Some b \<longrightarrow> policy_gen b \<le> policy_gen p) \<and>
     (\<forall>e \<in> set es. en_live e \<longrightarrow> applies_to (en_item e) f r \<longrightarrow> policy_gen (en_item e) \<le> policy_gen p)"
proof (induction es arbitrary: best)
  case Nil
  then show ?case by simp
next
  case (Cons e es)
  show ?case
  proof (cases "en_live e \<and> applies_to (en_item e) f r")
    case False
    with Cons show ?thesis by (auto split: if_splits)
  next
    case True
    with Cons.prems have n: "p_layer (en_item e) \<noteq> PL_Flow" by auto
    show ?thesis
    proof (cases best)
      case None
      with Cons.prems True n have "resolve_loop f r (Some (en_item e)) es = Some p" by simp
      from Cons.IH [OF this Cons.prems(2)] None show ?thesis by auto
    next
      case (Some b)
      show ?thesis
      proof (cases "policy_gen (en_item e) > policy_gen b")
        case gt: True
        with Cons.prems True n Some have "resolve_loop f r (Some (en_item e)) es = Some p" by simp
        from Cons.IH [OF this Cons.prems(2)] Some gt show ?thesis by auto
      next
        case le: False
        with Cons.prems True n Some have "resolve_loop f r (Some b) es = Some p" by simp
        from Cons.IH [OF this Cons.prems(2)] Some le show ?thesis by (auto simp: not_less)
      qed
    qed
  qed
qed

lemma policy_resolve_InrD:
  assumes "policy_resolve f r es = Inr p"
  shows "\<exists>e \<in> set es. en_live e \<and> en_item e = p \<and> applies_to p f r"
    and "p_layer p = PL_Resource \<Longrightarrow> e \<in> set es \<Longrightarrow> en_live e \<Longrightarrow> applies_to (en_item e) f r \<Longrightarrow>
           p_layer (en_item e) = PL_Resource \<and> policy_gen (en_item e) \<le> policy_gen p"
proof -
  have l: "resolve_loop f r None es = Some p"
    using assms by (simp add: policy_resolve_def split: option.splits)
  show "\<exists>e \<in> set es. en_live e \<and> en_item e = p \<and> applies_to p f r"
    using resolve_loop_from [OF l] by simp
  assume p: "p_layer p = PL_Resource" and e: "e \<in> set es" "en_live e" "applies_to (en_item e) f r"
  have "p_layer (en_item e) \<noteq> PL_Flow" using resolve_loop_flow [OF e(1,2) _ e(3) l] p by auto
  then have "p_layer (en_item e) = PL_Resource" by (cases "p_layer (en_item e)") auto
  then show "p_layer (en_item e) = PL_Resource \<and> policy_gen (en_item e) \<le> policy_gen p"
    using resolve_loop_max [OF l] p e by simp
qed

lemma policy_resolve_Inl:
  "policy_resolve f r es = Inl s \<Longrightarrow>
     st_code s = EC_NotFound \<and> (\<forall>e \<in> set es. en_live e \<longrightarrow> \<not> applies_to (en_item e) f r)"
  by (auto simp: policy_resolve_def resolve_loop_None split: option.splits)

text \<open>A history of operations on one store, as the coordinator runs them under its lock.\<close>

datatype policy_op = Publish policy | Remove policy_id

fun policy_op_run :: "limits \<Rightarrow> policy_op \<Rightarrow> policy_store \<Rightarrow> policy_store" where
  "policy_op_run l (Publish p) es = snd (policy_publish l p es)"
| "policy_op_run l (Remove k) es = snd (policy_remove k es)"

fun op_sum :: "policy_op \<Rightarrow> policy + policy_id" where
  "op_sum (Publish p) = Inl p"
| "op_sum (Remove k) = Inr k"

lemma policy_publish_Inl: "policy_publish l p es = (Inl s, es') \<Longrightarrow> es' = es"
  by (auto simp: policy_publish_def Let_def split: if_splits option.splits prod.splits)

lemma policy_remove_fail: "policy_remove k es = (s, es') \<Longrightarrow> \<not> st_ok s \<Longrightarrow> es' = es"
  by (auto simp: policy_remove_def split: option.splits)

lemma policy_op_run_apply: "policy_op_run l op es = policies.apply_op l (op_sum op) es"
  using policy_publish_Inl [of l _ es] policy_remove_fail [of _ es]
  by (cases op) (auto simp: policy_put_def policy_drop_def split: prod.splits sum.splits)

lemma policy_ops_no_reuse:
  assumes "policy_wf es" "policy_lookup k es = Some p"
    "policy_lookup k (fold (policy_op_run l) ops es) = Some p'" "policy_gen p' = policy_gen p"
  shows "p' = p"
proof -
  have "fold (policy_op_run l) ops es = fold (policies.apply_op l) (map op_sum ops) es"
    by (simp add: fold_map comp_def policy_op_run_apply [abs_def])
  with assms policies.no_reuse show ?thesis by metis
qed

end
