(* ===== verification/PF_Binding.thy ===== *)
theory PF_Binding
  imports PF_Limits PF_Registry
begin

text \<open>
  \<^verbatim>\<open>include/pacing/binding.hpp\<close> and \<^verbatim>\<open>src/binding.cpp\<close>: flow bindings and their registry.
  A registry is the vector \<^verbatim>\<open>bindings_\<close>; the \<^verbatim>\<open>limits_\<close> reference is an argument. The
  registry implements the \<open>registry\<close> contract. It does not implement
  \<open>persistent_registry\<close>: see \<open>rebind_after_unbind\<close> below.
\<close>

record binding =
  b_flow :: flow_id
  b_gen :: generation
  b_resource :: resource_ref
  b_path :: path_ref
  b_service_class :: service_class_id
  b_tenant :: tenant_id
  b_declared_max_burst_bytes :: u64
  b_declared_max_burst_packets :: u64
  b_quiesced :: bool
  b_provenance :: provenance_id

definition binding_usable :: "binding \<Rightarrow> bool" where
  "binding_usable b =
     (id_valid (b_flow b) \<and> gen_known (b_gen b) \<and> ref_known (b_resource b) \<and> ref_known (b_path b) \<and>
      \<not> b_quiesced b)"

definition binding_digest :: "binding \<Rightarrow> u64" where
  "binding_digest b =
     mix_u64 (id_value (b_provenance b))
       (mix_bool (b_quiesced b)
         (mix_all
           [id_value (b_flow b), gen_value (b_gen b),
            id_value (gr_id (b_resource b)), gen_value (gr_gen (b_resource b)),
            id_value (gr_id (b_path b)), gen_value (gr_gen (b_path b)),
            id_value (b_service_class b), id_value (b_tenant b),
            b_declared_max_burst_bytes b, b_declared_max_burst_packets b] digest_init))"

type_synonym binding_registry = "binding entry list"

definition binding_bind :: "limits \<Rightarrow> binding \<Rightarrow> binding_registry \<Rightarrow> status \<times> binding_registry" where
  "binding_bind l binding0 es =
     (if \<not> id_valid (b_flow binding0) then
        (Status EC_InvalidArgument ''binding flow id is zero'', es)
      else if \<not> ref_known (b_resource binding0) then
        (Status EC_InvalidArgument ''binding resource reference is not generation-bound'', es)
      else if \<not> ref_known (b_path binding0) then
        (Status EC_InvalidArgument ''binding path reference is not generation-bound'', es)
      else if b_declared_max_burst_bytes binding0 > l_max_burst_bytes l then
        (Status EC_BurstExceedsBound ''binding burst bytes above limit'', es)
      else if b_declared_max_burst_packets binding0 > l_max_burst_packets l then
        (Status EC_BurstExceedsBound ''binding burst packets above limit'', es)
      else
        (let b = (if \<not> gen_known (b_gen binding0) then binding0\<lparr>b_gen := gen_first\<rparr> else binding0) in
         case find_index (live_at b_flow (b_flow b)) es of
           Some i \<Rightarrow>
             (let old = en_item (es ! i) in
              if b_gen b \<le> b_gen old then
                (let (g, exhausted) = gen_next (b_gen old) in
                 if exhausted then
                   (Status EC_ResourceExhausted ''binding generation exhausted'', es)
                 else (success, es[i := (es ! i)\<lparr>en_item := b\<lparr>b_gen := g\<rparr>\<rparr>]))
              else (success, es[i := (es ! i)\<lparr>en_item := b\<rparr>]))
         | None \<Rightarrow>
             if length es \<ge> unat (l_max_flows l) then
               (Status EC_ResourceExhausted ''binding registry is full'', es)
             else (success, es @ [live_entry b])))"

definition binding_restore :: "limits \<Rightarrow> binding \<Rightarrow> binding_registry \<Rightarrow> status \<times> binding_registry" where
  "binding_restore l b es =
     (if \<not> id_valid (b_flow b) \<or> \<not> gen_known (b_gen b) then
        (Status EC_MalformedInput ''restored binding identity is invalid'', es)
      else case find_index (\<lambda>e. b_flow (en_item e) = b_flow b) es of
        Some i \<Rightarrow> (success, es[i := live_entry b])
      | None \<Rightarrow>
          if length es \<ge> unat (l_max_flows l) then
            (Status EC_ResourceExhausted ''binding registry is full'', es)
          else (success, es @ [live_entry b]))"

definition binding_get :: "flow_id \<Rightarrow> binding_registry \<Rightarrow> binding status_or" where
  "binding_get flow es =
     (case find_index (live_at b_flow flow) es of
        Some i \<Rightarrow> Inr (en_item (es ! i))
      | None \<Rightarrow> Inl (Status EC_NotFound ''flow binding not found''))"

definition binding_unbind :: "flow_id \<Rightarrow> binding_registry \<Rightarrow> status \<times> binding_registry" where
  "binding_unbind flow es =
     (case find_index (live_at b_flow flow) es of
        Some i \<Rightarrow> (success, es[i := (es ! i)\<lparr>en_live := False\<rparr>])
      | None \<Rightarrow> (Status EC_NotFound ''flow binding not found'', es))"

definition binding_quiesce :: "flow_id \<Rightarrow> bool \<Rightarrow> binding_registry \<Rightarrow> status \<times> binding_registry" where
  "binding_quiesce flow quiesced es =
     (case find_index (live_at b_flow flow) es of
        Some i \<Rightarrow>
          (let b1 = (en_item (es ! i))\<lparr>b_quiesced := quiesced\<rparr>;
               (g, exhausted) = gen_next (b_gen b1);
               es' = es[i := (es ! i)\<lparr>en_item := b1\<lparr>b_gen := g\<rparr>\<rparr>]
           in if exhausted then (Status EC_ResourceExhausted ''binding generation exhausted'', es')
              else (success, es'))
      | None \<Rightarrow> (Status EC_NotFound ''flow binding not found'', es))"

definition live_bindings :: "binding_registry \<Rightarrow> binding list" where
  "live_bindings es = live_items es"

section \<open>The registry implements the contract\<close>

lemma binding_bind_okE:
  assumes "binding_bind l b es = (s, es')" "st_ok s"
  obtains
    (replace) i g where
      "find_index (live_at b_flow (b_flow b)) es = Some i"
      "b_gen (en_item (es ! i)) < g" "gen_known g" "es' = es[i := live_entry (b\<lparr>b_gen := g\<rparr>)]"
  | (push) g where
      "find_index (live_at b_flow (b_flow b)) es = None"
      "length es < unat (l_max_flows l)" "gen_known g" "es' = es @ [live_entry (b\<lparr>b_gen := g\<rparr>)]"
proof -
  define c where "c = (if \<not> gen_known (b_gen b) then b\<lparr>b_gen := gen_first\<rparr> else b)"
  have flow: "b_flow c = b_flow b" and known: "gen_known (b_gen c)" and c: "c = b\<lparr>b_gen := b_gen c\<rparr>"
    by (auto simp: c_def gen_first_def)
  have upd: "c\<lparr>b_gen := g\<rparr> = b\<lparr>b_gen := g\<rparr>" for g by (simp add: c_def)
  have pre: "id_valid (b_flow b)" "ref_known (b_resource b)" "ref_known (b_path b)"
    "\<not> b_declared_max_burst_bytes b > l_max_burst_bytes l"
    "\<not> b_declared_max_burst_packets b > l_max_burst_packets l"
    using assms by (auto simp: binding_bind_def split: if_splits)
  show thesis
  proof (cases "find_index (live_at b_flow (b_flow b)) es")
    case None
    have "es' = es @ [live_entry c]" "length es < unat (l_max_flows l)"
      using assms pre None
      by (auto simp: binding_bind_def c_def [symmetric] flow not_le split: if_splits)
    then show thesis using push [OF None _ known] c by metis
  next
    case (Some i)
    have live: "(es ! i)\<lparr>en_item := x\<rparr> = live_entry x" for x
      using find_index_sat [OF Some] by (cases "es ! i") (simp add: live_at_def)
    have "(\<exists>g. gen_next (b_gen (en_item (es ! i))) = (g, False) \<and> es' = es[i := live_entry (b\<lparr>b_gen := g\<rparr>)])
          \<or> (b_gen (en_item (es ! i)) < b_gen c \<and> es' = es[i := live_entry c])"
      using assms pre Some
      by (auto simp: binding_bind_def c_def [symmetric] flow Let_def not_le live upd split: if_splits prod.splits)
    then show thesis
    proof
      assume "\<exists>g. gen_next (b_gen (en_item (es ! i))) = (g, False) \<and> es' = es[i := live_entry (b\<lparr>b_gen := g\<rparr>)]"
      then obtain g where g: "gen_next (b_gen (en_item (es ! i))) = (g, False)"
        and e: "es' = es[i := live_entry (b\<lparr>b_gen := g\<rparr>)]" by blast
      show thesis using replace [OF Some gen_next_greater [OF g] gen_next_known [OF g] e] .
    next
      assume "b_gen (en_item (es ! i)) < b_gen c \<and> es' = es[i := live_entry c]"
      then show thesis using replace [OF Some _ known] c by metis
    qed
  qed
qed

definition binding_wf :: "binding_registry \<Rightarrow> bool" where
  "binding_wf es = (live_unique b_flow es \<and> (\<forall>e \<in> set es. gen_known (b_gen (en_item e))))"

definition binding_lookup :: "flow_id \<Rightarrow> binding_registry \<Rightarrow> binding option" where
  "binding_lookup k es = (case binding_get k es of Inl _ \<Rightarrow> None | Inr b \<Rightarrow> Some b)"

definition binding_put :: "limits \<Rightarrow> binding \<Rightarrow> binding_registry \<Rightarrow> binding_registry option" where
  "binding_put l b es = (let (s, es') = binding_bind l b es in if st_ok s then Some es' else None)"

definition binding_drop :: "flow_id \<Rightarrow> binding_registry \<Rightarrow> binding_registry option" where
  "binding_drop k es = (let (s, es') = binding_unbind k es in if st_ok s then Some es' else None)"

lemma binding_lookup_live: "binding_lookup k es = lookup_live b_flow k es"
  by (simp add: binding_lookup_def binding_get_def lookup_live_def split: option.splits)

lemma binding_found_unique:
  assumes "binding_wf es" "find_index (live_at b_flow k) es = Some i"
    and "j < length es" "en_live (es ! j)" "b_flow (en_item (es ! j)) = k"
  shows "j = i"
  using assms find_index_less [OF assms(2)] find_index_sat [OF assms(2)]
  unfolding binding_wf_def live_unique_def live_at_def by blast

lemma binding_bind_step:
  assumes "binding_wf es" "binding_bind l b es = (s, es')" "st_ok s"
  shows "binding_wf es' \<and>
         (\<exists>g. gen_known g \<and>
            (\<forall>old. binding_lookup (b_flow b) es = Some old \<longrightarrow> b_gen old < g) \<and>
            (\<forall>k. binding_lookup k es' =
                   (if k = b_flow b then Some (b\<lparr>b_gen := g\<rparr>) else binding_lookup k es)))"
  using assms(2,3)
proof (cases rule: binding_bind_okE)
  case (replace i g)
  let ?v = "b\<lparr>b_gen := g\<rparr>"
  have i: "i < length es" "en_live (es ! i)" "b_flow (en_item (es ! i)) = b_flow b"
    using find_index_less [OF replace(1)] find_index_sat [OF replace(1)] by (simp_all add: live_at_def)
  have u: "live_unique b_flow es" using assms(1) by (simp add: binding_wf_def)
  have only: "\<And>j. j < length es \<Longrightarrow> en_live (es ! j) \<Longrightarrow> b_flow (en_item (es ! j)) = b_flow ?v \<Longrightarrow> j = i"
    using binding_found_unique [OF assms(1) replace(1)] by simp
  have key: "b_flow ?v = b_flow (en_item (es ! i))" using i by simp
  have "\<forall>e \<in> set es'. gen_known (b_gen (en_item e))"
    unfolding replace(4) using assms(1) replace(3) by (intro list_all_update) (auto simp: binding_wf_def)
  then have wf: "binding_wf es'"
    unfolding binding_wf_def using live_unique_replace [OF u i(1) key only, of True] by (simp add: replace(4))
  have old: "binding_lookup (b_flow b) es = Some (en_item (es ! i))"
    using replace(1) by (simp add: binding_lookup_live lookup_live_def)
  have "binding_lookup k es' = (if k = b_flow b then Some ?v else binding_lookup k es)" for k
    using lookup_live_replace [OF u i(1) key only, of k] unfolding binding_lookup_live replace(4) by simp
  with wf old replace(2,3) show ?thesis by auto
next
  case (push g)
  let ?v = "b\<lparr>b_gen := g\<rparr>"
  have u: "live_unique b_flow es" using assms(1) by (simp add: binding_wf_def)
  have none: "lookup_live b_flow (b_flow ?v) es = None" using push(1) by (simp add: lookup_live_def)
  have wf: "binding_wf es'"
    using live_unique_push [OF u none] assms(1) push(3) unfolding push(4) binding_wf_def by auto
  have "binding_lookup k es' = (if k = b_flow b then Some ?v else binding_lookup k es)" for k
    using lookup_live_push [OF u none, of k] unfolding binding_lookup_live push(4) by simp
  with wf none push(3) show ?thesis by (auto simp: binding_lookup_live)
qed

lemma binding_unbind_step:
  assumes "binding_wf es" "binding_unbind k es = (s, es')" "st_ok s"
  shows "binding_wf es' \<and> (\<forall>j. binding_lookup j es' = (if j = k then None else binding_lookup j es))"
proof (cases "find_index (live_at b_flow k) es")
  case None
  with assms show ?thesis by (auto simp: binding_unbind_def)
next
  case (Some i)
  have i: "i < length es" "en_live (es ! i)" "b_flow (en_item (es ! i)) = k"
    using find_index_less [OF Some] find_index_sat [OF Some] by (simp_all add: live_at_def)
  have e: "es' = es[i := (es ! i)\<lparr>en_live := False\<rparr>]" using assms(2) Some by (simp add: binding_unbind_def)
  have u: "live_unique b_flow es" using assms(1) by (simp add: binding_wf_def)
  have "binding_wf es'"
    using live_unique_kill [OF u, of i] assms(1)
    unfolding e binding_wf_def by (simp add: all_set_conv_all_nth)
  then show ?thesis unfolding e by (simp add: binding_lookup_live lookup_live_kill [OF u i])
qed

lemma binding_put_SomeD:
  "binding_put l b es = Some es' \<Longrightarrow> \<exists>s. binding_bind l b es = (s, es') \<and> st_ok s"
  by (auto simp: binding_put_def split: prod.splits if_splits)

lemma binding_drop_SomeD:
  "binding_drop k es = Some es' \<Longrightarrow> \<exists>s. binding_unbind k es = (s, es') \<and> st_ok s"
  by (auto simp: binding_drop_def split: prod.splits if_splits)

lemma binding_put_step:
  assumes "binding_wf es" "binding_put l b es = Some es'"
  obtains g where "binding_wf es'" "gen_known g"
    "\<And>old. binding_lookup (b_flow b) es = Some old \<Longrightarrow> b_gen old < g"
    "\<And>k. binding_lookup k es' = (if k = b_flow b then Some (b\<lparr>b_gen := g\<rparr>) else binding_lookup k es)"
  using binding_put_SomeD [OF assms(2)] binding_bind_step [OF assms(1)] by blast

lemma binding_drop_step:
  assumes "binding_wf es" "binding_drop k es = Some es'"
  shows "binding_wf es'" "binding_lookup j es' = (if j = k then None else binding_lookup j es)"
  using binding_drop_SomeD [OF assms(2)] binding_unbind_step [OF assms(1)] by blast+

interpretation bindings: registry binding_wf binding_lookup "binding_put l" binding_drop b_flow b_gen for l
proof (unfold_locales, goal_cases)
  case (1 s v s')
  then show ?case by (rule binding_put_step)
next
  case (2 s k s')
  then show ?case by (rule binding_drop_step)
next
  case (3 s v s')
  show ?case by (rule binding_put_step [OF 3(1,2)]) (use 3 in simp)
next
  case (4 s k v)
  then obtain i where "i < length s" "en_item (s ! i) = v" "b_flow v = k"
    unfolding binding_lookup_live binding_wf_def using lookup_live_Some by metis
  with 4(1) show ?case unfolding binding_wf_def by auto
next
  case (5 s v s' k)
  show ?case by (rule binding_put_step [OF 5(1,2)]) (use 5 in simp)
next
  case (6 s v s' old new)
  from 6(1,2) show ?case
  proof (rule binding_put_step)
    fix g assume g: "\<And>old. binding_lookup (b_flow v) s = Some old \<Longrightarrow> b_gen old < g"
      and l: "\<And>k. binding_lookup k s' = (if k = b_flow v then Some (v\<lparr>b_gen := g\<rparr>) else binding_lookup k s)"
    show ?thesis using g [OF 6(3)] l [of "b_flow v"] 6(4) by auto
  qed
next
  case (7 s k s')
  show ?case using binding_drop_step(2) [OF 7(1,2)] by simp
next
  case (8 s k s' j)
  show ?case using binding_drop_step(2) [OF 8(1,2)] 8(3) by simp
qed

text \<open>
  Quiescing is a publication too: it advances the generation and keeps every other field, so an
  envelope derived before it is stale; a quiesced binding is unusable.
\<close>

lemma binding_quiesce_ok:
  assumes "binding_wf es" "binding_quiesce f q es = (s, es')" "st_ok s"
  shows "\<exists>b g. binding_lookup f es = Some b \<and> b_gen b < g \<and>
           binding_lookup f es' = Some (b\<lparr>b_quiesced := q, b_gen := g\<rparr>)"
proof (cases "find_index (live_at b_flow f) es")
  case None
  with assms show ?thesis by (auto simp: binding_quiesce_def)
next
  case (Some i)
  have i: "i < length es" "en_live (es ! i)" "b_flow (en_item (es ! i)) = f"
    using find_index_less [OF Some] find_index_sat [OF Some] by (simp_all add: live_at_def)
  define b where "b = en_item (es ! i)"
  obtain g where g: "gen_next (b_gen b) = (g, False)"
    and e: "es' = es[i := (es ! i)\<lparr>en_item := b\<lparr>b_quiesced := q, b_gen := g\<rparr>\<rparr>]"
    using assms Some by (auto simp: binding_quiesce_def b_def Let_def split: prod.splits if_splits)
  let ?v = "b\<lparr>b_quiesced := q, b_gen := g\<rparr>"
  have e': "es' = es[i := live_entry ?v]"
    using i(2) unfolding e by (cases "es ! i") simp
  have u: "live_unique b_flow es" using assms(1) by (simp add: binding_wf_def)
  have key: "b_flow ?v = b_flow (en_item (es ! i))" by (simp add: b_def)
  have only: "\<And>j. j < length es \<Longrightarrow> en_live (es ! j) \<Longrightarrow> b_flow (en_item (es ! j)) = b_flow ?v \<Longrightarrow> j = i"
    using i(3) by (intro binding_found_unique [OF assms(1) Some]) (simp_all add: b_def)
  have "binding_lookup f es' = Some ?v"
    using lookup_live_replace [OF u i(1) key only, of f] i(3) unfolding binding_lookup_live e'
    by (simp add: b_def)
  moreover have "binding_lookup f es = Some b"
    using Some by (simp add: binding_lookup_live lookup_live_def b_def)
  ultimately show ?thesis using gen_next_greater [OF g] by blast
qed

text \<open>
  A removal forgets the generation: binding the flow again starts from the first one, so two
  different bindings of one flow can carry the same generation.
\<close>

lemma rebind_after_unbind:
  assumes "binding_bind l b [] = (s1, es1)" "st_ok s1" "\<not> gen_known (b_gen b)"
    and "binding_unbind (b_flow b) es1 = (s2, es2)"
    and "\<not> gen_known (b_gen b')" "b_flow b' = b_flow b"
    and "binding_bind l b' es2 = (s3, es3)" "st_ok s3"
  shows "binding_lookup (b_flow b) es1 = Some (b\<lparr>b_gen := gen_first\<rparr>) \<and>
         binding_lookup (b_flow b) es3 = Some (b'\<lparr>b_gen := gen_first\<rparr>)"
proof -
  have e1: "es1 = [live_entry (b\<lparr>b_gen := gen_first\<rparr>)]"
    using assms(1-3) by (auto simp: binding_bind_def split: if_splits)
  have e2: "es2 = [\<lparr>en_item = b\<lparr>b_gen := gen_first\<rparr>, en_live = False\<rparr>]"
    using assms(4) by (simp add: e1 binding_unbind_def live_at_def)
  have e3: "es3 = es2 @ [live_entry (b'\<lparr>b_gen := gen_first\<rparr>)]"
    using assms(5-8) by (auto simp: e2 binding_bind_def live_at_def split: if_splits)
  show ?thesis
    using assms(6) by (simp add: e1 e2 e3 binding_lookup_live lookup_live_def live_at_def)
qed

end
