(* ===== verification/PF_Upstream.thy ===== *)
theory PF_Upstream
  imports PF_Time "HOL-Library.AList"
begin

text \<open>
  \<^verbatim>\<open>include/pacing/upstream.hpp\<close>, \<^verbatim>\<open>src/upstream.cpp\<close> and the \<^verbatim>\<open>StaticRateAuthority\<close> of
  \<^verbatim>\<open>backends.hpp\<close>/\<^verbatim>\<open>backends.cpp\<close>: the rate grant and the locally configured authority. The
  locale \<open>rate_authority\<close> is the interface \<^verbatim>\<open>IRateAuthority\<close> as the coordinator uses it: a
  fetch that answers for the resource asked, and that only reads.
\<close>

record rate_grant =
  g_ref :: grant_ref
  g_resource :: resource_id
  g_ceiling_bps :: u64
  g_floor_bps :: u64
  g_revision :: u64
  g_observed_at :: instant
  g_valid_until :: deadline
  g_provenance :: provenance_id
  g_authoritative :: bool

definition grant_usable :: "rate_grant \<Rightarrow> bool" where
  "grant_usable g =
     (g_authoritative g \<and> ref_known (g_ref g) \<and> id_valid (g_resource g) \<and> g_ceiling_bps g \<noteq> 0)"

definition grant_expired_at :: "rate_grant \<Rightarrow> instant \<Rightarrow> bool" where
  "grant_expired_at g now = deadline_expired_at (g_valid_until g) now"

definition grant_digest :: "rate_grant \<Rightarrow> u64" where
  "grant_digest g =
     (let s1 = mix_all
            [id_value (gr_id (g_ref g)), gen_value (gr_gen (g_ref g)), id_value (g_resource g),
             g_ceiling_bps g, g_floor_bps g, g_revision g, inst_ns (g_observed_at g)] digest_init;
          s2 = mix_bool (dl_set (g_valid_until g)) s1;
          s3 = mix_u64 (if dl_set (g_valid_until g) then inst_ns (dl_instant (g_valid_until g)) else 0) s2
      in mix_bool (g_authoritative g) (mix_u64 (id_value (g_provenance g)) s3))"

section \<open>The configured authority\<close>

text \<open>The hash map \<^verbatim>\<open>entries_\<close> is an association list with distinct keys; \<^verbatim>\<open>operator[]\<close>
  inserts a default entry for a missing key.\<close>

record authority_entry =
  ae_grant :: rate_grant
  ae_present :: bool
  ae_unavailable :: bool

type_synonym static_authority = "(u64 \<times> authority_entry) list"

definition default_grant :: rate_grant where
  "default_grant =
     \<lparr>g_ref = no_ref, g_resource = Id 0, g_ceiling_bps = 0, g_floor_bps = 0, g_revision = 0,
      g_observed_at = Instant 0, g_valid_until = deadline_none, g_provenance = Id 0,
      g_authoritative = False\<rparr>"

definition default_entry :: authority_entry where
  "default_entry = \<lparr>ae_grant = default_grant, ae_present = False, ae_unavailable = False\<rparr>"

definition authority_install :: "rate_grant \<Rightarrow> static_authority \<Rightarrow> static_authority" where
  "authority_install g m =
     AList.update (id_value (g_resource g))
       \<lparr>ae_grant = g, ae_present = True, ae_unavailable = False\<rparr> m"

definition authority_remove :: "resource_id \<Rightarrow> static_authority \<Rightarrow> static_authority" where
  "authority_remove r m = AList.delete (id_value r) m"

definition authority_set_unavailable ::
    "resource_id \<Rightarrow> bool \<Rightarrow> static_authority \<Rightarrow> static_authority" where
  "authority_set_unavailable r u m =
     (let e = (case map_of m (id_value r) of None \<Rightarrow> default_entry | Some e \<Rightarrow> e)
      in AList.update (id_value r) (e\<lparr>ae_unavailable := u\<rparr>) m)"

definition authority_fetch :: "resource_id \<Rightarrow> static_authority \<Rightarrow> rate_grant status_or" where
  "authority_fetch r m =
     (case map_of m (id_value r) of
        None \<Rightarrow> Inl (Status EC_UnknownAuthority ''no rate grant configured for this resource'')
      | Some e \<Rightarrow>
          if \<not> ae_present e then
            Inl (Status EC_UnknownAuthority ''no rate grant configured for this resource'')
          else if ae_unavailable e then
            Inl (Status EC_BackendUnavailable ''configured rate authority is marked unavailable'')
          else Inr (ae_grant e))"

section \<open>The interface\<close>

locale rate_authority =
  fixes inv :: "'w \<Rightarrow> bool"
    and fetch :: "resource_id \<Rightarrow> 'w \<Rightarrow> rate_grant status_or"
    and withdraw :: "resource_id \<Rightarrow> 'w \<Rightarrow> 'w"
  assumes fetch_resource: "inv w \<Longrightarrow> fetch r w = Inr g \<Longrightarrow> g_resource g = r"
    and withdraw_inv: "inv w \<Longrightarrow> inv (withdraw r w)"
    and withdraw_refused: "inv w \<Longrightarrow> so_code (fetch r (withdraw r w)) = EC_UnknownAuthority"
    and withdraw_other: "inv w \<Longrightarrow> q \<noteq> r \<Longrightarrow> fetch q (withdraw r w) = fetch q w"
begin

text \<open>A withdrawn resource stays without authority while others are withdrawn.\<close>

lemma withdraw_stays:
  "inv w \<Longrightarrow> so_code (fetch r w) = EC_UnknownAuthority \<Longrightarrow>
     so_code (fetch r (fold withdraw rs w)) = EC_UnknownAuthority"
proof (induction rs arbitrary: w)
  case Nil
  then show ?case by simp
next
  case (Cons q qs)
  have "so_code (fetch r (withdraw q w)) = EC_UnknownAuthority"
    using Cons.prems withdraw_refused withdraw_other by (cases "r = q") auto
  with Cons.IH [OF withdraw_inv [OF Cons.prems(1)]] show ?case by simp
qed

end

definition authority_inv :: "static_authority \<Rightarrow> bool" where
  "authority_inv m =
     (\<forall>k e. map_of m k = Some e \<longrightarrow> ae_present e \<longrightarrow> g_resource (ae_grant e) = Id k)"

lemma authority_install_inv: "authority_inv m \<Longrightarrow> authority_inv (authority_install g m)"
  by (auto simp: authority_inv_def authority_install_def update_conv' split: if_splits)

lemma authority_set_unavailable_inv:
  "authority_inv m \<Longrightarrow> authority_inv (authority_set_unavailable r u m)"
  by (auto simp: authority_inv_def authority_set_unavailable_def default_entry_def update_conv'
           split: if_splits option.splits)

interpretation static_authority: rate_authority authority_inv authority_fetch authority_remove
proof
  fix w r g q
  assume inv: "authority_inv w"
  show "authority_fetch r w = Inr g \<Longrightarrow> g_resource g = r"
    using inv by (auto simp: authority_inv_def authority_fetch_def split: option.splits if_splits)
  show "authority_inv (authority_remove r w)"
    using inv by (simp add: authority_inv_def authority_remove_def delete_conv')
  show "so_code (authority_fetch r (authority_remove r w)) = EC_UnknownAuthority"
    by (simp add: authority_fetch_def authority_remove_def delete_conv')
  show "q \<noteq> r \<Longrightarrow> authority_fetch q (authority_remove r w) = authority_fetch q w"
    by (simp add: authority_fetch_def authority_remove_def delete_conv')
qed

lemma authority_fetch_install:
  "authority_fetch r (authority_install g m) = (if g_resource g = r then Inr g else authority_fetch r m)"
  by (simp add: authority_fetch_def authority_install_def update_conv')

end
