(* ===== verification/PF_Codec.thy ===== *)
theory PF_Codec
  imports PF_Status "HOL-Library.State_Monad"
begin

text \<open>
  \<^verbatim>\<open>include/pacing/codec.hpp\<close>: the bounded little-endian writer and the bounds-checked reader.
  A writer is its capacity, its bytes and, once poisoned, its status; each method is a function
  on writers. A reader is the bytes not yet consumed and, once failed, its status; each accessor
  is a state transformer in the library's state monad, so a decoder reads like its source.

  \<open>emits f d\<close> says that an encoder appends exactly \<open>d\<close> or poisons the writer; \<open>reads p d x\<close>
  that a decoder turns \<open>d\<close>, followed by anything, into \<open>x\<close>. Both compose, and the locale
  \<open>codec\<close> states what an encoding and its decoder promise together.
\<close>

section \<open>Little-endian integers\<close>

definition le_bytes :: "nat \<Rightarrow> 'a::len word \<Rightarrow> u8 list" where
  "le_bytes n v = map (\<lambda>i. ucast (drop_bit (8 * i) v AND 0xFF)) [0..<n]"

definition le_value :: "u8 list \<Rightarrow> 'a::len word" where
  "le_value bs = fold (\<lambda>i v. v OR push_bit (8 * i) (ucast (bs ! i))) [0..<length bs] 0"

lemma length_le_bytes [simp]: "length (le_bytes n v) = n"
  by (simp add: le_bytes_def)

lemma bit_le_fold:
  "bit (fold (\<lambda>i v. v OR push_bit (8 * i) (ucast (bs ! i :: u8))) [0..<n] (0 :: 'a::len word)) k \<longleftrightarrow>
     k < LENGTH('a) \<and> k div 8 < n \<and> bit (bs ! (k div 8)) (k mod 8)"
proof (induction n)
  case 0
  then show ?case by simp
next
  case (Suc n)
  have new: "bit (push_bit (8 * n) (ucast (bs ! n) :: 'a word)) k \<longleftrightarrow>
          k < LENGTH('a) \<and> k div 8 = n \<and> bit (bs ! n) (k mod 8)"
  proof (cases "k div 8 = n")
    case True
    then have "k = 8 * n + k mod 8" by presburger
    then have "8 * n \<le> k" "k - 8 * n = k mod 8" by linarith+
    then show ?thesis using True by (auto simp: bit_simps)
  next
    case False
    then consider "k < 8 * n" | "8 * n \<le> k" "8 \<le> k - 8 * n" by linarith
    then have "\<not> bit (push_bit (8 * n) (ucast (bs ! n) :: 'a word)) k"
    proof cases
      case 1
      then show ?thesis by (simp add: bit_push_bit_iff)
    next
      case 2
      then have "\<not> bit (bs ! n) (k - 8 * n)" by (simp add: impossible_bit)
      with 2 show ?thesis by (simp add: bit_push_bit_iff bit_ucast_iff)
    qed
    with False show ?thesis by blast
  qed
  show ?case using Suc new by (auto simp: bit_or_iff less_Suc_eq)
qed

lemma le_value_bytes: "LENGTH('a) \<le> 8 * n \<Longrightarrow> le_value (le_bytes n v) = (v :: 'a::len word)"
proof (rule bit_word_eqI)
  fix k assume n: "LENGTH('a) \<le> 8 * n" and k: "k < LENGTH('a)"
  then have d: "k div 8 < n" by presburger
  have m: "k mod 8 < 8" by simp
  have ff: "bit (0xFF :: 'a word) j = (j < LENGTH('a) \<and> j < 8)" for j
  proof -
    have e: "(0xFF :: 'a word) = mask 8" by (simp add: mask_eq_exp_minus_1)
    show ?thesis unfolding e by (simp only: bit_mask_iff) auto
  qed
  have b: "le_bytes n v ! (k div 8) = ucast (drop_bit (8 * (k div 8)) v AND 0xFF)"
    using d by (simp add: le_bytes_def)
  have "k mod 8 < LENGTH('a)" using k mod_less_eq_dividend [of k 8] by linarith
  then have "bit (le_bytes n v ! (k div 8)) (k mod 8) = bit v (8 * (k div 8) + k mod 8)"
    unfolding b using m by (simp only: bit_ucast_iff bit_and_iff bit_drop_bit_eq ff) simp
  then show "bit (le_value (le_bytes n v) :: 'a word) k = bit v k"
    using d k by (simp add: le_value_def bit_le_fold)
qed

section \<open>The writer\<close>

record writer =
  w_capacity :: nat
  w_buf :: "u8 list"
  w_poison :: "status option"

definition w_ok :: "writer \<Rightarrow> bool" where
  "w_ok w = (w_poison w = None)"

definition w_status :: "writer \<Rightarrow> status" where
  "w_status w = (case w_poison w of None \<Rightarrow> success | Some s \<Rightarrow> s)"

definition writer_new :: "nat \<Rightarrow> writer" where
  "writer_new capacity = \<lparr>w_capacity = capacity, w_buf = [], w_poison = None\<rparr>"

definition kMaxStringBytes :: nat where
  "kMaxStringBytes = 1048576"

definition w_raw :: "u8 list \<Rightarrow> writer \<Rightarrow> writer" where
  "w_raw d w =
     (if \<not> w_ok w then w
      else if length d > w_capacity w \<or> length (w_buf w) > w_capacity w - length d then
        w\<lparr>w_poison := Some (Status EC_Oversized ''codec capacity exceeded'')\<rparr>
      else w\<lparr>w_buf := w_buf w @ d\<rparr>)"

definition w_u8 :: "u8 \<Rightarrow> writer \<Rightarrow> writer" where
  "w_u8 v = w_raw [v]"

definition w_u16 :: "u16 \<Rightarrow> writer \<Rightarrow> writer" where
  "w_u16 v = w_raw (le_bytes 2 v)"

definition w_u32 :: "u32 \<Rightarrow> writer \<Rightarrow> writer" where
  "w_u32 v = w_raw (le_bytes 4 v)"

definition w_u64 :: "u64 \<Rightarrow> writer \<Rightarrow> writer" where
  "w_u64 v = w_raw (le_bytes 8 v)"

definition w_bool :: "bool \<Rightarrow> writer \<Rightarrow> writer" where
  "w_bool v = w_u8 (if v then 1 else 0)"

definition byte_of_char :: "char \<Rightarrow> u8" where
  "byte_of_char c = of_char c"

definition char_of_byte :: "u8 \<Rightarrow> char" where
  "char_of_byte b = char_of (unat b)"

definition w_str :: "string \<Rightarrow> writer \<Rightarrow> writer" where
  "w_str s w =
     (if \<not> w_ok w then w
      else if length s > kMaxStringBytes then
        w\<lparr>w_poison := Some (Status EC_Oversized ''string exceeds codec bound'')\<rparr>
      else w_raw (map byte_of_char s) (w_u32 (of_nat (length s)) w))"

definition w_blob :: "u8 list \<Rightarrow> writer \<Rightarrow> writer" where
  "w_blob b w = (if \<not> w_ok w then w else w_raw b (w_u32 (of_nat (length b)) w))"

text \<open>The calls of an encoder, in order.\<close>

definition w_seq :: "(writer \<Rightarrow> writer) list \<Rightarrow> writer \<Rightarrow> writer" where
  "w_seq fs w = fold (\<lambda>f. f) fs w"

section \<open>The reader\<close>

record reader =
  rd_rest :: "u8 list"
  rd_failure :: "status option"

definition reader_new :: "u8 list \<Rightarrow> reader" where
  "reader_new data = \<lparr>rd_rest = data, rd_failure = None\<rparr>"

definition rd_ok :: "reader \<Rightarrow> bool" where
  "rd_ok r = (rd_failure r = None)"

definition rd_exhausted :: "reader \<Rightarrow> bool" where
  "rd_exhausted r = (rd_ok r \<and> rd_rest r = [])"

type_synonym 'a decode = "(reader, 'a) state"

definition rd_fail :: "status \<Rightarrow> unit decode" where
  "rd_fail s = State_Monad.update (\<lambda>r. if rd_ok r then r\<lparr>rd_failure := Some s\<rparr> else r)"

text \<open>\<open>rd_take n dflt f\<close> is the shape of every accessor: \<^verbatim>\<open>if (!need(n)) return dflt;\<close>, then the
  next \<open>n\<close> bytes are consumed and interpreted by \<open>f\<close>.\<close>

definition rd_take :: "nat \<Rightarrow> 'a \<Rightarrow> (u8 list \<Rightarrow> 'a) \<Rightarrow> 'a decode" where
  "rd_take n dflt f = State (\<lambda>r.
     if \<not> rd_ok r then (dflt, r)
     else if n > length (rd_rest r) then
       (dflt, r\<lparr>rd_failure := Some (Status EC_MalformedInput ''truncated encoded input'')\<rparr>)
     else (f (take n (rd_rest r)), r\<lparr>rd_rest := drop n (rd_rest r)\<rparr>))"

definition rd_u8 :: "u8 decode" where
  "rd_u8 = rd_take 1 0 hd"

definition rd_u16 :: "u16 decode" where
  "rd_u16 = rd_take 2 0 le_value"

definition rd_u32 :: "u32 decode" where
  "rd_u32 = rd_take 4 0 le_value"

definition rd_u64 :: "u64 decode" where
  "rd_u64 = rd_take 8 0 le_value"

definition rd_bool :: "bool decode" where
  "rd_bool = do { v \<leftarrow> rd_u8; State_Monad.return (v \<noteq> 0) }"

definition rd_is_ok :: "bool decode" where
  "rd_is_ok = State (\<lambda>r. (rd_ok r, r))"

definition rd_str :: "nat \<Rightarrow> string decode" where
  "rd_str max_len = do {
     n \<leftarrow> rd_u32;
     ok \<leftarrow> rd_is_ok;
     if \<not> ok then State_Monad.return []
     else if unat n > max_len then do {
       rd_fail (Status EC_Oversized ''decoded string exceeds bound'');
       State_Monad.return [] }
     else rd_take (unat n) [] (map char_of_byte) }"

definition rd_blob :: "nat \<Rightarrow> u8 list decode" where
  "rd_blob max_len = do {
     n \<leftarrow> rd_u32;
     ok \<leftarrow> rd_is_ok;
     if \<not> ok then State_Monad.return []
     else if unat n > max_len then do {
       rd_fail (Status EC_Oversized ''decoded blob exceeds bound'');
       State_Monad.return [] }
     else rd_take (unat n) [] (\<lambda>b. b) }"

definition rd_tail :: "nat \<Rightarrow> u8 list decode" where
  "rd_tail n = rd_take n [] (\<lambda>b. b)"

text \<open>\<^verbatim>\<open>if (!r.ok()) return r.status();\<close> followed by the rest of a decoder.\<close>

definition rd_check :: "'a status_or decode \<Rightarrow> 'a status_or decode" where
  "rd_check rest = State (\<lambda>r.
     case rd_failure r of Some s \<Rightarrow> (Inl s, r) | None \<Rightarrow> run_state rest r)"

text \<open>\<^verbatim>\<open>Status s = decode(...); if (!s) return s;\<close> followed by the rest of a decoder.\<close>

definition rd_try :: "'a status_or decode \<Rightarrow> ('a \<Rightarrow> 'b status_or decode) \<Rightarrow> 'b status_or decode" where
  "rd_try p rest = do {
     x \<leftarrow> p;
     (case x of Inl s \<Rightarrow> State_Monad.return (Inl s) | Inr v \<Rightarrow> rest v) }"

section \<open>What an encoder emits\<close>

definition w_bounded :: "writer \<Rightarrow> bool" where
  "w_bounded w = (length (w_buf w) \<le> w_capacity w)"

definition emits :: "(writer \<Rightarrow> writer) \<Rightarrow> u8 list \<Rightarrow> bool" where
  "emits f d = (\<forall>w. w_bounded w \<longrightarrow>
     (w_ok (f w) \<longleftrightarrow> w_ok w \<and> length (w_buf w) + length d \<le> w_capacity w) \<and>
     (w_ok (f w) \<longrightarrow> f w = w\<lparr>w_buf := w_buf w @ d\<rparr>) \<and> w_bounded (f w))"

named_theorems emit_rules

lemma emits_raw [emit_rules]: "emits (w_raw d) d"
  by (auto simp: emits_def w_raw_def w_ok_def w_bounded_def)

lemma emits_u8 [emit_rules]: "emits (w_u8 v) [v]"
  unfolding w_u8_def by (rule emits_raw)

lemma emits_u16 [emit_rules]: "emits (w_u16 v) (le_bytes 2 v)"
  unfolding w_u16_def by (rule emits_raw)

lemma emits_u32 [emit_rules]: "emits (w_u32 v) (le_bytes 4 v)"
  unfolding w_u32_def by (rule emits_raw)

lemma emits_u64 [emit_rules]: "emits (w_u64 v) (le_bytes 8 v)"
  unfolding w_u64_def by (rule emits_raw)

lemma emits_bool [emit_rules]: "emits (w_bool v) [if v then 1 else 0]"
  unfolding w_bool_def by (rule emits_u8)

lemma emits_comp:
  assumes f: "emits f a" and g: "emits g b"
  shows "emits (\<lambda>w. g (f w)) (a @ b)"
  unfolding emits_def
proof (intro allI impI)
  fix w assume w: "w_bounded w"
  note F = f [unfolded emits_def, rule_format, OF w]
  note G = g [unfolded emits_def, rule_format, of "f w"]
  show "(w_ok (g (f w)) \<longleftrightarrow> w_ok w \<and> length (w_buf w) + length (a @ b) \<le> w_capacity w) \<and>
        (w_ok (g (f w)) \<longrightarrow> g (f w) = w\<lparr>w_buf := w_buf w @ a @ b\<rparr>) \<and> w_bounded (g (f w))"
  proof (cases "w_ok (f w)")
    case True
    then have e: "f w = w\<lparr>w_buf := w_buf w @ a\<rparr>" using F by blast
    show ?thesis using F G True unfolding e by (simp add: add.assoc)
  next
    case False
    then show ?thesis using F G by auto
  qed
qed

lemma emits_seq_Nil [emit_rules]: "emits (w_seq []) []"
  by (simp add: emits_def w_seq_def w_bounded_def)

lemma emits_seq_Cons [emit_rules]: "emits f a \<Longrightarrow> emits (w_seq fs) b \<Longrightarrow> emits (w_seq (f # fs)) (a @ b)"
  using emits_comp [of f a "w_seq fs" b] by (simp add: w_seq_def [abs_def] comp_def)

lemma emits_seq_append: "emits (w_seq fs) a \<Longrightarrow> emits (w_seq gs) b \<Longrightarrow> emits (w_seq (fs @ gs)) (a @ b)"
  using emits_comp [of "w_seq fs" a "w_seq gs" b] by (simp add: w_seq_def [abs_def] comp_def)

lemma emits_w_str [emit_rules]:
  assumes "length s \<le> kMaxStringBytes"
  shows "emits (w_str s) (le_bytes 4 (of_nat (length s) :: u32) @ map byte_of_char s)"
proof -
  have e: "emits (\<lambda>w. w_raw (map byte_of_char s) (w_u32 (of_nat (length s)) w))
          (le_bytes 4 (of_nat (length s) :: u32) @ map byte_of_char s)"
    by (rule emits_comp [OF emits_u32 emits_raw])
  have "w_str s w = (if \<not> w_ok w then w else w_raw (map byte_of_char s) (w_u32 (of_nat (length s)) w))" for w
    using assms by (simp add: w_str_def)
  then show ?thesis using e unfolding emits_def by auto
qed

lemma emits_blob [emit_rules]: "emits (w_blob b) (le_bytes 4 (of_nat (length b) :: u32) @ b)"
proof -
  have e: "emits (\<lambda>w. w_raw b (w_u32 (of_nat (length b)) w)) (le_bytes 4 (of_nat (length b) :: u32) @ b)"
    by (rule emits_comp [OF emits_u32 emits_raw])
  show ?thesis using e unfolding emits_def w_blob_def by auto
qed

text \<open>The bytes of a fresh writer that did not overflow.\<close>

lemma emits_new:
  assumes "emits f d"
  shows "w_ok (f (writer_new cap)) \<longleftrightarrow> length d \<le> cap"
    and "w_ok (f (writer_new cap)) \<Longrightarrow> w_buf (f (writer_new cap)) = d"
proof -
  have b: "w_bounded (writer_new cap)" by (simp add: w_bounded_def writer_new_def)
  note F = assms [unfolded emits_def, rule_format, OF b]
  show "w_ok (f (writer_new cap)) \<longleftrightarrow> length d \<le> cap"
    using F by (simp add: writer_new_def w_ok_def)
  show "w_ok (f (writer_new cap)) \<Longrightarrow> w_buf (f (writer_new cap)) = d"
    using F by (simp add: writer_new_def)
qed

section \<open>What a decoder reads\<close>

abbreviation rd_on :: "u8 list \<Rightarrow> reader" where
  "rd_on d \<equiv> \<lparr>rd_rest = d, rd_failure = None\<rparr>"

definition reads :: "'a decode \<Rightarrow> u8 list \<Rightarrow> 'a \<Rightarrow> bool" where
  "reads p d x = (\<forall>rest. run_state p (rd_on (d @ rest)) = (x, rd_on rest))"

named_theorems read_rules

lemma reads_return [read_rules]: "reads (State_Monad.return x) [] x"
  by (simp add: reads_def)

lemma reads_bind: "reads p a x \<Longrightarrow> reads (f x) b y \<Longrightarrow> reads (State_Monad.bind p f) (a @ b) y"
  by (simp add: reads_def)

lemma reads_take: "length d = n \<Longrightarrow> reads (rd_take n z f) d (f d)"
  by (simp add: reads_def rd_take_def rd_ok_def)

lemma reads_u8 [read_rules]: "reads rd_u8 [v] v"
  unfolding rd_u8_def using reads_take [of "[v]" 1 0 hd] by simp

lemma reads_u16 [read_rules]: "reads rd_u16 (le_bytes 2 v) v"
  unfolding rd_u16_def using reads_take [of "le_bytes 2 v" 2 0 "le_value :: u8 list \<Rightarrow> u16"] by (simp add: le_value_bytes)

lemma reads_u32 [read_rules]: "reads rd_u32 (le_bytes 4 v) v"
  unfolding rd_u32_def using reads_take [of "le_bytes 4 v" 4 0 "le_value :: u8 list \<Rightarrow> u32"] by (simp add: le_value_bytes)

lemma reads_u64 [read_rules]: "reads rd_u64 (le_bytes 8 v) v"
  unfolding rd_u64_def using reads_take [of "le_bytes 8 v" 8 0 "le_value :: u8 list \<Rightarrow> u64"] by (simp add: le_value_bytes)

lemma reads_bool [read_rules]: "reads rd_bool [if v then 1 else 0] v"
  unfolding rd_bool_def
  by (rule reads_bind [of _ "[if v then 1 else 0]" _ _ "[]", simplified], rule reads_u8)
     (simp add: reads_def)

lemma reads_check [read_rules]: "reads p d x \<Longrightarrow> reads (rd_check p) d x"
  by (simp add: reads_def rd_check_def)

lemma reads_try: "reads p a (Inr x) \<Longrightarrow> reads (f x) b y \<Longrightarrow> reads (rd_try p f) (a @ b) y"
  unfolding rd_try_def by (rule reads_bind, assumption, simp)

lemma char_of_byte_of_char [simp]: "char_of_byte (byte_of_char c) = c"
proof -
  have "byte_of_char c = of_nat (of_char c)" by (simp add: byte_of_char_def of_nat_of_char)
  then have "unat (byte_of_char c) = of_char c" by (simp add: unat_of_nat)
  then show ?thesis by (simp add: char_of_byte_def)
qed

lemma map_char_of_byte_of_char [simp]: "map char_of_byte (map byte_of_char s) = s"
  by (simp add: comp_def)

lemma reads_str [read_rules]:
  assumes "length s \<le> max_len" "length s < 4294967296"
  shows "reads (rd_str max_len) (le_bytes 4 (of_nat (length s) :: u32) @ map byte_of_char s) s"
proof -
  have u: "unat (of_nat (length s) :: u32) = length s" using assms(2) by (rule unat_of_nat_u32)
  have t: "reads (rd_take (length s) [] (map char_of_byte)) (map byte_of_char s) s"
    using reads_take [of "map byte_of_char s" "length s" "[]" "map char_of_byte"]
    by (simp add: map_char_of_byte_of_char del: map_map)
  show ?thesis
    unfolding rd_str_def
    by (rule reads_bind [OF reads_u32])
       (use t assms(1) in \<open>simp add: u reads_def rd_is_ok_def rd_ok_def not_less\<close>)
qed

lemma reads_blob [read_rules]:
  assumes "length b \<le> max_len" "length b < 4294967296"
  shows "reads (rd_blob max_len) (le_bytes 4 (of_nat (length b) :: u32) @ b) b"
proof -
  have u: "unat (of_nat (length b) :: u32) = length b" using assms(2) by (rule unat_of_nat_u32)
  have t: "reads (rd_take (length b) [] (\<lambda>b. b)) b b"
    using reads_take [of b "length b" "[]" "\<lambda>b. b"] by simp
  show ?thesis
    unfolding rd_blob_def
    by (rule reads_bind [OF reads_u32])
       (use t assms(1) in \<open>simp add: u reads_def rd_is_ok_def rd_ok_def not_less\<close>)
qed

section \<open>Truncated input\<close>

text \<open>
  \<open>steady p\<close>: a decoder only consumes a prefix, its answer does not depend on what follows that
  prefix, and once the reader has failed it stays failed. Every decoder built from the accessors
  is steady, and so no proper prefix of an encoding decodes.
\<close>

definition steady :: "'a decode \<Rightarrow> bool" where
  "steady p =
     ((\<forall>r. rd_failure r \<noteq> None \<longrightarrow> rd_failure (snd (run_state p r)) \<noteq> None) \<and>
      (\<forall>d x r t. run_state p (rd_on d) = (x, rd_on r) \<longrightarrow> run_state p (rd_on (d @ t)) = (x, rd_on (r @ t))))"

named_theorems steady_rules

lemma steady_return [steady_rules]: "steady (State_Monad.return x)"
  by (simp add: steady_def)

lemma steady_bind [steady_rules]:
  assumes p: "steady p" and f: "\<And>x. steady (f x)"
  shows "steady (State_Monad.bind p f)"
proof -
  have a: "rd_failure (snd (run_state (State_Monad.bind p f) r)) \<noteq> None" if "rd_failure r \<noteq> None" for r
  proof -
    obtain x r1 where x: "run_state p r = (x, r1)" by fastforce
    then have "rd_failure r1 \<noteq> None" using p that unfolding steady_def by (metis snd_conv)
    then show ?thesis using f [of x] x unfolding steady_def by simp
  qed
  have b: "run_state (State_Monad.bind p f) (rd_on (d @ t)) = (y, rd_on (r @ t))"
    if h: "run_state (State_Monad.bind p f) (rd_on d) = (y, rd_on r)" for d t y r
  proof -
    obtain x r1 where x: "run_state p (rd_on d) = (x, r1)" by fastforce
    then have y: "run_state (f x) r1 = (y, rd_on r)" using h by simp
    have "rd_failure r1 = None"
    proof (rule ccontr)
      assume "rd_failure r1 \<noteq> None"
      then have "rd_failure (snd (run_state (f x) r1)) \<noteq> None" using f [of x] unfolding steady_def by blast
      with y show False by simp
    qed
    then have r1: "r1 = rd_on (rd_rest r1)" by (cases r1) simp
    have "run_state p (rd_on (d @ t)) = (x, rd_on (rd_rest r1 @ t))"
      using p x r1 unfolding steady_def by metis
    moreover have "run_state (f x) (rd_on (rd_rest r1 @ t)) = (y, rd_on (r @ t))"
      using f [of x] y r1 unfolding steady_def by metis
    ultimately show ?thesis by simp
  qed
  show ?thesis unfolding steady_def using a b by blast
qed

lemma steady_take [steady_rules]: "steady (rd_take n z f)"
  by (auto simp: steady_def rd_take_def rd_ok_def split: if_splits)

lemma steady_fail [steady_rules]: "steady (rd_fail s)"
  by (auto simp: steady_def rd_fail_def rd_ok_def State_Monad.update_def split: if_splits)

lemma steady_is_ok [steady_rules]: "steady rd_is_ok"
  by (simp add: steady_def rd_is_ok_def rd_ok_def)

lemma steady_if [steady_rules]: "steady p \<Longrightarrow> steady q \<Longrightarrow> steady (if b then p else q)"
  by simp

lemma steady_case_sum [steady_rules]:
  "(\<And>a. steady (p a)) \<Longrightarrow> (\<And>b. steady (q b)) \<Longrightarrow> steady (case x of Inl a \<Rightarrow> p a | Inr b \<Rightarrow> q b)"
  by (cases x) simp_all

lemma steady_accessors [steady_rules]:
  "steady rd_u8" "steady rd_u16" "steady rd_u32" "steady rd_u64" "steady rd_bool"
  "steady (rd_str m)" "steady (rd_blob m)" "steady (rd_tail m)"
  unfolding rd_u8_def rd_u16_def rd_u32_def rd_u64_def rd_bool_def rd_str_def rd_blob_def rd_tail_def
  by (intro steady_rules)+

lemma steady_check [steady_rules]: "steady p \<Longrightarrow> steady (rd_check p)"
  unfolding steady_def rd_check_def by (auto split: option.splits)

lemma steady_try [steady_rules]: "steady p \<Longrightarrow> (\<And>x. steady (f x)) \<Longrightarrow> steady (rd_try p f)"
  unfolding rd_try_def by (intro steady_rules)

section \<open>Codecs\<close>

text \<open>An encoding and its decoder: what every pair of routines of
  \<^verbatim>\<open>src/serialize.cpp\<close> promises.\<close>

locale codec =
  fixes enc :: "'a \<Rightarrow> u8 list"
    and dec :: "'a status_or decode"
    and valid :: "'a \<Rightarrow> bool"
  assumes round_trip: "valid x \<Longrightarrow> reads dec (enc x) (Inr x)"
    and steady_dec: "steady dec"
begin

lemma decode_encode: "valid x \<Longrightarrow> run_state dec (reader_new (enc x @ rest)) = (Inr x, reader_new rest)"
  using round_trip [of x] by (simp add: reads_def reader_new_def)

lemma encode_prefix_free:
  assumes "valid x" "valid y" "enc x @ r = enc y @ s"
  shows "x = y \<and> r = s"
proof -
  have "run_state dec (reader_new (enc x @ r)) = (Inr x, reader_new r)"
    "run_state dec (reader_new (enc y @ s)) = (Inr y, reader_new s)"
    using assms(1,2) by (simp_all add: decode_encode)
  with assms(3) show ?thesis by (simp add: reader_new_def)
qed

lemma encode_inj: "valid x \<Longrightarrow> valid y \<Longrightarrow> enc x = enc y \<Longrightarrow> x = y"
  using encode_prefix_free [of x y "[]" "[]"] by simp

text \<open>A proper prefix of an encoding leaves the reader failed or unexhausted.\<close>

lemma truncated:
  assumes "valid x" "n < length (enc x)"
  shows "\<not> (\<exists>y. run_state dec (reader_new (take n (enc x))) = (Inr y, reader_new []))"
proof
  assume "\<exists>y. run_state dec (reader_new (take n (enc x))) = (Inr y, reader_new [])"
  then obtain y where "run_state dec (rd_on (take n (enc x))) = (Inr y, rd_on [])"
    by (auto simp: reader_new_def)
  then have "run_state dec (rd_on (take n (enc x) @ drop n (enc x))) = (Inr y, rd_on ([] @ drop n (enc x)))"
    using steady_dec unfolding steady_def by blast
  moreover have "run_state dec (rd_on (enc x @ [])) = (Inr x, rd_on [])"
    using round_trip [OF assms(1)] unfolding reads_def by blast
  ultimately have "drop n (enc x) = []" by simp
  with assms(2) show False by simp
qed

end

end
