(* ===== verification/PF_Envelope.thy ===== *)
theory PF_Envelope
  imports PF_Rate
begin

text \<open>
  \<^verbatim>\<open>include/pacing/envelope.hpp\<close> and \<^verbatim>\<open>src/envelope.cpp\<close>: provenance, the pacing
  envelope with its digest, and the derivation of a cadence. \<^verbatim>\<open>derive_cadence\<close> is written in
  six numbered steps in the source; each step is a function here, and \<open>derive_cadence\<close> runs
  them in order, stopping at the first refusal.
\<close>

section \<open>Data\<close>

record provenance =
  pv_id :: provenance_id
  pv_sequence :: u64
  pv_fabric_instance :: u64
  pv_binding_digest :: u64
  pv_policy_digest :: u64
  pv_grant_digest :: u64
  pv_cadence_digest :: u64

definition provenance_valid :: "provenance \<Rightarrow> bool" where
  "provenance_valid p = id_valid (pv_id p)"

definition provenance_digest :: "provenance \<Rightarrow> u64" where
  "provenance_digest p =
     mix_all [id_value (pv_id p), pv_sequence p, pv_fabric_instance p, pv_binding_digest p,
              pv_policy_digest p, pv_grant_digest p, pv_cadence_digest p] digest_init"

record envelope =
  e_ref :: envelope_ref
  e_flow :: flow_id
  e_resource :: resource_id
  e_authority :: authority_vector
  e_cadence :: cadence
  e_requested_rate_bps :: u64
  e_ceiling_bps :: u64
  e_floor_bps :: u64
  e_clamped_to_ceiling :: bool
  e_clamped_to_floor :: bool
  e_service_class :: service_class_id
  e_provenance :: provenance
  e_derived_at :: instant
  e_valid_until :: deadline
  e_upstream_synthetic :: bool
  e_policy_synthetic :: bool

definition mix_deadline :: "deadline \<Rightarrow> u64 \<Rightarrow> u64" where
  "mix_deadline d = mix_u64 (if dl_set d then inst_ns (dl_instant d) else 0) \<circ> mix_bool (dl_set d)"

definition envelope_digest :: "envelope \<Rightarrow> u64" where
  "envelope_digest e =
     (let c = e_cadence e;
          s1 = mix_all
            [id_value (gr_id (e_ref e)), gen_value (gr_gen (e_ref e)), id_value (e_flow e),
             id_value (e_resource e), av_digest (e_authority e), c_rate_bps c, c_quantum_bytes c,
             c_interval_ns c, c_window_ns c, c_grants_per_window c, c_bytes_per_window c,
             c_burst_bytes c, c_burst_packets c, ucast (shape_num (c_shape c)),
             e_requested_rate_bps e, e_ceiling_bps e, e_floor_bps e] digest_init;
          s2 = mix_bool (e_clamped_to_floor e) (mix_bool (e_clamped_to_ceiling e) s1);
          s3 = mix_all
            [id_value (e_service_class e), provenance_digest (e_provenance e),
             inst_ns (e_derived_at e)] s2
      in mix_bool (e_policy_synthetic e)
           (mix_bool (e_upstream_synthetic e) (mix_deadline (e_valid_until e) s3)))"

definition envelope_expired_at :: "envelope \<Rightarrow> instant \<Rightarrow> bool" where
  "envelope_expired_at e now = deadline_expired_at (e_valid_until e) now"

record derivation_input =
  di_requested_rate_bps :: u64
  di_rate_share_ppm :: u64
  di_min_rate_bps :: u64
  di_ceiling_bps :: u64
  di_floor_bps :: u64
  di_quantum_bytes :: u64
  di_window_ns :: u64
  di_burst_bytes :: u64
  di_burst_packets :: u64
  di_flow_max_burst_bytes :: u64
  di_flow_max_burst_packets :: u64
  di_shape :: cadence_shape
  di_grants_per_window_hint :: u64

record derivation_outcome =
  do_cadence :: cadence
  do_requested_rate_bps :: u64
  do_clamped_to_ceiling :: bool
  do_clamped_to_floor :: bool

section \<open>Derivation, step by step\<close>

definition derivation_bounds :: "derivation_input \<Rightarrow> limits \<Rightarrow> status" where
  "derivation_bounds i l =
     (if di_ceiling_bps i = 0 then
        Status EC_UnknownAuthority ''upstream ceiling is absent or zero''
      else if di_ceiling_bps i > l_max_rate_bps l then
        Status EC_OutOfRange ''upstream ceiling above configured limit''
      else if di_floor_bps i > di_ceiling_bps i then
        Status EC_FloorExceedsCeiling ''upstream floor exceeds upstream ceiling''
      else if di_min_rate_bps i > di_ceiling_bps i then
        Status EC_EntitlementMint
          ''policy floor exceeds upstream ceiling; pacing cannot mint entitlement''
      else if di_min_rate_bps i > l_max_rate_bps l then
        Status EC_OutOfRange ''policy floor above configured limit''
      else if di_requested_rate_bps i > l_max_rate_bps l then
        Status EC_OutOfRange ''requested rate above configured limit''
      else if di_rate_share_ppm i > 1000000 then
        Status EC_OutOfRange ''rate share exceeds 1000000 ppm''
      else if di_quantum_bytes i = 0 \<or> di_quantum_bytes i > l_max_quantum_bytes l then
        Status EC_OutOfRange ''quantum out of range''
      else if di_window_ns i < l_min_window_ns l \<or> di_window_ns i > l_max_window_ns l then
        Status EC_OutOfRange ''window out of range''
      else if di_burst_bytes i > l_max_burst_bytes l then
        Status EC_BurstExceedsBound ''requested burst bytes above bound''
      else if di_burst_packets i > l_max_burst_packets l then
        Status EC_BurstExceedsBound ''requested burst packets above bound''
      else if di_flow_max_burst_bytes i > l_max_burst_bytes l then
        Status EC_BurstExceedsBound ''flow burst byte bound above limit''
      else if di_flow_max_burst_packets i > l_max_burst_packets l then
        Status EC_BurstExceedsBound ''flow burst packet bound above limit''
      else if di_grants_per_window_hint i > kNanosPerSecond then
        Status EC_OutOfRange ''grants-per-window hint above bound''
      else success)"

text \<open>Step 2 returns the target rate and the two clamp flags.\<close>

definition derivation_target ::
    "derivation_input \<Rightarrow> limits \<Rightarrow> (u64 \<times> bool \<times> bool) status_or" where
  "derivation_target i l =
     (case (if di_requested_rate_bps i \<noteq> 0 then Some (di_requested_rate_bps i)
            else ppm_of (di_ceiling_bps i) (di_rate_share_ppm i)) of
        None \<Rightarrow> Inl (Status EC_ArithmeticOverflow ''rate share computation overflowed'')
      | Some asked \<Rightarrow>
          (let clamped_to_ceiling = (asked > di_ceiling_bps i);
               target1 = (if clamped_to_ceiling then di_ceiling_bps i else asked);
               lower = max (di_floor_bps i) (di_min_rate_bps i);
               clamped_to_floor = (target1 < lower);
               target = (if clamped_to_floor then lower else target1)
           in if target = 0 then
                Inl (Status EC_OutOfRange ''derived pacing rate is zero; nothing is authorized'')
              else if target > l_max_rate_bps l then
                Inl (Status EC_OutOfRange ''derived rate above configured limit'')
              else Inr (target, clamped_to_ceiling, clamped_to_floor)))"

definition derivation_interval :: "derivation_input \<Rightarrow> limits \<Rightarrow> u64 \<Rightarrow> u64 status_or" where
  "derivation_interval i l target =
     (case derive_interval_ns (di_quantum_bytes i) target of
        None \<Rightarrow> Inl (Status EC_ArithmeticOverflow ''interval derivation overflowed'')
      | Some interval \<Rightarrow>
          (case (if di_shape i = CS_Windowed \<and> di_grants_per_window_hint i \<noteq> 0 then
                   (case mul_div_ceil (di_window_ns i) 1 (di_grants_per_window_hint i) of
                      None \<Rightarrow> Inl (Status EC_ArithmeticOverflow
                                    ''windowed interval derivation overflowed'')
                    | Some hinted \<Rightarrow> Inr (if hinted > interval then hinted else interval))
                 else Inr interval) of
             Inl s \<Rightarrow> Inl s
           | Inr interval_ns \<Rightarrow>
               if interval_ns = 0 then
                 Inl (Status EC_Internal ''derived interval collapsed to zero'')
               else if interval_ns > l_max_interval_ns l then
                 Inl (Status EC_OutOfRange ''derived interval above configured limit'')
               else Inr interval_ns))"

definition derivation_burst ::
    "derivation_input \<Rightarrow> limits \<Rightarrow> u64 \<Rightarrow> (u64 \<times> u64) status_or" where
  "derivation_burst i l target =
     (let bytes1 = di_burst_bytes i;
          packets1 = di_burst_packets i;
          bytes2 = (if di_flow_max_burst_bytes i \<noteq> 0 \<and>
                       (bytes1 = 0 \<or> di_flow_max_burst_bytes i < bytes1)
                    then di_flow_max_burst_bytes i else bytes1);
          packets2 = (if di_flow_max_burst_packets i \<noteq> 0 \<and>
                         (packets1 = 0 \<or> di_flow_max_burst_packets i < packets1)
                      then di_flow_max_burst_packets i else packets1);
          burst_bytes = (if bytes2 = 0 then di_quantum_bytes i else bytes2);
          burst_packets = (if packets2 = 0 then 1 else packets2)
      in if burst_bytes < di_quantum_bytes i then
           Inl (Status EC_InvalidArgument ''burst allowance is smaller than one quantum'')
         else if burst_bytes > l_max_burst_bytes l then
           Inl (Status EC_BurstExceedsBound ''derived burst bytes above bound'')
         else if burst_packets > l_max_burst_packets l then
           Inl (Status EC_BurstExceedsBound ''derived burst packets above bound'')
         else if di_shape i = CS_TokenBucket then
           (case burst_capacity_bytes target (l_max_burst_horizon_ns l) of
              None \<Rightarrow> Inl (Status EC_ArithmeticOverflow ''burst capacity derivation overflowed'')
            | Some capacity \<Rightarrow>
                if burst_bytes > capacity then
                  Inl (Status EC_BurstExceedsBound
                        ''token bucket depth exceeds the capacity implied by the authorized rate'')
                else Inr (burst_bytes, burst_packets))
         else Inr (burst_bytes, burst_packets))"

definition derivation_finish ::
    "derivation_input \<Rightarrow> limits \<Rightarrow> cadence \<Rightarrow> bool \<Rightarrow> bool \<Rightarrow> derivation_outcome status_or" where
  "derivation_finish i l c clamped_to_ceiling clamped_to_floor =
     (let check = validate_cadence c (l_max_rate_bps l) (l_max_burst_bytes l)
                    (l_max_burst_packets l)
      in if \<not> st_ok check then Inl check
         else case effective_rate_bps c of
           None \<Rightarrow> Inl (Status EC_ArithmeticOverflow ''effective rate computation overflowed'')
         | Some effective \<Rightarrow>
             if effective > di_ceiling_bps i then
               Inl (Status EC_CeilingExceeded
                     ''realized cadence would exceed the upstream authorized ceiling'')
             else Inr \<lparr>do_cadence = c, do_requested_rate_bps = di_requested_rate_bps i,
                       do_clamped_to_ceiling = clamped_to_ceiling,
                       do_clamped_to_floor = clamped_to_floor\<rparr>)"

definition derive_cadence :: "derivation_input \<Rightarrow> limits \<Rightarrow> derivation_outcome status_or" where
  "derive_cadence i l =
     (let bounds = derivation_bounds i l in
      if \<not> st_ok bounds then Inl bounds
      else case derivation_target i l of
        Inl s \<Rightarrow> Inl s
      | Inr (target, clamped_to_ceiling, clamped_to_floor) \<Rightarrow>
          (case derivation_interval i l target of
             Inl s \<Rightarrow> Inl s
           | Inr interval_ns \<Rightarrow>
               (let grants_per_window = di_window_ns i div interval_ns in
                case checked_mul grants_per_window (di_quantum_bytes i) of
                  None \<Rightarrow> Inl (Status EC_ArithmeticOverflow ''window byte accounting overflowed'')
                | Some bytes_per_window \<Rightarrow>
                    (case derivation_burst i l target of
                       Inl s \<Rightarrow> Inl s
                     | Inr (burst_bytes, burst_packets) \<Rightarrow>
                         derivation_finish i l
                           \<lparr>c_rate_bps = target, c_quantum_bytes = di_quantum_bytes i,
                            c_interval_ns = interval_ns, c_window_ns = di_window_ns i,
                            c_grants_per_window = grants_per_window,
                            c_bytes_per_window = bytes_per_window, c_burst_bytes = burst_bytes,
                            c_burst_packets = burst_packets, c_shape = di_shape i\<rparr>
                           clamped_to_ceiling clamped_to_floor))))"

section \<open>Each step, read back\<close>

lemma derivation_bounds_okD:
  assumes "st_ok (derivation_bounds i l)"
  shows "di_ceiling_bps i \<noteq> 0" "di_ceiling_bps i \<le> l_max_rate_bps l"
    "di_floor_bps i \<le> di_ceiling_bps i" "di_min_rate_bps i \<le> di_ceiling_bps i"
    "di_requested_rate_bps i \<le> l_max_rate_bps l" "di_rate_share_ppm i \<le> 1000000"
    "di_quantum_bytes i \<noteq> 0" "di_quantum_bytes i \<le> l_max_quantum_bytes l"
    "l_min_window_ns l \<le> di_window_ns i" "di_window_ns i \<le> l_max_window_ns l"
    "di_grants_per_window_hint i \<le> kNanosPerSecond"
  using assms unfolding derivation_bounds_def
  by (simp_all add: not_less split: if_splits)

lemma derivation_target_InrD:
  assumes "derivation_target i l = Inr (t, cc, cf)"
    and "di_floor_bps i \<le> di_ceiling_bps i" "di_min_rate_bps i \<le> di_ceiling_bps i"
  shows "0 < t" "t \<le> di_ceiling_bps i" "di_floor_bps i \<le> t" "di_min_rate_bps i \<le> t"
    "t \<le> l_max_rate_bps l"
  using assms unfolding derivation_target_def
  by (auto simp: Let_def word_gt_0 not_less split: option.splits if_splits)

lemma derivation_interval_InrD:
  assumes "derivation_interval i l t = Inr x"
  obtains x0 where "derive_interval_ns (di_quantum_bytes i) t = Some x0" "x0 \<le> x" "x \<noteq> 0"
    "x \<le> l_max_interval_ns l"
  using assms unfolding derivation_interval_def
  by (auto simp: not_less split: option.splits sum.splits if_splits)

lemma derivation_interval_covers:
  assumes "derivation_interval i l t = Inr x"
  shows "unat (di_quantum_bytes i) * 8000000000 \<le> unat x * unat t"
proof -
  obtain x0 where x0: "derive_interval_ns (di_quantum_bytes i) t = Some x0" "x0 \<le> x"
    using assms by (rule derivation_interval_InrD)
  have "unat (di_quantum_bytes i) * 8000000000 \<le> unat x0 * unat t"
    using x0(1) by (rule derive_interval_covers)
  also have "\<dots> \<le> unat x * unat t" using x0(2) by (simp add: word_le_nat_alt)
  finally show ?thesis .
qed

text \<open>What a granted burst allowance satisfies.\<close>

definition burst_ok :: "derivation_input \<Rightarrow> limits \<Rightarrow> u64 \<Rightarrow> u64 \<Rightarrow> u64 \<Rightarrow> bool" where
  "burst_ok i l rate bytes packets =
     (di_quantum_bytes i \<le> bytes \<and> bytes \<le> l_max_burst_bytes l \<and> 0 < packets \<and>
      packets \<le> l_max_burst_packets l \<and>
      (di_burst_bytes i = 0 \<or> bytes \<le> di_burst_bytes i) \<and>
      (di_burst_packets i = 0 \<or> packets \<le> di_burst_packets i) \<and>
      (di_flow_max_burst_bytes i = 0 \<or> bytes \<le> di_flow_max_burst_bytes i) \<and>
      (di_flow_max_burst_packets i = 0 \<or> packets \<le> di_flow_max_burst_packets i) \<and>
      (di_shape i \<noteq> CS_TokenBucket \<or>
         unat bytes \<le> unat rate * unat (l_max_burst_horizon_ns l) div 8000000000))"

lemma derivation_burst_ok:
  assumes "derivation_burst i l t = Inr (b, p)"
  shows "burst_ok i l t b p"
proof -
  have cap: "unat b \<le> unat t * unat (l_max_burst_horizon_ns l) div 8000000000"
    if "di_shape i = CS_TokenBucket"
    using assms that unfolding derivation_burst_def
    by (auto simp: Let_def not_less word_le_nat_alt dest!: burst_capacity_SomeD
             split: option.splits if_splits)
  have "di_quantum_bytes i \<le> b" "b \<le> l_max_burst_bytes l" "0 < p" "p \<le> l_max_burst_packets l"
    "di_burst_bytes i = 0 \<or> b \<le> di_burst_bytes i"
    "di_burst_packets i = 0 \<or> p \<le> di_burst_packets i"
    "di_flow_max_burst_bytes i = 0 \<or> b \<le> di_flow_max_burst_bytes i"
    "di_flow_max_burst_packets i = 0 \<or> p \<le> di_flow_max_burst_packets i"
    using assms unfolding derivation_burst_def
    by (auto simp: Let_def not_less word_gt_0 split: option.splits if_splits)
  with cap show ?thesis by (simp add: burst_ok_def)
qed

text \<open>
  A grant every \<open>x\<close> nanoseconds, \<open>x\<close> long enough for one quantum at rate \<open>t\<close>, never puts more
  into a window than the rate allows.
\<close>

lemma window_within_rate:
  fixes q x t w :: nat
  assumes "q * k \<le> x * t"
  shows "w div x * q * k \<le> w * t"
proof -
  have "w div x * q * k = w div x * (q * k)" by simp
  also have "\<dots> \<le> w div x * (x * t)" using assms by (rule mult_le_mono2)
  also have "\<dots> = w div x * x * t" by simp
  also have "\<dots> \<le> w * t" by (intro mult_le_mono1 div_times_less_eq_dividend)
  finally show ?thesis .
qed

lemma derive_cadence_InrE:
  assumes "derive_cadence i l = Inr out"
  obtains t cc cf x b p where
    "st_ok (derivation_bounds i l)" "derivation_target i l = Inr (t, cc, cf)"
    "derivation_interval i l t = Inr x" "derivation_burst i l t = Inr (b, p)"
    "checked_mul (di_window_ns i div x) (di_quantum_bytes i) = Some (c_bytes_per_window (do_cadence out))"
    "do_cadence out =
       \<lparr>c_rate_bps = t, c_quantum_bytes = di_quantum_bytes i, c_interval_ns = x,
        c_window_ns = di_window_ns i, c_grants_per_window = di_window_ns i div x,
        c_bytes_per_window = c_bytes_per_window (do_cadence out), c_burst_bytes = b,
        c_burst_packets = p, c_shape = di_shape i\<rparr>"
    "st_ok (validate_cadence (do_cadence out) (l_max_rate_bps l) (l_max_burst_bytes l)
              (l_max_burst_packets l))"
    "do_requested_rate_bps out = di_requested_rate_bps i"
    "do_clamped_to_ceiling out = cc" "do_clamped_to_floor out = cf"
  using assms unfolding derive_cadence_def
  by (auto simp: Let_def derivation_finish_def split: if_splits sum.splits option.splits prod.splits)

text \<open>The contract of a derived cadence, stated over exact arithmetic.\<close>

definition cadence_within :: "derivation_input \<Rightarrow> limits \<Rightarrow> cadence \<Rightarrow> bool" where
  "cadence_within i l c =
     (0 < c_rate_bps c \<and> c_rate_bps c \<le> di_ceiling_bps i \<and>
      di_floor_bps i \<le> c_rate_bps c \<and> di_min_rate_bps i \<le> c_rate_bps c \<and>
      unat (c_quantum_bytes c) * 8000000000 \<le> unat (c_interval_ns c) * unat (di_ceiling_bps i) \<and>
      unat (c_bytes_per_window c) * 8000000000 \<le> unat (c_window_ns c) * unat (di_ceiling_bps i) \<and>
      c_window_ns c = di_window_ns i \<and> c_shape c = di_shape i \<and>
      c_interval_ns c \<le> l_max_interval_ns l \<and>
      burst_ok i l (c_rate_bps c) (c_burst_bytes c) (c_burst_packets c))"

lemma derive_cadence_within:
  assumes "derive_cadence i l = Inr out"
  shows "cadence_within i l (do_cadence out)"
proof -
  obtain t cc cf x b p where
    bounds: "st_ok (derivation_bounds i l)" and target: "derivation_target i l = Inr (t, cc, cf)" and
    interval: "derivation_interval i l t = Inr x" and burst: "derivation_burst i l t = Inr (b, p)" and
    bytes: "checked_mul (di_window_ns i div x) (di_quantum_bytes i)
              = Some (c_bytes_per_window (do_cadence out))" and
    c: "do_cadence out =
       \<lparr>c_rate_bps = t, c_quantum_bytes = di_quantum_bytes i, c_interval_ns = x,
        c_window_ns = di_window_ns i, c_grants_per_window = di_window_ns i div x,
        c_bytes_per_window = c_bytes_per_window (do_cadence out), c_burst_bytes = b,
        c_burst_packets = p, c_shape = di_shape i\<rparr>"
    using assms by (rule derive_cadence_InrE)
  note D = derivation_bounds_okD [OF bounds]
  note T = derivation_target_InrD [OF target D(3,4)]
  note X = derivation_interval_covers [OF interval]
  have ceil: "k * unat t \<le> k * unat (di_ceiling_bps i)" for k
    using T(2) by (simp add: word_le_nat_alt)
  have "unat (c_bytes_per_window (do_cadence out)) * 8000000000
          = unat (di_window_ns i) div unat x * unat (di_quantum_bytes i) * 8000000000"
    using checked_mul_SomeD [OF bytes] by (simp add: unat_div)
  also have "\<dots> \<le> unat (di_window_ns i) * unat t" using X by (rule window_within_rate)
  finally have W: "unat (c_bytes_per_window (do_cadence out)) * 8000000000
                     \<le> unat (di_window_ns i) * unat (di_ceiling_bps i)"
    using ceil le_trans by blast
  have Q: "unat (di_quantum_bytes i) * 8000000000 \<le> unat x * unat (di_ceiling_bps i)"
    using X ceil le_trans by blast
  have "x \<le> l_max_interval_ns l" using interval by (rule derivation_interval_InrD)
  with T W Q derivation_burst_ok [OF burst] show ?thesis
    unfolding cadence_within_def by (subst (1 2 3 4 5 6 8 9 10 11 12 13 14) c) simp
qed

section \<open>When derivation succeeds\<close>

text \<open>
  With steps 1, 2, 3 and 5 passed under coherent limits, the only remaining obstacle is the
  64-bit product of the window's bytes with \<open>8 * 10^9\<close>: the re-checks of step 6 against the
  rate and the ceiling cannot fire.
\<close>

lemma derive_cadence_complete:
  assumes coherent: "limits_are_coherent l"
    and bounds: "st_ok (derivation_bounds i l)" and target: "derivation_target i l = Inr (t, cc, cf)"
    and interval: "derivation_interval i l t = Inr x" and burst: "derivation_burst i l t = Inr (b, p)"
  shows "so_ok (derive_cadence i l) \<longleftrightarrow>
           unat (di_window_ns i) div unat x * unat (di_quantum_bytes i) * 8000000000 \<le> 18446744073709551615"
    and "\<not> so_ok (derive_cadence i l) \<Longrightarrow> so_code (derive_cadence i l) = EC_ArithmeticOverflow"
proof -
  let ?w = "unat (di_window_ns i)" and ?q = "unat (di_quantum_bytes i)"
  let ?B = "?w div unat x * ?q"
  note D = derivation_bounds_okD [OF bounds]
  note T = derivation_target_InrD [OF target D(3,4)]
  note K = derivation_burst_ok [OF burst, unfolded burst_ok_def]
  have x: "x \<noteq> 0" using interval by (rule derivation_interval_InrD)
  have w: "di_window_ns i \<noteq> 0"
    using limits_are_coherentD(1) [OF coherent] D(9) by auto
  have W: "?B * 8000000000 \<le> ?w * unat t"
    by (rule window_within_rate) (rule derivation_interval_covers [OF interval])
  have eff: "?B * 8000000000 div ?w \<le> unat t"
    using W w by (metis div_le_mono nonzero_mult_div_cancel_left unat_0_iff)
  have le_ceil: "unat t \<le> unat (di_ceiling_bps i)" using T(2) by (simp add: word_le_nat_alt)
  have E: "so_ok (derive_cadence i l) = (?B * 8000000000 \<le> 18446744073709551615) \<and>
           (\<not> so_ok (derive_cadence i l) \<longrightarrow> so_code (derive_cadence i l) = EC_ArithmeticOverflow)"
  proof (cases "checked_mul (di_window_ns i div x) (di_quantum_bytes i)")
    case None
    then have "\<not> ?B < 18446744073709551616" by (simp add: checked_mul_eq unat_div split: if_splits)
    then have "\<not> ?B * 8000000000 \<le> 18446744073709551615" by linarith
    then show ?thesis
      using None by (simp add: derive_cadence_def bounds target interval)
  next
    case (Some n)
    define c where "c = \<lparr>c_rate_bps = t, c_quantum_bytes = di_quantum_bytes i, c_interval_ns = x,
        c_window_ns = di_window_ns i, c_grants_per_window = di_window_ns i div x,
        c_bytes_per_window = n, c_burst_bytes = b, c_burst_packets = p, c_shape = di_shape i\<rparr>"
    have n: "unat n = ?B" using checked_mul_SomeD [OF Some] by (simp add: unat_div)
    have d: "derive_cadence i l = derivation_finish i l c cc cf"
      using Some by (simp add: derive_cadence_def bounds target interval burst c_def)
    show ?thesis
    proof (cases "?B * 8000000000 \<le> 18446744073709551615")
      case True
      have "cadence_ok c (l_max_rate_bps l) (l_max_burst_bytes l) (l_max_burst_packets l)"
        using T D K x w n True eff
        by (auto simp: cadence_ok_def c_def word_gt_0 unat_div)
      then have v: "st_ok (validate_cadence c (l_max_rate_bps l) (l_max_burst_bytes l) (l_max_burst_packets l))"
        by (simp add: validate_cadence_iff)
      obtain e where e: "effective_rate_bps c = Some e"
        using True w n by (simp add: effective_rate_eq c_def)
      have "unat e = ?B * 8000000000 div ?w"
        using effective_rate_SomeD [OF e] n by (simp add: c_def)
      then have "\<not> e > di_ceiling_bps i" using eff le_ceil by (simp add: word_less_nat_alt)
      with v e True show ?thesis unfolding d derivation_finish_def by simp
    next
      case False
      have "effective_rate_bps c = None" using False n by (simp add: effective_rate_eq c_def)
      moreover have "checked_mul (c_grants_per_window c) (c_quantum_bytes c) = Some (c_bytes_per_window c)"
        using Some by (simp add: c_def)
      ultimately have "validate_cadence c (l_max_rate_bps l) (l_max_burst_bytes l) (l_max_burst_packets l)
              = Status EC_ArithmeticOverflow ''cadence effective rate overflow''"
        using T D K x w
        by (auto simp: validate_cadence_def c_def not_less word_gt_0)
      then show ?thesis using False unfolding d derivation_finish_def by simp
    qed
  qed
  then show "so_ok (derive_cadence i l) \<longleftrightarrow> ?B * 8000000000 \<le> 18446744073709551615" by blast
  show "\<not> so_ok (derive_cadence i l) \<Longrightarrow> so_code (derive_cadence i l) = EC_ArithmeticOverflow"
    using E by blast
qed

lemma derive_cadence_refuses_mint:
  assumes "di_ceiling_bps i \<noteq> 0" "di_ceiling_bps i \<le> l_max_rate_bps l" "di_floor_bps i \<le> di_ceiling_bps i"
    and "di_ceiling_bps i < di_min_rate_bps i"
  shows "so_code (derive_cadence i l) = EC_EntitlementMint"
  using assms by (simp add: derive_cadence_def derivation_bounds_def not_less [symmetric] del: not_less)

end
