(* ===== verification/PF_Backend.thy ===== *)
theory PF_Backend
  imports PF_Envelope "HOL-Library.AList"
begin

text \<open>
  \<^verbatim>\<open>include/pacing/backend.hpp\<close>, \<^verbatim>\<open>src/backend.cpp\<close> and the \<^verbatim>\<open>SyntheticPacingBackend\<close> of
  \<^verbatim>\<open>backends.hpp\<close>/\<^verbatim>\<open>backends.cpp\<close>. A method that writes an output parameter returns it in a
  pair with the status; the object's fields are passed and returned explicitly. The locale
  \<open>pacing_backend\<close> is the interface \<^verbatim>\<open>IPacingBackend\<close> with the promises its comments state:
  an accepted apply is what a readback then observes, a revocation is idempotent, and an epoch
  change destroys exactly what older epochs installed.
\<close>

section \<open>Data\<close>

datatype backend_nature = BN_Real | BN_Synthetic

fun nature_name :: "backend_nature \<Rightarrow> string" where
  "nature_name BN_Real = ''REAL''"
| "nature_name BN_Synthetic = ''SYNTHETIC''"

record backend_descriptor =
  bd_ref :: backend_ref
  bd_name :: string
  bd_nature :: backend_nature
  bd_supports_readback :: bool
  bd_max_rate_bps :: u64
  bd_max_burst_bytes :: u64
  bd_capability_flags :: u64

definition descriptor_usable :: "backend_descriptor \<Rightarrow> bool" where
  "descriptor_usable d = (ref_known (bd_ref d) \<and> bd_name d \<noteq> [])"

record apply_request =
  rq_attempt :: attempt_id
  rq_envelope :: envelope_ref
  rq_flow :: flow_id
  rq_authority :: authority_vector
  rq_cadence :: cadence
  rq_worker :: worker_boot
  rq_issued_at_ns :: u64
  rq_deadline_ns :: u64

record apply_ack =
  ack_attempt :: attempt_id
  ack_accepted :: bool
  ack_backend_seq :: u64
  ack_detail :: string

datatype evidence_kind = EK_None | EK_BackendReadback | EK_SyntheticReadback | EK_Injected

fun evidence_kind_num :: "evidence_kind \<Rightarrow> u8" where
  "evidence_kind_num EK_None = 0"
| "evidence_kind_num EK_BackendReadback = 1"
| "evidence_kind_num EK_SyntheticReadback = 2"
| "evidence_kind_num EK_Injected = 3"

fun evidence_kind_name :: "evidence_kind \<Rightarrow> string" where
  "evidence_kind_name EK_None = ''NONE''"
| "evidence_kind_name EK_BackendReadback = ''BACKEND_READBACK''"
| "evidence_kind_name EK_SyntheticReadback = ''SYNTHETIC_READBACK''"
| "evidence_kind_name EK_Injected = ''INJECTED''"

record readback_evidence =
  ev_present :: bool
  ev_kind :: evidence_kind
  ev_backend :: backend_ref
  ev_attempt :: attempt_id
  ev_rate_bps :: u64
  ev_quantum_bytes :: u64
  ev_burst_bytes :: u64
  ev_interval_ns :: u64
  ev_backend_seq :: u64
  ev_observed_at_ns :: u64
  ev_integrity_ok :: bool
  ev_digest :: u64

definition no_ack :: apply_ack where
  "no_ack = \<lparr>ack_attempt = Id 0, ack_accepted = False, ack_backend_seq = 0, ack_detail = []\<rparr>"

definition no_evidence :: readback_evidence where
  "no_evidence =
     \<lparr>ev_present = False, ev_kind = EK_None, ev_backend = no_ref, ev_attempt = Id 0,
      ev_rate_bps = 0, ev_quantum_bytes = 0, ev_burst_bytes = 0, ev_interval_ns = 0,
      ev_backend_seq = 0, ev_observed_at_ns = 0, ev_integrity_ok = False, ev_digest = 0\<rparr>"

record backend_stats =
  bs_applies_accepted :: u64
  bs_applies_rejected :: u64
  bs_readbacks_served :: u64
  bs_readbacks_unavailable :: u64
  bs_revokes :: u64
  bs_epoch_discards :: u64

section \<open>The synthetic backend\<close>

record installed =
  in_rate_bps :: u64
  in_quantum_bytes :: u64
  in_burst_bytes :: u64
  in_interval_ns :: u64
  in_backend_seq :: u64
  in_epoch :: epoch

record synthetic_backend =
  sb_ref :: backend_ref
  sb_name :: string
  sb_installed :: "(u64 \<times> installed) list"
  sb_stats :: backend_stats
  sb_sequence :: u64

definition synthetic_new :: "backend_ref \<Rightarrow> string \<Rightarrow> synthetic_backend" where
  "synthetic_new r n =
     \<lparr>sb_ref = r, sb_name = n, sb_installed = [],
      sb_stats = \<lparr>bs_applies_accepted = 0, bs_applies_rejected = 0, bs_readbacks_served = 0,
                  bs_readbacks_unavailable = 0, bs_revokes = 0, bs_epoch_discards = 0\<rparr>,
      sb_sequence = 0\<rparr>"

definition synthetic_describe :: "synthetic_backend \<Rightarrow> backend_descriptor" where
  "synthetic_describe b =
     \<lparr>bd_ref = sb_ref b, bd_name = sb_name b, bd_nature = BN_Synthetic,
      bd_supports_readback = True, bd_max_rate_bps = 400000000000,
      bd_max_burst_bytes = 2 ^ 30, bd_capability_flags = 1\<rparr>"

definition synthetic_apply ::
    "apply_request \<Rightarrow> synthetic_backend \<Rightarrow> (status \<times> apply_ack) \<times> synthetic_backend" where
  "synthetic_apply rq b =
     (let ack = no_ack\<lparr>ack_attempt := rq_attempt rq\<rparr>; st = sb_stats b in
      if c_rate_bps (rq_cadence rq) = 0 \<or> c_interval_ns (rq_cadence rq) = 0 then
        ((success, ack\<lparr>ack_accepted := False, ack_detail := ''cadence is not installable''\<rparr>),
         b\<lparr>sb_stats := st\<lparr>bs_applies_rejected := bs_applies_rejected st + 1\<rparr>\<rparr>)
      else
        (let seq = sb_sequence b + 1;
             i = \<lparr>in_rate_bps = c_rate_bps (rq_cadence rq),
                  in_quantum_bytes = c_quantum_bytes (rq_cadence rq),
                  in_burst_bytes = c_burst_bytes (rq_cadence rq),
                  in_interval_ns = c_interval_ns (rq_cadence rq),
                  in_backend_seq = seq, in_epoch = av_epoch (rq_authority rq)\<rparr>
         in ((success, ack\<lparr>ack_accepted := True, ack_backend_seq := seq,
                           ack_detail := ''installed (synthetic shaper model)''\<rparr>),
             b\<lparr>sb_sequence := seq,
               sb_installed := AList.update (id_value (rq_attempt rq)) i (sb_installed b),
               sb_stats := st\<lparr>bs_applies_accepted := bs_applies_accepted st + 1\<rparr>\<rparr>)))"

definition synthetic_readback ::
    "apply_request \<Rightarrow> synthetic_backend \<Rightarrow> (status \<times> readback_evidence) \<times> synthetic_backend" where
  "synthetic_readback rq b =
     (let ev = no_evidence\<lparr>ev_backend := sb_ref b, ev_attempt := rq_attempt rq,
                           ev_observed_at_ns := rq_issued_at_ns rq\<rparr>;
          st = sb_stats b
      in case map_of (sb_installed b) (id_value (rq_attempt rq)) of
        None \<Rightarrow>
          ((success, ev\<lparr>ev_present := False\<rparr>),
           b\<lparr>sb_stats := st\<lparr>bs_readbacks_unavailable := bs_readbacks_unavailable st + 1\<rparr>\<rparr>)
      | Some i \<Rightarrow>
          ((success, ev\<lparr>ev_present := True, ev_kind := EK_SyntheticReadback,
                        ev_rate_bps := in_rate_bps i, ev_quantum_bytes := in_quantum_bytes i,
                        ev_burst_bytes := in_burst_bytes i, ev_interval_ns := in_interval_ns i,
                        ev_backend_seq := in_backend_seq i, ev_integrity_ok := True,
                        ev_digest := 0\<rparr>),
           b\<lparr>sb_stats := st\<lparr>bs_readbacks_served := bs_readbacks_served st + 1\<rparr>\<rparr>))"

definition synthetic_revoke ::
    "apply_request \<Rightarrow> string \<Rightarrow> synthetic_backend \<Rightarrow> status \<times> synthetic_backend" where
  "synthetic_revoke rq reason b =
     (success,
      b\<lparr>sb_installed := AList.delete (id_value (rq_attempt rq)) (sb_installed b),
        sb_stats := (sb_stats b)\<lparr>bs_revokes := bs_revokes (sb_stats b) + 1\<rparr>\<rparr>)"

definition synthetic_rebind_epoch ::
    "epoch \<Rightarrow> synthetic_backend \<Rightarrow> (status \<times> u64) \<times> synthetic_backend" where
  "synthetic_rebind_epoch new_epoch b =
     (let old = (\<lambda>ki. in_epoch (snd ki) < new_epoch);
          discarded = of_nat (length (filter old (sb_installed b)))
      in ((success, discarded),
          b\<lparr>sb_installed := filter (\<lambda>ki. \<not> old ki) (sb_installed b),
            sb_stats := (sb_stats b)\<lparr>bs_epoch_discards := bs_epoch_discards (sb_stats b) + discarded\<rparr>\<rparr>))"

definition synthetic_installed_count :: "synthetic_backend \<Rightarrow> nat" where
  "synthetic_installed_count b = length (sb_installed b)"

definition synthetic_is_installed :: "attempt_id \<Rightarrow> synthetic_backend \<Rightarrow> bool" where
  "synthetic_is_installed a b = (map_of (sb_installed b) (id_value a) \<noteq> None)"

section \<open>The interface\<close>

text \<open>
  The view of a backend: what each attempt has in force, as the four numbers a readback reports,
  with the epoch whose authority installed it.
\<close>

type_synonym in_force = "(u64 \<times> u64 \<times> u64 \<times> u64) \<times> epoch"

definition cadence_effect :: "cadence \<Rightarrow> u64 \<times> u64 \<times> u64 \<times> u64" where
  "cadence_effect c = (c_rate_bps c, c_quantum_bytes c, c_burst_bytes c, c_interval_ns c)"

definition observed_effect :: "readback_evidence \<Rightarrow> u64 \<times> u64 \<times> u64 \<times> u64" where
  "observed_effect ev = (ev_rate_bps ev, ev_quantum_bytes ev, ev_burst_bytes ev, ev_interval_ns ev)"

locale pacing_backend =
  fixes inv :: "'w \<Rightarrow> bool"
    and force :: "'w \<Rightarrow> attempt_id \<Rightarrow> in_force option"
    and install :: "apply_request \<Rightarrow> 'w \<Rightarrow> (status \<times> apply_ack) \<times> 'w"
    and observe :: "apply_request \<Rightarrow> 'w \<Rightarrow> (status \<times> readback_evidence) \<times> 'w"
    and revoke :: "apply_request \<Rightarrow> string \<Rightarrow> 'w \<Rightarrow> status \<times> 'w"
    and rebind :: "epoch \<Rightarrow> 'w \<Rightarrow> (status \<times> u64) \<times> 'w"
  assumes install_inv: "inv w \<Longrightarrow> install rq w = ((s, ack), w') \<Longrightarrow> inv w'"
    and install_accepted: "inv w \<Longrightarrow> install rq w = ((s, ack), w') \<Longrightarrow> ack_accepted ack \<Longrightarrow>
      force w' = (force w)(rq_attempt rq \<mapsto> (cadence_effect (rq_cadence rq), av_epoch (rq_authority rq)))"
    and install_refused: "inv w \<Longrightarrow> install rq w = ((s, ack), w') \<Longrightarrow> \<not> ack_accepted ack \<Longrightarrow>
      force w' = force w"
    and observe_inv: "inv w \<Longrightarrow> observe rq w = ((s, ev), w') \<Longrightarrow> inv w' \<and> force w' = force w"
    and observe_present: "inv w \<Longrightarrow> observe rq w = ((s, ev), w') \<Longrightarrow>
      ev_present ev = (force w (rq_attempt rq) \<noteq> None)"
    and observe_effect: "inv w \<Longrightarrow> observe rq w = ((s, ev), w') \<Longrightarrow> force w (rq_attempt rq) = Some (f, e) \<Longrightarrow>
      observed_effect ev = f \<and> ev_attempt ev = rq_attempt rq"
    and revoke_inv: "inv w \<Longrightarrow> revoke rq reason w = (s, w') \<Longrightarrow> inv w' \<and> st_ok s"
    and revoke_force: "inv w \<Longrightarrow> revoke rq reason w = (s, w') \<Longrightarrow> force w' = (force w)(rq_attempt rq := None)"
    and rebind_inv: "inv w \<Longrightarrow> rebind e w = ((s, n), w') \<Longrightarrow> inv w'"
    and rebind_force: "inv w \<Longrightarrow> rebind e w = ((s, n), w') \<Longrightarrow>
      force w' a = (case force w a of Some (f, e0) \<Rightarrow> if e0 < e then None else Some (f, e0) | None \<Rightarrow> None)"
begin

text \<open>What was accepted is what is read back.\<close>

lemma install_observe:
  assumes "inv w" "install rq w = ((s, ack), w1)" "ack_accepted ack" "observe rq w1 = ((s', ev), w2)"
  shows "ev_present ev \<and> observed_effect ev = cadence_effect (rq_cadence rq) \<and> ev_attempt ev = rq_attempt rq"
proof -
  have w1: "inv w1" using install_inv [OF assms(1,2)] .
  have f: "force w1 (rq_attempt rq) = Some (cadence_effect (rq_cadence rq), av_epoch (rq_authority rq))"
    using install_accepted [OF assms(1-3)] by simp
  show ?thesis using observe_present [OF w1 assms(4)] observe_effect [OF w1 assms(4) f] f by simp
qed

text \<open>Revoking twice has the effect of revoking once.\<close>

lemma revoke_idempotent:
  assumes "inv w" "revoke rq r1 w = (s1, w1)" "revoke rq r2 w1 = (s2, w2)"
  shows "st_ok s2 \<and> force w2 = force w1"
  using revoke_inv [OF assms(1,2)] revoke_force [OF assms(1,2)] revoke_inv [of w1, OF _ assms(3)]
    revoke_force [of w1, OF _ assms(3)] by (auto simp: fun_eq_iff)

lemma revoke_observe:
  assumes "inv w" "revoke rq r w = (s, w1)" "observe rq w1 = ((s', ev), w2)"
  shows "\<not> ev_present ev"
  using observe_present [of w1, OF _ assms(3)] revoke_inv [OF assms(1,2)] revoke_force [OF assms(1,2)]
  by simp

text \<open>After an epoch change nothing installed under an older epoch is observable.\<close>

lemma rebind_observe:
  assumes "inv w" "rebind e w = ((s, n), w1)" "observe rq w1 = ((s', ev), w2)" "ev_present ev"
  shows "\<exists>f e0. force w (rq_attempt rq) = Some (f, e0) \<and> e \<le> e0 \<and> observed_effect ev = f"
proof -
  have w1: "inv w1" using rebind_inv [OF assms(1,2)] .
  obtain f e0 where f: "force w1 (rq_attempt rq) = Some (f, e0)"
    using observe_present [OF w1 assms(3)] assms(4) by auto
  then have "force w (rq_attempt rq) = Some (f, e0) \<and> e \<le> e0"
    using rebind_force [OF assms(1,2), of "rq_attempt rq"] by (auto split: option.splits if_splits prod.splits)
  then show ?thesis using observe_effect [OF w1 assms(3) f] by blast
qed

end

section \<open>The synthetic backend implements the interface\<close>

definition synthetic_inv :: "synthetic_backend \<Rightarrow> bool" where
  "synthetic_inv b = distinct (map fst (sb_installed b))"

definition synthetic_force :: "synthetic_backend \<Rightarrow> attempt_id \<Rightarrow> in_force option" where
  "synthetic_force b a =
     map_option (\<lambda>i. ((in_rate_bps i, in_quantum_bytes i, in_burst_bytes i, in_interval_ns i), in_epoch i))
       (map_of (sb_installed b) (id_value a))"

lemma synthetic_apply_force:
  assumes "synthetic_apply rq b = ((s, ack), b')"
  shows "synthetic_force b' =
           (if ack_accepted ack
            then (synthetic_force b)(rq_attempt rq \<mapsto> (cadence_effect (rq_cadence rq), av_epoch (rq_authority rq)))
            else synthetic_force b)"
  using assms
  by (auto simp: synthetic_apply_def synthetic_force_def Let_def fun_eq_iff update_conv' cadence_effect_def
           no_ack_def split: if_splits)

lemma map_of_filter_value:
  "distinct (map fst m) \<Longrightarrow>
     map_of (filter (\<lambda>ki. P (snd ki)) m) k =
       (case map_of m k of None \<Rightarrow> None | Some v \<Rightarrow> if P v then Some v else None)"
proof (induction m)
  case (Cons x m)
  then have "map_of m (fst x) = None" by (auto simp: map_of_eq_None_iff)
  with Cons show ?case by (cases x) (auto split: option.splits)
qed simp

interpretation synthetic: pacing_backend synthetic_inv synthetic_force synthetic_apply synthetic_readback
  synthetic_revoke synthetic_rebind_epoch
proof (unfold_locales, goal_cases)
  case (1 w rq s ack w')
  then show ?case
    by (auto simp: synthetic_apply_def synthetic_inv_def Let_def distinct_update split: if_splits)
next
  case (2 w rq s ack w')
  then show ?case by (simp add: synthetic_apply_force)
next
  case (3 w rq s ack w')
  then show ?case by (simp add: synthetic_apply_force)
next
  case (4 w rq s ev w')
  then show ?case
    by (auto simp: synthetic_readback_def synthetic_inv_def synthetic_force_def Let_def fun_eq_iff
             split: option.splits)
next
  case (5 w rq s ev w')
  then show ?case by (auto simp: synthetic_readback_def synthetic_force_def Let_def split: option.splits)
next
  case (6 w rq s ev w' f e)
  then show ?case
    by (auto simp: synthetic_readback_def synthetic_force_def Let_def observed_effect_def split: option.splits)
next
  case (7 w rq reason s w')
  then show ?case by (auto simp: synthetic_revoke_def synthetic_inv_def distinct_delete)
next
  case (8 w rq reason s w')
  then show ?case
    by (auto simp: synthetic_revoke_def synthetic_force_def fun_eq_iff delete_conv')
next
  case (9 w e s n w')
  then show ?case
    by (auto simp: synthetic_rebind_epoch_def synthetic_inv_def Let_def distinct_map_filter)
next
  case (10 w e s n w' a)
  then have "sb_installed w' = filter (\<lambda>ki. \<not> in_epoch (snd ki) < e) (sb_installed w)"
    by (auto simp: synthetic_rebind_epoch_def Let_def)
  with 10(1) have "map_of (sb_installed w') (id_value a) =
      (case map_of (sb_installed w) (id_value a) of None \<Rightarrow> None
       | Some v \<Rightarrow> if \<not> in_epoch v < e then Some v else None)"
    using map_of_filter_value [of "sb_installed w" "\<lambda>i. \<not> in_epoch i < e"] by (simp add: synthetic_inv_def)
  then show ?case by (simp add: synthetic_force_def split: option.splits)
qed

end
