(* ===== verification/PF_Application.thy ===== *)
theory PF_Application
  imports PF_Backend
begin

text \<open>
  \<^verbatim>\<open>include/pacing/application.hpp\<close>, \<^verbatim>\<open>src/application.cpp\<close>,
  \<^verbatim>\<open>include/pacing/events.hpp\<close> and \<^verbatim>\<open>src/events.cpp\<close>: the states of an application
  attempt, the effect labels, the application record with its digest, and the events.
\<close>

section \<open>States and labels\<close>

datatype app_state =
    AS_Unknown | AS_Planned | AS_Reserved | AS_Submitted | AS_Acknowledged | AS_Applied
  | AS_AppliedUnverified | AS_Mismatched | AS_RequiresRevalidation | AS_Revoked | AS_Fenced
  | AS_Stale | AS_Failed | AS_Cancelled | AS_Ambiguous

fun state_num :: "app_state \<Rightarrow> u8" where
  "state_num AS_Unknown = 0"
| "state_num AS_Planned = 1"
| "state_num AS_Reserved = 2"
| "state_num AS_Submitted = 3"
| "state_num AS_Acknowledged = 4"
| "state_num AS_Applied = 5"
| "state_num AS_AppliedUnverified = 6"
| "state_num AS_Mismatched = 7"
| "state_num AS_RequiresRevalidation = 8"
| "state_num AS_Revoked = 9"
| "state_num AS_Fenced = 10"
| "state_num AS_Stale = 11"
| "state_num AS_Failed = 12"
| "state_num AS_Cancelled = 13"
| "state_num AS_Ambiguous = 14"

fun state_name :: "app_state \<Rightarrow> string" where
  "state_name AS_Unknown = ''UNKNOWN''"
| "state_name AS_Planned = ''PLANNED''"
| "state_name AS_Reserved = ''RESERVED''"
| "state_name AS_Submitted = ''SUBMITTED''"
| "state_name AS_Acknowledged = ''ACKNOWLEDGED''"
| "state_name AS_Applied = ''APPLIED''"
| "state_name AS_AppliedUnverified = ''APPLIED_UNVERIFIED''"
| "state_name AS_Mismatched = ''MISMATCHED''"
| "state_name AS_RequiresRevalidation = ''REQUIRES_REVALIDATION''"
| "state_name AS_Revoked = ''REVOKED''"
| "state_name AS_Fenced = ''FENCED''"
| "state_name AS_Stale = ''STALE''"
| "state_name AS_Failed = ''FAILED''"
| "state_name AS_Cancelled = ''CANCELLED''"
| "state_name AS_Ambiguous = ''AMBIGUOUS''"

fun is_terminal :: "app_state \<Rightarrow> bool" where
  "is_terminal AS_Unknown = False"
| "is_terminal AS_Planned = False"
| "is_terminal AS_Reserved = False"
| "is_terminal AS_Submitted = False"
| "is_terminal AS_Acknowledged = False"
| "is_terminal _ = True"

definition asserts_effect :: "app_state \<Rightarrow> bool" where
  "asserts_effect s = (s = AS_Applied)"

datatype effect_label = EL_None | EL_Verified | EL_SyntheticVerified | EL_Unverified | EL_Mismatched

fun effect_num :: "effect_label \<Rightarrow> u8" where
  "effect_num EL_None = 0"
| "effect_num EL_Verified = 1"
| "effect_num EL_SyntheticVerified = 2"
| "effect_num EL_Unverified = 3"
| "effect_num EL_Mismatched = 4"

fun effect_name :: "effect_label \<Rightarrow> string" where
  "effect_name EL_None = ''NONE''"
| "effect_name EL_Verified = ''VERIFIED''"
| "effect_name EL_SyntheticVerified = ''SYNTHETIC_VERIFIED''"
| "effect_name EL_Unverified = ''UNVERIFIED''"
| "effect_name EL_Mismatched = ''MISMATCHED''"

fun drift_num :: "authority_drift \<Rightarrow> u8" where
  "drift_num AD_None = 0"
| "drift_num AD_Flow = 1"
| "drift_num AD_Resource = 2"
| "drift_num AD_Policy = 3"
| "drift_num AD_RateGrant = 4"
| "drift_num AD_Path = 5"
| "drift_num AD_Epoch = 6"
| "drift_num AD_CoordinatorBoot = 7"
| "drift_num AD_Incomplete = 8"

section \<open>The application record\<close>

record app_record =
  r_attempt :: attempt_id
  r_envelope :: envelope_ref
  r_flow :: flow_id
  r_resource :: resource_id
  r_authority :: authority_vector
  r_desired :: cadence
  r_state :: app_state
  r_last_known_state :: app_state
  r_effect :: effect_label
  r_evidence_kind :: evidence_kind
  r_observed_rate_bps :: u64
  r_observed_quantum_bytes :: u64
  r_observed_burst_bytes :: u64
  r_observed_interval_ns :: u64
  r_backend_seq :: u64
  r_evidence_digest :: u64
  r_evidence_integrity_ok :: bool
  r_backend :: backend_ref
  r_worker :: worker_boot
  r_backend_synthetic :: bool
  r_reason :: error_code
  r_drift :: authority_drift
  r_detail :: string
  r_revision :: u64
  r_created_ns :: u64
  r_updated_ns :: u64
  r_requires_revalidation :: bool

definition record_terminal :: "app_record \<Rightarrow> bool" where
  "record_terminal r = is_terminal (r_state r)"

definition claims_effect :: "app_record \<Rightarrow> bool" where
  "claims_effect r = (asserts_effect (r_state r) \<and> \<not> r_requires_revalidation r)"

definition record_digest :: "app_record \<Rightarrow> u64" where
  "record_digest r =
     (let c = r_desired r;
          s1 = mix_all
            [id_value (r_attempt r), id_value (gr_id (r_envelope r)), gen_value (gr_gen (r_envelope r)),
             id_value (r_flow r), id_value (r_resource r), av_digest (r_authority r), c_rate_bps c,
             c_quantum_bytes c, c_interval_ns c, c_window_ns c, c_grants_per_window c,
             c_burst_bytes c, c_burst_packets c, ucast (state_num (r_state r)),
             ucast (effect_num (r_effect r)), ucast (evidence_kind_num (r_evidence_kind r)),
             r_observed_rate_bps r, r_observed_burst_bytes r, r_backend_seq r, r_evidence_digest r]
            digest_init;
          s2 = mix_bool (r_evidence_integrity_ok r) s1;
          s3 = mix_all [id_value (gr_id (r_backend r)), gen_value (gr_gen (r_backend r))] s2;
          s4 = mix_bool (r_backend_synthetic r) s3;
          s5 = mix_all [ucast (error_code_num (r_reason r)), ucast (drift_num (r_drift r)), r_revision r] s4
      in mix_bool (r_requires_revalidation r) s5)"

section \<open>Events\<close>

datatype event_kind =
    EV_EnvelopeDerived | EV_EnvelopeRefused | EV_EnvelopeRevoked | EV_ApplyReserved
  | EV_ApplyAcknowledged | EV_ApplyVerified | EV_ApplyUnverified | EV_ApplyMismatched
  | EV_ApplyRefused | EV_AttemptCancelled | EV_AttemptRevalidated | EV_AttemptStale | EV_Fenced
  | EV_EpochAdvanced | EV_RecoveryCompleted | EV_BackendRegistered

fun event_kind_name :: "event_kind \<Rightarrow> string" where
  "event_kind_name EV_EnvelopeDerived = ''envelope.derived''"
| "event_kind_name EV_EnvelopeRefused = ''envelope.refused''"
| "event_kind_name EV_EnvelopeRevoked = ''envelope.revoked''"
| "event_kind_name EV_ApplyReserved = ''apply.reserved''"
| "event_kind_name EV_ApplyAcknowledged = ''apply.acknowledged''"
| "event_kind_name EV_ApplyVerified = ''apply.verified''"
| "event_kind_name EV_ApplyUnverified = ''apply.unverified''"
| "event_kind_name EV_ApplyMismatched = ''apply.mismatched''"
| "event_kind_name EV_ApplyRefused = ''apply.refused''"
| "event_kind_name EV_AttemptCancelled = ''attempt.cancelled''"
| "event_kind_name EV_AttemptRevalidated = ''attempt.revalidated''"
| "event_kind_name EV_AttemptStale = ''attempt.stale''"
| "event_kind_name EV_Fenced = ''authority.fenced''"
| "event_kind_name EV_EpochAdvanced = ''epoch.advanced''"
| "event_kind_name EV_RecoveryCompleted = ''recovery.completed''"
| "event_kind_name EV_BackendRegistered = ''backend.registered''"

record fabric_event =
  ev_event :: event_kind
  ev_at :: instant
  ev_flow :: flow_id
  ev_envelope :: envelope_ref
  ev_of_attempt :: attempt_id
  ev_state :: app_state
  ev_effect :: effect_label
  ev_authority_digest :: u64
  ev_reason :: error_code
  ev_detail :: string

section \<open>Tables\<close>

lemma state_num_inj [simp]: "state_num a = state_num b \<longleftrightarrow> a = b"
  by (cases a; cases b) simp_all

lemma effect_num_inj [simp]: "effect_num a = effect_num b \<longleftrightarrow> a = b"
  by (cases a; cases b) simp_all

lemma drift_num_inj [simp]: "drift_num a = drift_num b \<longleftrightarrow> a = b"
  by (cases a; cases b) simp_all

lemma evidence_kind_num_inj [simp]: "evidence_kind_num a = evidence_kind_num b \<longleftrightarrow> a = b"
  by (cases a; cases b) simp_all

lemma asserts_effect_terminal: "asserts_effect s \<Longrightarrow> is_terminal s"
  by (simp add: asserts_effect_def)

end
