(* ===== verification/PF_Serialize.thy ===== *)
theory PF_Serialize
  imports PF_Codec PF_Policy PF_Binding PF_Upstream PF_Application
begin

text \<open>
  \<^verbatim>\<open>include/pacing/serialize.hpp\<close> and \<^verbatim>\<open>src/serialize.cpp\<close>: the encoders and decoders of
  the durable and wire records. An encoder is the list of its writer calls; \<open>x_bytes\<close> is what it
  emits. A decoder that fills an output and returns a status returns the sum of the two.
\<close>

section \<open>Encoders\<close>

definition w_ref :: "'tag gen_ref \<Rightarrow> (writer \<Rightarrow> writer) list" where
  "w_ref r = [w_u64 (id_value (gr_id r)), w_u64 (gen_value (gr_gen r))]"

definition encode_burst :: "u64 \<Rightarrow> u64 \<Rightarrow> (writer \<Rightarrow> writer) list" where
  "encode_burst bytes packets = [w_u64 bytes, w_u64 packets]"

definition encode_cadence :: "cadence \<Rightarrow> (writer \<Rightarrow> writer) list" where
  "encode_cadence c =
     [w_u64 (c_rate_bps c), w_u64 (c_quantum_bytes c), w_u64 (c_interval_ns c),
      w_u64 (c_window_ns c), w_u64 (c_grants_per_window c), w_u64 (c_bytes_per_window c),
      w_u64 (c_burst_bytes c), w_u64 (c_burst_packets c), w_u8 (shape_num (c_shape c))]"

definition encode_authority :: "authority_vector \<Rightarrow> (writer \<Rightarrow> writer) list" where
  "encode_authority a =
     w_ref (av_flow a) @ w_ref (av_resource a) @ w_ref (av_policy a) @ w_ref (av_grant a) @
     w_ref (av_path a) @
     [w_u64 (epoch_value (av_epoch a)), w_u64 (bo_counter (av_boot a)), w_u64 (bo_nonce (av_boot a))]"

definition encode_binding :: "binding \<Rightarrow> (writer \<Rightarrow> writer) list" where
  "encode_binding b =
     [w_u64 (id_value (b_flow b)), w_u64 (gen_value (b_gen b))] @
     w_ref (b_resource b) @ w_ref (b_path b) @
     [w_u64 (id_value (b_service_class b)), w_u64 (id_value (b_tenant b)),
      w_u64 (b_declared_max_burst_bytes b), w_u64 (b_declared_max_burst_packets b),
      w_bool (b_quiesced b), w_u64 (id_value (b_provenance b))]"

definition encode_exception :: "sc_exception \<Rightarrow> (writer \<Rightarrow> writer) list" where
  "encode_exception x =
     [w_u64 (id_value (x_service_class x)), w_u64 (x_min_rate_bps x), w_u64 (x_rate_share_ppm x)] @
     encode_burst (x_burst_bytes x) (x_burst_packets x) @ [w_u32 (x_priority x)]"

definition encode_policy :: "policy \<Rightarrow> (writer \<Rightarrow> writer) list" where
  "encode_policy p =
     [w_u64 (id_value (gr_id (p_ref p))), w_u64 (gen_value (gr_gen (p_ref p))),
      w_u8 (layer_num (p_layer p)), w_u64 (id_value (p_resource p)), w_u64 (id_value (p_flow p)),
      w_u64 (p_rate_share_ppm p), w_u64 (p_rate_bps p), w_u64 (p_min_rate_bps p)] @
     encode_burst (p_burst_bytes p) (p_burst_packets p) @
     [w_u64 (p_quantum_bytes p), w_u64 (p_window_ns p), w_u8 (shape_num (p_shape p)),
      w_u64 (p_grants_per_window_hint p)] @
     w_ref (p_path p) @
     [w_u64 (id_value (p_default_service_class p)), w_u64 (id_value (p_tenant p)),
      w_u64 (id_value (p_provenance p)), w_u64 (inst_ns (p_published_at p)),
      w_u32 (of_nat (length (p_exceptions p)))] @
     concat (map encode_exception (p_exceptions p))"

definition encode_deadline :: "deadline \<Rightarrow> (writer \<Rightarrow> writer) list" where
  "encode_deadline d = [w_bool (dl_set d), w_u64 (if dl_set d then inst_ns (dl_instant d) else 0)]"

definition encode_provenance :: "provenance \<Rightarrow> (writer \<Rightarrow> writer) list" where
  "encode_provenance v =
     [w_u64 (id_value (pv_id v)), w_u64 (pv_sequence v), w_u64 (pv_fabric_instance v),
      w_u64 (pv_binding_digest v), w_u64 (pv_policy_digest v), w_u64 (pv_grant_digest v),
      w_u64 (pv_cadence_digest v)]"

definition encode_envelope :: "envelope \<Rightarrow> (writer \<Rightarrow> writer) list" where
  "encode_envelope e =
     [w_u64 (id_value (gr_id (e_ref e))), w_u64 (gen_value (gr_gen (e_ref e))),
      w_u64 (id_value (e_flow e)), w_u64 (id_value (e_resource e))] @
     encode_authority (e_authority e) @ encode_cadence (e_cadence e) @
     [w_u64 (e_requested_rate_bps e), w_u64 (e_ceiling_bps e), w_u64 (e_floor_bps e),
      w_bool (e_clamped_to_ceiling e), w_bool (e_clamped_to_floor e),
      w_u64 (id_value (e_service_class e))] @
     encode_provenance (e_provenance e) @
     [w_u64 (inst_ns (e_derived_at e))] @ encode_deadline (e_valid_until e) @
     [w_bool (e_upstream_synthetic e), w_bool (e_policy_synthetic e)]"

definition encode_attempt :: "app_record \<Rightarrow> (writer \<Rightarrow> writer) list" where
  "encode_attempt r =
     [w_u64 (id_value (r_attempt r)), w_u64 (id_value (gr_id (r_envelope r))),
      w_u64 (gen_value (gr_gen (r_envelope r))), w_u64 (id_value (r_flow r)),
      w_u64 (id_value (r_resource r))] @
     encode_authority (r_authority r) @ encode_cadence (r_desired r) @
     [w_u8 (state_num (r_state r)), w_u8 (state_num (r_last_known_state r)),
      w_u8 (effect_num (r_effect r)), w_u8 (evidence_kind_num (r_evidence_kind r)),
      w_u64 (r_observed_rate_bps r), w_u64 (r_observed_quantum_bytes r),
      w_u64 (r_observed_burst_bytes r), w_u64 (r_observed_interval_ns r), w_u64 (r_backend_seq r),
      w_u64 (r_evidence_digest r), w_bool (r_evidence_integrity_ok r)] @
     w_ref (r_backend r) @
     [w_u64 (wb_incarnation (r_worker r)), w_u64 (wb_nonce (r_worker r)),
      w_bool (r_backend_synthetic r), w_u16 (error_code_num (r_reason r)),
      w_u8 (drift_num (r_drift r)), w_str (r_detail r), w_u64 (r_revision r),
      w_u64 (r_created_ns r), w_u64 (r_updated_ns r), w_bool (r_requires_revalidation r)]"

definition encode_grant :: "rate_grant \<Rightarrow> (writer \<Rightarrow> writer) list" where
  "encode_grant g =
     w_ref (g_ref g) @
     [w_u64 (id_value (g_resource g)), w_u64 (g_ceiling_bps g), w_u64 (g_floor_bps g),
      w_u64 (g_revision g), w_u64 (inst_ns (g_observed_at g))] @
     encode_deadline (g_valid_until g) @
     [w_u64 (id_value (g_provenance g)), w_bool (g_authoritative g)]"

definition encode_revocation :: "envelope_ref \<Rightarrow> string \<Rightarrow> (writer \<Rightarrow> writer) list" where
  "encode_revocation e reason = w_ref e @ [w_str reason]"

definition encode_epoch :: "epoch \<Rightarrow> boot_id \<Rightarrow> (writer \<Rightarrow> writer) list" where
  "encode_epoch e b = [w_u64 (epoch_value e), w_u64 (bo_counter b), w_u64 (bo_nonce b)]"

definition encode_identity_u64 :: "u64 \<Rightarrow> (writer \<Rightarrow> writer) list" where
  "encode_identity_u64 v = [w_u64 v]"

fun nature_num :: "backend_nature \<Rightarrow> u8" where
  "nature_num BN_Real = 0"
| "nature_num BN_Synthetic = 1"

definition encode_backend_descriptor :: "backend_descriptor \<Rightarrow> (writer \<Rightarrow> writer) list" where
  "encode_backend_descriptor d =
     w_ref (bd_ref d) @
     [w_str (bd_name d), w_u8 (nature_num (bd_nature d)), w_bool (bd_supports_readback d),
      w_u64 (bd_max_rate_bps d), w_u64 (bd_max_burst_bytes d), w_u64 (bd_capability_flags d)]"

section \<open>Enumerations from their numbers\<close>

text \<open>A discriminator above the last enumerator is refused before the cast, so the cast is a
  partial function here.\<close>

definition shape_of_num :: "u8 \<Rightarrow> cadence_shape option" where
  "shape_of_num n = find (\<lambda>s. shape_num s = n) [CS_Uniform, CS_Windowed, CS_TokenBucket]"

definition layer_of_num :: "u8 \<Rightarrow> pacing_layer option" where
  "layer_of_num n = find (\<lambda>s. layer_num s = n) [PL_Resource, PL_Flow]"

definition nature_of_num :: "u8 \<Rightarrow> backend_nature option" where
  "nature_of_num n = find (\<lambda>s. nature_num s = n) [BN_Real, BN_Synthetic]"

definition state_of_num :: "u8 \<Rightarrow> app_state option" where
  "state_of_num n = find (\<lambda>s. state_num s = n)
     [AS_Unknown, AS_Planned, AS_Reserved, AS_Submitted, AS_Acknowledged, AS_Applied,
      AS_AppliedUnverified, AS_Mismatched, AS_RequiresRevalidation, AS_Revoked, AS_Fenced,
      AS_Stale, AS_Failed, AS_Cancelled, AS_Ambiguous]"

definition effect_of_num :: "u8 \<Rightarrow> effect_label option" where
  "effect_of_num n = find (\<lambda>s. effect_num s = n)
     [EL_None, EL_Verified, EL_SyntheticVerified, EL_Unverified, EL_Mismatched]"

definition evidence_kind_of_num :: "u8 \<Rightarrow> evidence_kind option" where
  "evidence_kind_of_num n = find (\<lambda>s. evidence_kind_num s = n)
     [EK_None, EK_BackendReadback, EK_SyntheticReadback, EK_Injected]"

definition drift_of_num :: "u8 \<Rightarrow> authority_drift option" where
  "drift_of_num n = find (\<lambda>s. drift_num s = n)
     [AD_None, AD_Flow, AD_Resource, AD_Policy, AD_RateGrant, AD_Path, AD_Epoch,
      AD_CoordinatorBoot, AD_Incomplete]"

lemma of_num_num [simp]:
  "shape_of_num (shape_num a) = Some a" "layer_of_num (layer_num b) = Some b"
  "nature_of_num (nature_num c) = Some c" "state_of_num (state_num d) = Some d"
  "effect_of_num (effect_num e) = Some e" "evidence_kind_of_num (evidence_kind_num f) = Some f"
  "drift_of_num (drift_num g) = Some g"
  subgoal by (cases a) (simp_all add: shape_of_num_def)
  subgoal by (cases b) (simp_all add: layer_of_num_def)
  subgoal by (cases c) (simp_all add: nature_of_num_def)
  subgoal by (cases d) (simp_all add: state_of_num_def)
  subgoal by (cases e) (simp_all add: effect_of_num_def)
  subgoal by (cases f) (simp_all add: evidence_kind_of_num_def)
  subgoal by (cases g) (simp_all add: drift_of_num_def)
  done

section \<open>Decoders\<close>

abbreviation rd_return :: "'a \<Rightarrow> 'a decode" where
  "rd_return \<equiv> State_Monad.return"

abbreviation malformed :: "string \<Rightarrow> 'a status_or" where
  "malformed m \<equiv> Inl (Status EC_MalformedInput m)"

definition rd_id :: "'tag ident decode" where
  "rd_id = do { v \<leftarrow> rd_u64; rd_return (Id v) }"

definition rd_gen :: "generation decode" where
  "rd_gen = do { v \<leftarrow> rd_u64; rd_return (Generation v) }"

definition rd_ref :: "'tag gen_ref decode" where
  "rd_ref = do { i \<leftarrow> rd_id; g \<leftarrow> rd_gen; rd_return (mk_ref i g) }"

definition decode_cadence :: "cadence status_or decode" where
  "decode_cadence = do {
     rate \<leftarrow> rd_u64; quantum \<leftarrow> rd_u64; interval \<leftarrow> rd_u64; window \<leftarrow> rd_u64;
     grants \<leftarrow> rd_u64; bytes \<leftarrow> rd_u64; burst \<leftarrow> rd_u64; packets \<leftarrow> rd_u64; shape \<leftarrow> rd_u8;
     rd_check (rd_return (case shape_of_num shape of
       None \<Rightarrow> malformed ''unknown cadence shape discriminator''
     | Some s \<Rightarrow> Inr \<lparr>c_rate_bps = rate, c_quantum_bytes = quantum, c_interval_ns = interval,
                      c_window_ns = window, c_grants_per_window = grants,
                      c_bytes_per_window = bytes, c_burst_bytes = burst,
                      c_burst_packets = packets, c_shape = s\<rparr>)) }"

definition decode_authority :: "authority_vector status_or decode" where
  "decode_authority = do {
     flow \<leftarrow> rd_ref; resource \<leftarrow> rd_ref; policy \<leftarrow> rd_ref; grant \<leftarrow> rd_ref; path \<leftarrow> rd_ref;
     epoch \<leftarrow> rd_u64; counter \<leftarrow> rd_u64; nonce \<leftarrow> rd_u64;
     rd_check (rd_return
       (let a = \<lparr>av_flow = flow, av_resource = resource, av_policy = policy, av_grant = grant,
                 av_path = path, av_epoch = Epoch epoch,
                 av_boot = \<lparr>bo_counter = counter, bo_nonce = nonce\<rparr>\<rparr>
        in if \<not> av_complete a then malformed ''decoded authority vector is incomplete''
           else Inr a)) }"

definition decode_binding :: "limits \<Rightarrow> binding status_or decode" where
  "decode_binding l = do {
     flow \<leftarrow> rd_id; generation \<leftarrow> rd_gen; resource \<leftarrow> rd_ref; path \<leftarrow> rd_ref;
     service_class \<leftarrow> rd_id; tenant \<leftarrow> rd_id; bytes \<leftarrow> rd_u64; packets \<leftarrow> rd_u64;
     quiesced \<leftarrow> rd_bool; prov \<leftarrow> rd_id;
     rd_check (rd_return
       (if \<not> id_valid flow \<or> \<not> gen_known generation then
          malformed ''decoded binding identity is invalid''
        else if bytes > l_max_burst_bytes l then
          Inl (Status EC_BurstExceedsBound ''decoded binding burst bytes above limit'')
        else if packets > l_max_burst_packets l then
          Inl (Status EC_BurstExceedsBound ''decoded binding burst packets above limit'')
        else Inr \<lparr>b_flow = flow, b_gen = generation, b_resource = resource, b_path = path,
                  b_service_class = service_class, b_tenant = tenant,
                  b_declared_max_burst_bytes = bytes, b_declared_max_burst_packets = packets,
                  b_quiesced = quiesced, b_provenance = prov\<rparr>)) }"

definition decode_exception :: "sc_exception decode" where
  "decode_exception = do {
     service_class \<leftarrow> rd_id; min_rate \<leftarrow> rd_u64; share \<leftarrow> rd_u64; bytes \<leftarrow> rd_u64;
     packets \<leftarrow> rd_u64; priority \<leftarrow> rd_u32;
     rd_return \<lparr>x_service_class = service_class, x_min_rate_bps = min_rate,
                x_rate_share_ppm = share, x_burst_bytes = bytes, x_burst_packets = packets,
                x_priority = priority\<rparr> }"

text \<open>The loop over \<^verbatim>\<open>exception_count\<close> entries; it stops at the first failed read.\<close>

fun decode_exceptions :: "nat \<Rightarrow> sc_exception list status_or decode" where
  "decode_exceptions 0 = rd_return (Inr [])"
| "decode_exceptions (Suc n) = do {
     x \<leftarrow> decode_exception;
     rd_check (rd_try (decode_exceptions n) (\<lambda>xs. rd_return (Inr (x # xs)))) }"

definition decoded_policy :: "limits \<Rightarrow> policy \<Rightarrow> policy status_or" where
  "decoded_policy l p =
     (let probe = (if \<not> gen_known (policy_gen p) then with_policy_gen gen_first p else p);
          s = validate_policy probe l
      in if st_ok s then Inr p else Inl s)"

definition decode_policy :: "limits \<Rightarrow> policy status_or decode" where
  "decode_policy l = do {
     i \<leftarrow> rd_id; g \<leftarrow> rd_gen; layer \<leftarrow> rd_u8; resource \<leftarrow> rd_id; flow \<leftarrow> rd_id;
     share \<leftarrow> rd_u64; rate \<leftarrow> rd_u64; min_rate \<leftarrow> rd_u64; bytes \<leftarrow> rd_u64; packets \<leftarrow> rd_u64;
     quantum \<leftarrow> rd_u64; window \<leftarrow> rd_u64; shape \<leftarrow> rd_u8; hint \<leftarrow> rd_u64; path \<leftarrow> rd_ref;
     service_class \<leftarrow> rd_id; tenant \<leftarrow> rd_id; prov \<leftarrow> rd_id; published \<leftarrow> rd_u64; count \<leftarrow> rd_u32;
     rd_check (case layer_of_num layer of
       None \<Rightarrow> rd_return (malformed ''unknown pacing layer discriminator'')
     | Some la \<Rightarrow> (case shape_of_num shape of
         None \<Rightarrow> rd_return (malformed ''unknown cadence shape discriminator'')
       | Some sh \<Rightarrow>
           if count > l_max_service_class_exceptions l then
             rd_return (Inl (Status EC_Oversized ''decoded policy exception count above bound''))
           else rd_try (decode_exceptions (unat count)) (\<lambda>xs. rd_return (decoded_policy l
             \<lparr>p_ref = mk_ref i g, p_layer = la, p_resource = resource, p_flow = flow,
              p_rate_share_ppm = share, p_rate_bps = rate, p_min_rate_bps = min_rate,
              p_burst_bytes = bytes, p_burst_packets = packets, p_quantum_bytes = quantum,
              p_window_ns = window, p_shape = sh, p_grants_per_window_hint = hint,
              p_path = path, p_default_service_class = service_class, p_exceptions = xs,
              p_tenant = tenant, p_provenance = prov, p_published_at = Instant published\<rparr>)))) }"

definition rd_deadline :: "deadline decode" where
  "rd_deadline = do {
     set \<leftarrow> rd_bool; ns \<leftarrow> rd_u64;
     rd_return (if set then deadline_at (Instant ns) else deadline_none) }"

definition rd_provenance :: "provenance decode" where
  "rd_provenance = do {
     i \<leftarrow> rd_id; sequence \<leftarrow> rd_u64; fabric \<leftarrow> rd_u64; bd \<leftarrow> rd_u64; pd \<leftarrow> rd_u64; gd \<leftarrow> rd_u64;
     cd \<leftarrow> rd_u64;
     rd_return \<lparr>pv_id = i, pv_sequence = sequence, pv_fabric_instance = fabric,
                pv_binding_digest = bd, pv_policy_digest = pd, pv_grant_digest = gd,
                pv_cadence_digest = cd\<rparr> }"

definition decode_envelope :: "limits \<Rightarrow> envelope status_or decode" where
  "decode_envelope l = do {
     i \<leftarrow> rd_id; g \<leftarrow> rd_gen; flow \<leftarrow> rd_id; resource \<leftarrow> rd_id;
     rd_try decode_authority (\<lambda>auth. rd_try decode_cadence (\<lambda>cad. do {
       requested \<leftarrow> rd_u64; ceiling \<leftarrow> rd_u64; floor \<leftarrow> rd_u64; cc \<leftarrow> rd_bool; cf \<leftarrow> rd_bool;
       service_class \<leftarrow> rd_id; prov \<leftarrow> rd_provenance; derived \<leftarrow> rd_u64; until \<leftarrow> rd_deadline;
       us \<leftarrow> rd_bool; ps \<leftarrow> rd_bool;
       rd_check (rd_return
         (if \<not> id_valid i \<or> \<not> gen_known g \<or> \<not> id_valid flow then
            malformed ''decoded envelope identity is invalid''
          else if c_rate_bps cad > ceiling then
            Inl (Status EC_CeilingExceeded ''decoded envelope exceeds its recorded ceiling'')
          else Inr \<lparr>e_ref = mk_ref i g, e_flow = flow, e_resource = resource,
                    e_authority = auth, e_cadence = cad, e_requested_rate_bps = requested,
                    e_ceiling_bps = ceiling, e_floor_bps = floor, e_clamped_to_ceiling = cc,
                    e_clamped_to_floor = cf, e_service_class = service_class,
                    e_provenance = prov, e_derived_at = Instant derived, e_valid_until = until,
                    e_upstream_synthetic = us, e_policy_synthetic = ps\<rparr>)) })) }"

definition decode_attempt :: "limits \<Rightarrow> app_record status_or decode" where
  "decode_attempt l = do {
     a \<leftarrow> rd_id; eid \<leftarrow> rd_id; egen \<leftarrow> rd_gen; flow \<leftarrow> rd_id; resource \<leftarrow> rd_id;
     rd_try decode_authority (\<lambda>auth. rd_try decode_cadence (\<lambda>cad. do {
       state \<leftarrow> rd_u8; last \<leftarrow> rd_u8; effect \<leftarrow> rd_u8; evidence \<leftarrow> rd_u8;
       rate \<leftarrow> rd_u64; quantum \<leftarrow> rd_u64; burst \<leftarrow> rd_u64; interval \<leftarrow> rd_u64; seq \<leftarrow> rd_u64;
       digest \<leftarrow> rd_u64; integrity \<leftarrow> rd_bool; backend \<leftarrow> rd_ref; incarnation \<leftarrow> rd_u64;
       nonce \<leftarrow> rd_u64; synthetic \<leftarrow> rd_bool; reason \<leftarrow> rd_u16; drift \<leftarrow> rd_u8;
       detail \<leftarrow> rd_str (unat (l_max_explanation_bytes l)); revision \<leftarrow> rd_u64;
       created \<leftarrow> rd_u64; updated \<leftarrow> rd_u64; reval \<leftarrow> rd_bool;
       rd_check (rd_return
         (if \<not> id_valid a then malformed ''decoded attempt identity is invalid''
          else case (state_of_num state, state_of_num last, effect_of_num effect,
                     evidence_kind_of_num evidence, drift_of_num drift) of
            (Some s, Some ls, Some ef, Some ek, Some dr) \<Rightarrow>
              Inr \<lparr>r_attempt = a, r_envelope = mk_ref eid egen, r_flow = flow, r_resource = resource,
                   r_authority = auth, r_desired = cad, r_state = s, r_last_known_state = ls,
                   r_effect = ef, r_evidence_kind = ek, r_observed_rate_bps = rate,
                   r_observed_quantum_bytes = quantum, r_observed_burst_bytes = burst,
                   r_observed_interval_ns = interval, r_backend_seq = seq,
                   r_evidence_digest = digest, r_evidence_integrity_ok = integrity,
                   r_backend = backend,
                   r_worker = \<lparr>wb_incarnation = incarnation, wb_nonce = nonce\<rparr>,
                   r_backend_synthetic = synthetic, r_reason = error_code_of_num reason,
                   r_drift = dr, r_detail = detail, r_revision = revision,
                   r_created_ns = created, r_updated_ns = updated,
                   r_requires_revalidation = reval\<rparr>
          | _ \<Rightarrow> malformed ''decoded attempt enum discriminator out of range'')) })) }"

definition decode_grant :: "limits \<Rightarrow> rate_grant status_or decode" where
  "decode_grant l = do {
     ref \<leftarrow> rd_ref; resource \<leftarrow> rd_id; ceiling \<leftarrow> rd_u64; floor \<leftarrow> rd_u64; revision \<leftarrow> rd_u64;
     observed \<leftarrow> rd_u64; until \<leftarrow> rd_deadline; prov \<leftarrow> rd_id; authoritative \<leftarrow> rd_bool;
     rd_check (rd_return
       (if ceiling > l_max_rate_bps l then
          Inl (Status EC_OutOfRange ''decoded grant ceiling above configured limit'')
        else if floor > ceiling then
          Inl (Status EC_FloorExceedsCeiling ''decoded grant floor exceeds its ceiling'')
        else Inr \<lparr>g_ref = ref, g_resource = resource, g_ceiling_bps = ceiling,
                  g_floor_bps = floor, g_revision = revision, g_observed_at = Instant observed,
                  g_valid_until = until, g_provenance = prov, g_authoritative = authoritative\<rparr>)) }"

definition decode_revocation :: "(envelope_ref \<times> string) status_or decode" where
  "decode_revocation = do {
     e \<leftarrow> rd_ref; reason \<leftarrow> rd_str 256;
     rd_check (rd_return
       (if \<not> id_valid (gr_id e) then malformed ''decoded revocation has no envelope identity''
        else Inr (e, reason))) }"

definition decode_epoch :: "(epoch \<times> boot_id) status_or decode" where
  "decode_epoch = do {
     e \<leftarrow> rd_u64; counter \<leftarrow> rd_u64; nonce \<leftarrow> rd_u64;
     rd_check (rd_return
       (if \<not> epoch_valid (Epoch e) then malformed ''decoded epoch is not valid''
        else Inr (Epoch e, \<lparr>bo_counter = counter, bo_nonce = nonce\<rparr>))) }"

definition decode_identity_u64 :: "u64 status_or decode" where
  "decode_identity_u64 = do { v \<leftarrow> rd_u64; rd_check (rd_return (Inr v)) }"

definition decode_backend_descriptor :: "limits \<Rightarrow> backend_descriptor status_or decode" where
  "decode_backend_descriptor l = do {
     ref \<leftarrow> rd_ref; name \<leftarrow> rd_str (unat (l_max_name_bytes l)); nature \<leftarrow> rd_u8;
     readback \<leftarrow> rd_bool; rate \<leftarrow> rd_u64; burst \<leftarrow> rd_u64; flags \<leftarrow> rd_u64;
     rd_check (rd_return
       (case nature_of_num nature of
          None \<Rightarrow> malformed ''unknown backend nature discriminator''
        | Some n \<Rightarrow>
            if \<not> id_valid (gr_id ref) \<or> \<not> gen_known (gr_gen ref) \<or> name = [] then
              malformed ''decoded backend descriptor is incomplete''
            else Inr \<lparr>bd_ref = ref, bd_name = name, bd_nature = n,
                      bd_supports_readback = readback, bd_max_rate_bps = rate,
                      bd_max_burst_bytes = burst, bd_capability_flags = flags\<rparr>)) }"

section \<open>Encoders matched with decoders\<close>

text \<open>\<open>codes fs p x\<close>: what the writer calls \<open>fs\<close> emit, the decoder \<open>p\<close> reads back as \<open>x\<close>.\<close>

definition codes :: "(writer \<Rightarrow> writer) list \<Rightarrow> 'a decode \<Rightarrow> 'a \<Rightarrow> bool" where
  "codes fs p x = (\<exists>d. emits (w_seq fs) d \<and> reads p d x)"

named_theorems codes_rules

lemma codes_bind [codes_rules]:
  "codes fs p x \<Longrightarrow> codes gs (f x) y \<Longrightarrow> codes (fs @ gs) (State_Monad.bind p f) y"
  unfolding codes_def by (blast intro: emits_seq_append reads_bind)

lemma codes_one: "emits f d \<Longrightarrow> reads p d x \<Longrightarrow> codes [f] p x"
  unfolding codes_def using emits_seq_Cons [OF _ emits_seq_Nil, of f d] by auto

lemma codes_Cons [codes_rules]:
  "codes [w] p x \<Longrightarrow> codes gs (f x) y \<Longrightarrow> codes (w # gs) (State_Monad.bind p f) y"
  using codes_bind [of "[w]" p x gs f y] by simp

lemma codes_return: "x = y \<Longrightarrow> codes [] (State_Monad.return y) x"
  unfolding codes_def using emits_seq_Nil reads_return [of y] by auto

lemma codes_check [codes_rules]: "codes fs p x \<Longrightarrow> codes fs (rd_check p) x"
  unfolding codes_def using reads_check by blast

lemma codes_try [codes_rules]:
  "codes fs p (Inr x) \<Longrightarrow> codes gs (f x) y \<Longrightarrow> codes (fs @ gs) (rd_try p f) y"
  unfolding codes_def by (blast intro: emits_seq_append reads_try)

lemma codes_atoms [codes_rules]:
  "codes [w_u8 a] rd_u8 a" "codes [w_u16 b] rd_u16 b" "codes [w_u32 c] rd_u32 c"
  "codes [w_u64 d] rd_u64 d" "codes [w_bool e] rd_bool e"
  by (rule codes_one, rule emit_rules, rule read_rules)+

lemma codes_str:
  "length s \<le> m \<Longrightarrow> length s \<le> kMaxStringBytes \<Longrightarrow> codes [w_str s] (rd_str m) s"
  by (rule codes_one, erule emits_w_str, erule reads_str) (simp add: kMaxStringBytes_def)

lemma codes_blob: "length b \<le> m \<Longrightarrow> length b < 4294967296 \<Longrightarrow> codes [w_blob b] (rd_blob m) b"
  by (rule codes_one, rule emits_blob, erule reads_blob)

lemma codes_last: "codes [w] p x \<Longrightarrow> y = f x \<Longrightarrow> codes [w] (State_Monad.bind p (\<lambda>x. State_Monad.return (f x))) y"
  using codes_bind [of "[w]" p x "[]", OF _ codes_return] by fastforce

lemma codes_id [codes_rules]: "codes [w_u64 (id_value i)] rd_id i"
  unfolding rd_id_def by (rule codes_last, rule codes_atoms) simp

lemma codes_gen [codes_rules]: "codes [w_u64 (gen_value g)] rd_gen g"
  unfolding rd_gen_def by (rule codes_last, rule codes_atoms) simp

lemma codes_ref [codes_rules]: "codes (w_ref r) rd_ref r"
  unfolding w_ref_def rd_ref_def by (rule codes_rules codes_return)+ simp

lemma codes_deadline [codes_rules]:
  assumes "dl_set d \<or> dl_instant d = Instant 0"
  shows "codes (encode_deadline d) rd_deadline d"
  unfolding encode_deadline_def rd_deadline_def
  by (rule codes_rules codes_return)+
     (use assms in \<open>cases d, auto simp: deadline_at_def deadline_none_def\<close>)

lemma codes_provenance [codes_rules]: "codes (encode_provenance v) rd_provenance v"
  unfolding encode_provenance_def rd_provenance_def by (rule codes_rules codes_return)+ simp

lemma codes_cadence [codes_rules]: "codes (encode_cadence c) decode_cadence (Inr c)"
  unfolding encode_cadence_def decode_cadence_def by (rule codes_rules codes_return)+ simp

lemma codes_authority [codes_rules]: "av_complete a \<Longrightarrow> codes (encode_authority a) decode_authority (Inr a)"
  unfolding encode_authority_def decode_authority_def
  by (rule codes_rules codes_return)+ (cases a, cases "av_boot a", simp add: Let_def)


lemma codes_binding:
  assumes "id_valid (b_flow b)" "gen_known (b_gen b)"
    "b_declared_max_burst_bytes b \<le> l_max_burst_bytes l"
    "b_declared_max_burst_packets b \<le> l_max_burst_packets l"
  shows "codes (encode_binding b) (decode_binding l) (Inr b)"
  unfolding encode_binding_def decode_binding_def append_Cons append_Nil
  by (rule codes_rules codes_return)+ (use assms in \<open>simp add: not_less\<close>)

lemma codes_exception: "codes (encode_exception x) decode_exception x"
  unfolding encode_exception_def encode_burst_def decode_exception_def append_Cons append_Nil
  by (rule codes_rules codes_return)+ simp

lemma codes_exceptions:
  "codes (concat (map encode_exception xs)) (decode_exceptions (length xs)) (Inr xs)"
proof (induction xs)
  case Nil
  show ?case by (simp add: codes_return)
next
  case (Cons x xs)
  have "codes (concat (map encode_exception xs))
          (rd_check (rd_try (decode_exceptions (length xs)) (\<lambda>ys. rd_return (Inr (x # ys))))) (Inr (x # xs))"
    using codes_try [OF Cons.IH, of "[]" "\<lambda>ys. rd_return (Inr (x # ys))" "Inr (x # xs)"]
    by (intro codes_check) (simp add: codes_return)
  then show ?case by (simp add: codes_bind [OF codes_exception])
qed

text \<open>A policy that the store accepts decodes to itself, also before its first publication.\<close>

lemma codes_policy:
  assumes "st_ok (validate_policy (if gen_known (policy_gen p) then p else with_policy_gen gen_first p) l)"
    and "length (p_exceptions p) \<le> unat (l_max_service_class_exceptions l)"
  shows "codes (encode_policy p) (decode_policy l) (Inr p)"
proof -
  have u: "unat (of_nat (length (p_exceptions p)) :: u32) = length (p_exceptions p)"
    using assms(2) unat_u32_less [of "l_max_service_class_exceptions l"] by (intro unat_of_nat_u32) linarith
  have c: "\<not> (of_nat (length (p_exceptions p)) :: u32) > l_max_service_class_exceptions l"
    using assms(2) u by (simp add: word_less_nat_alt)
  have d: "decoded_policy l p = Inr p"
    using assms(1) by (cases "gen_known (policy_gen p)") (simp_all add: decoded_policy_def)
  have x: "codes (concat (map encode_exception (p_exceptions p)))
             (rd_try (decode_exceptions (length (p_exceptions p))) (\<lambda>xs. rd_return (decoded_policy l (R xs)))) (Inr p)"
    if "R (p_exceptions p) = p" for R
    using codes_try [where gs = "[]" and f = "\<lambda>xs. rd_return (decoded_policy l (R xs))" and y = "Inr p",
        OF codes_exceptions [of "p_exceptions p"]]
      codes_return [of "Inr p" "decoded_policy l (R (p_exceptions p))"] d that
    by simp
  show ?thesis
    unfolding encode_policy_def encode_burst_def decode_policy_def append_Cons append_Nil
    by (rule codes_rules)+ (simp add: c u, rule x, simp)
qed

definition deadline_wf :: "deadline \<Rightarrow> bool" where
  "deadline_wf d = (dl_set d \<or> dl_instant d = Instant 0)"

lemma deadline_wf_simps [simp]: "deadline_wf (deadline_at i)" "deadline_wf deadline_none"
  by (simp_all add: deadline_wf_def deadline_at_def deadline_none_def)

definition envelope_wf :: "envelope \<Rightarrow> bool" where
  "envelope_wf e =
     (id_valid (gr_id (e_ref e)) \<and> gen_known (gr_gen (e_ref e)) \<and> id_valid (e_flow e) \<and>
      av_complete (e_authority e) \<and> c_rate_bps (e_cadence e) \<le> e_ceiling_bps e \<and>
      deadline_wf (e_valid_until e))"

lemma codes_envelope: "envelope_wf e \<Longrightarrow> codes (encode_envelope e) (decode_envelope l) (Inr e)"
  unfolding encode_envelope_def decode_envelope_def append_Cons append_Nil append_assoc
  by (rule codes_rules codes_return codes_authority | simp add: envelope_wf_def deadline_wf_def not_less; fail)+

definition attempt_wf :: "limits \<Rightarrow> app_record \<Rightarrow> bool" where
  "attempt_wf l r =
     (id_valid (r_attempt r) \<and> av_complete (r_authority r) \<and> genuine_code (r_reason r) \<and>
      length (r_detail r) \<le> unat (l_max_explanation_bytes l) \<and> length (r_detail r) \<le> kMaxStringBytes)"

lemma codes_attempt: "attempt_wf l r \<Longrightarrow> codes (encode_attempt r) (decode_attempt l) (Inr r)"
  unfolding encode_attempt_def decode_attempt_def append_Cons append_Nil append_assoc
  by (rule codes_rules codes_return codes_authority codes_str
      | simp add: attempt_wf_def error_code_of_num_num; fail)+

definition grant_wf :: "limits \<Rightarrow> rate_grant \<Rightarrow> bool" where
  "grant_wf l g =
     (g_ceiling_bps g \<le> l_max_rate_bps l \<and> g_floor_bps g \<le> g_ceiling_bps g \<and> deadline_wf (g_valid_until g))"

lemma codes_grant: "grant_wf l g \<Longrightarrow> codes (encode_grant g) (decode_grant l) (Inr g)"
  unfolding encode_grant_def decode_grant_def append_Cons append_Nil append_assoc
  by (rule codes_rules codes_return | simp add: grant_wf_def deadline_wf_def not_less; fail)+

lemma codes_revocation:
  "id_valid (gr_id e) \<Longrightarrow> length s \<le> 256 \<Longrightarrow> codes (encode_revocation e s) decode_revocation (Inr (e, s))"
  unfolding encode_revocation_def decode_revocation_def append_Cons append_Nil append_assoc
  by (rule codes_rules codes_return codes_str | simp add: kMaxStringBytes_def; fail)+

lemma codes_epoch: "epoch_valid e \<Longrightarrow> codes (encode_epoch e b) decode_epoch (Inr (e, b))"
  unfolding encode_epoch_def decode_epoch_def append_Cons append_Nil append_assoc
  by (rule codes_rules codes_return | simp; fail)+

lemma codes_identity_u64: "codes (encode_identity_u64 v) decode_identity_u64 (Inr v)"
  unfolding encode_identity_u64_def decode_identity_u64_def
  by (rule codes_rules codes_return | simp; fail)+

definition descriptor_wf :: "limits \<Rightarrow> backend_descriptor \<Rightarrow> bool" where
  "descriptor_wf l d =
     (descriptor_usable d \<and> length (bd_name d) \<le> unat (l_max_name_bytes l) \<and>
      length (bd_name d) \<le> kMaxStringBytes)"

lemma codes_backend_descriptor:
  "descriptor_wf l d \<Longrightarrow> codes (encode_backend_descriptor d) (decode_backend_descriptor l) (Inr d)"
  unfolding encode_backend_descriptor_def decode_backend_descriptor_def append_Cons append_Nil append_assoc
  by (rule codes_rules codes_return codes_str
      | simp add: descriptor_wf_def descriptor_usable_def ref_known_def; fail)+


section \<open>Every decoder is steady\<close>

lemma steady_parts [steady_rules]:
  "steady rd_id" "steady rd_gen" "steady rd_ref" "steady rd_deadline" "steady rd_provenance"
  "steady decode_exception"
  unfolding rd_id_def rd_gen_def rd_ref_def rd_deadline_def rd_provenance_def decode_exception_def
  by (intro steady_rules)+

lemma steady_decode_cadence [steady_rules]: "steady decode_cadence"
  unfolding decode_cadence_def by (intro steady_rules)

lemma steady_decode_authority [steady_rules]: "steady decode_authority"
  unfolding decode_authority_def by (intro steady_rules)

lemma steady_decode_exceptions [steady_rules]: "steady (decode_exceptions n)"
  by (induction n) (auto intro!: steady_rules)

lemma steady_case_option [steady_rules]:
  "steady p \<Longrightarrow> (\<And>x. steady (q x)) \<Longrightarrow> steady (case y of None \<Rightarrow> p | Some x \<Rightarrow> q x)"
  by (cases y) simp_all

lemma steady_decoders [steady_rules]:
  "steady (decode_binding l)" "steady (decode_policy l)" "steady (decode_envelope l)"
  "steady (decode_attempt l)" "steady (decode_grant l)" "steady decode_revocation"
  "steady decode_epoch" "steady decode_identity_u64" "steady (decode_backend_descriptor l)"
  unfolding decode_binding_def decode_policy_def decode_envelope_def decode_attempt_def decode_grant_def
    decode_revocation_def decode_epoch_def decode_identity_u64_def decode_backend_descriptor_def
  by (intro steady_rules)+

section \<open>The codecs\<close>

text \<open>The bytes of one record: what the encoder leaves in a fresh writer of the given capacity.
  A record is encodable when the writer is not poisoned.\<close>

definition record_bytes :: "nat \<Rightarrow> (writer \<Rightarrow> writer) list \<Rightarrow> u8 list" where
  "record_bytes cap fs = w_buf (w_seq fs (writer_new cap))"

definition encodable :: "nat \<Rightarrow> (writer \<Rightarrow> writer) list \<Rightarrow> bool" where
  "encodable cap fs = w_ok (w_seq fs (writer_new cap))"

lemma codes_reads: "codes fs p x \<Longrightarrow> encodable cap fs \<Longrightarrow> reads p (record_bytes cap fs) x"
  unfolding codes_def encodable_def record_bytes_def using emits_new(2) [of "w_seq fs"] by auto

lemma codec_of_codes:
  assumes "\<And>x. good x \<Longrightarrow> codes (encode x) dec (Inr x)" "steady dec"
  shows "codec (\<lambda>x. record_bytes cap (encode x)) dec (\<lambda>x. good x \<and> encodable cap (encode x))"
proof
  fix x assume "good x \<and> encodable cap (encode x)"
  then show "reads dec (record_bytes cap (encode x)) (Inr x)" using codes_reads [OF assms(1)] by blast
qed (rule assms(2))

definition binding_decodable :: "limits \<Rightarrow> binding \<Rightarrow> bool" where
  "binding_decodable l b =
     (id_valid (b_flow b) \<and> gen_known (b_gen b) \<and> b_declared_max_burst_bytes b \<le> l_max_burst_bytes l \<and>
      b_declared_max_burst_packets b \<le> l_max_burst_packets l)"

definition policy_decodable :: "limits \<Rightarrow> policy \<Rightarrow> bool" where
  "policy_decodable l p =
     st_ok (validate_policy (if gen_known (policy_gen p) then p else with_policy_gen gen_first p) l)"

lemma validate_policy_exceptions:
  "st_ok (validate_policy p l) \<Longrightarrow> length (p_exceptions p) \<le> unat (l_max_service_class_exceptions l)"
  by (simp add: validate_policy_def split: if_splits)

lemma codes_policy_decodable: "policy_decodable l p \<Longrightarrow> codes (encode_policy p) (decode_policy l) (Inr p)"
  unfolding policy_decodable_def
  by (rule codes_policy, assumption) (auto dest!: validate_policy_exceptions split: if_splits)

lemma codes_binding_decodable: "binding_decodable l b \<Longrightarrow> codes (encode_binding b) (decode_binding l) (Inr b)"
  unfolding binding_decodable_def by (rule codes_binding) simp_all

interpretation cadence_codec: codec "\<lambda>c. record_bytes cap (encode_cadence c)" decode_cadence
    "\<lambda>c. True \<and> encodable cap (encode_cadence c)" for cap
  by (rule codec_of_codes [where encode = encode_cadence and good = "\<lambda>_. True"]) (rule codes_cadence steady_rules)+

interpretation authority_codec: codec "\<lambda>a. record_bytes cap (encode_authority a)" decode_authority
    "\<lambda>a. av_complete a \<and> encodable cap (encode_authority a)" for cap
  by (rule codec_of_codes [where encode = encode_authority and good = av_complete]) (erule codes_authority, rule steady_rules)

interpretation binding_codec: codec "\<lambda>b. record_bytes cap (encode_binding b)" "decode_binding l"
    "\<lambda>b. binding_decodable l b \<and> encodable cap (encode_binding b)" for cap l
  by (rule codec_of_codes [where encode = encode_binding and good = "binding_decodable l"]) (erule codes_binding_decodable, rule steady_rules)

interpretation policy_codec: codec "\<lambda>p. record_bytes cap (encode_policy p)" "decode_policy l"
    "\<lambda>p. policy_decodable l p \<and> encodable cap (encode_policy p)" for cap l
  by (rule codec_of_codes [where encode = encode_policy and good = "policy_decodable l"]) (erule codes_policy_decodable, rule steady_rules)

interpretation envelope_codec: codec "\<lambda>e. record_bytes cap (encode_envelope e)" "decode_envelope l"
    "\<lambda>e. envelope_wf e \<and> encodable cap (encode_envelope e)" for cap l
  by (rule codec_of_codes [where encode = encode_envelope and good = envelope_wf]) (erule codes_envelope, rule steady_rules)

interpretation attempt_codec: codec "\<lambda>r. record_bytes cap (encode_attempt r)" "decode_attempt l"
    "\<lambda>r. attempt_wf l r \<and> encodable cap (encode_attempt r)" for cap l
  by (rule codec_of_codes [where encode = encode_attempt and good = "attempt_wf l"]) (erule codes_attempt, rule steady_rules)

interpretation grant_codec: codec "\<lambda>g. record_bytes cap (encode_grant g)" "decode_grant l"
    "\<lambda>g. grant_wf l g \<and> encodable cap (encode_grant g)" for cap l
  by (rule codec_of_codes [where encode = encode_grant and good = "grant_wf l"]) (erule codes_grant, rule steady_rules)

interpretation descriptor_codec: codec "\<lambda>d. record_bytes cap (encode_backend_descriptor d)"
    "decode_backend_descriptor l" "\<lambda>d. descriptor_wf l d \<and> encodable cap (encode_backend_descriptor d)" for cap l
  by (rule codec_of_codes [where encode = encode_backend_descriptor and good = "descriptor_wf l"]) (erule codes_backend_descriptor, rule steady_rules)

section \<open>Sizes\<close>

text \<open>\<open>sized fs n\<close>: the calls leave \<open>n\<close> bytes when the writer has the room, so a record is
  encodable exactly when its size is within the capacity.\<close>

definition sized :: "(writer \<Rightarrow> writer) list \<Rightarrow> nat \<Rightarrow> bool" where
  "sized fs n = (\<exists>d. emits (w_seq fs) d \<and> length d = n)"

named_theorems size_rules

lemma sized_Nil [size_rules]: "sized [] 0"
  unfolding sized_def using emits_seq_Nil by blast

lemma sized_emits: "emits f d \<Longrightarrow> sized fs n \<Longrightarrow> sized (f # fs) (length d + n)"
  unfolding sized_def using emits_seq_Cons by fastforce

lemma sized_atoms [size_rules]:
  "sized fs n \<Longrightarrow> sized (w_u8 a # fs) (1 + n)"
  "sized fs n \<Longrightarrow> sized (w_u16 b # fs) (2 + n)"
  "sized fs n \<Longrightarrow> sized (w_u32 c # fs) (4 + n)"
  "sized fs n \<Longrightarrow> sized (w_u64 d # fs) (8 + n)"
  "sized fs n \<Longrightarrow> sized (w_bool e # fs) (1 + n)"
  using sized_emits [OF emits_u8] sized_emits [OF emits_u16] sized_emits [OF emits_u32]
    sized_emits [OF emits_u64] sized_emits [OF emits_bool] by fastforce+

lemma sized_str [size_rules]:
  "sized fs n \<Longrightarrow> length s \<le> kMaxStringBytes \<Longrightarrow> sized (w_str s # fs) (4 + length s + n)"
  using sized_emits [OF emits_w_str] by fastforce

lemma sized_append [size_rules]: "sized fs m \<Longrightarrow> sized gs n \<Longrightarrow> sized (fs @ gs) (m + n)"
  unfolding sized_def using emits_seq_append by fastforce

lemma sized_encodable: "sized fs n \<Longrightarrow> encodable cap fs \<longleftrightarrow> n \<le> cap"
  unfolding sized_def encodable_def using emits_new(1) by blast

lemma sized_record_bytes: "sized fs n \<Longrightarrow> n \<le> cap \<Longrightarrow> length (record_bytes cap fs) = n"
  unfolding sized_def record_bytes_def using emits_new by metis

lemma sized_eq: "sized fs n \<Longrightarrow> n = m \<Longrightarrow> sized fs m"
  by simp

lemma sized_parts [size_rules]:
  "sized (w_ref r) 16" "sized (encode_burst x y) 16" "sized (encode_cadence c) 65"
  "sized (encode_deadline t) 9" "sized (encode_provenance v) 56" "sized (encode_authority a) 104"
  "sized (encode_exception ex) 44"
  unfolding w_ref_def encode_burst_def encode_cadence_def encode_deadline_def encode_provenance_def
    encode_authority_def encode_exception_def append_Cons append_Nil append_assoc
  by (rule sized_eq, (rule size_rules)+, simp)+

lemma sized_exceptions [size_rules]: "sized (concat (map encode_exception xs)) (44 * length xs)"
proof (induction xs)
  case Nil
  show ?case using sized_Nil by simp
next
  case (Cons x xs)
  show ?case using sized_append [OF sized_parts(7) Cons.IH] by simp
qed

lemma sized_binding: "sized (encode_binding b) 89"
  unfolding encode_binding_def append_Cons append_Nil append_assoc
  by (rule sized_eq, (rule size_rules)+, simp)

lemma sized_policy: "sized (encode_policy p) (150 + 44 * length (p_exceptions p))"
  unfolding encode_policy_def append_Cons append_Nil append_assoc
  by (rule sized_eq, (rule size_rules)+, simp)

lemma sized_envelope: "sized (encode_envelope e) 310"
  unfolding encode_envelope_def append_Cons append_Nil append_assoc
  by (rule sized_eq, (rule size_rules)+, simp)

lemma sized_attempt:
  "length (r_detail r) \<le> kMaxStringBytes \<Longrightarrow> sized (encode_attempt r) (327 + length (r_detail r))"
  unfolding encode_attempt_def append_Cons append_Nil append_assoc
  by (rule sized_eq, (rule size_rules | assumption)+, simp)

end
