(* ===== verification/PF_Crc32c.thy ===== *)
theory PF_Crc32c
  imports PF_Prelude
begin

text \<open>
  \<^verbatim>\<open>include/pacing/crc32c.hpp\<close> and \<^verbatim>\<open>src/crc32c.cpp\<close>: the table-driven CRC-32C. The table
  is built once, so it is a list here, and a lookup is a list index. The bitwise definition
  \<open>crc_bitwise\<close> is the reference the table version is compared with.
\<close>

definition kPoly :: u32 where
  "kPoly = 0x82F63B78"

definition crc_bit :: "u32 \<Rightarrow> u32" where
  "crc_bit c = (if c AND 1 \<noteq> 0 then kPoly XOR drop_bit 1 c else drop_bit 1 c)"

definition make_table :: "u32 list" where
  "make_table = map (\<lambda>index. (crc_bit ^^ 8) (of_nat index)) [0..<256]"

definition crc_step :: "u32 \<Rightarrow> u8 \<Rightarrow> u32" where
  "crc_step c b = (let index = ucast (c XOR ucast b) :: u8 in make_table ! unat index XOR drop_bit 8 c)"

definition crc32c_extend :: "u32 \<Rightarrow> u8 list \<Rightarrow> u32" where
  "crc32c_extend seed data = NOT (foldl crc_step (NOT seed) data)"

definition crc32c :: "u8 list \<Rightarrow> u32" where
  "crc32c data = crc32c_extend 0 data"

section \<open>The table version is the bitwise polynomial division\<close>

definition crc_bitwise :: "u32 \<Rightarrow> u8 list \<Rightarrow> u32" where
  "crc_bitwise seed data = NOT (foldl (\<lambda>c b. (crc_bit ^^ 8) (c XOR ucast b)) (NOT seed) data)"

lemma make_table_nth: "make_table ! unat (i :: u8) = (crc_bit ^^ 8) (ucast i)"
proof -
  have "unat i < 256" by simp
  then show ?thesis by (simp add: make_table_def)
qed

lemma low_bit: "z AND 1 \<noteq> 0 \<longleftrightarrow> bit z 0" for z :: u32
  by (simp add: and_one_eq bit_0 odd_iff_mod_2_eq_one)

lemma xor_cancel_left: "c XOR a = c XOR b \<Longrightarrow> a = b" for a b c :: u32
proof -
  assume "c XOR a = c XOR b"
  then have "c XOR (c XOR a) = c XOR (c XOR b)" by simp
  then show "a = b" unfolding xor.assoc [symmetric] by simp
qed

text \<open>One division step is linear over exclusive or.\<close>

lemma crc_bit_xor: "crc_bit (x XOR y) = crc_bit x XOR crc_bit y"
  unfolding crc_bit_def low_bit by (rule bit_word_eqI) (auto simp: bit_simps)

lemma crc_bits_xor: "(crc_bit ^^ n) (x XOR y) = (crc_bit ^^ n) x XOR (crc_bit ^^ n) y"
  by (induction n) (simp_all add: crc_bit_xor)

text \<open>A value whose low \<open>n\<close> bits are clear is only shifted.\<close>

lemma crc_bits_shift: "(\<forall>i < n. \<not> bit x i) \<Longrightarrow> (crc_bit ^^ n) x = drop_bit n x"
proof (induction n)
  case 0
  then show ?case by simp
next
  case (Suc n)
  then have h: "(crc_bit ^^ n) x = drop_bit n x" by simp
  have "\<not> bit (drop_bit n x) 0" using Suc.prems by (simp add: bit_simps)
  then have "drop_bit n x AND 1 = 0" using low_bit by blast
  then have "crc_bit (drop_bit n x) = drop_bit (Suc n) x" by (simp add: crc_bit_def)
  then show ?case using h by simp
qed

lemma crc_step_bitwise: "crc_step c b = (crc_bit ^^ 8) (c XOR ucast b)"
proof -
  let ?x = "c XOR ucast b"
  let ?low = "ucast (ucast ?x :: u8) :: u32"
  let ?high = "?x XOR ?low"
  have "?x = ?low XOR ?high" by (rule bit_word_eqI) (auto simp: bit_simps)
  then have "(crc_bit ^^ 8) ?x = (crc_bit ^^ 8) ?low XOR (crc_bit ^^ 8) ?high"
    using crc_bits_xor by metis
  moreover have "(crc_bit ^^ 8) ?high = drop_bit 8 ?high"
    by (rule crc_bits_shift) (auto simp: bit_simps)
  moreover have "drop_bit 8 ?high = drop_bit 8 c"
    by (rule bit_word_eqI) (auto simp: bit_simps dest: bit_imp_le_length)
  ultimately show ?thesis by (simp add: crc_step_def make_table_nth)
qed

lemma crc32c_extend_bitwise: "crc32c_extend seed data = crc_bitwise seed data"
  by (simp add: crc32c_extend_def crc_bitwise_def crc_step_bitwise [abs_def])

text \<open>Extending a checksum over more data is the checksum of the whole.\<close>

lemma crc32c_extend_append: "crc32c_extend (crc32c_extend s a) b = crc32c_extend s (a @ b)"
  by (simp add: crc32c_extend_def)

section \<open>Error detection\<close>

lemma crc_bit_inj: "crc_bit x = crc_bit y \<Longrightarrow> x = y"
proof -
  assume e: "crc_bit x = crc_bit y"
  have top: "bit (crc_bit z) 31 = bit z 0" for z
    unfolding crc_bit_def low_bit by (simp add: kPoly_def bit_simps impossible_bit)
  have z: "bit x 0 = bit y 0" using e top by metis
  then have d: "drop_bit 1 x = drop_bit 1 y"
    using e unfolding crc_bit_def low_bit by (cases "bit y 0") (auto dest: xor_cancel_left)
  show "x = y"
  proof (rule bit_word_eqI)
    fix n assume "n < LENGTH(32)"
    show "bit x n = bit y n"
    proof (cases n)
      case (Suc m)
      have "bit (drop_bit 1 x) m = bit (drop_bit 1 y) m" using d by simp
      then show ?thesis using Suc by (simp add: bit_simps)
    qed (use z in simp)
  qed
qed

lemma crc_bits_inj: "(crc_bit ^^ n) x = (crc_bit ^^ n) y \<Longrightarrow> x = y"
  by (induction n) (auto dest: crc_bit_inj)

lemma crc_fold_inj: "foldl crc_step c data = foldl crc_step d data \<Longrightarrow> c = d"
proof (induction data arbitrary: c d)
  case (Cons b bs)
  then have "crc_step c b = crc_step d b" by simp
  then have "c XOR ucast b = d XOR ucast b" unfolding crc_step_bitwise by (rule crc_bits_inj)
  then show ?case unfolding xor.commute [of _ "ucast b"] by (rule xor_cancel_left)
qed simp

text \<open>Two messages of the same length that differ in one byte have different checksums.\<close>

lemma crc32c_one_byte:
  assumes "a \<noteq> b"
  shows "crc32c (xs @ a # ys) \<noteq> crc32c (xs @ b # ys)"
proof
  assume "crc32c (xs @ a # ys) = crc32c (xs @ b # ys)"
  then have "foldl crc_step (crc_step (foldl crc_step (NOT 0) xs) a) ys
           = foldl crc_step (crc_step (foldl crc_step (NOT 0) xs) b) ys"
    by (simp add: crc32c_def crc32c_extend_def)
  then have "crc_step (foldl crc_step (NOT 0) xs) a = crc_step (foldl crc_step (NOT 0) xs) b"
    by (rule crc_fold_inj)
  then have "foldl crc_step (NOT 0) xs XOR ucast a = foldl crc_step (NOT 0) xs XOR (ucast b :: u32)"
    unfolding crc_step_bitwise by (rule crc_bits_inj)
  then have "(ucast a :: u32) = ucast b" by (rule xor_cancel_left)
  then have "unat (ucast a :: u32) = unat (ucast b :: u32)" by simp
  moreover have "unat x < 4294967296" for x :: u8 using unat_u8_less [of x] by linarith
  ultimately have "unat a = unat b" by (simp add: unsigned_ucast_eq take_bit_eq_mod)
  then have "a = b" by (simp only: word_unat_eq_iff)
  with assms show False ..
qed

end
