(* ===== verification/PF_Durable.thy ===== *)
theory PF_Durable
  imports PF_Codec PF_Crc32c PF_Limits
begin

text \<open>
  \<^verbatim>\<open>include/pacing/durable.hpp\<close> and \<^verbatim>\<open>src/durable.cpp\<close>: the snapshot file, the append-only
  journal and the store that owns both. A file is its bytes, or \<open>None\<close> when it does not exist.
  What the operating system answers (a file that cannot be opened, a write cut short after some
  bytes, a failed flush or rename) is an argument of the operation, so every theorem covers every
  such answer. Reading a file in chunks is reading all of it: the bound check after each chunk
  refuses exactly the files longer than the bound.
\<close>

section \<open>Records and files\<close>

datatype record_type =
    DR_Meta | DR_FlowBinding | DR_Policy | DR_Envelope | DR_Attempt | DR_EnvelopeRevocation
  | DR_EpochAdvance | DR_BackendRegistration | DR_FlowUnbound | DR_PolicyRemoved
  | DR_Other u16

text \<open>The loader casts the number on disk to the enumeration without a check; \<open>DR_Other\<close> holds a
  number that is no enumerator.\<close>

fun record_type_num :: "record_type \<Rightarrow> u16" where
  "record_type_num DR_Meta = 1"
| "record_type_num DR_FlowBinding = 2"
| "record_type_num DR_Policy = 3"
| "record_type_num DR_Envelope = 4"
| "record_type_num DR_Attempt = 5"
| "record_type_num DR_EnvelopeRevocation = 6"
| "record_type_num DR_EpochAdvance = 7"
| "record_type_num DR_BackendRegistration = 8"
| "record_type_num DR_FlowUnbound = 9"
| "record_type_num DR_PolicyRemoved = 10"
| "record_type_num (DR_Other n) = n"

definition record_types :: "record_type list" where
  "record_types =
     [DR_Meta, DR_FlowBinding, DR_Policy, DR_Envelope, DR_Attempt, DR_EnvelopeRevocation,
      DR_EpochAdvance, DR_BackendRegistration, DR_FlowUnbound, DR_PolicyRemoved]"

definition record_type_of_num :: "u16 \<Rightarrow> record_type" where
  "record_type_of_num n =
     (case find (\<lambda>t. record_type_num t = n) record_types of Some t \<Rightarrow> t | None \<Rightarrow> DR_Other n)"

fun record_type_name :: "record_type \<Rightarrow> string" where
  "record_type_name DR_Meta = ''meta''"
| "record_type_name DR_FlowBinding = ''flow-binding''"
| "record_type_name DR_Policy = ''policy''"
| "record_type_name DR_Envelope = ''envelope''"
| "record_type_name DR_Attempt = ''attempt''"
| "record_type_name DR_EnvelopeRevocation = ''envelope-revocation''"
| "record_type_name DR_EpochAdvance = ''epoch-advance''"
| "record_type_name DR_BackendRegistration = ''backend-registration''"
| "record_type_name DR_FlowUnbound = ''flow-unbound''"
| "record_type_name DR_PolicyRemoved = ''policy-removed''"
| "record_type_name (DR_Other n) = ''unknown''"

record durable_record =
  dr_type :: record_type
  dr_sequence :: u64
  dr_timestamp_ns :: u64
  dr_payload :: "u8 list"

record durability_report =
  rp_snapshot_present :: bool
  rp_journal_present :: bool
  rp_format_version :: u32
  rp_snapshot_records :: u64
  rp_journal_records :: u64
  rp_corrupt_records :: u64
  rp_torn_tail_bytes :: u64
  rp_ignored_records :: u64
  rp_load_code :: error_code
  rp_detail :: string

definition empty_report :: durability_report where
  "empty_report =
     \<lparr>rp_snapshot_present = False, rp_journal_present = False, rp_format_version = 0,
      rp_snapshot_records = 0, rp_journal_records = 0, rp_corrupt_records = 0,
      rp_torn_tail_bytes = 0, rp_ignored_records = 0, rp_load_code = EC_Ok, rp_detail = []\<rparr>"

definition kStateFormatVersion :: u32 where
  "kStateFormatVersion = 1"

definition kSnapshotMagic :: "u8 list" where
  "kSnapshotMagic = map byte_of_char ''PFSN''"

definition kJournalMagic :: "u8 list" where
  "kJournalMagic = map byte_of_char ''PFJ1''"

definition kSnapshotHeaderBytes :: nat where "kSnapshotHeaderBytes = 40"
definition kJournalHeaderBytes :: nat where "kJournalHeaderBytes = 16"
definition kRecordHeaderBytes :: nat where "kRecordHeaderBytes = 32"

lemmas header_sizes = kSnapshotHeaderBytes_def kJournalHeaderBytes_def kRecordHeaderBytes_def

section \<open>Framing\<close>

definition encode_record_header :: "record_type \<Rightarrow> u32 \<Rightarrow> u64 \<Rightarrow> u64 \<Rightarrow> u32 \<Rightarrow> u8 list" where
  "encode_record_header t payload_len sequence timestamp payload_crc =
     le_bytes 2 (record_type_num t) @ [0, 0] @ le_bytes 4 payload_len @ le_bytes 8 sequence @
     le_bytes 8 timestamp @ le_bytes 4 payload_crc @ [0, 0, 0, 0]"

definition frame :: "durable_record \<Rightarrow> u8 list" where
  "frame r =
     encode_record_header (dr_type r) (of_nat (length (dr_payload r))) (dr_sequence r)
       (dr_timestamp_ns r) (crc32c (dr_payload r)) @ dr_payload r"

definition slice :: "nat \<Rightarrow> nat \<Rightarrow> u8 list \<Rightarrow> u8 list" where
  "slice offset n bs = take n (drop offset bs)"

definition header_type :: "u8 list \<Rightarrow> record_type" where
  "header_type hdr = record_type_of_num (le_value (slice 0 2 hdr))"

definition header_payload_len :: "u8 list \<Rightarrow> u32" where
  "header_payload_len hdr = le_value (slice 4 4 hdr)"

definition header_sequence :: "u8 list \<Rightarrow> u64" where
  "header_sequence hdr = le_value (slice 8 8 hdr)"

definition header_timestamp :: "u8 list \<Rightarrow> u64" where
  "header_timestamp hdr = le_value (slice 16 8 hdr)"

definition header_payload_crc :: "u8 list \<Rightarrow> u32" where
  "header_payload_crc hdr = le_value (slice 24 4 hdr)"

definition journal_header :: "u8 list" where
  "journal_header = kJournalMagic @ le_bytes 4 kStateFormatVersion @ replicate 8 0"

section \<open>Loading\<close>

text \<open>The loop over the records of a snapshot body. On an error the records read so far stay in
  \<^verbatim>\<open>recovered_\<close>, so the result carries them in both cases.\<close>

fun snapshot_records :: "limits \<Rightarrow> nat \<Rightarrow> u8 list \<Rightarrow> durable_record list \<Rightarrow> status \<times> durable_record list" where
  "snapshot_records l 0 body acc = (success, acc)"
| "snapshot_records l (Suc n) body acc =
     (if length body < kRecordHeaderBytes then
        (Status EC_IntegrityFailure ''snapshot record header is truncated'', acc)
      else
        (let payload_len = header_payload_len body;
             rest = drop kRecordHeaderBytes body
         in if (ucast payload_len :: u64) > l_max_durable_record_bytes l then
              (Status EC_Oversized ''snapshot record payload above bound'', acc)
            else if length rest < unat payload_len then
              (Status EC_IntegrityFailure ''snapshot record payload is truncated'', acc)
            else
              (let payload = take (unat payload_len) rest in
               if crc32c payload \<noteq> header_payload_crc body then
                 (Status EC_IntegrityFailure ''snapshot record checksum mismatch'', acc)
               else snapshot_records l n (drop (unat payload_len) rest)
                      (acc @ [\<lparr>dr_type = header_type body, dr_sequence = header_sequence body,
                               dr_timestamp_ns = header_timestamp body, dr_payload = payload\<rparr>]))))"

record loaded =
  ld_records :: "durable_record list"
  ld_report :: durability_report
  ld_barrier :: u64

definition load_snapshot :: "limits \<Rightarrow> bool \<Rightarrow> u8 list option \<Rightarrow> loaded \<Rightarrow> status \<times> loaded" where
  "load_snapshot l readable file ld =
     (case file of
        None \<Rightarrow> (success, ld\<lparr>ld_report := (ld_report ld)\<lparr>rp_snapshot_present := False\<rparr>\<rparr>)
      | Some bytes \<Rightarrow>
          (let rp = (ld_report ld)\<lparr>rp_snapshot_present := True\<rparr>; ld1 = ld\<lparr>ld_report := rp\<rparr> in
           if \<not> readable then (Status EC_IoFailure ''cannot open snapshot'', ld1)
           else if length bytes > unat (l_max_journal_bytes l * 4) then
             (Status EC_Oversized ''snapshot exceeds configured bound'', ld1)
           else if length bytes < kSnapshotHeaderBytes then
             (Status EC_IntegrityFailure ''snapshot header is truncated'', ld1)
           else if take 4 bytes \<noteq> kSnapshotMagic then
             (Status EC_IntegrityFailure ''snapshot magic mismatch'', ld1)
           else if le_value (slice 4 4 bytes) \<noteq> kStateFormatVersion then
             (Status EC_Unsupported ''snapshot format version is not supported'', ld1)
           else
             (let rp2 = rp\<lparr>rp_format_version := le_value (slice 4 4 bytes)\<rparr>;
                  record_count = (le_value (slice 16 8 bytes) :: u64);
                  barrier = le_value (slice 24 8 bytes);
                  body = drop kSnapshotHeaderBytes bytes
              in if crc32c body \<noteq> le_value (slice 32 4 bytes) then
                   (Status EC_IntegrityFailure ''snapshot body checksum mismatch'',
                    ld\<lparr>ld_report := rp2\<rparr>)
                 else
                   (let (s, recs) = snapshot_records l (unat record_count) body [];
                        ld2 = ld\<lparr>ld_records := ld_records ld @ recs,
                                 ld_report := rp2\<lparr>rp_snapshot_records :=
                                   rp_snapshot_records rp2 + of_nat (length recs)\<rparr>\<rparr>
                    in if st_ok s then (success, ld2\<lparr>ld_barrier := barrier\<rparr>) else (s, ld2)))))"

text \<open>The replay loop over the journal bytes after the file header.\<close>

definition stop_replay :: "u64 \<Rightarrow> nat \<Rightarrow> string option \<Rightarrow> loaded \<Rightarrow> loaded" where
  "stop_replay corrupt remaining detail ld =
     ld\<lparr>ld_report := (ld_report ld)
          \<lparr>rp_corrupt_records := rp_corrupt_records (ld_report ld) + corrupt,
           rp_torn_tail_bytes := rp_torn_tail_bytes (ld_report ld) + of_nat remaining,
           rp_detail := (case detail of None \<Rightarrow> rp_detail (ld_report ld) | Some d \<Rightarrow> d)\<rparr>\<rparr>"

definition replay_one :: "durable_record \<Rightarrow> loaded \<Rightarrow> loaded" where
  "replay_one r ld =
     (let rp = ld_report ld in
      if dr_sequence r \<le> ld_barrier ld then
        ld\<lparr>ld_report := rp\<lparr>rp_ignored_records := rp_ignored_records rp + 1\<rparr>\<rparr>
      else ld\<lparr>ld_records := ld_records ld @ [r],
              ld_report := rp\<lparr>rp_journal_records := rp_journal_records rp + 1\<rparr>\<rparr>)"

function replay :: "limits \<Rightarrow> u8 list \<Rightarrow> loaded \<Rightarrow> loaded" where
  "replay l bs ld =
     (if bs = [] then ld
      else if length bs < kRecordHeaderBytes then stop_replay 0 (length bs) None ld
      else
        (let payload_len = header_payload_len bs in
         if (ucast payload_len :: u64) > l_max_durable_record_bytes l then
           stop_replay 1 (length bs) (Some ''journal record payload above bound; replay stopped'') ld
         else if length bs - kRecordHeaderBytes < unat payload_len then
           stop_replay 0 (length bs) None ld
         else
           (let payload = slice kRecordHeaderBytes (unat payload_len) bs in
            if crc32c payload \<noteq> header_payload_crc bs then
              stop_replay 1 (length bs) (Some ''journal record checksum mismatch; replay stopped'') ld
            else replay l (drop (kRecordHeaderBytes + unat payload_len) bs)
                   (replay_one \<lparr>dr_type = header_type bs, dr_sequence = header_sequence bs,
                                dr_timestamp_ns = header_timestamp bs, dr_payload = payload\<rparr> ld))))"
  by pat_completeness auto
termination
  by (relation "measure (\<lambda>(l, bs, ld). length bs)") (auto simp: header_sizes)

declare replay.simps [simp del]

definition load_journal :: "limits \<Rightarrow> bool \<Rightarrow> u8 list option \<Rightarrow> loaded \<Rightarrow> status \<times> loaded" where
  "load_journal l readable file ld =
     (case file of
        None \<Rightarrow> (success, ld\<lparr>ld_report := (ld_report ld)\<lparr>rp_journal_present := False\<rparr>\<rparr>)
      | Some bytes \<Rightarrow>
          (let rp = (ld_report ld)\<lparr>rp_journal_present := True\<rparr>; ld1 = ld\<lparr>ld_report := rp\<rparr> in
           if \<not> readable then (Status EC_IoFailure ''cannot open journal'', ld1)
           else if length bytes > unat (l_max_journal_bytes l) then
             (Status EC_Oversized ''journal exceeds configured bound'', ld1)
           else if bytes = [] then (success, ld1)
           else if length bytes < kJournalHeaderBytes then
             (success, ld\<lparr>ld_report := rp\<lparr>rp_torn_tail_bytes := of_nat (length bytes),
                rp_detail := ''journal header incomplete; treated as empty journal''\<rparr>\<rparr>)
           else if take 4 bytes \<noteq> kJournalMagic then
             (Status EC_IntegrityFailure ''journal magic mismatch'', ld1)
           else if le_value (slice 4 4 bytes) \<noteq> kStateFormatVersion then
             (Status EC_Unsupported ''journal format version is not supported'', ld1)
           else (success, replay l (drop kJournalHeaderBytes bytes)
                   (ld\<lparr>ld_report := rp\<lparr>rp_format_version := le_value (slice 4 4 bytes)\<rparr>\<rparr>))))"

section \<open>The store\<close>

record disk =
  dk_snapshot :: "u8 list option"
  dk_journal :: "u8 list option"

record durable_store =
  ds_directory :: string
  ds_limits :: limits
  ds_journal_open :: bool
  ds_journal_bytes :: u64
  ds_journal_records :: u64
  ds_sequence_barrier :: u64
  ds_open :: bool
  ds_recovered :: "durable_record list"
  ds_report :: durability_report

definition durable_new :: "string \<Rightarrow> limits \<Rightarrow> durable_store" where
  "durable_new dir l =
     \<lparr>ds_directory = dir, ds_limits = l, ds_journal_open = False, ds_journal_bytes = 0,
      ds_journal_records = 0, ds_sequence_barrier = 0, ds_open = False, ds_recovered = [],
      ds_report = empty_report\<rparr>"

definition needs_checkpoint :: "durable_store \<Rightarrow> bool" where
  "needs_checkpoint d =
     (ds_journal_records d \<ge> ucast (l_max_journal_records (ds_limits d)) \<or>
      ds_journal_bytes d \<ge> (l_max_journal_bytes (ds_limits d) * 3) div 4)"

text \<open>What the system answers while a store is opened. \<open>oi_created\<close> counts the header bytes that
  reached a new journal file, \<open>None\<close> when all did and the file was flushed and closed.\<close>

record open_io =
  oi_directory :: bool
  oi_snapshot_readable :: bool
  oi_journal_readable :: bool
  oi_create :: bool
  oi_created :: "nat option"
  oi_append :: bool
  oi_size :: bool

definition good_open_io :: open_io where
  "good_open_io =
     \<lparr>oi_directory = True, oi_snapshot_readable = True, oi_journal_readable = True,
      oi_create = True, oi_created = None, oi_append = True, oi_size = True\<rparr>"

definition durable_load ::
    "open_io \<Rightarrow> disk \<Rightarrow> durable_store \<Rightarrow> status \<times> durable_store" where
  "durable_load io k d =
     (let l = ds_limits d;
          (s1, ld1) = load_snapshot l (oi_snapshot_readable io) (dk_snapshot k)
                        \<lparr>ld_records = [], ld_report = empty_report, ld_barrier = 0\<rparr>;
          (s, ld) = (if \<not> st_ok s1 then (s1, ld1)
                     else load_journal l (oi_journal_readable io) (dk_journal k) ld1);
          rp = (if \<not> st_ok s then (ld_report ld)\<lparr>rp_load_code := st_code s, rp_detail := st_detail s\<rparr>
                else ld_report ld)
      in (s, d\<lparr>ds_recovered := ld_records ld, ds_report := rp, ds_sequence_barrier := ld_barrier ld\<rparr>))"

definition durable_open :: "open_io \<Rightarrow> disk \<Rightarrow> durable_store \<Rightarrow> status \<times> disk \<times> durable_store" where
  "durable_open io k d =
     (if ds_open d then (Status EC_InvalidState ''durable store already open'', k, d)
      else if ds_directory d = [] then
        (Status EC_InvalidArgument ''durable directory is empty'', k, d)
      else if \<not> oi_directory io then
        (Status EC_IoFailure ''cannot create durable directory'', k, d)
      else
        (let (s, d1) = durable_load io k d in
         if \<not> st_ok s then (s, k, d1)
         else if dk_journal k = None \<and> \<not> oi_create io then
           (Status EC_IoFailure ''cannot create journal'', k, d1)
         else if dk_journal k = None \<and> oi_created io \<noteq> None then
           (Status EC_IoFailure ''journal header was not made durable'',
            k\<lparr>dk_journal := Some (take (the (oi_created io)) journal_header)\<rparr>, d1)
         else
           (let k1 = (if dk_journal k = None then k\<lparr>dk_journal := Some journal_header\<rparr> else k) in
            if \<not> oi_append io then (Status EC_IoFailure ''cannot open journal for append'', k1, d1)
            else (success, k1,
                  d1\<lparr>ds_journal_open := True, ds_open := True,
                     ds_journal_bytes := (if \<not> oi_size io then of_nat kJournalHeaderBytes
                                          else of_nat (length (the (dk_journal k1)))),
                     ds_report := (ds_report d1)\<lparr>rp_load_code := EC_Ok\<rparr>\<rparr>))))"

text \<open>How the writes of an append end: all bytes flushed, or a failure at one of the three calls
  with the number of bytes of the frame that reached the file nevertheless.\<close>

datatype append_io = AI_Done | AI_HeaderFailed nat | AI_PayloadFailed nat | AI_FlushFailed nat

definition journal_append :: "u8 list \<Rightarrow> disk \<Rightarrow> disk" where
  "journal_append bs k =
     k\<lparr>dk_journal := Some ((case dk_journal k of None \<Rightarrow> [] | Some j \<Rightarrow> j) @ bs)\<rparr>"

definition durable_append ::
    "append_io \<Rightarrow> durable_record \<Rightarrow> disk \<Rightarrow> durable_store \<Rightarrow> status \<times> disk \<times> durable_store" where
  "durable_append io r k d =
     (let l = ds_limits d; size = length (dr_payload r) in
      if \<not> ds_open d \<or> \<not> ds_journal_open d then
        (Status EC_InvalidState ''durable store is not open'', k, d)
      else if size > unat (l_max_durable_record_bytes l) then
        (Status EC_Oversized ''durable record above configured bound'', k, d)
      else if size > 0xFFFFFFFF then
        (Status EC_Oversized ''durable record payload length is not representable'', k, d)
      else
        (let total = of_nat (kRecordHeaderBytes + size) in
         if ds_journal_bytes d + total > l_max_journal_bytes l then
           (Status EC_ResourceExhausted
              ''journal is at its configured bound; checkpoint required'', k, d)
         else case io of
           AI_HeaderFailed n \<Rightarrow>
             (Status EC_IoFailure ''journal header write failed'',
              journal_append (take n (take kRecordHeaderBytes (frame r))) k, d)
         | AI_PayloadFailed n \<Rightarrow>
             (Status EC_IoFailure ''journal payload write failed'', journal_append (take n (frame r)) k, d)
         | AI_FlushFailed n \<Rightarrow>
             (Status EC_IoFailure ''journal flush failed'', journal_append (take n (frame r)) k, d)
         | AI_Done \<Rightarrow>
             (success, journal_append (frame r) k,
              d\<lparr>ds_journal_bytes := ds_journal_bytes d + total,
                ds_journal_records := ds_journal_records d + 1,
                ds_sequence_barrier := (if dr_sequence r > ds_sequence_barrier d then dr_sequence r
                                        else ds_sequence_barrier d)\<rparr>)))"

text \<open>The body a checkpoint writes, with the barrier and the record count.\<close>

fun compaction_body ::
    "limits \<Rightarrow> durable_record list \<Rightarrow> u8 list \<Rightarrow> u64 \<Rightarrow> u32 \<Rightarrow> (u8 list \<times> u64 \<times> u32) status_or" where
  "compaction_body l [] body barrier count = Inr (body, barrier, count)"
| "compaction_body l (r # rs) body barrier count =
     (if length (dr_payload r) > unat (l_max_durable_record_bytes l) then
        Inl (Status EC_Oversized ''compacted record above configured bound'')
      else if length (dr_payload r) > 0xFFFFFFFF then
        Inl (Status EC_Oversized ''compacted payload length is not representable'')
      else if count \<ge> l_max_compaction_batch l then
        Inl (Status EC_ResourceExhausted ''compaction batch above configured bound'')
      else compaction_body l rs (body @ frame r)
             (if dr_sequence r > barrier then dr_sequence r else barrier) (count + 1))"

definition snapshot_file :: "u8 list \<Rightarrow> u64 \<Rightarrow> u32 \<Rightarrow> u8 list" where
  "snapshot_file body barrier count =
     kSnapshotMagic @ le_bytes 4 kStateFormatVersion @ replicate 8 0 @
     le_bytes 8 (ucast count :: u64) @ le_bytes 8 barrier @ le_bytes 4 (crc32c body) @
     replicate 4 0 @ body"

text \<open>Where a checkpoint is interrupted: before the rename nothing has changed; a failed truncation
  leaves the new snapshot beside what became of the journal.\<close>

datatype checkpoint_io =
    CI_Done | CI_TempOpenFailed | CI_TempFailed | CI_RenameFailed
  | CI_TruncateOpenFailed | CI_TruncateFailed nat | CI_ReopenFailed

definition durable_checkpoint ::
    "checkpoint_io \<Rightarrow> durable_record list \<Rightarrow> disk \<Rightarrow> durable_store \<Rightarrow> status \<times> disk \<times> durable_store" where
  "durable_checkpoint io recs k d =
     (case compaction_body (ds_limits d) recs [] 0 0 of
        Inl s \<Rightarrow> (s, k, d)
      | Inr (body, barrier, count) \<Rightarrow>
          if \<not> ds_open d then (Status EC_InvalidState ''durable store is not open'', k, d)
          else
            (let k1 = k\<lparr>dk_snapshot := Some (snapshot_file body barrier count)\<rparr>;
                 d1 = d\<lparr>ds_journal_open := False\<rparr>
             in case io of
               CI_TempOpenFailed \<Rightarrow>
                 (Status EC_IoFailure ''cannot create snapshot temporary file'', k, d)
             | CI_TempFailed \<Rightarrow>
                 (Status EC_IoFailure ''snapshot temporary file was not made durable'', k, d)
             | CI_RenameFailed \<Rightarrow>
                 (Status EC_IoFailure ''atomic snapshot replacement failed'', k, d)
             | CI_TruncateOpenFailed \<Rightarrow>
                 (Status EC_IoFailure ''cannot truncate journal'', k1, d1)
             | CI_TruncateFailed n \<Rightarrow>
                 (Status EC_IoFailure ''journal truncation was not made durable'',
                  k1\<lparr>dk_journal := Some (take n journal_header)\<rparr>, d1)
             | CI_ReopenFailed \<Rightarrow>
                 (Status EC_IoFailure ''cannot reopen journal'',
                  k1\<lparr>dk_journal := Some journal_header\<rparr>, d1)
             | CI_Done \<Rightarrow>
                 (success, k1\<lparr>dk_journal := Some journal_header\<rparr>,
                  d\<lparr>ds_journal_open := True, ds_journal_bytes := of_nat kJournalHeaderBytes,
                    ds_journal_records := 0, ds_sequence_barrier := barrier,
                    ds_report := (ds_report d)\<lparr>rp_snapshot_records := ucast count\<rparr>\<rparr>)))"

definition durable_close :: "durable_store \<Rightarrow> status \<times> durable_store" where
  "durable_close d = (success, d\<lparr>ds_journal_open := False, ds_open := False\<rparr>)"

section \<open>A frame read back\<close>

lemma record_type_of_num_num: "t \<in> set record_types \<Longrightarrow> record_type_of_num (record_type_num t) = t"
  by (auto simp: record_types_def record_type_of_num_def)

definition frame_ok :: "limits \<Rightarrow> durable_record \<Rightarrow> bool" where
  "frame_ok l r =
     (length (dr_payload r) \<le> unat (l_max_durable_record_bytes l) \<and>
      length (dr_payload r) \<le> 0xFFFFFFFF \<and> dr_type r \<in> set record_types)"

lemma slice_hit: "length a = n \<Longrightarrow> slice 0 n (a @ b) = a"
  by (simp add: slice_def)

lemma slice_skip: "length a = m \<Longrightarrow> m \<le> k \<Longrightarrow> slice k n (a @ b) = slice (k - m) n b"
  by (simp add: slice_def)

lemma length_frame [simp]: "length (frame r) = kRecordHeaderBytes + length (dr_payload r)"
  by (simp add: frame_def encode_record_header_def header_sizes)

lemma frame_not_Nil [simp]: "frame r \<noteq> []"
  by (metis length_frame list.size(3) add_is_0 header_sizes(3) zero_neq_numeral)

lemma length_header: "length (encode_record_header t p q c x) = kRecordHeaderBytes"
  by (simp add: encode_record_header_def header_sizes)

lemma header_fields:
  "header_payload_len (encode_record_header t p q c x @ rest) = p"
  "header_sequence (encode_record_header t p q c x @ rest) = q"
  "header_timestamp (encode_record_header t p q c x @ rest) = c"
  "header_payload_crc (encode_record_header t p q c x @ rest) = x"
  "header_type (encode_record_header t p q c x @ rest) = record_type_of_num (record_type_num t)"
  by (simp_all add: header_payload_len_def header_sequence_def header_timestamp_def header_payload_crc_def
      header_type_def encode_record_header_def slice_skip slice_hit le_value_bytes
      slice_skip [of "[0, 0]" 2, simplified] slice_skip [where a = "0 # 0 # _"])


lemma frame_fields:
  assumes "frame_ok l r"
  shows "unat (header_payload_len (frame r @ rest)) = length (dr_payload r)"
    "header_sequence (frame r @ rest) = dr_sequence r"
    "header_timestamp (frame r @ rest) = dr_timestamp_ns r"
    "header_payload_crc (frame r @ rest) = crc32c (dr_payload r)"
    "header_type (frame r @ rest) = dr_type r"
    "slice kRecordHeaderBytes (length (dr_payload r)) (frame r @ rest) = dr_payload r"
    "drop (kRecordHeaderBytes + length (dr_payload r)) (frame r @ rest) = rest"
proof -
  show "unat (header_payload_len (frame r @ rest)) = length (dr_payload r)"
    using assms by (simp add: frame_def header_fields frame_ok_def unat_of_nat_u32)
  show "header_sequence (frame r @ rest) = dr_sequence r"
    "header_timestamp (frame r @ rest) = dr_timestamp_ns r"
    "header_payload_crc (frame r @ rest) = crc32c (dr_payload r)"
    by (simp_all add: frame_def header_fields)
  show "header_type (frame r @ rest) = dr_type r"
    using assms by (simp add: frame_def header_fields frame_ok_def record_type_of_num_num)
  show "slice kRecordHeaderBytes (length (dr_payload r)) (frame r @ rest) = dr_payload r"
    by (simp add: frame_def slice_skip [OF length_header] slice_hit)
  show "drop (kRecordHeaderBytes + length (dr_payload r)) (frame r @ rest) = rest"
    using length_frame [of r] by (simp del: length_frame)
qed

lemma frame_len_bound:
  assumes "frame_ok l r"
  shows "\<not> (ucast (header_payload_len (frame r @ rest)) :: u64) > l_max_durable_record_bytes l"
proof -
  have "unat (ucast (header_payload_len (frame r @ rest)) :: u64) = unat (header_payload_len (frame r @ rest))"
  proof -
    have "unat (header_payload_len (frame r @ rest)) < 18446744073709551616"
      using unat_u32_less [of "header_payload_len (frame r @ rest)"] by linarith
    then show ?thesis by (simp add: unsigned_ucast_eq take_bit_eq_mod)
  qed
  then show ?thesis
    using assms frame_fields(1) [OF assms, of rest] by (simp add: word_less_nat_alt frame_ok_def not_less)
qed

lemma replay_frame:
  assumes "frame_ok l r"
  shows "replay l (frame r @ rest) ld = replay l rest (replay_one r ld)"
proof -
  note F = frame_fields [OF assms]
  have n: "frame r @ rest \<noteq> []" "\<not> length (frame r @ rest) < kRecordHeaderBytes"
    "\<not> length (frame r @ rest) - kRecordHeaderBytes < unat (header_payload_len (frame r @ rest))"
    by (simp_all add: F)
  show ?thesis
    by (subst replay.simps, simp only: n if_False frame_len_bound [OF assms] Let_def F) (cases r, simp)
qed

lemma replay_frames:
  "list_all (frame_ok l) rs \<Longrightarrow>
     replay l (concat (map frame rs) @ rest) ld = replay l rest (fold replay_one rs ld)"
  by (induction rs arbitrary: ld) (simp_all add: replay_frame)

lemma replay_Nil [simp]: "replay l [] ld = ld"
  by (simp add: replay.simps)

section \<open>What replay recovers\<close>

lemma replay_one_simps [simp]:
  "ld_barrier (replay_one r ld) = ld_barrier ld"
  "ld_records (replay_one r ld) = ld_records ld @ (if dr_sequence r \<le> ld_barrier ld then [] else [r])"
  "rp_torn_tail_bytes (ld_report (replay_one r ld)) = rp_torn_tail_bytes (ld_report ld)"
  "rp_corrupt_records (ld_report (replay_one r ld)) = rp_corrupt_records (ld_report ld)"
  by (simp_all add: replay_one_def Let_def)

lemma fold_replay_one:
  "ld_barrier (fold replay_one rs ld) = ld_barrier ld"
  "ld_records (fold replay_one rs ld) = ld_records ld @ filter (\<lambda>r. ld_barrier ld < dr_sequence r) rs"
  "rp_torn_tail_bytes (ld_report (fold replay_one rs ld)) = rp_torn_tail_bytes (ld_report ld)"
  "rp_corrupt_records (ld_report (fold replay_one rs ld)) = rp_corrupt_records (ld_report ld)"
  by (induction rs arbitrary: ld) (auto simp: not_le)

lemma stop_replay_simps [simp]:
  "ld_records (stop_replay c n d ld) = ld_records ld"
  "ld_barrier (stop_replay c n d ld) = ld_barrier ld"
  "rp_torn_tail_bytes (ld_report (stop_replay c n d ld)) = rp_torn_tail_bytes (ld_report ld) + of_nat n"
  "rp_corrupt_records (ld_report (stop_replay c n d ld)) = rp_corrupt_records (ld_report ld) + c"
  by (simp_all add: stop_replay_def)

text \<open>A frame cut short stops the replay and is reported as torn.\<close>

lemma header_take:
  assumes "kRecordHeaderBytes \<le> n"
  shows "header_payload_len (take n bs) = header_payload_len bs"
    "header_payload_crc (take n bs) = header_payload_crc bs"
  using assms by (simp_all add: header_payload_len_def header_payload_crc_def slice_def drop_take header_sizes min_def)

lemma replay_torn:
  assumes "frame_ok l r" "0 < n" "n < length (frame r)"
  shows "replay l (take n (frame r)) ld = stop_replay 0 n None ld"
proof -
  have len: "length (take n (frame r)) = n" using assms(3) by simp
  have ne: "take n (frame r) \<noteq> []" using assms(2) by simp
  show ?thesis
  proof (cases "n < kRecordHeaderBytes")
    case True
    then show ?thesis by (subst replay.simps, simp only: ne len if_False if_True)
  next
    case False
    then have h: "header_payload_len (take n (frame r)) = header_payload_len (frame r @ [])"
      by (simp add: header_take)
    have "n - kRecordHeaderBytes < unat (header_payload_len (frame r @ []))"
      unfolding frame_fields(1) [OF assms(1)] using assms(3) False by simp
    then show ?thesis
      using False
      by (subst replay.simps, simp only: ne len if_False if_True Let_def h frame_len_bound [OF assms(1)])
  qed
qed

text \<open>Cutting a sequence of frames anywhere leaves whole frames and at most one torn one.\<close>

lemma cut_frames:
  "n \<le> length (concat (map frame rs)) \<Longrightarrow>
     \<exists>k m. k \<le> length rs \<and> take n (concat (map frame rs)) =
        concat (map frame (take k rs)) @ (if k < length rs then take m (frame (rs ! k)) else []) \<and>
        (k < length rs \<longrightarrow> m < length (frame (rs ! k))) \<and>
        n = length (concat (map frame (take k rs))) + (if k < length rs then m else 0)"
proof (induction rs arbitrary: n)
  case Nil
  then show ?case by simp
next
  case (Cons r rs)
  show ?case
  proof (cases "n < length (frame r)")
    case True
    show ?thesis by (rule exI [of _ "0 :: nat"], rule exI [of _ n]) (use True in simp)
  next
    case False
    then have "n - length (frame r) \<le> length (concat (map frame rs))" using Cons.prems by simp
    from Cons.IH [OF this] obtain k m where km: "k \<le> length rs"
      "take (n - length (frame r)) (concat (map frame rs)) =
         concat (map frame (take k rs)) @ (if k < length rs then take m (frame (rs ! k)) else [])"
      "k < length rs \<longrightarrow> m < length (frame (rs ! k))"
      "n - length (frame r) = length (concat (map frame (take k rs))) + (if k < length rs then m else 0)"
      by blast
    have a: "take n (concat (map frame (r # rs))) = frame r @ take (n - length (frame r)) (concat (map frame rs))"
      using False by simp
    have b: "n = length (frame r) + (n - length (frame r))" using False by simp
    show ?thesis
    proof (rule exI [of _ "Suc k"], rule exI [of _ m], intro conjI)
      show "take n (concat (map frame (r # rs))) = concat (map frame (take (Suc k) (r # rs))) @
              (if Suc k < length (r # rs) then take m (frame ((r # rs) ! Suc k)) else [])"
        unfolding a km(2) by simp
      show "n = length (concat (map frame (take (Suc k) (r # rs)))) + (if Suc k < length (r # rs) then m else 0)"
        using b km(4) by simp
    qed (use km(1,3) in simp_all)
  qed
qed

lemma replay_prefix:
  assumes "list_all (frame_ok l) rs" "n \<le> length (concat (map frame rs))"
  shows "\<exists>k \<le> length rs.
           (\<forall>ld :: loaded. let ld' = replay l (take n (concat (map frame rs))) ld in
             ld_records ld' = ld_records ld @ filter (\<lambda>r. ld_barrier ld < dr_sequence r) (take k rs) \<and>
             rp_torn_tail_bytes (ld_report ld') =
               rp_torn_tail_bytes (ld_report ld) + of_nat (n - length (concat (map frame (take k rs)))) \<and>
             rp_corrupt_records (ld_report ld') = rp_corrupt_records (ld_report ld)) \<and>
           length (concat (map frame (take k rs))) \<le> n \<and>
           (k < length rs \<longrightarrow> n < length (concat (map frame (take (Suc k) rs))))"
proof -
  obtain k m where km: "k \<le> length rs"
    "take n (concat (map frame rs)) =
       concat (map frame (take k rs)) @ (if k < length rs then take m (frame (rs ! k)) else [])"
    "k < length rs \<longrightarrow> m < length (frame (rs ! k))"
    "n = length (concat (map frame (take k rs))) + (if k < length rs then m else 0)"
    using cut_frames [OF assms(2)] by blast
  have ok: "list_all (frame_ok l) (take k rs)" using assms(1) by (simp add: list_all_length)
  have step: "replay l (take n (concat (map frame rs))) ld =
         (if k < length rs \<and> 0 < m then stop_replay 0 m None (fold replay_one (take k rs) ld)
          else fold replay_one (take k rs) ld)" for ld :: loaded
  proof (cases "k < length rs \<and> 0 < m")
    case True
    then have "frame_ok l (rs ! k)" using assms(1) by (simp add: list_all_length)
    with True show ?thesis unfolding km(2) using km(3)
      by (simp only: replay_frames [OF ok] if_True replay_torn simp_thms)
  next
    case False
    then have "(if k < length rs then take m (frame (rs ! k)) else []) = []" by auto
    then have "replay l (take n (concat (map frame rs))) ld = fold replay_one (take k rs) ld"
      unfolding km(2) using replay_frames [OF ok, of "[]" ld] by simp
    then show ?thesis using False by (simp only: if_False)
  qed
  have suc: "length (concat (map frame (take (Suc k) rs))) = length (concat (map frame (take k rs))) + length (frame (rs ! k))"
    if "k < length rs" using that by (simp add: take_Suc_conv_app_nth)
  show ?thesis
    unfolding step using km(1,3,4) suc
    by (intro exI [of _ k]) (auto simp: fold_replay_one Let_def simp del: length_concat)
qed

section \<open>Bytes after a torn frame are lost\<close>

text \<open>
  A header that announces more payload than the file holds stops every later replay at that
  point, and nothing appended behind it within the announced length is recovered.
\<close>

lemma replay_announced:
  assumes "frame_ok l r" "kRecordHeaderBytes \<le> n" "n + length later < length (frame r)"
  shows "ld_records (replay l (take n (frame r) @ later) ld) = ld_records ld"
proof -
  let ?bs = "take n (frame r) @ later"
  have n: "n \<le> length (frame r)" using assms(3) by simp
  have take_bs: "take n ?bs = take n (frame r)" using n by simp
  have h: "header_payload_len ?bs = header_payload_len (frame r @ [])"
    by (metis header_take(1) [OF assms(2)] take_bs append_Nil2)
  have len: "length ?bs = n + length later" using n by simp
  have ne: "?bs \<noteq> []" "\<not> length ?bs < kRecordHeaderBytes"
    using assms(2) len by (auto simp: header_sizes)
  have "length ?bs - kRecordHeaderBytes < unat (header_payload_len (frame r @ []))"
    unfolding frame_fields(1) [OF assms(1)] using assms(2,3) len by simp
  then have "replay l ?bs ld = stop_replay 0 (length ?bs) None ld"
    by (subst replay.simps, simp only: ne if_False if_True Let_def h frame_len_bound [OF assms(1)])
  then show ?thesis by simp
qed

section \<open>Snapshots\<close>

lemma snapshot_records_frame:
  assumes "frame_ok l r"
  shows "snapshot_records l (Suc n) (frame r @ rest) acc = snapshot_records l n rest (acc @ [r])"
proof -
  note F = frame_fields [OF assms]
  have a: "take (length (dr_payload r)) (drop kRecordHeaderBytes (frame r @ rest)) = dr_payload r"
    using F(6) [of rest] by (simp add: slice_def)
  have b: "drop (length (dr_payload r)) (drop kRecordHeaderBytes (frame r @ rest)) = rest"
    using F(7) [of rest] by (simp only: drop_drop add.commute)
  have c: "\<not> length (frame r @ rest) < kRecordHeaderBytes"
    "\<not> length (drop kRecordHeaderBytes (frame r @ rest)) < length (dr_payload r)"
    by simp_all
  show ?thesis
    by (subst snapshot_records.simps, simp only: c if_False frame_len_bound [OF assms] Let_def F a b)
       (cases r, simp)
qed

lemma snapshot_records_frames:
  "list_all (frame_ok l) rs \<Longrightarrow>
     snapshot_records l (length rs) (concat (map frame rs) @ rest) acc = (success, acc @ rs)"
  by (induction rs arbitrary: acc) (simp_all add: snapshot_records_frame del: snapshot_records.simps(2))

lemma length_magic [simp]: "length kSnapshotMagic = 4" "length kJournalMagic = 4"
  by (simp_all add: kSnapshotMagic_def kJournalMagic_def)

lemma length_snapshot_file: "length (snapshot_file body barrier count) = kSnapshotHeaderBytes + length body"
  by (simp add: snapshot_file_def header_sizes)

lemma snapshot_file_fields:
  "take 4 (snapshot_file body barrier count) = kSnapshotMagic"
  "le_value (slice 4 4 (snapshot_file body barrier count)) = kStateFormatVersion"
  "(le_value (slice 16 8 (snapshot_file body barrier count)) :: u64) = ucast count"
  "le_value (slice 24 8 (snapshot_file body barrier count)) = barrier"
  "le_value (slice 32 4 (snapshot_file body barrier count)) = crc32c body"
  "drop kSnapshotHeaderBytes (snapshot_file body barrier count) = body"
  by (simp_all add: snapshot_file_def slice_skip slice_hit le_value_bytes header_sizes)

definition sum_frames :: "durable_record list \<Rightarrow> u8 list" where
  "sum_frames rs = concat (map frame rs)"

definition start_load :: loaded where
  "start_load = \<lparr>ld_records = [], ld_report = empty_report, ld_barrier = 0\<rparr>"

text \<open>A snapshot file that a checkpoint wrote and the loader accepts.\<close>

definition snapshot_holds :: "limits \<Rightarrow> u8 list option \<Rightarrow> durable_record list \<Rightarrow> u64 \<Rightarrow> bool" where
  "snapshot_holds l img rs barrier =
     (case img of
        None \<Rightarrow> rs = [] \<and> barrier = 0
      | Some bytes \<Rightarrow>
          bytes = snapshot_file (sum_frames rs) barrier (of_nat (length rs)) \<and>
          list_all (frame_ok l) rs \<and> length rs < 4294967296 \<and>
          length bytes \<le> unat (l_max_journal_bytes l * 4))"

definition journal_holds :: "limits \<Rightarrow> u8 list option \<Rightarrow> durable_record list \<Rightarrow> bool" where
  "journal_holds l img rs =
     (case img of
        None \<Rightarrow> rs = []
      | Some bytes \<Rightarrow>
          bytes = journal_header @ sum_frames rs \<and> list_all (frame_ok l) rs \<and>
          length bytes \<le> unat (l_max_journal_bytes l))"

lemma load_snapshot_holds:
  assumes "snapshot_holds l img rs barrier"
  shows "\<exists>ld. load_snapshot l True img start_load = (success, ld) \<and> ld_records ld = rs \<and> ld_barrier ld = barrier \<and>
           rp_torn_tail_bytes (ld_report ld) = 0 \<and> rp_corrupt_records (ld_report ld) = 0"
proof (cases img)
  case None
  with assms show ?thesis by (simp add: snapshot_holds_def load_snapshot_def start_load_def empty_report_def)
next
  case (Some bytes)
  let ?f = "snapshot_file (sum_frames rs) barrier (of_nat (length rs))"
  have h: "bytes = ?f" "list_all (frame_ok l) rs" "length rs < 4294967296" "\<not> length ?f > unat (l_max_journal_bytes l * 4)"
    using assms unfolding snapshot_holds_def Some option.case not_less by blast+
  have n: "unat (ucast (of_nat (length rs) :: u32) :: u64) = length rs"
    using h(3) by (simp add: unsigned_ucast_eq unat_of_nat_u32 take_bit_eq_mod)
  have s: "snapshot_records l (length rs) (sum_frames rs) [] = (success, rs)"
    using snapshot_records_frames [OF h(2), of "[]"] by (simp add: sum_frames_def)
  have e: "load_snapshot l True img start_load =
      (success, \<lparr>ld_records = rs, ld_report = empty_report\<lparr>rp_snapshot_present := True,
         rp_format_version := kStateFormatVersion, rp_snapshot_records := of_nat (length rs)\<rparr>, ld_barrier = barrier\<rparr>)"
    unfolding load_snapshot_def Some option.case h(1)
    by (simp add: h(4) length_snapshot_file snapshot_file_fields n s start_load_def Let_def empty_report_def)
       (use h(4) in \<open>simp add: length_snapshot_file\<close>)
  show ?thesis unfolding e by (simp add: empty_report_def)
qed

lemma length_journal_header [simp]: "length journal_header = kJournalHeaderBytes"
  by (simp add: journal_header_def header_sizes)

lemma journal_header_fields:
  "take 4 (journal_header @ bs) = kJournalMagic"
  "le_value (slice 4 4 (journal_header @ bs)) = kStateFormatVersion"
  by (simp_all add: journal_header_def slice_skip slice_hit le_value_bytes)

lemma load_journal_bytes:
  assumes "kJournalHeaderBytes + length bs \<le> unat (l_max_journal_bytes l)"
  shows "\<exists>ld'. load_journal l True (Some (journal_header @ bs)) ld = (success, replay l bs ld') \<and>
           ld_records ld' = ld_records ld \<and> ld_barrier ld' = ld_barrier ld \<and>
           rp_torn_tail_bytes (ld_report ld') = rp_torn_tail_bytes (ld_report ld) \<and>
           rp_corrupt_records (ld_report ld') = rp_corrupt_records (ld_report ld)"
proof -
  have ne: "journal_header @ bs \<noteq> []" by (metis append_is_Nil_conv length_journal_header list.size(3) header_sizes(2) zero_neq_numeral)
  have nl: "\<not> length (journal_header @ bs) > unat (l_max_journal_bytes l)"
    "\<not> length (journal_header @ bs) < kJournalHeaderBytes" using assms by simp_all
  have d: "drop kJournalHeaderBytes (journal_header @ bs) = bs"
    using length_journal_header by simp
  show ?thesis
    unfolding load_journal_def option.case Let_def journal_header_fields d if_not_P [OF nl(1)] if_not_P [OF nl(2)]
      if_not_P [OF ne]
    by (intro exI conjI) (simp, simp_all)
qed

lemma load_journal_torn_header:
  assumes "n < kJournalHeaderBytes"
  shows "\<exists>ld'. load_journal l True (Some (take n journal_header)) ld = (success, ld') \<and>
           ld_records ld' = ld_records ld \<or> \<not> n \<le> unat (l_max_journal_bytes l)"
  using assms by (auto simp: load_journal_def Let_def)

section \<open>The store recovers what it acknowledged\<close>

definition recovered_by :: "limits \<Rightarrow> disk \<Rightarrow> durable_record list option" where
  "recovered_by l k =
     (case durable_load good_open_io k (durable_new ''d'' l) of
        (s, d) \<Rightarrow> if st_ok s then Some (ds_recovered d) else None)"

lemma recovered_by_eq:
  assumes "snapshot_holds l (dk_snapshot k) snap barrier"
    and "\<And>ld. ld_records ld = snap \<Longrightarrow> ld_barrier ld = barrier \<Longrightarrow>
           \<exists>ld'. load_journal l True (dk_journal k) ld = (success, ld') \<and> ld_records ld' = snap @ js"
  shows "recovered_by l k = Some (snap @ js)"
proof -
  obtain ld where ld: "load_snapshot l True (dk_snapshot k) start_load = (success, ld)"
    "ld_records ld = snap" "ld_barrier ld = barrier"
    using load_snapshot_holds [OF assms(1)] by blast
  obtain ld' where ld': "load_journal l True (dk_journal k) ld = (success, ld')" "ld_records ld' = snap @ js"
    using assms(2) [OF ld(2,3)] by blast
  show ?thesis
    using ld(1) ld' by (simp add: recovered_by_def durable_load_def good_open_io_def durable_new_def start_load_def)
qed

lemma recovered_by_cut:
  assumes "snapshot_holds l (dk_snapshot k) snap barrier"
    and "list_all (frame_ok l) js" "n \<le> length (sum_frames js)"
    and "dk_journal k = Some (journal_header @ take n (sum_frames js))"
    and "kJournalHeaderBytes + n \<le> unat (l_max_journal_bytes l)"
  shows "\<exists>c \<le> length js. recovered_by l k = Some (snap @ filter (\<lambda>r. barrier < dr_sequence r) (take c js)) \<and>
           length (sum_frames (take c js)) \<le> n \<and>
           (c < length js \<longrightarrow> n < length (sum_frames (take (Suc c) js)))"
proof -
  have len: "kJournalHeaderBytes + length (take n (sum_frames js)) \<le> unat (l_max_journal_bytes l)"
    using assms(5) by simp
  obtain c where c: "c \<le> length js" "length (sum_frames (take c js)) \<le> n"
    "c < length js \<longrightarrow> n < length (sum_frames (take (Suc c) js))"
    and rec: "\<And>ld :: loaded. ld_records (replay l (take n (sum_frames js)) ld) =
             ld_records ld @ filter (\<lambda>r. ld_barrier ld < dr_sequence r) (take c js)"
    using replay_prefix [OF assms(2) assms(3) [unfolded sum_frames_def]]
    unfolding sum_frames_def Let_def by blast
  have "recovered_by l k = Some (snap @ filter (\<lambda>r. barrier < dr_sequence r) (take c js))"
  proof (rule recovered_by_eq [OF assms(1)])
    fix ld :: loaded assume "ld_records ld = snap" "ld_barrier ld = barrier"
    then show "\<exists>ld'. load_journal l True (dk_journal k) ld = (success, ld') \<and>
                 ld_records ld' = snap @ filter (\<lambda>r. barrier < dr_sequence r) (take c js)"
      using load_journal_bytes [OF len, of ld] rec unfolding assms(4) by metis
  qed
  with c show ?thesis by blast
qed


lemma sum_frames_append [simp]: "sum_frames (a @ b) = sum_frames a @ sum_frames b"
  by (simp add: sum_frames_def)

lemma sum_frames_single [simp]: "sum_frames [r] = frame r" "sum_frames [] = []"
  by (simp_all add: sum_frames_def)

lemma recovered_by_holds:
  assumes "snapshot_holds l (dk_snapshot k) snap barrier" "journal_holds l (dk_journal k) js"
  shows "recovered_by l k = Some (snap @ filter (\<lambda>r. barrier < dr_sequence r) js)"
proof (cases "dk_journal k")
  case None
  then have "js = []" using assms(2) by (simp add: journal_holds_def)
  then show ?thesis
    by (intro recovered_by_eq [OF assms(1)]) (simp add: load_journal_def None)
next
  case (Some bytes)
  have h: "dk_journal k = Some (journal_header @ take (length (sum_frames js)) (sum_frames js))"
    "list_all (frame_ok l) js" "kJournalHeaderBytes + length (sum_frames js) \<le> unat (l_max_journal_bytes l)"
    using assms(2) Some by (auto simp: journal_holds_def)
  obtain c where c: "c \<le> length js"
    "recovered_by l k = Some (snap @ filter (\<lambda>r. barrier < dr_sequence r) (take c js))"
    "c < length js \<longrightarrow> length (sum_frames js) < length (sum_frames (take (Suc c) js))"
    using recovered_by_cut [OF assms(1) h(2) le_refl h(1,3)] by blast
  have "\<not> c < length js"
  proof
    assume "c < length js"
    then have "length (sum_frames js) < length (sum_frames (take (Suc c) js))" using c(3) by blast
    also have "\<dots> \<le> length (sum_frames (take (Suc c) js @ drop (Suc c) js))"
      by (simp only: sum_frames_append length_append le_add1)
    finally show False by simp
  qed
  with c show ?thesis by simp
qed

text \<open>The room and shape an append needs; the store checks the sizes, the caller passes a type.\<close>

definition appendable :: "durable_store \<Rightarrow> durable_record \<Rightarrow> bool" where
  "appendable d r =
     (ds_open d \<and> ds_journal_open d \<and> frame_ok (ds_limits d) r \<and>
      unat (ds_journal_bytes d) + length (frame r) \<le> unat (l_max_journal_bytes (ds_limits d)))"

text \<open>The store's byte count is the length of the journal on disk.\<close>

definition bytes_tracked :: "durable_store \<Rightarrow> disk \<Rightarrow> bool" where
  "bytes_tracked d k = (\<exists>j. dk_journal k = Some j \<and> unat (ds_journal_bytes d) = length j)"

lemma durable_append_ok:
  assumes "appendable d r"
  shows "durable_append AI_Done r k d =
     (success, journal_append (frame r) k,
      d\<lparr>ds_journal_bytes := ds_journal_bytes d + of_nat (length (frame r)),
        ds_journal_records := ds_journal_records d + 1,
        ds_sequence_barrier := (if dr_sequence r > ds_sequence_barrier d then dr_sequence r
                                else ds_sequence_barrier d)\<rparr>)"
proof -
  have a: "ds_open d" "ds_journal_open d" "\<not> length (dr_payload r) > unat (l_max_durable_record_bytes (ds_limits d))"
    "\<not> length (dr_payload r) > 0xFFFFFFFF"
    and t: "unat (ds_journal_bytes d) + length (frame r) \<le> unat (l_max_journal_bytes (ds_limits d))"
    using assms by (simp_all add: appendable_def frame_ok_def)
  have "length (frame r) < 18446744073709551616"
    using t unat_u64_less [of "l_max_journal_bytes (ds_limits d)"] by linarith
  then have u: "unat (of_nat (length (frame r)) :: u64) = length (frame r)" by (rule unat_of_nat_u64)
  have "unat (ds_journal_bytes d) + length (frame r) < 18446744073709551616"
    using t unat_u64_less [of "l_max_journal_bytes (ds_limits d)"] by linarith
  then have "unat (ds_journal_bytes d + of_nat (length (frame r))) = unat (ds_journal_bytes d) + length (frame r)"
    using unat_add_u64 [of "ds_journal_bytes d" "of_nat (length (frame r))"] unfolding u by blast
  then have "\<not> ds_journal_bytes d + of_nat (length (frame r)) > l_max_journal_bytes (ds_limits d)"
    using t by (simp add: word_less_nat_alt)
  then show ?thesis using a by (simp add: durable_append_def Let_def)
qed

lemma durable_append_status:
  "st_ok (fst (durable_append io r k d)) \<Longrightarrow> io = AI_Done"
  by (auto simp: durable_append_def Let_def split: if_splits append_io.splits)

text \<open>Every way an append can end leaves the old journal and a prefix of the new frame.\<close>

lemma durable_append_disk:
  assumes "durable_append io r k d = (s, k', d')"
  shows "k' = k \<or> (\<exists>n \<le> length (frame r). k' = journal_append (take n (frame r)) k \<and> (st_ok s \<longrightarrow> n = length (frame r)))"
proof -
  have t: "take n (take kRecordHeaderBytes (frame r)) = take (min n kRecordHeaderBytes) (frame r)" for n by (simp add: min.commute)
  have m: "take n (frame r) = take (min n (length (frame r))) (frame r)" for n by (simp add: min_def)
  consider "k' = k" | n where "k' = journal_append (take n (frame r)) k" "\<not> st_ok s"
    | "k' = journal_append (frame r) k" "st_ok s"
    using assms unfolding durable_append_def Let_def t
    by (auto split: if_splits append_io.splits)
  then show ?thesis
  proof cases
    case 2
    then have "k' = journal_append (take (min n (length (frame r))) (frame r)) k" using m [of n] by simp
    with 2(2) show ?thesis by (metis min.cobounded2)
  next
    case 3
    then show ?thesis by (intro disjI2 exI [of _ "length (frame r)"]) simp
  qed simp
qed

lemma append_crash:
  assumes snap: "snapshot_holds l (dk_snapshot k) snap barrier"
    and jrn: "dk_journal k = Some (journal_header @ sum_frames js)" "list_all (frame_ok l) js"
    and r: "frame_ok l r" "kJournalHeaderBytes + length (sum_frames (js @ [r])) \<le> unat (l_max_journal_bytes l)"
    and app: "durable_append io r k d = (s, k', d')"
  shows "recovered_by l k' = Some (snap @ filter (\<lambda>x. barrier < dr_sequence x) js) \<and> \<not> st_ok s \<or>
         recovered_by l k' = Some (snap @ filter (\<lambda>x. barrier < dr_sequence x) (js @ [r]))"
  using durable_append_disk [OF app]
proof
  assume k: "k' = k"
  have "\<not> st_ok s"
  proof
    assume "st_ok s"
    then have "k' = journal_append (frame r) k"
      using app durable_append_status [of io r k d] by (auto simp: durable_append_def Let_def split: if_splits)
    then show False using k jrn(1) by (cases k) (auto simp: journal_append_def)
  qed
  moreover have "journal_holds l (dk_journal k) js"
    using jrn r(2) by (simp add: journal_holds_def)
  ultimately show ?thesis using recovered_by_holds [OF snap] k by simp
next
  assume "\<exists>n \<le> length (frame r). k' = journal_append (take n (frame r)) k \<and> (st_ok s \<longrightarrow> n = length (frame r))"
  then obtain n where n: "n \<le> length (frame r)" "k' = journal_append (take n (frame r)) k"
    "st_ok s \<longrightarrow> n = length (frame r)" by blast
  let ?js = "js @ [r]"
  let ?n = "length (sum_frames js) + n"
  have k': "dk_snapshot k' = dk_snapshot k" "dk_journal k' = Some (journal_header @ take ?n (sum_frames ?js))"
    using n(1) by (simp_all add: n(2) journal_append_def jrn(1))
  have ok: "list_all (frame_ok l) ?js" using jrn(2) r(1) by simp
  have le: "?n \<le> length (sum_frames ?js)" using n(1) by simp
  have room: "kJournalHeaderBytes + ?n \<le> unat (l_max_journal_bytes l)" using r(2) n(1) by simp
  obtain c where c: "c \<le> length ?js"
    "recovered_by l k' = Some (snap @ filter (\<lambda>x. barrier < dr_sequence x) (take c ?js))"
    "length (sum_frames (take c ?js)) \<le> ?n"
    "c < length ?js \<longrightarrow> ?n < length (sum_frames (take (Suc c) ?js))"
    using recovered_by_cut [OF snap [folded k'(1)] ok le k'(2) room] by blast
  have "\<not> c < length js"
  proof
    assume "c < length js"
    then have "?n < length (sum_frames (take (Suc c) js))" using c(4) by simp
    also have "\<dots> \<le> length (sum_frames (take (Suc c) js @ drop (Suc c) js))"
      by (simp only: sum_frames_append length_append le_add1)
    finally show False by simp
  qed
  then consider "c = length js" | "c = Suc (length js)" using c(1) by fastforce
  then show ?thesis
  proof cases
    case 1
    then have "n \<noteq> length (frame r)" using c(4) by auto
    with 1 c(2) n(3) show ?thesis by auto
  next
    case 2
    with c(2) show ?thesis by simp
  qed
qed

section \<open>Checkpoints\<close>

definition top_sequence :: "u64 \<Rightarrow> durable_record list \<Rightarrow> u64" where
  "top_sequence b rs = fold (\<lambda>r m. if dr_sequence r > m then dr_sequence r else m) rs b"

lemma compaction_body_Inr:
  "compaction_body l rs body b c = Inr (body', b', c') \<Longrightarrow> c \<le> l_max_compaction_batch l \<Longrightarrow>
     body' = body @ sum_frames rs \<and> b' = top_sequence b rs \<and> unat c' = unat c + length rs \<and>
     c' \<le> l_max_compaction_batch l \<and>
     (\<forall>r \<in> set rs. length (dr_payload r) \<le> unat (l_max_durable_record_bytes l) \<and>
        length (dr_payload r) \<le> 0xFFFFFFFF)"
proof (induction rs arbitrary: body b c)
  case Nil
  then show ?case by (simp add: top_sequence_def)
next
  case (Cons r rs)
  let ?b = "if dr_sequence r > b then dr_sequence r else b"
  have h: "\<not> length (dr_payload r) > unat (l_max_durable_record_bytes l)" "\<not> length (dr_payload r) > 0xFFFFFFFF"
    "\<not> c \<ge> l_max_compaction_batch l"
    and rec: "compaction_body l rs (body @ frame r) ?b (c + 1) = Inr (body', b', c')"
    using Cons.prems(1) by (auto split: if_splits)
  have "unat c + 1 < 4294967296"
    using h(3) unat_u32_less [of "l_max_compaction_batch l"] unfolding word_le_nat_alt by linarith
  then have u: "unat (c + 1) = unat c + 1" by (simp add: unat_word_ariths)
  then have "c + 1 \<le> l_max_compaction_batch l" using h(3) by (simp add: word_le_nat_alt)
  from Cons.IH [OF rec this] u h(1,2) show ?case
    by (auto simp: sum_frames_def top_sequence_def)
qed

lemma compaction_body_Inl: "compaction_body l rs body b c = Inl e \<Longrightarrow> \<not> st_ok e"
  by (induction rs arbitrary: body b c) (auto split: if_splits)

lemma load_journal_short:
  assumes "n \<le> kJournalHeaderBytes" "kJournalHeaderBytes \<le> unat (l_max_journal_bytes l)"
  shows "\<exists>ld'. load_journal l True (Some (take n journal_header)) ld = (success, ld') \<and>
           ld_records ld' = ld_records ld"
proof (cases "n = kJournalHeaderBytes")
  case True
  then show ?thesis
    using load_journal_bytes [of "[]" l ld] assms(2) by auto
next
  case False
  with assms show ?thesis by (auto simp: load_journal_def Let_def)
qed

text \<open>A checkpoint interrupted anywhere leaves the old state or the compacted one.\<close>

lemma checkpoint_crash:
  assumes snap: "snapshot_holds l (dk_snapshot k) snap barrier" and jrn: "journal_holds l (dk_journal k) js"
    and l: "ds_limits d = l" "kJournalHeaderBytes \<le> unat (l_max_journal_bytes l)"
    and types: "\<forall>r \<in> set recs. dr_type r \<in> set record_types"
    and fits: "kSnapshotHeaderBytes + length (sum_frames recs) \<le> unat (l_max_journal_bytes l * 4)"
    and covers: "\<forall>r \<in> set js. dr_sequence r \<le> top_sequence 0 recs"
    and run: "durable_checkpoint io recs k d = (s, k', d')"
  shows "(recovered_by l k' = recovered_by l k \<and> \<not> st_ok s) \<or> recovered_by l k' = Some recs"
proof (cases "compaction_body l recs [] 0 0")
  case (Inl e)
  then have "\<not> st_ok e" by (rule compaction_body_Inl)
  with Inl run l(1) show ?thesis by (auto simp: durable_checkpoint_def)
next
  case (Inr x)
  obtain body b c where x: "x = (body, b, c)" by (cases x)
  have cb: "body = sum_frames recs" "b = top_sequence 0 recs" "unat c = length recs"
    "\<forall>r \<in> set recs. length (dr_payload r) \<le> unat (l_max_durable_record_bytes l) \<and> length (dr_payload r) \<le> 0xFFFFFFFF"
    using compaction_body_Inr [OF Inr [unfolded x]] by simp_all
  have len: "length recs < 4294967296" using cb(3) unat_u32_less [of c] by simp
  have c: "c = of_nat (length recs)" by (simp add: cb(3) [symmetric])
  have "snapshot_holds l (Some (snapshot_file body b c)) recs b"
    using cb types fits len unfolding snapshot_holds_def option.case c
    by (auto simp: frame_ok_def list_all_iff length_snapshot_file)
  note new = this
  let ?f = "Some (snapshot_file body b c)"
  have keep: ?thesis if "k' = k" "\<not> st_ok s" using that by simp
  have replaced: "recovered_by l k' = Some recs"
    if k': "dk_snapshot k' = ?f" and j: "dk_journal k' = dk_journal k \<or> (\<exists>n \<le> kJournalHeaderBytes. dk_journal k' = Some (take n journal_header))"
    using j
  proof
    assume j: "dk_journal k' = dk_journal k"
    have "filter (\<lambda>r. b < dr_sequence r) js = []" using covers cb(2) by (auto simp: filter_empty_conv not_less)
    then show ?thesis
      using recovered_by_holds [of l k' recs b js] new jrn k' j by simp
  next
    assume "\<exists>n \<le> kJournalHeaderBytes. dk_journal k' = Some (take n journal_header)"
    then obtain n where n: "n \<le> kJournalHeaderBytes" "dk_journal k' = Some (take n journal_header)" by blast
    have "recovered_by l k' = Some (recs @ [])"
    proof (rule recovered_by_eq [of l k' recs b])
      fix ld :: loaded assume "ld_records ld = recs"
      then show "\<exists>ld'. load_journal l True (dk_journal k') ld = (success, ld') \<and> ld_records ld' = recs @ []"
        using load_journal_short [OF n(1) l(2), of ld] n(2) by simp
    qed (simp add: k' new)
    then show ?thesis by simp
  qed
  have "journal_header = take kJournalHeaderBytes journal_header" by simp
  then have full: "(\<forall>n. journal_header \<noteq> take n journal_header) = False" by blast
  have "(k' = k \<and> \<not> st_ok s) \<or>
        (dk_snapshot k' = ?f \<and> (dk_journal k' = dk_journal k \<or> (\<exists>n. dk_journal k' = Some (take n journal_header))))"
    using run Inr x l(1) by (cases io) (auto simp: durable_checkpoint_def Let_def full split: if_splits)
  then show ?thesis
  proof (elim disjE conjE exE)
    assume "k' = k" "\<not> st_ok s"
    then show ?thesis by simp
  next
    assume "dk_snapshot k' = ?f" "dk_journal k' = dk_journal k"
    then show ?thesis using replaced by blast
  next
    fix n assume s: "dk_snapshot k' = ?f" and "dk_journal k' = Some (take n journal_header)"
    then have "dk_journal k' = Some (take (min n kJournalHeaderBytes) journal_header)"
      by (simp add: min_def)
    then show ?thesis using replaced [OF s] min.cobounded2 by blast
  qed
qed

lemma checkpoint_ok:
  "durable_checkpoint io recs k d = (s, k', d') \<Longrightarrow> st_ok s \<Longrightarrow> io = CI_Done \<and> ds_open d"
  by (auto simp: durable_checkpoint_def Let_def dest: compaction_body_Inl split: sum.splits if_splits checkpoint_io.splits)

section \<open>Opening\<close>

lemma durable_open_journal:
  assumes "durable_load good_open_io k (durable_new dir l) = (s, d)" "st_ok s" "dir \<noteq> []" "dk_journal k = Some j"
  shows "durable_open good_open_io k (durable_new dir l) =
     (success, k, d\<lparr>ds_journal_open := True, ds_open := True, ds_journal_bytes := of_nat (length j),
                    ds_report := (ds_report d)\<lparr>rp_load_code := EC_Ok\<rparr>\<rparr>)"
  using assms by (simp add: durable_open_def durable_new_def good_open_io_def)

text \<open>
  A journal whose last frame was cut inside its payload opens without error, and what is
  acknowledged behind the cut is not recovered while it stays within the announced length.
\<close>

lemma torn_append_lost:
  assumes "snapshot_holds l (dk_snapshot k) snap barrier" "list_all (frame_ok l) js" "frame_ok l r0"
    and "kRecordHeaderBytes \<le> n" "n + length (frame r) < length (frame r0)"
    and "dk_journal k = Some (journal_header @ sum_frames js @ take n (frame r0))"
    and "kJournalHeaderBytes + length (sum_frames js) + n + length (frame r) \<le> unat (l_max_journal_bytes l)"
  shows "recovered_by l (journal_append (frame r) k) = recovered_by l k"
proof -
  let ?rec = "snap @ filter (\<lambda>x. barrier < dr_sequence x) js"
  have go: "recovered_by l k' = Some ?rec"
    if "dk_snapshot k' = dk_snapshot k" "dk_journal k' = Some (journal_header @ sum_frames js @ take n (frame r0) @ later)"
      "n + length later < length (frame r0)"
      "kJournalHeaderBytes + length (sum_frames js) + n + length later \<le> unat (l_max_journal_bytes l)" for k' later
  proof (rule recovered_by_eq [of l k' snap barrier])
    show "snapshot_holds l (dk_snapshot k') snap barrier" using assms(1) that(1) by simp
    fix ld :: loaded assume ld: "ld_records ld = snap" "ld_barrier ld = barrier"
    let ?bs = "sum_frames js @ take n (frame r0) @ later"
    have "length ?bs = length (sum_frames js) + n + length later" using that(3) by simp
    then have "kJournalHeaderBytes + length ?bs \<le> unat (l_max_journal_bytes l)" using that(4) by simp
    from load_journal_bytes [OF this, of ld] obtain ld0 where ld0:
      "load_journal l True (Some (journal_header @ ?bs)) ld = (success, replay l ?bs ld0)"
      "ld_records ld0 = snap" "ld_barrier ld0 = barrier" using ld by auto
    have "ld_records (replay l ?bs ld0) = ?rec"
      using replay_frames [OF assms(2), of "take n (frame r0) @ later" ld0]
        replay_announced [OF assms(3,4) that(3)] ld0(2,3)
      by (simp add: sum_frames_def fold_replay_one)
    then show "\<exists>ld'. load_journal l True (dk_journal k') ld = (success, ld') \<and> ld_records ld' = ?rec"
      using ld0(1) that(2) by auto
  qed
  have "recovered_by l k = Some ?rec" by (rule go [of k "[]"]) (use assms in simp_all)
  moreover have "recovered_by l (journal_append (frame r) k) = Some ?rec"
    by (rule go [of _ "frame r"]) (use assms in \<open>simp_all add: journal_append_def\<close>)
  ultimately show ?thesis by simp
qed

end
