(* ===== verification/PF_Samples.thy ===== *)
theory PF_Samples
  imports PF_Policy PF_Binding PF_Upstream PF_Serialize PF_Durable
begin

text \<open>
  Concrete inputs on which the witnesses of the properties are evaluated: one flow on one
  resource with half of a ten gigabit ceiling, its policy, grant, cadence, envelope and attempt.
  No definition here models code.
\<close>

section \<open>Identities\<close>

definition sample_path :: path_ref where
  "sample_path = mk_ref (Id 7) gen_first"

definition sample_resource :: resource_ref where
  "sample_resource = mk_ref (Id 3) gen_first"

definition sample_boot :: boot_id where
  "sample_boot = \<lparr>bo_counter = 1, bo_nonce = 99\<rparr>"

definition sample_worker :: worker_boot where
  "sample_worker = \<lparr>wb_incarnation = 1, wb_nonce = 5\<rparr>"

definition sample_authority :: authority_vector where
  "sample_authority =
     \<lparr>av_flow = mk_ref (Id 1) gen_first, av_resource = sample_resource,
      av_policy = mk_ref (Id 21) gen_first, av_grant = mk_ref (Id 11) gen_first,
      av_path = sample_path, av_epoch = Epoch 1, av_boot = sample_boot\<rparr>"

section \<open>A binding, a policy and a grant\<close>

definition sample_binding :: binding where
  "sample_binding =
     \<lparr>b_flow = Id 1, b_gen = gen_unknown, b_resource = sample_resource, b_path = sample_path,
      b_service_class = Id 2, b_tenant = Id 4, b_declared_max_burst_bytes = 0,
      b_declared_max_burst_packets = 0, b_quiesced = False, b_provenance = Id 0\<rparr>"

definition sample_policy :: policy where
  "sample_policy =
     \<lparr>p_ref = mk_ref (Id 21) gen_first, p_layer = PL_Resource, p_resource = Id 3, p_flow = Id 0,
      p_rate_share_ppm = 500000, p_rate_bps = 0, p_min_rate_bps = 0, p_burst_bytes = 0,
      p_burst_packets = 0, p_quantum_bytes = 1500, p_window_ns = 1000000, p_shape = CS_Uniform,
      p_grants_per_window_hint = 0, p_path = sample_path, p_default_service_class = Id 2,
      p_exceptions = [], p_tenant = Id 4, p_provenance = Id 0, p_published_at = Instant 0\<rparr>"

definition sample_grant :: rate_grant where
  "sample_grant =
     \<lparr>g_ref = mk_ref (Id 11) gen_first, g_resource = Id 3, g_ceiling_bps = 10000000000,
      g_floor_bps = 0, g_revision = 1, g_observed_at = Instant 0, g_valid_until = deadline_none,
      g_provenance = Id 0, g_authoritative = True\<rparr>"

section \<open>A derivation and its outcome\<close>

definition sample_input :: derivation_input where
  "sample_input =
     \<lparr>di_requested_rate_bps = 0, di_rate_share_ppm = 500000, di_min_rate_bps = 0,
      di_ceiling_bps = 10000000000, di_floor_bps = 0, di_quantum_bytes = 1500,
      di_window_ns = 1000000, di_burst_bytes = 0, di_burst_packets = 0,
      di_flow_max_burst_bytes = 0, di_flow_max_burst_packets = 0, di_shape = CS_Uniform,
      di_grants_per_window_hint = 0\<rparr>"

definition sample_cadence :: cadence where
  "sample_cadence =
     \<lparr>c_rate_bps = 5000000000, c_quantum_bytes = 1500, c_interval_ns = 2400, c_window_ns = 1000000,
      c_grants_per_window = 416, c_bytes_per_window = 624000, c_burst_bytes = 1500,
      c_burst_packets = 1, c_shape = CS_Uniform\<rparr>"

definition sample_outcome :: derivation_outcome where
  "sample_outcome =
     \<lparr>do_cadence = sample_cadence, do_requested_rate_bps = 0, do_clamped_to_ceiling = False,
      do_clamped_to_floor = False\<rparr>"

lemma sample_derives: "derive_cadence sample_input default_limits = Inr sample_outcome"
  by code_simp

section \<open>An envelope, an attempt and a request\<close>

definition sample_provenance :: provenance where
  "sample_provenance =
     \<lparr>pv_id = Id 1, pv_sequence = 1, pv_fabric_instance = 1, pv_binding_digest = 0,
      pv_policy_digest = 0, pv_grant_digest = 0, pv_cadence_digest = 0\<rparr>"

definition sample_envelope :: envelope where
  "sample_envelope =
     \<lparr>e_ref = mk_ref (Id 1) gen_first, e_flow = Id 1, e_resource = Id 3,
      e_authority = sample_authority, e_cadence = sample_cadence, e_requested_rate_bps = 0,
      e_ceiling_bps = 10000000000, e_floor_bps = 0, e_clamped_to_ceiling = False,
      e_clamped_to_floor = False, e_service_class = Id 2, e_provenance = sample_provenance,
      e_derived_at = Instant 10, e_valid_until = deadline_at (Instant 5000000010),
      e_upstream_synthetic = True, e_policy_synthetic = False\<rparr>"

definition sample_record :: app_record where
  "sample_record =
     \<lparr>r_attempt = Id 1, r_envelope = mk_ref (Id 1) gen_first, r_flow = Id 1, r_resource = Id 3,
      r_authority = sample_authority, r_desired = sample_cadence, r_state = AS_Reserved,
      r_last_known_state = AS_Reserved, r_effect = EL_None, r_evidence_kind = EK_None,
      r_observed_rate_bps = 0, r_observed_quantum_bytes = 0, r_observed_burst_bytes = 0,
      r_observed_interval_ns = 0, r_backend_seq = 0, r_evidence_digest = 0,
      r_evidence_integrity_ok = False, r_backend = mk_ref (Id 9) gen_first,
      r_worker = sample_worker, r_backend_synthetic = True, r_reason = EC_Ok, r_drift = AD_None,
      r_detail = [], r_revision = 1, r_created_ns = 10, r_updated_ns = 10,
      r_requires_revalidation = False\<rparr>"

definition sample_request :: apply_request where
  "sample_request =
     \<lparr>rq_attempt = Id 1, rq_envelope = mk_ref (Id 1) gen_first, rq_flow = Id 1,
      rq_authority = sample_authority, rq_cadence = sample_cadence, rq_worker = sample_worker,
      rq_issued_at_ns = 10, rq_deadline_ns = 5000000010\<rparr>"

section \<open>A durable record\<close>

definition sample_durable :: durable_record where
  "sample_durable =
     \<lparr>dr_type = DR_EpochAdvance, dr_sequence = 1, dr_timestamp_ns = 10, dr_payload = [1, 2, 3]\<rparr>"

lemmas sample_defs = sample_path_def sample_resource_def sample_boot_def sample_worker_def
  sample_authority_def sample_binding_def sample_policy_def sample_grant_def sample_input_def
  sample_cadence_def sample_outcome_def sample_provenance_def sample_envelope_def
  sample_record_def sample_request_def sample_durable_def

end
