(* ===== verification/PF_Text.thy ===== *)
theory PF_Text
  imports PF_Envelope PF_Application
begin

text \<open>
  The printed forms used in events and explanations: \<^verbatim>\<open>std::to_string\<close> of an unsigned
  number, \<^verbatim>\<open>to_string\<close> of references and authority vectors (\<^verbatim>\<open>id.hpp\<close>, \<^verbatim>\<open>id.cpp\<close>), of
  cadences (\<^verbatim>\<open>rate.cpp\<close>), of envelopes (\<^verbatim>\<open>envelope.cpp\<close>) and of error codes and statuses
  (\<^verbatim>\<open>status.cpp\<close>), and the version (\<^verbatim>\<open>version.hpp\<close>). Decimal numbers read back to themselves, so two texts that differ in a
  number differ.
\<close>

section \<open>Decimal numbers\<close>

definition digit_char :: "nat \<Rightarrow> char" where
  "digit_char d = char_of (48 + d)"

fun show_nat :: "nat \<Rightarrow> string" where
  "show_nat n = (if n < 10 then [digit_char n] else show_nat (n div 10) @ [digit_char (n mod 10)])"

declare show_nat.simps [simp del]

definition show_u64 :: "u64 \<Rightarrow> string" where
  "show_u64 v = show_nat (unat v)"

definition read_nat :: "string \<Rightarrow> nat" where
  "read_nat s = foldl (\<lambda>a c. 10 * a + (of_char c - 48)) 0 s"

lemma digit_value: "d < 10 \<Longrightarrow> of_char (digit_char d) - 48 = d"
  by (simp add: digit_char_def)

lemma read_show_nat [simp]: "read_nat (show_nat n) = n"
proof (induction n rule: show_nat.induct)
  case (1 n)
  show ?case
  proof (cases "n < 10")
    case True
    then show ?thesis by (simp add: show_nat.simps [of n] read_nat_def digit_value)
  next
    case False
    have "read_nat (show_nat n) = 10 * read_nat (show_nat (n div 10)) + n mod 10"
      by (simp add: show_nat.simps [of n] False read_nat_def digit_value)
    then show ?thesis using "1.IH" [OF False] by simp
  qed
qed

lemma show_u64_inject [simp]: "show_u64 a = show_u64 b \<longleftrightarrow> a = b"
  unfolding show_u64_def by (metis read_show_nat word_unat_eq_iff)

section \<open>The version\<close>

definition kVersionMajor :: u32 where
  "kVersionMajor = 1"

definition kVersionMinor :: u32 where
  "kVersionMinor = 0"

definition kVersionPatch :: u32 where
  "kVersionPatch = 0"

definition kVersionString :: string where
  "kVersionString = ''1.0.0''"

lemma version_string_agrees:
  "kVersionString = show_nat (unat kVersionMajor) @ ''.'' @ show_nat (unat kVersionMinor) @ ''.'' @ show_nat (unat kVersionPatch)"
  by code_simp

section \<open>References, cadences and envelopes\<close>

definition ref_text :: "'tag gen_ref \<Rightarrow> string" where
  "ref_text r = show_u64 (id_value (gr_id r)) @ ''@'' @ show_u64 (gen_value (gr_gen r))"

definition authority_text :: "authority_vector \<Rightarrow> string" where
  "authority_text a =
     ''flow='' @ ref_text (av_flow a) @ '' resource='' @ ref_text (av_resource a) @
     '' policy='' @ ref_text (av_policy a) @ '' rate_grant='' @ ref_text (av_grant a) @
     '' path='' @ ref_text (av_path a) @ '' epoch='' @ show_u64 (epoch_value (av_epoch a)) @
     '' boot='' @ show_u64 (bo_counter (av_boot a)) @ '':'' @ show_u64 (bo_nonce (av_boot a))"

definition cadence_text :: "cadence \<Rightarrow> string" where
  "cadence_text c =
     ''rate='' @ show_u64 (c_rate_bps c) @ ''bps quantum='' @ show_u64 (c_quantum_bytes c) @
     ''B interval='' @ show_u64 (c_interval_ns c) @ ''ns window='' @ show_u64 (c_window_ns c) @
     ''ns grants/window='' @ show_u64 (c_grants_per_window c) @
     '' bytes/window='' @ show_u64 (c_bytes_per_window c) @
     '' burst='' @ show_u64 (c_burst_bytes c) @ ''B/'' @ show_u64 (c_burst_packets c) @
     ''pkt shape='' @ shape_name (c_shape c)"

definition envelope_text :: "envelope \<Rightarrow> string" where
  "envelope_text e =
     ''envelope='' @ ref_text (e_ref e) @ '' flow='' @ show_u64 (id_value (e_flow e)) @
     '' requested='' @ show_u64 (e_requested_rate_bps e) @
     ''bps ceiling='' @ show_u64 (e_ceiling_bps e) @ ''bps floor='' @ show_u64 (e_floor_bps e) @
     ''bps '' @ cadence_text (e_cadence e) @
     (if e_clamped_to_ceiling e then '' clamped=ceiling'' else []) @
     (if e_clamped_to_floor e then '' clamped=floor'' else []) @
     (if e_upstream_synthetic e \<or> e_policy_synthetic e then '' synthetic=true'' else [])"

section \<open>Error codes and statuses\<close>

fun error_name :: "error_code \<Rightarrow> string" where
  "error_name EC_Ok = ''Ok''"
| "error_name EC_InvalidArgument = ''InvalidArgument''"
| "error_name EC_MalformedInput = ''MalformedInput''"
| "error_name EC_Oversized = ''Oversized''"
| "error_name EC_OutOfRange = ''OutOfRange''"
| "error_name EC_ArithmeticOverflow = ''ArithmeticOverflow''"
| "error_name EC_Unsupported = ''Unsupported''"
| "error_name EC_NotFound = ''NotFound''"
| "error_name EC_AlreadyExists = ''AlreadyExists''"
| "error_name EC_UnknownAuthority = ''UnknownAuthority''"
| "error_name EC_StaleGeneration = ''StaleGeneration''"
| "error_name EC_StaleEpoch = ''StaleEpoch''"
| "error_name EC_StaleBoot = ''StaleBoot''"
| "error_name EC_StalePolicy = ''StalePolicy''"
| "error_name EC_StaleRateGrant = ''StaleRateGrant''"
| "error_name EC_StalePath = ''StalePath''"
| "error_name EC_StaleResource = ''StaleResource''"
| "error_name EC_RequiresRevalidation = ''RequiresRevalidation''"
| "error_name EC_CeilingExceeded = ''CeilingExceeded''"
| "error_name EC_EntitlementMint = ''EntitlementMint''"
| "error_name EC_FloorExceedsCeiling = ''FloorExceedsCeiling''"
| "error_name EC_BurstExceedsBound = ''BurstExceedsBound''"
| "error_name EC_InvalidState = ''InvalidState''"
| "error_name EC_Cancelled = ''Cancelled''"
| "error_name EC_Revoked = ''Revoked''"
| "error_name EC_Fenced = ''Fenced''"
| "error_name EC_Duplicate = ''Duplicate''"
| "error_name EC_Ambiguous = ''Ambiguous''"
| "error_name EC_BackendUnavailable = ''BackendUnavailable''"
| "error_name EC_BackendRejected = ''BackendRejected''"
| "error_name EC_BackendFailure = ''BackendFailure''"
| "error_name EC_ReadbackUnavailable = ''ReadbackUnavailable''"
| "error_name EC_ReadbackMismatch = ''ReadbackMismatch''"
| "error_name EC_IntegrityFailure = ''IntegrityFailure''"
| "error_name EC_ResourceExhausted = ''ResourceExhausted''"
| "error_name EC_IoFailure = ''IoFailure''"
| "error_name EC_Internal = ''Internal''"
| "error_name EC_ClockRegression = ''ClockRegression''"
| "error_name (EC_Other n) = ''Unknown''"

definition status_text :: "status \<Rightarrow> string" where
  "status_text s = error_name (st_code s) @ (if st_detail s \<noteq> [] then '': '' @ st_detail s else [])"

end
