(* ===== verification/PF_Fabric.thy ===== *)
theory PF_Fabric
  imports PF_Policy PF_Binding PF_Upstream PF_Backend PF_Durable PF_Serialize PF_Text
begin

text \<open>
  The state of \<^verbatim>\<open>PacingFabric\<close> (\<^verbatim>\<open>include/pacing/fabric.hpp\<close>) and the private helpers its
  operations share (\<^verbatim>\<open>src/fabric.cpp\<close>): index lookups, the record transition with the pending
  count, eviction and compaction, journalling and checkpointing, the clock sample and the emission
  of events. Every helper is a function on the explicit state. The answers of the world outside
  (clock, rate authority, backends, file system) come in a record \<open>env\<close>; a theorem that
  quantifies over it holds for every answer.
\<close>

section \<open>Configuration, counters and answers of the world\<close>

record fabric_config =
  fc_limits :: limits
  fc_durable_directory :: string
  fc_fabric_instance :: u64
  fc_tick_period_ns :: u64
  fc_envelope_lifetime_ns :: u64
  fc_enable_durability :: bool
  fc_max_pending_attempts :: u32

datatype stat =
    ST_envelopes_derived | ST_envelopes_refused | ST_applies_requested | ST_applies_reserved
  | ST_applies_committed | ST_applies_unverified | ST_applies_mismatched | ST_applies_refused
  | ST_duplicate_applies | ST_late_completions_discarded | ST_cancellations | ST_revocations
  | ST_fences | ST_stale_rejections | ST_revalidations | ST_readback_unavailable
  | ST_events_emitted | ST_journal_appends | ST_checkpoints | ST_envelopes_evicted
  | ST_attempts_evicted

type_synonym fabric_stats = "stat \<Rightarrow> u64"

record recovery_report =
  rc_performed :: bool
  rc_durable_directory_used :: bool
  rc_bindings_restored :: u64
  rc_policies_restored :: u64
  rc_envelopes_invalidated :: u64
  rc_attempts_requiring_revalidation :: u64
  rc_attempts_ambiguous :: u64
  rc_backends_requiring_registration :: u64
  rc_records_replayed :: u64
  rc_records_rejected :: u64
  rc_epoch_before :: epoch
  rc_epoch_after :: epoch
  rc_boot_before :: boot_id
  rc_boot_after :: boot_id
  rc_code :: error_code
  rc_detail :: string

definition empty_recovery :: recovery_report where
  "empty_recovery =
     \<lparr>rc_performed = False, rc_durable_directory_used = False, rc_bindings_restored = 0,
      rc_policies_restored = 0, rc_envelopes_invalidated = 0, rc_attempts_requiring_revalidation = 0,
      rc_attempts_ambiguous = 0, rc_backends_requiring_registration = 0, rc_records_replayed = 0,
      rc_records_rejected = 0, rc_epoch_before = Epoch 0, rc_epoch_after = Epoch 0,
      rc_boot_before = \<lparr>bo_counter = 0, bo_nonce = 0\<rparr>, rc_boot_after = \<lparr>bo_counter = 0, bo_nonce = 0\<rparr>,
      rc_code = EC_Ok, rc_detail = []\<rparr>"

text \<open>
  A registered backend is a pointer; its identity is a number here. \<open>en_append_io\<close>,
  \<open>en_checkpoint_io\<close> and \<open>en_checkpoint_ns\<close> are indexed by the durable sequence number and
  \<open>en_ticks\<close> by the number of nonces drawn, so the several appends of one step can end
  differently.
\<close>

type_synonym handle = nat

record env =
  en_clock :: instant
  en_grant :: "rate_grant status_or"
  en_authority_synthetic :: bool
  en_describe :: "handle \<Rightarrow> backend_descriptor"
  en_apply :: "status \<times> apply_ack"
  en_readback :: "status \<times> readback_evidence"
  en_append_io :: "u64 \<Rightarrow> append_io"
  en_checkpoint_io :: "u64 \<Rightarrow> checkpoint_io"
  en_checkpoint_ns :: "u64 \<Rightarrow> u64"
  en_open_io :: open_io
  en_ticks :: "u64 \<Rightarrow> u64"

section \<open>The state\<close>

record envelope_entry =
  ee_envelope :: envelope
  ee_revoked :: bool
  ee_live :: bool
  ee_reason :: string

record attempt_entry =
  at_record :: app_record
  at_live :: bool

record fabric =
  fb_config :: fabric_config
  fb_initialized :: bool
  fb_running :: bool
  fb_active :: u32
  fb_pending :: u32
  fb_dead_envelopes :: u64
  fb_dead_attempts :: u64
  fb_envelope_hint :: nat
  fb_attempt_hint :: nat
  fb_boot :: boot_id
  fb_epoch :: epoch
  fb_sequence :: u64
  fb_last_ns :: u64
  fb_regressed :: bool
  fb_bindings :: binding_registry
  fb_policies :: policy_store
  fb_envelopes :: "envelope_entry list"
  fb_envelope_index :: "u64 \<Rightarrow> nat option"
  fb_latest :: "u64 \<Rightarrow> nat option"
  fb_attempts :: "attempt_entry list"
  fb_attempt_index :: "u64 \<Rightarrow> nat option"
  fb_by_envelope :: "u64 \<Rightarrow> attempt_id list option"
  fb_backends :: "(backend_id \<times> handle) list"
  fb_envelope_ids :: u64
  fb_attempt_ids :: u64
  fb_provenance_ids :: u64
  fb_stats :: fabric_stats
  fb_recovery :: recovery_report
  fb_durable :: "durable_store option"
  fb_disk :: disk
  fb_nonces :: u64
  fb_sink :: bool
  fb_events :: "fabric_event list"

text \<open>\<open>fb_disk\<close> is the content of the durable directory, \<open>fb_nonces\<close> the process-wide counter of
  \<^verbatim>\<open>make_nonce\<close>, \<open>fb_events\<close> what the event sink has received.\<close>

abbreviation fb_limits :: "fabric \<Rightarrow> limits" where
  "fb_limits f \<equiv> fc_limits (fb_config f)"

abbreviation record_at :: "fabric \<Rightarrow> nat \<Rightarrow> app_record" where
  "record_at f i \<equiv> at_record (fb_attempts f ! i)"

definition fabric_new :: "fabric_config \<Rightarrow> disk \<Rightarrow> fabric" where
  "fabric_new config dsk =
     \<lparr>fb_config = config, fb_initialized = False, fb_running = False, fb_active = 0, fb_pending = 0,
      fb_dead_envelopes = 0, fb_dead_attempts = 0, fb_envelope_hint = 0, fb_attempt_hint = 0,
      fb_boot = \<lparr>bo_counter = 0, bo_nonce = 0\<rparr>, fb_epoch = Epoch 0, fb_sequence = 0, fb_last_ns = 0,
      fb_regressed = False, fb_bindings = [], fb_policies = [], fb_envelopes = [],
      fb_envelope_index = Map.empty, fb_latest = Map.empty, fb_attempts = [],
      fb_attempt_index = Map.empty, fb_by_envelope = Map.empty, fb_backends = [],
      fb_envelope_ids = 0, fb_attempt_ids = 0, fb_provenance_ids = 0, fb_stats = (\<lambda>_. 0),
      fb_recovery = empty_recovery, fb_durable = None, fb_disk = dsk, fb_nonces = 0,
      fb_sink = False, fb_events = []\<rparr>"

definition kEvictionScanWindow :: nat where
  "kEvictionScanWindow = 4096"

definition kCompactionTrigger :: u64 where
  "kCompactionTrigger = 2"

definition kEncodeCapacityBytes :: nat where
  "kEncodeCapacityBytes = 1048576"

section \<open>Counters, events and the clock\<close>

definition bump_by :: "u64 \<Rightarrow> stat \<Rightarrow> fabric \<Rightarrow> fabric" where
  "bump_by n s f = f\<lparr>fb_stats := (fb_stats f)(s := fb_stats f s + n)\<rparr>"

abbreviation bump :: "stat \<Rightarrow> fabric \<Rightarrow> fabric" where
  "bump \<equiv> bump_by 1"

definition emit :: "fabric_event \<Rightarrow> fabric \<Rightarrow> fabric" where
  "emit e f =
     (let f1 = bump ST_events_emitted f in
      if fb_sink f1 then f1\<lparr>fb_events := fb_events f1 @ [e]\<rparr> else f1)"

definition no_event :: fabric_event where
  "no_event =
     \<lparr>ev_event = EV_EnvelopeDerived, ev_at = Instant 0, ev_flow = Id 0, ev_envelope = no_ref,
      ev_of_attempt = Id 0, ev_state = AS_Unknown, ev_effect = EL_None, ev_authority_digest = 0,
      ev_reason = EC_Ok, ev_detail = []\<rparr>"

definition sample_clock :: "instant \<Rightarrow> fabric \<Rightarrow> fabric" where
  "sample_clock now f =
     (if inst_ns now < fb_last_ns f then f\<lparr>fb_regressed := True\<rparr> else f\<lparr>fb_last_ns := inst_ns now\<rparr>)"

definition require_trustworthy_clock :: "fabric \<Rightarrow> status" where
  "require_trustworthy_clock f =
     (if \<not> fb_regressed f then success
      else Status EC_ClockRegression
        ''the monotonic clock moved backwards; pacing authority is not derivable'')"

definition current_tick :: "instant \<Rightarrow> fabric \<Rightarrow> tick \<times> fabric" where
  "current_tick now f =
     ((case tick_for now (fc_tick_period_ns (fb_config f)) of None \<Rightarrow> Tick 0 | Some t \<Rightarrow> t),
      sample_clock now f)"

section \<open>Identities and nonces\<close>

definition minter_next :: "u64 \<Rightarrow> u64" where
  "minter_next counter = counter + 1"

definition minter_set_floor :: "u64 \<Rightarrow> u64 \<Rightarrow> u64" where
  "minter_set_floor v counter = (if v > counter then v else counter)"

definition splitmix64 :: "u64 \<Rightarrow> u64" where
  "splitmix64 x0 =
     (let x = x0 + 0x9E3779B97F4A7C15;
          x = (x XOR drop_bit 30 x) * 0xBF58476D1CE4E5B9;
          x = (x XOR drop_bit 27 x) * 0x94D049BB133111EB
      in x XOR drop_bit 31 x)"

definition make_nonce :: "env \<Rightarrow> u64 \<Rightarrow> fabric \<Rightarrow> u64 \<times> fabric" where
  "make_nonce en salt f =
     (let ticks = en_ticks en (fb_nonces f); sq = fb_nonces f;
          x = splitmix64 (splitmix64 (salt XOR ticks) XOR (sq * 0x9E3779B97F4A7C15))
      in (if x = 0 then 1 else x, f\<lparr>fb_nonces := sq + 1\<rparr>))"

section \<open>Digests\<close>

fun drift_code :: "authority_drift \<Rightarrow> error_code" where
  "drift_code AD_None = EC_Ok"
| "drift_code AD_Flow = EC_StaleGeneration"
| "drift_code AD_Resource = EC_StaleResource"
| "drift_code AD_Policy = EC_StalePolicy"
| "drift_code AD_RateGrant = EC_StaleRateGrant"
| "drift_code AD_Path = EC_StalePath"
| "drift_code AD_Epoch = EC_StaleEpoch"
| "drift_code AD_CoordinatorBoot = EC_StaleBoot"
| "drift_code AD_Incomplete = EC_UnknownAuthority"

definition policy_digest :: "policy \<Rightarrow> u64" where
  "policy_digest p =
     mix_all (concat (map (\<lambda>x. [id_value (x_service_class x), x_min_rate_bps x, x_rate_share_ppm x,
                                x_burst_bytes x, x_burst_packets x, ucast (x_priority x)]) (p_exceptions p)))
       (mix_all
          [id_value (gr_id (p_ref p)), gen_value (gr_gen (p_ref p)), ucast (layer_num (p_layer p)),
           id_value (p_resource p), id_value (p_flow p), p_rate_share_ppm p, p_rate_bps p,
           p_min_rate_bps p, p_burst_bytes p, p_burst_packets p, p_quantum_bytes p, p_window_ns p,
           ucast (shape_num (p_shape p)), p_grants_per_window_hint p, id_value (gr_id (p_path p)),
           gen_value (gr_gen (p_path p)), id_value (p_default_service_class p), id_value (p_tenant p),
           id_value (p_provenance p), of_nat (length (p_exceptions p))] digest_init)"

definition cadence_digest :: "cadence \<Rightarrow> u64" where
  "cadence_digest c =
     mix_all [c_rate_bps c, c_quantum_bytes c, c_interval_ns c, c_window_ns c, c_grants_per_window c,
              c_bytes_per_window c, c_burst_bytes c, c_burst_packets c, ucast (shape_num (c_shape c))]
       digest_init"

definition evidence_digest :: "readback_evidence \<Rightarrow> u64" where
  "evidence_digest ev =
     mix_u64 (ucast (evidence_kind_num (ev_kind ev)))
       (mix_bool (ev_integrity_ok ev)
         (mix_all
           [id_value (gr_id (ev_backend ev)), gen_value (gr_gen (ev_backend ev)),
            id_value (ev_attempt ev), ev_rate_bps ev, ev_quantum_bytes ev, ev_burst_bytes ev,
            ev_interval_ns ev, ev_backend_seq ev, ev_observed_at_ns ev] digest_init))"

section \<open>Looking up\<close>

definition find_envelope :: "envelope_id \<Rightarrow> fabric \<Rightarrow> nat option" where
  "find_envelope k f =
     (case fb_envelope_index f (id_value k) of
        None \<Rightarrow> None
      | Some i \<Rightarrow> if i \<ge> length (fb_envelopes f) then None
                  else if \<not> ee_live (fb_envelopes f ! i) then None else Some i)"

definition find_attempt :: "attempt_id \<Rightarrow> fabric \<Rightarrow> nat option" where
  "find_attempt k f =
     (case fb_attempt_index f (id_value k) of
        None \<Rightarrow> None
      | Some i \<Rightarrow> if i \<ge> length (fb_attempts f) then None
                  else if \<not> at_live (fb_attempts f ! i) then None else Some i)"

definition find_backend :: "backend_id \<Rightarrow> fabric \<Rightarrow> nat option" where
  "find_backend k f = find_index (\<lambda>b. fst b = k) (fb_backends f)"

definition backend_ptr :: "backend_id \<Rightarrow> fabric \<Rightarrow> handle option" where
  "backend_ptr k f = map_option (\<lambda>i. snd (fb_backends f ! i)) (find_backend k f)"

definition attempts_of :: "envelope_id \<Rightarrow> fabric \<Rightarrow> attempt_id list" where
  "attempts_of k f = (case fb_by_envelope f (id_value k) of None \<Rightarrow> [] | Some xs \<Rightarrow> xs)"

fun first_on_backend :: "backend_id \<Rightarrow> fabric \<Rightarrow> attempt_id list \<Rightarrow> nat option" where
  "first_on_backend b f [] = None"
| "first_on_backend b f (a # as) =
     (case find_attempt a f of
        None \<Rightarrow> first_on_backend b f as
      | Some i \<Rightarrow> if gr_id (r_backend (record_at f i)) = b then Some i else first_on_backend b f as)"

definition find_existing_attempt :: "envelope_ref \<Rightarrow> backend_id \<Rightarrow> fabric \<Rightarrow> nat option" where
  "find_existing_attempt e b f = first_on_backend b f (attempts_of (gr_id e) f)"

section \<open>Transitions\<close>

text \<open>\<open>transition_record\<close> is what \<^verbatim>\<open>apply_transition\<close> does to the record,
  \<open>transition_pending\<close> what it does to the pending count.\<close>

definition transition_record ::
    "app_state \<Rightarrow> instant \<Rightarrow> error_code \<Rightarrow> string \<Rightarrow> app_record \<Rightarrow> app_record" where
  "transition_record next now reason detail r =
     (let r1 = r\<lparr>r_last_known_state := r_state r, r_state := next, r_reason := reason,
                  r_detail := detail,
                  r_revision := (if r_revision r \<noteq> kU64Max then r_revision r + 1 else r_revision r),
                  r_updated_ns := inst_ns now\<rparr>
      in case next of
           AS_Applied \<Rightarrow>
             r1\<lparr>r_effect := (if r_backend_synthetic r1 then EL_SyntheticVerified else EL_Verified),
                r_requires_revalidation := False\<rparr>
         | AS_AppliedUnverified \<Rightarrow> r1\<lparr>r_effect := EL_Unverified, r_requires_revalidation := False\<rparr>
         | AS_Mismatched \<Rightarrow> r1\<lparr>r_effect := EL_Mismatched, r_requires_revalidation := False\<rparr>
         | AS_RequiresRevalidation \<Rightarrow> r1\<lparr>r_effect := EL_None, r_requires_revalidation := True\<rparr>
         | _ \<Rightarrow> r1\<lparr>r_effect := EL_None, r_requires_revalidation := False\<rparr>)"

definition transition_pending :: "app_state \<Rightarrow> app_state \<Rightarrow> u32 \<Rightarrow> u32" where
  "transition_pending old next n =
     (if \<not> is_terminal old \<and> is_terminal next then (if n > 0 then n - 1 else n)
      else if is_terminal old \<and> \<not> is_terminal next then n + 1 else n)"

definition set_record :: "nat \<Rightarrow> app_record \<Rightarrow> fabric \<Rightarrow> fabric" where
  "set_record i r f = f\<lparr>fb_attempts := (fb_attempts f)[i := (fb_attempts f ! i)\<lparr>at_record := r\<rparr>]\<rparr>"

definition apply_transition ::
    "nat \<Rightarrow> app_state \<Rightarrow> instant \<Rightarrow> error_code \<Rightarrow> string \<Rightarrow> fabric \<Rightarrow> fabric" where
  "apply_transition i next now reason detail f =
     (set_record i (transition_record next now reason detail (record_at f i)) f)
       \<lparr>fb_pending := transition_pending (r_state (record_at f i)) next (fb_pending f)\<rparr>"

section \<open>Eviction and compaction\<close>

definition evictable :: "envelope_entry \<Rightarrow> fabric \<Rightarrow> bool" where
  "evictable e f =
     list_all (\<lambda>a. case find_attempt a f of None \<Rightarrow> True | Some i \<Rightarrow> is_terminal (r_state (record_at f i)))
       (attempts_of (gr_id (e_ref (ee_envelope e))) f)"

definition evict_at :: "nat \<Rightarrow> fabric \<Rightarrow> fabric" where
  "evict_at i f =
     (let c = fb_envelopes f ! i; e = ee_envelope c;
          f1 = f\<lparr>fb_envelopes := (fb_envelopes f)[i := c\<lparr>ee_live := False,
                   ee_reason := ''evicted: envelope table at capacity''\<rparr>],
                 fb_envelope_index := (fb_envelope_index f)(id_value (gr_id (e_ref e)) := None),
                 fb_latest := (if fb_latest f (id_value (e_flow e)) = Some i
                               then (fb_latest f)(id_value (e_flow e) := None) else fb_latest f),
                 fb_dead_envelopes := fb_dead_envelopes f + 1\<rparr>
      in (bump ST_envelopes_evicted f1)\<lparr>fb_envelope_hint := i + 1\<rparr>)"

text \<open>The live entries in their order, and the indexes rebuilt: a later entry of the same key
  replaces an earlier one.\<close>

definition index_by :: "('a \<Rightarrow> u64) \<Rightarrow> 'a list \<Rightarrow> u64 \<Rightarrow> nat option" where
  "index_by key xs = fold (\<lambda>i m. m(key (xs ! i) \<mapsto> i)) [0..<length xs] Map.empty"

definition compact_envelopes :: "fabric \<Rightarrow> fabric" where
  "compact_envelopes f =
     (let xs = filter ee_live (fb_envelopes f) in
      f\<lparr>fb_envelopes := xs,
        fb_envelope_index := index_by (\<lambda>e. id_value (gr_id (e_ref (ee_envelope e)))) xs,
        fb_latest := index_by (\<lambda>e. id_value (e_flow (ee_envelope e))) xs,
        fb_dead_envelopes := 0, fb_envelope_hint := 0\<rparr>)"

definition compact_attempts :: "fabric \<Rightarrow> fabric" where
  "compact_attempts f =
     (let xs = filter at_live (fb_attempts f) in
      f\<lparr>fb_attempts := xs,
        fb_attempt_index := index_by (\<lambda>a. id_value (r_attempt (at_record a))) xs,
        fb_dead_attempts := 0, fb_attempt_hint := 0\<rparr>)"

definition evict_one :: "fabric \<Rightarrow> fabric" where
  "evict_one f =
     (if length (fb_envelopes f) < unat (l_max_envelopes (fb_limits f)) then f
      else
        (let begin = min (fb_envelope_hint f) (length (fb_envelopes f));
             end = min (length (fb_envelopes f)) (begin + kEvictionScanWindow)
         in case find (\<lambda>i. ee_live (fb_envelopes f ! i) \<and> evictable (fb_envelopes f ! i) f) [begin..<end] of
              Some i \<Rightarrow> evict_at i f
            | None \<Rightarrow> f\<lparr>fb_envelope_hint := (if end \<ge> length (fb_envelopes f) then 0 else end)\<rparr>))"

definition evict_and_compact :: "fabric \<Rightarrow> fabric" where
  "evict_and_compact f =
     (let f1 = (if fb_dead_envelopes f * kCompactionTrigger > of_nat (length (fb_envelopes f)) \<and>
                   length (fb_envelopes f) > 1024 then compact_envelopes f else f);
          f2 = (if fb_dead_attempts f1 * kCompactionTrigger > of_nat (length (fb_attempts f1)) \<and>
                   length (fb_attempts f1) > 1024 then compact_attempts f1 else f1)
      in evict_one f2)"

section \<open>The journal\<close>

definition encoded :: "nat \<Rightarrow> (writer \<Rightarrow> writer) list \<Rightarrow> u8 list status_or" where
  "encoded cap fs = (let w = w_seq fs (writer_new cap) in if w_ok w then Inr (w_buf w) else Inl (w_status w))"

definition encode_attempt_payload :: "app_record \<Rightarrow> u8 list status_or" where
  "encode_attempt_payload r = encoded kEncodeCapacityBytes (encode_attempt r)"

definition encode_envelope_payload :: "envelope \<Rightarrow> u8 list status_or" where
  "encode_envelope_payload e = encoded kEncodeCapacityBytes (encode_envelope e)"

text \<open>What a checkpoint writes, in its order: each record's type and payload, or the status of
  the writer that overflowed.\<close>

definition envelope_payloads :: "envelope_entry \<Rightarrow> (record_type \<times> u8 list status_or) list" where
  "envelope_payloads e =
     (DR_Envelope, encoded kEncodeCapacityBytes (encode_envelope (ee_envelope e))) #
     (if ee_revoked e
      then [(DR_EnvelopeRevocation,
             encoded kEncodeCapacityBytes (encode_revocation (e_ref (ee_envelope e)) (ee_reason e)))]
      else [])"

definition checkpoint_payloads :: "env \<Rightarrow> fabric \<Rightarrow> (record_type \<times> u8 list status_or) list" where
  "checkpoint_payloads en f =
     map (\<lambda>b. (DR_FlowBinding, encoded kEncodeCapacityBytes (encode_binding b))) (live_bindings (fb_bindings f)) @
     map (\<lambda>p. (DR_Policy, encoded kEncodeCapacityBytes (encode_policy p))) (live_policies (fb_policies f)) @
     concat (map envelope_payloads (filter ee_live (fb_envelopes f))) @
     map (\<lambda>a. (DR_Attempt, encoded kEncodeCapacityBytes (encode_attempt (at_record a))))
       (filter at_live (fb_attempts f)) @
     map (\<lambda>b. (DR_BackendRegistration,
                encoded kEncodeCapacityBytes (encode_backend_descriptor (en_describe en (snd b))))) (fb_backends f) @
     [(DR_EpochAdvance, encoded 256 (encode_epoch (fb_epoch f) (fb_boot f)))]"

fun number_records :: "u64 \<Rightarrow> u64 \<Rightarrow> (record_type \<times> u8 list status_or) list \<Rightarrow> durable_record list status_or" where
  "number_records ts sq [] = Inr []"
| "number_records ts sq ((t, payload) # rest) =
     (case payload of
        Inl s \<Rightarrow> Inl s
      | Inr bs \<Rightarrow>
          (case number_records ts (sq + 1) rest of
             Inl s \<Rightarrow> Inl s
           | Inr rs \<Rightarrow> Inr (\<lparr>dr_type = t, dr_sequence = sq, dr_timestamp_ns = ts, dr_payload = bs\<rparr> # rs)))"

definition maybe_checkpoint :: "env \<Rightarrow> fabric \<Rightarrow> status \<times> fabric" where
  "maybe_checkpoint en f =
     (case fb_durable f of
        None \<Rightarrow> (success, f)
      | Some d \<Rightarrow>
          if \<not> needs_checkpoint d then (success, f)
          else
            (case number_records (en_checkpoint_ns en (fb_sequence f)) (fb_sequence f + 1)
                    (checkpoint_payloads en f) of
               Inl s \<Rightarrow> (s, f)
             | Inr rs \<Rightarrow>
                 (let (s, k, d') = durable_checkpoint (en_checkpoint_io en (fb_sequence f)) rs (fb_disk f) d;
                      f1 = f\<lparr>fb_disk := k, fb_durable := Some d'\<rparr>
                  in if \<not> st_ok s then (s, f1)
                     else (success, bump ST_checkpoints
                             (f1\<lparr>fb_sequence := fb_sequence f + of_nat (length rs)\<rparr>)))))"

definition journal_record :: "env \<Rightarrow> record_type \<Rightarrow> u8 list \<Rightarrow> u64 \<Rightarrow> fabric \<Rightarrow> status \<times> fabric" where
  "journal_record en t payload ts f =
     (case fb_durable f of
        None \<Rightarrow> (success, f)
      | Some _ \<Rightarrow>
          (let (ready, f1) = maybe_checkpoint en f in
           if \<not> st_ok ready then (ready, f1)
           else
             (let sq = fb_sequence f1 + 1;
                  r = \<lparr>dr_type = t, dr_sequence = sq, dr_timestamp_ns = ts, dr_payload = payload\<rparr>;
                  (s, k, d') = durable_append (en_append_io en sq) r (fb_disk f1) (the (fb_durable f1));
                  f2 = f1\<lparr>fb_sequence := sq, fb_disk := k, fb_durable := Some d'\<rparr>
              in if \<not> st_ok s then (s, f2) else (success, bump ST_journal_appends f2))))"

text \<open>\<^verbatim>\<open>if (payload) (void)journal_record(Attempt, ...)\<close>, the form most operations use.\<close>

definition journal_attempt :: "env \<Rightarrow> nat \<Rightarrow> instant \<Rightarrow> fabric \<Rightarrow> fabric" where
  "journal_attempt en i now f =
     (case encode_attempt_payload (record_at f i) of
        Inl _ \<Rightarrow> f
      | Inr payload \<Rightarrow> snd (journal_record en DR_Attempt payload (inst_ns now) f))"

end
