(* ===== verification/PF_Operations.thy ===== *)
theory PF_Operations
  imports PF_Fabric
begin

text \<open>
  The public operations of \<^verbatim>\<open>PacingFabric\<close> (\<^verbatim>\<open>src/fabric.cpp\<close>), one function per lock section
  of \<^verbatim>\<open>mu_\<close>, with the clock reading that precedes it. An operation in flight is a \<open>job\<close>: what
  it has captured so far and the section it runs next. Calls to backends happen between sections,
  with no lock held; they are the labels of the steps.
\<close>

section \<open>Operations in flight\<close>

datatype backend_call =
    BC_apply handle apply_request
  | BC_readback handle apply_request
  | BC_revoke handle apply_request string
  | BC_rebind handle epoch

record authority_inputs =
  ai_binding :: binding
  ai_policy :: policy
  ai_grant :: rate_grant
  ai_vector :: authority_vector

datatype request =
    RQ_bind_flow binding
  | RQ_unbind_flow flow_id
  | RQ_register_backend "handle option"
  | RQ_unregister_backend backend_id
  | RQ_publish_policy policy
  | RQ_remove_policy policy_id
  | RQ_derive_envelope flow_id
  | RQ_apply_envelope envelope_ref backend_id attempt_id
  | RQ_verify_attempt attempt_id
  | RQ_cancel_attempt attempt_id string
  | RQ_revoke_envelope envelope_ref string
  | RQ_fence_below epoch
  | RQ_revalidate attempt_id
  | RQ_advance_epoch
  | RQ_shutdown

datatype outcome =
    OC_status status
  | OC_policy policy_ref
  | OC_envelope envelope
  | OC_attempt attempt_id

text \<open>What an apply captures in phase A, and what a verification or revalidation captures in its
  first section.\<close>

record apply_ctx =
  ax_ref :: envelope_ref
  ax_backend :: backend_id
  ax_requested :: attempt_id
  ax_now :: instant
  ax_envelope :: envelope
  ax_handle :: handle

record verify_ctx =
  vx_attempt :: attempt_id
  vx_now :: instant
  vx_record :: app_record
  vx_envelope :: envelope
  vx_handle :: "handle option"

datatype cont =
    K_derive flow_id instant
  | K_apply apply_ctx
  | K_unverified apply_ctx apply_request
  | K_commit apply_ctx apply_request status readback_evidence
  | K_verify verify_ctx
  | K_revalidate verify_ctx

datatype fetch_pc =
    FP_local flow_id
  | FP_call flow_id binding policy
  | FP_stamp flow_id binding policy rate_grant

datatype job =
    J_call request
  | J_work request instant
  | J_fetch cont fetch_pc
  | J_resume cont "authority_inputs status_or"
  | J_apply apply_ctx attempt_id
  | J_complete apply_ctx apply_request status apply_ack
  | J_refused apply_ctx attempt_id
  | J_readback apply_ctx apply_request
  | J_verify_commit verify_ctx status readback_evidence
  | J_revalidate_commit verify_ctx status readback_evidence
  | J_revalidate_result attempt_id
  | J_drain
  | J_close
  | J_clear "durable_store option"
  | J_emit "backend_call list" fabric_event job
  | J_leave "backend_call list" outcome
  | J_done outcome

abbreviation leave_with :: "error_code \<Rightarrow> string \<Rightarrow> job" where
  "leave_with c d \<equiv> J_leave [] (OC_status (Status c d))"

definition op_enter :: "fabric \<Rightarrow> fabric" where
  "op_enter f = f\<lparr>fb_active := fb_active f + 1\<rparr>"

definition op_leave :: "fabric \<Rightarrow> fabric" where
  "op_leave f = f\<lparr>fb_active := fb_active f - 1\<rparr>"

definition not_running :: status where
  "not_running = Status EC_InvalidState ''fabric is not running''"

section \<open>Bindings, backends and policies\<close>

definition bind_flow :: "env \<Rightarrow> binding \<Rightarrow> instant \<Rightarrow> fabric \<Rightarrow> status \<times> fabric" where
  "bind_flow en b now f =
     (if \<not> fb_running f then (not_running, f)
      else
        (let (s, bs) = binding_bind (fb_limits f) b (fb_bindings f); f1 = f\<lparr>fb_bindings := bs\<rparr> in
         if \<not> st_ok s then (s, f1)
         else case binding_get (b_flow b) bs of
           Inl e \<Rightarrow> (e, f1)
         | Inr stored \<Rightarrow>
             (case encoded 1024 (encode_binding stored) of
                Inl e \<Rightarrow> (e, f1)
              | Inr payload \<Rightarrow> journal_record en DR_FlowBinding payload (inst_ns now) f1)))"

definition unbind_flow :: "env \<Rightarrow> flow_id \<Rightarrow> instant \<Rightarrow> fabric \<Rightarrow> status \<times> fabric" where
  "unbind_flow en flow now f =
     (if \<not> fb_running f then (not_running, f)
      else
        (let (s, bs) = binding_unbind flow (fb_bindings f); f1 = f\<lparr>fb_bindings := bs\<rparr> in
         if \<not> st_ok s then (s, f1)
         else case encoded 64 (encode_identity_u64 (id_value flow)) of
           Inl e \<Rightarrow> (e, f1)
         | Inr payload \<Rightarrow> journal_record en DR_FlowUnbound payload (inst_ns now) f1))"

text \<open>What \<^verbatim>\<open>register_backend\<close> checks before it takes the lock.\<close>

definition check_backend :: "env \<Rightarrow> handle option \<Rightarrow> limits \<Rightarrow> backend_descriptor status_or" where
  "check_backend en h l =
     (case h of
        None \<Rightarrow> Inl (Status EC_InvalidArgument ''backend handle is null'')
      | Some b \<Rightarrow>
          (let desc = en_describe en b in
           if \<not> descriptor_usable desc then
             Inl (Status EC_InvalidArgument ''backend descriptor is incomplete'')
           else if length (bd_name desc) > unat (l_max_name_bytes l) then
             Inl (Status EC_Oversized ''backend name above configured bound'')
           else Inr desc))"

definition register_backend ::
    "env \<Rightarrow> handle option \<Rightarrow> instant \<Rightarrow> fabric \<Rightarrow> (status \<times> fabric_event option) \<times> fabric" where
  "register_backend en h now f =
     (case check_backend en h (fb_limits f) of
        Inl s \<Rightarrow> ((s, None), f)
      | Inr desc \<Rightarrow>
          if \<not> fb_running f then ((not_running, None), f)
          else
            (let k = gr_id (bd_ref desc); existing = find_backend k f in
             if existing = None \<and> length (fb_backends f) \<ge> unat (l_max_backends (fb_limits f)) then
               ((Status EC_ResourceExhausted ''backend registry is full'', None), f)
             else
               (let f1 = f\<lparr>fb_backends :=
                       (case existing of
                          Some i \<Rightarrow> (fb_backends f)[i := (fst (fb_backends f ! i), the h)]
                        | None \<Rightarrow> fb_backends f @ [(k, the h)])\<rparr>
                in case encoded 1024 (encode_backend_descriptor desc) of
                     Inl e \<Rightarrow> ((e, None), f1)
                   | Inr payload \<Rightarrow>
                       (let (s, f2) = journal_record en DR_BackendRegistration payload (inst_ns now) f1 in
                        if \<not> st_ok s then ((s, None), f2)
                        else ((success, Some (no_event\<lparr>ev_event := EV_BackendRegistered, ev_at := now,
                                                       ev_detail := bd_name desc\<rparr>)), f2)))))"

definition unregister_backend :: "backend_id \<Rightarrow> fabric \<Rightarrow> status \<times> fabric" where
  "unregister_backend k f =
     (case find_backend k f of
        None \<Rightarrow> (Status EC_NotFound ''backend is not registered'', f)
      | Some i \<Rightarrow> (success, f\<lparr>fb_backends := take i (fb_backends f) @ drop (Suc i) (fb_backends f)\<rparr>))"

definition list_backends :: "env \<Rightarrow> fabric \<Rightarrow> backend_descriptor list" where
  "list_backends en f = map (\<lambda>b. en_describe en (snd b)) (fb_backends f)"

definition publish_policy :: "env \<Rightarrow> policy \<Rightarrow> instant \<Rightarrow> fabric \<Rightarrow> policy_ref status_or \<times> fabric" where
  "publish_policy en p0 now f =
     (if \<not> fb_running f then (Inl not_running, f)
      else
        (let p = (if inst_ns (p_published_at p0) = 0 then p0\<lparr>p_published_at := now\<rparr> else p0);
             (published, ps) = policy_publish (fb_limits f) p (fb_policies f);
             f1 = f\<lparr>fb_policies := ps\<rparr>
         in case published of
              Inl e \<Rightarrow> (Inl e, f1)
            | Inr r \<Rightarrow>
                (case policy_get (gr_id r) ps of
                   Inl e \<Rightarrow> (Inl e, f1)
                 | Inr stored \<Rightarrow>
                     (case encoded kEncodeCapacityBytes (encode_policy stored) of
                        Inl e \<Rightarrow> (Inl e, f1)
                      | Inr payload \<Rightarrow>
                          (let (s, f2) = journal_record en DR_Policy payload (inst_ns now) f1 in
                           if \<not> st_ok s then (Inl s, f2) else (Inr r, f2))))))"

definition remove_policy :: "env \<Rightarrow> policy_id \<Rightarrow> instant \<Rightarrow> fabric \<Rightarrow> status \<times> fabric" where
  "remove_policy en k now f =
     (if \<not> fb_running f then (not_running, f)
      else
        (let (s, ps) = policy_remove k (fb_policies f); f1 = f\<lparr>fb_policies := ps\<rparr> in
         if \<not> st_ok s then (s, f1)
         else case encoded 64 (encode_identity_u64 (id_value k)) of
           Inl e \<Rightarrow> (e, f1)
         | Inr payload \<Rightarrow> journal_record en DR_PolicyRemoved payload (inst_ns now) f1))"

section \<open>The authority fetch\<close>

definition fetch_local :: "flow_id \<Rightarrow> fabric \<Rightarrow> (binding \<times> policy) status_or" where
  "fetch_local flow f =
     (if \<not> st_ok (require_trustworthy_clock f) then Inl (require_trustworthy_clock f)
      else case binding_get flow (fb_bindings f) of
        Inl e \<Rightarrow> Inl e
      | Inr b \<Rightarrow>
          if \<not> binding_usable b then
            Inl (Status EC_UnknownAuthority ''flow binding is quiesced or not usable'')
          else
            (case policy_resolve flow (gr_id (b_resource b)) (fb_policies f) of
               Inl e \<Rightarrow> Inl e
             | Inr p \<Rightarrow>
                 if p_path p \<noteq> b_path b then
                   Inl (Status EC_StalePath
                          ''policy path generation differs from the binding path generation'')
                 else Inr (b, p)))"

definition fetch_call :: "env \<Rightarrow> fabric \<Rightarrow> rate_grant status_or \<times> fabric" where
  "fetch_call en f =
     (case en_grant en of
        Inl e \<Rightarrow> (Inl e, f)
      | Inr g \<Rightarrow>
          if \<not> grant_usable g then
            (Inl (Status EC_UnknownAuthority
                    ''upstream rate authority is absent, zero or not authoritative''), f)
          else
            (let now = en_clock en; f1 = sample_clock now f in
             if grant_expired_at g now then
               (Inl (Status EC_StaleRateGrant ''upstream rate grant has expired''), f1)
             else (Inr g, f1)))"

definition fetch_stamp :: "flow_id \<Rightarrow> binding \<Rightarrow> policy \<Rightarrow> rate_grant \<Rightarrow> fabric \<Rightarrow> authority_inputs status_or" where
  "fetch_stamp flow b p g f =
     (let v = \<lparr>av_flow = mk_ref flow (b_gen b), av_resource = b_resource b, av_policy = p_ref p,
               av_grant = g_ref g, av_path = b_path b, av_epoch = fb_epoch f, av_boot = fb_boot f\<rparr>
      in if \<not> av_complete v then Inl (Status EC_UnknownAuthority ''authority vector is incomplete'')
         else Inr \<lparr>ai_binding = b, ai_policy = p, ai_grant = g, ai_vector = v\<rparr>)"

section \<open>Derivation\<close>

definition derivation_of :: "authority_inputs \<Rightarrow> derivation_input" where
  "derivation_of inp =
     (let p = ai_policy inp; g = ai_grant inp; b = ai_binding inp;
          di = \<lparr>di_requested_rate_bps = p_rate_bps p, di_rate_share_ppm = p_rate_share_ppm p,
                di_min_rate_bps = p_min_rate_bps p, di_ceiling_bps = g_ceiling_bps g,
                di_floor_bps = g_floor_bps g, di_quantum_bytes = p_quantum_bytes p,
                di_window_ns = p_window_ns p, di_burst_bytes = p_burst_bytes p,
                di_burst_packets = p_burst_packets p,
                di_flow_max_burst_bytes = b_declared_max_burst_bytes b,
                di_flow_max_burst_packets = b_declared_max_burst_packets b,
                di_shape = p_shape p, di_grants_per_window_hint = p_grants_per_window_hint p\<rparr>
      in case find_exception p (b_service_class b) of
           None \<Rightarrow> di
         | Some ex \<Rightarrow>
             di\<lparr>di_min_rate_bps := (if x_min_rate_bps ex > di_min_rate_bps di then x_min_rate_bps ex
                                    else di_min_rate_bps di),
                di_rate_share_ppm := (if x_rate_share_ppm ex \<noteq> 0 then x_rate_share_ppm ex
                                      else di_rate_share_ppm di),
                di_burst_bytes := (if x_burst_bytes ex > di_burst_bytes di then x_burst_bytes ex
                                   else di_burst_bytes di),
                di_burst_packets := (if x_burst_packets ex > di_burst_packets di then x_burst_packets ex
                                     else di_burst_packets di)\<rparr>)"

definition envelope_expiry :: "fabric_config \<Rightarrow> rate_grant \<Rightarrow> instant \<Rightarrow> u64 status_or" where
  "envelope_expiry c g now =
     (let lifetime = (if fc_envelope_lifetime_ns c > l_max_envelope_lifetime_ns (fc_limits c)
                      then l_max_envelope_lifetime_ns (fc_limits c) else fc_envelope_lifetime_ns c)
      in case checked_add (inst_ns now) lifetime of
           None \<Rightarrow> Inl (Status EC_ArithmeticOverflow ''envelope expiry computation overflowed'')
         | Some e0 \<Rightarrow>
             (let e = (if dl_set (g_valid_until g) \<and> inst_ns (dl_instant (g_valid_until g)) < e0
                       then inst_ns (dl_instant (g_valid_until g)) else e0)
              in if e \<le> inst_ns now then
                   Inl (Status EC_StaleRateGrant
                          ''upstream rate grant expires before any envelope could be valid'')
                 else Inr e))"

definition build_envelope ::
    "env \<Rightarrow> authority_inputs \<Rightarrow> derivation_outcome \<Rightarrow> u64 \<Rightarrow> instant \<Rightarrow> fabric \<Rightarrow> envelope" where
  "build_envelope en inp out expiry now f =
     (let b = ai_binding inp; p = ai_policy inp; g = ai_grant inp;
          eid = minter_next (fb_envelope_ids f); pid = minter_next (fb_provenance_ids f)
      in \<lparr>e_ref = mk_ref (Id eid) gen_first, e_flow = b_flow b, e_resource = gr_id (b_resource b),
          e_authority = ai_vector inp, e_cadence = do_cadence out,
          e_requested_rate_bps = do_requested_rate_bps out, e_ceiling_bps = g_ceiling_bps g,
          e_floor_bps = g_floor_bps g, e_clamped_to_ceiling = do_clamped_to_ceiling out,
          e_clamped_to_floor = do_clamped_to_floor out, e_service_class = b_service_class b,
          e_provenance =
            \<lparr>pv_id = Id pid, pv_sequence = eid, pv_fabric_instance = fc_fabric_instance (fb_config f),
             pv_binding_digest = binding_digest b, pv_policy_digest = policy_digest p,
             pv_grant_digest = grant_digest g, pv_cadence_digest = cadence_digest (do_cadence out)\<rparr>,
          e_derived_at = now, e_valid_until = deadline_at (Instant expiry),
          e_upstream_synthetic = en_authority_synthetic en,
          e_policy_synthetic = (\<not> id_valid (p_provenance p))\<rparr>)"

definition insert_envelope :: "envelope \<Rightarrow> fabric \<Rightarrow> fabric" where
  "insert_envelope e f =
     (let i = length (fb_envelopes f) in
      f\<lparr>fb_envelopes := fb_envelopes f @ [\<lparr>ee_envelope = e, ee_revoked = False, ee_live = True, ee_reason = []\<rparr>],
        fb_envelope_index := (fb_envelope_index f)(id_value (gr_id (e_ref e)) \<mapsto> i),
        fb_latest := (fb_latest f)(id_value (e_flow e) \<mapsto> i)\<rparr>)"

definition derive_envelope_internal ::
    "env \<Rightarrow> authority_inputs \<Rightarrow> instant \<Rightarrow> fabric \<Rightarrow> envelope status_or \<times> fabric" where
  "derive_envelope_internal en inp now f =
     (case derive_cadence (derivation_of inp) (fb_limits f) of
        Inl s \<Rightarrow> (Inl s, bump ST_envelopes_refused f)
      | Inr out \<Rightarrow>
          (case envelope_expiry (fb_config f) (ai_grant inp) now of
             Inl s \<Rightarrow> (Inl s, f)
           | Inr expiry \<Rightarrow>
               (let e = build_envelope en inp out expiry now f;
                    f1 = f\<lparr>fb_envelope_ids := minter_next (fb_envelope_ids f),
                           fb_provenance_ids := minter_next (fb_provenance_ids f)\<rparr>
                in case encode_envelope_payload e of
                     Inl s \<Rightarrow> (Inl s, f1)
                   | Inr payload \<Rightarrow>
                       (let (s, f2) = journal_record en DR_Envelope payload (inst_ns now) f1 in
                        if \<not> st_ok s then (Inl s, f2)
                        else
                          (let f3 = evict_and_compact f2 in
                           if length (fb_envelopes f3) \<ge> unat (l_max_envelopes (fb_limits f3)) then
                             (Inl (Status EC_ResourceExhausted
                                     ''envelope table is at capacity and nothing is evictable''), f3)
                           else (Inr e, bump ST_envelopes_derived (insert_envelope e f3)))))))"

definition derive_resume ::
    "env \<Rightarrow> flow_id \<Rightarrow> instant \<Rightarrow> authority_inputs status_or \<Rightarrow> fabric \<Rightarrow> job \<times> fabric" where
  "derive_resume en flow now r f =
     (case r of
        Inl s \<Rightarrow>
          (let f1 = bump ST_envelopes_refused f;
               f2 = (if is_staleness (st_code s) then bump ST_stale_rejections f1 else f1)
           in (J_leave [] (OC_status s), f2))
      | Inr inp \<Rightarrow>
          if \<not> fb_running f then (J_leave [] (OC_status not_running), f)
          else
            (case derive_envelope_internal en inp now f of
               (Inl s, f1) \<Rightarrow> (J_leave [] (OC_status s), f1)
             | (Inr e, f1) \<Rightarrow>
                 (J_emit [] (no_event\<lparr>ev_event := EV_EnvelopeDerived, ev_at := now, ev_flow := flow,
                               ev_envelope := e_ref e, ev_authority_digest := av_digest (e_authority e),
                               ev_detail := envelope_text e\<rparr>)
                    (J_leave [] (OC_envelope e)), f1)))"

section \<open>Application\<close>

definition deadline_ns :: "envelope \<Rightarrow> u64" where
  "deadline_ns e = (if dl_set (e_valid_until e) then inst_ns (dl_instant (e_valid_until e)) else 0)"

definition worker_of :: "fabric \<Rightarrow> worker_boot" where
  "worker_of f = \<lparr>wb_incarnation = fc_fabric_instance (fb_config f), wb_nonce = bo_nonce (fb_boot f)\<rparr>"

definition apply_request_of :: "apply_ctx \<Rightarrow> attempt_id \<Rightarrow> fabric \<Rightarrow> apply_request" where
  "apply_request_of x a f =
     \<lparr>rq_attempt = a, rq_envelope = ax_ref x, rq_flow = e_flow (ax_envelope x),
      rq_authority = e_authority (ax_envelope x), rq_cadence = e_cadence (ax_envelope x),
      rq_worker = worker_of f, rq_issued_at_ns = inst_ns (ax_now x),
      rq_deadline_ns = deadline_ns (ax_envelope x)\<rparr>"

text \<open>Phase A.\<close>

definition apply_resolve ::
    "envelope_ref \<Rightarrow> backend_id \<Rightarrow> attempt_id \<Rightarrow> instant \<Rightarrow> fabric \<Rightarrow> job \<times> fabric" where
  "apply_resolve ref backend requested now f =
     (if \<not> fb_running f then (J_leave [] (OC_status not_running), f)
      else case find_envelope (gr_id ref) f of
        None \<Rightarrow> (leave_with EC_NotFound ''envelope not found'', f)
      | Some i \<Rightarrow>
          (let entry = fb_envelopes f ! i; e = ee_envelope entry in
           if gr_gen (e_ref e) \<noteq> gr_gen ref then
             (leave_with EC_StaleGeneration ''envelope generation does not match the ledger'',
              bump ST_stale_rejections f)
           else if ee_revoked entry then
             (leave_with EC_Revoked ''envelope has been revoked'', bump ST_applies_refused f)
           else if envelope_expired_at e now then
             (leave_with EC_StaleGeneration ''envelope lifetime has expired'', bump ST_applies_refused f)
           else case backend_ptr backend f of
             None \<Rightarrow> (leave_with EC_NotFound ''backend is not registered'', f)
           | Some h \<Rightarrow>
               (J_fetch (K_apply \<lparr>ax_ref = ref, ax_backend = backend, ax_requested = requested,
                                  ax_now = now, ax_envelope = e, ax_handle = h\<rparr>)
                  (FP_local (e_flow e)),
                bump ST_applies_requested f)))"

text \<open>Phase C: the reservation.\<close>

definition reserved_record ::
    "apply_ctx \<Rightarrow> attempt_id \<Rightarrow> backend_descriptor \<Rightarrow> fabric \<Rightarrow> app_record" where
  "reserved_record x a desc f =
     \<lparr>r_attempt = a, r_envelope = ax_ref x, r_flow = e_flow (ax_envelope x),
      r_resource = e_resource (ax_envelope x), r_authority = e_authority (ax_envelope x),
      r_desired = e_cadence (ax_envelope x), r_state = AS_Reserved, r_last_known_state = AS_Unknown,
      r_effect = EL_None, r_evidence_kind = EK_None, r_observed_rate_bps = 0,
      r_observed_quantum_bytes = 0, r_observed_burst_bytes = 0, r_observed_interval_ns = 0,
      r_backend_seq = 0, r_evidence_digest = 0, r_evidence_integrity_ok = False,
      r_backend = bd_ref desc, r_worker = worker_of f,
      r_backend_synthetic = (bd_nature desc = BN_Synthetic), r_reason = EC_Ok, r_drift = AD_None,
      r_detail = [], r_revision = 1, r_created_ns = inst_ns (ax_now x),
      r_updated_ns = inst_ns (ax_now x), r_requires_revalidation = False\<rparr>"

definition insert_attempt :: "app_record \<Rightarrow> fabric \<Rightarrow> fabric" where
  "insert_attempt r f =
     (let e = id_value (gr_id (r_envelope r)) in
      f\<lparr>fb_attempts := fb_attempts f @ [\<lparr>at_record = r, at_live = True\<rparr>],
        fb_attempt_index := (fb_attempt_index f)(id_value (r_attempt r) \<mapsto> length (fb_attempts f)),
        fb_by_envelope := (fb_by_envelope f)(e \<mapsto> attempts_of (gr_id (r_envelope r)) f @ [r_attempt r])\<rparr>)"

text \<open>The entry is pushed with the state \<^verbatim>\<open>Reserved\<close> that was journalled and becomes
  \<^verbatim>\<open>Submitted\<close> in memory before the lock is released.\<close>

definition apply_admit :: "env \<Rightarrow> apply_ctx \<Rightarrow> fabric \<Rightarrow> job \<times> fabric" where
  "apply_admit en x f =
     (let f1 = evict_and_compact f in
      if length (fb_attempts f1) \<ge> unat (l_max_attempts (fb_limits f1)) then
        (leave_with EC_ResourceExhausted ''attempt ledger is at capacity'', bump ST_applies_refused f1)
      else
        (let minted = \<not> id_valid (ax_requested x);
             next_id = minter_next (fb_attempt_ids f1);
             a = (if minted then Id next_id else ax_requested x);
             f2 = (if minted then f1\<lparr>fb_attempt_ids := next_id\<rparr> else f1)
         in if find_attempt a f2 \<noteq> None then
              (leave_with EC_AlreadyExists ''attempt id already exists'', f2)
            else
              (let f3 = f2\<lparr>fb_attempt_ids := minter_set_floor (id_value a) (fb_attempt_ids f2)\<rparr>;
                   r = reserved_record x a (en_describe en (ax_handle x)) f3
               in case encode_attempt_payload r of
                    Inl s \<Rightarrow> (J_leave [] (OC_status s), f3)
                  | Inr payload \<Rightarrow>
                      (let (s, f4) = journal_record en DR_Attempt payload (inst_ns (ax_now x)) f3 in
                       if \<not> st_ok s then (J_leave [] (OC_status s), bump ST_applies_refused f4)
                       else
                         (J_emit [] (no_event\<lparr>ev_event := EV_ApplyReserved, ev_at := ax_now x,
                              ev_flow := e_flow (ax_envelope x), ev_envelope := ax_ref x,
                              ev_of_attempt := a, ev_state := AS_Submitted,
                              ev_authority_digest := av_digest (e_authority (ax_envelope x))\<rparr>)
                            (J_apply x a),
                          bump ST_applies_reserved
                            ((insert_attempt (r\<lparr>r_state := AS_Submitted\<rparr>) f4)
                               \<lparr>fb_pending := fb_pending f4 + 1\<rparr>))))))"

definition apply_reserve :: "env \<Rightarrow> apply_ctx \<Rightarrow> fabric \<Rightarrow> job \<times> fabric" where
  "apply_reserve en x f =
     (if \<not> fb_running f then (J_leave [] (OC_status not_running), f)
      else case find_envelope (gr_id (ax_ref x)) f of
        None \<Rightarrow> (leave_with EC_NotFound ''envelope not found'', f)
      | Some i \<Rightarrow>
          if ee_revoked (fb_envelopes f ! i) then
            (leave_with EC_Revoked ''envelope has been revoked'', bump ST_applies_refused f)
          else case find_existing_attempt (ax_ref x) (ax_backend x) f of
            Some j \<Rightarrow>
              (J_leave [] (OC_attempt (r_attempt (record_at f j))), bump ST_duplicate_applies f)
          | None \<Rightarrow>
              (case (if id_valid (ax_requested x) then find_attempt (ax_requested x) f else None) of
                 Some j \<Rightarrow>
                   if r_envelope (record_at f j) \<noteq> ax_ref x \<or>
                      gr_id (r_backend (record_at f j)) \<noteq> ax_backend x then
                     (leave_with EC_Duplicate ''attempt id is already bound to different work'', f)
                   else (J_leave [] (OC_attempt (r_attempt (record_at f j))), bump ST_duplicate_applies f)
               | None \<Rightarrow>
                   if fb_pending f \<ge> fc_max_pending_attempts (fb_config f) then
                     (leave_with EC_ResourceExhausted ''pending attempt bound reached'',
                      bump ST_applies_refused f)
                   else apply_admit en x f))"

text \<open>Phase B, once the fetch has answered, then phase C.\<close>

definition apply_resume ::
    "env \<Rightarrow> apply_ctx \<Rightarrow> authority_inputs status_or \<Rightarrow> fabric \<Rightarrow> job \<times> fabric" where
  "apply_resume en x r f =
     (case r of
        Inl s \<Rightarrow>
          (let f1 = bump ST_applies_refused f;
               f2 = (if is_staleness (st_code s) then bump ST_stale_rejections f1 else f1)
           in (J_leave [] (OC_status s), f2))
      | Inr inp \<Rightarrow>
          (let drift = compare_authority (e_authority (ax_envelope x)) (ai_vector inp) in
           if drift \<noteq> AD_None then
             (J_emit [] (no_event\<lparr>ev_event := EV_ApplyRefused, ev_at := ax_now x,
                  ev_flow := e_flow (ax_envelope x), ev_envelope := ax_ref x,
                  ev_reason := drift_code drift,
                  ev_detail := ''authority drift: '' @ drift_name drift\<rparr>)
                (leave_with (drift_code drift) ''authority drifted since the envelope was derived''),
              bump ST_stale_rejections (bump ST_applies_refused f))
           else apply_reserve en x f))"

text \<open>Phase D: the completion of the backend call. \<open>close_attempt\<close> is the shape of every
  branch: transition, count, journal.\<close>

definition close_attempt ::
    "env \<Rightarrow> nat \<Rightarrow> app_state \<Rightarrow> instant \<Rightarrow> error_code \<Rightarrow> string \<Rightarrow> stat \<Rightarrow> fabric \<Rightarrow> fabric" where
  "close_attempt en i next now reason detail st f =
     journal_attempt en i now (bump st (apply_transition i next now reason detail f))"

definition apply_event :: "event_kind \<Rightarrow> apply_ctx \<Rightarrow> attempt_id \<Rightarrow> fabric_event" where
  "apply_event k x a =
     no_event\<lparr>ev_event := k, ev_at := ax_now x, ev_flow := e_flow (ax_envelope x),
              ev_envelope := ax_ref x, ev_of_attempt := a\<rparr>"

definition closed_early :: "apply_ctx \<Rightarrow> apply_request \<Rightarrow> error_code \<Rightarrow> string \<Rightarrow> job" where
  "closed_early x rq c d =
     J_emit [BC_revoke (ax_handle x) rq ''late backend completion discarded'']
       ((apply_event EV_ApplyRefused x (rq_attempt rq))\<lparr>ev_reason := c,
          ev_detail := (if d = [] then ''attempt closed before backend completion'' else d)\<rparr>)
       (leave_with c ''attempt was closed before the backend completed; completion discarded'')"

definition apply_complete ::
    "env \<Rightarrow> apply_ctx \<Rightarrow> apply_request \<Rightarrow> status \<Rightarrow> apply_ack \<Rightarrow> fabric \<Rightarrow> job \<times> fabric" where
  "apply_complete en x rq s ack f =
     (case find_attempt (rq_attempt rq) f of
        None \<Rightarrow> (leave_with EC_Internal ''attempt vanished during apply'', f)
      | Some i \<Rightarrow>
          (let r = record_at f i; now = ax_now x; a = rq_attempt rq in
           if r_state r \<noteq> AS_Submitted then
             (closed_early x rq (if r_reason r = EC_Ok then EC_Cancelled else r_reason r) (r_detail r),
              bump ST_late_completions_discarded f)
           else if find_backend (gr_id (r_backend r)) f = None then
             (closed_early x rq EC_BackendUnavailable
                ''backend was unregistered while the attempt was in flight'',
              close_attempt en i AS_Failed now EC_BackendUnavailable
                ''backend was unregistered while the attempt was in flight'' ST_applies_refused f)
           else if \<not> st_ok s then
             (J_refused x a,
              close_attempt en i AS_Failed now (st_code s) (st_detail s) ST_applies_refused f)
           else if \<not> ack_accepted ack then
             (J_refused x a,
              close_attempt en i AS_Failed now EC_BackendRejected (ack_detail ack) ST_applies_refused f)
           else if ack_attempt ack \<noteq> a then
             (J_refused x a,
              close_attempt en i AS_Failed now EC_BackendFailure
                ''backend acknowledged a different attempt identity'' ST_applies_refused f)
           else
             (J_readback x rq,
              journal_attempt en i now
                (apply_transition i AS_Acknowledged now EC_Ok (ack_detail ack)
                   (set_record i (r\<lparr>r_backend_seq := ack_backend_seq ack\<rparr>) f)))))"

definition apply_refused :: "apply_ctx \<Rightarrow> attempt_id \<Rightarrow> fabric \<Rightarrow> job" where
  "apply_refused x a f =
     (let e = apply_event EV_ApplyRefused x a in
      J_emit []
        (case find_attempt a f of
           None \<Rightarrow> e
         | Some i \<Rightarrow> e\<lparr>ev_reason := r_reason (record_at f i), ev_state := r_state (record_at f i),
                       ev_detail := r_detail (record_at f i)\<rparr>)
        (J_leave [] (OC_attempt a)))"

text \<open>Phase E. The evidence goes into the record, then the record moves.\<close>

definition record_evidence :: "readback_evidence \<Rightarrow> app_record \<Rightarrow> app_record" where
  "record_evidence ev r =
     r\<lparr>r_evidence_kind := ev_kind ev, r_observed_rate_bps := ev_rate_bps ev,
       r_observed_quantum_bytes := ev_quantum_bytes ev, r_observed_burst_bytes := ev_burst_bytes ev,
       r_observed_interval_ns := ev_interval_ns ev, r_backend_seq := ev_backend_seq ev,
       r_evidence_integrity_ok := ev_integrity_ok ev,
       r_evidence_digest := (if ev_digest ev \<noteq> 0 then ev_digest ev else evidence_digest ev)\<rparr>"

definition evidence_matches :: "readback_evidence \<Rightarrow> app_record \<Rightarrow> cadence \<Rightarrow> bool" where
  "evidence_matches ev r c =
     (ev_attempt ev = r_attempt r \<and> gr_id (ev_backend ev) = gr_id (r_backend r) \<and>
      ev_quantum_bytes ev = c_quantum_bytes c \<and> ev_burst_bytes ev = c_burst_bytes c \<and>
      ev_rate_bps ev = c_rate_bps c \<and> ev_interval_ns ev = c_interval_ns c)"

definition finalize_evidence ::
    "nat \<Rightarrow> envelope \<Rightarrow> readback_evidence \<Rightarrow> bool \<Rightarrow> error_code \<Rightarrow> instant \<Rightarrow> fabric \<Rightarrow> fabric" where
  "finalize_evidence i e ev readback_ok readback_code now f =
     (let f1 = set_record i (record_evidence ev (record_at f i)) f; r = record_at f i in
      if \<not> readback_ok then
        bump ST_readback_unavailable (bump ST_applies_unverified
          (apply_transition i AS_AppliedUnverified now readback_code
             (if readback_code = EC_IntegrityFailure
              then ''readback evidence failed its integrity check; effect is UNKNOWN''
              else ''no readback evidence available; effect is UNKNOWN'') f1))
      else if evidence_matches ev r (e_cadence e) then
        bump ST_applies_committed
          (apply_transition i AS_Applied now EC_Ok
             (if r_backend_synthetic r
              then ''synthetic backend readback matches the authorized envelope''
              else ''backend readback matches the authorized envelope'') f1)
      else if ev_rate_bps ev > c_rate_bps (e_cadence e) then
        bump ST_applies_mismatched
          (apply_transition i AS_Mismatched now EC_CeilingExceeded
             ''readback rate exceeds the authorized envelope rate'' f1)
      else
        bump ST_applies_mismatched
          (apply_transition i AS_Mismatched now EC_ReadbackMismatch
             ''readback does not match the authorized envelope'' f1))"

definition readback_good :: "status \<Rightarrow> readback_evidence \<Rightarrow> bool" where
  "readback_good s ev = (st_ok s \<and> ev_present ev \<and> ev_integrity_ok ev)"

definition readback_error :: "status \<Rightarrow> readback_evidence \<Rightarrow> error_code" where
  "readback_error s ev =
     (if \<not> st_ok s then st_code s
      else if ev_present ev then EC_IntegrityFailure else EC_ReadbackUnavailable)"

definition drift_after :: "authority_vector \<Rightarrow> authority_inputs status_or \<Rightarrow> authority_drift \<times> error_code" where
  "drift_after held r =
     (case r of
        Inr inp \<Rightarrow> (compare_authority held (ai_vector inp), drift_code (compare_authority held (ai_vector inp)))
      | Inl s \<Rightarrow> (AD_Incomplete, st_code s))"

definition apply_unverified ::
    "env \<Rightarrow> apply_ctx \<Rightarrow> apply_request \<Rightarrow> authority_inputs status_or \<Rightarrow> fabric \<Rightarrow> job \<times> fabric" where
  "apply_unverified en x rq res f =
     (case find_attempt (rq_attempt rq) f of
        None \<Rightarrow> (leave_with EC_Internal ''attempt vanished during readback'', f)
      | Some i \<Rightarrow>
          (let now = ax_now x; a = rq_attempt rq; (drift, code) = drift_after (e_authority (ax_envelope x)) res in
           if r_state (record_at f i) \<noteq> AS_Acknowledged then
             (J_leave [] (OC_attempt a), bump ST_late_completions_discarded f)
           else if drift \<noteq> AD_None then
             (let f1 = close_attempt en i AS_Stale now code
                         ''authority drifted while the attempt was being applied'' ST_stale_rejections f
              in (J_emit [BC_revoke (ax_handle x) rq ''authority drifted during apply'']
                    ((apply_event EV_AttemptStale x a)\<lparr>ev_state := r_state (record_at f1 i),
                       ev_reason := code, ev_detail := r_detail (record_at f1 i)\<rparr>)
                    (J_leave [] (OC_attempt a)), f1))
           else
             (let f1 = apply_transition i AS_AppliedUnverified now EC_ReadbackUnavailable
                         ''backend does not support readback; effect is UNKNOWN'' f;
                  f2 = bump ST_readback_unavailable (bump ST_applies_unverified
                         (set_record i ((record_at f1 i)\<lparr>r_evidence_kind := EK_None\<rparr>) f1));
                  f3 = journal_attempt en i now f2
              in (J_emit []
                    ((apply_event EV_ApplyUnverified x a)\<lparr>ev_state := r_state (record_at f3 i),
                       ev_effect := r_effect (record_at f3 i), ev_reason := EC_ReadbackUnavailable\<rparr>)
                    (J_leave [] (OC_attempt a)), f3))))"

definition apply_commit ::
    "env \<Rightarrow> apply_ctx \<Rightarrow> apply_request \<Rightarrow> status \<Rightarrow> readback_evidence \<Rightarrow> authority_inputs status_or \<Rightarrow>
     fabric \<Rightarrow> job \<times> fabric" where
  "apply_commit en x rq s ev res f =
     (case find_attempt (rq_attempt rq) f of
        None \<Rightarrow> (leave_with EC_Internal ''attempt vanished during readback'', f)
      | Some i \<Rightarrow>
          (let now = ax_now x; (drift, code) = drift_after (e_authority (ax_envelope x)) res;
               a = rq_attempt rq; h = ax_handle x
           in if r_state (record_at f i) \<noteq> AS_Acknowledged then
                (J_leave [BC_revoke h rq ''late readback discarded'']
                   (OC_status (Status EC_Cancelled ''attempt was closed before readback completed'')),
                 bump ST_late_completions_discarded f)
              else if find_backend (gr_id (r_backend (record_at f i))) f = None then
                (let f1 = close_attempt en i AS_Stale now EC_BackendUnavailable
                            ''backend was unregistered while the attempt was in flight''
                            ST_stale_rejections f
                 in (J_emit [BC_revoke h rq ''backend unregistered during apply'']
                       ((apply_event EV_AttemptStale x a)\<lparr>ev_state := r_state (record_at f1 i),
                          ev_reason := EC_BackendUnavailable, ev_detail := r_detail (record_at f1 i)\<rparr>)
                       (leave_with EC_BackendUnavailable
                          ''backend was unregistered while the attempt was in flight''), f1))
              else if drift \<noteq> AD_None then
                (let f1 = close_attempt en i AS_Stale now code
                            ''authority drifted while the attempt was being applied'' ST_stale_rejections f
                 in (J_emit [BC_revoke h rq ''authority drifted during apply'']
                       ((apply_event EV_AttemptStale x a)\<lparr>ev_state := r_state (record_at f1 i),
                          ev_effect := r_effect (record_at f1 i), ev_reason := code,
                          ev_detail := r_detail (record_at f1 i)\<rparr>)
                       (leave_with code
                          ''authority drifted during apply; the completion was not committed''), f1))
              else
                (let f1 = journal_attempt en i now
                            (finalize_evidence i (ax_envelope x) ev (readback_good s ev)
                               (readback_error s ev) now f);
                     r = record_at f1 i;
                     unsafe = (r_state r = AS_Mismatched \<and>
                               ev_rate_bps ev > c_rate_bps (e_cadence (ax_envelope x)))
                 in (J_emit
                       (if unsafe then [BC_revoke h rq ''readback exceeded the authorized ceiling''] else [])
                       ((apply_event (if r_state r = AS_Applied then EV_ApplyVerified
                                      else if r_state r = AS_Mismatched then EV_ApplyMismatched
                                      else EV_ApplyUnverified) x a)
                          \<lparr>ev_state := r_state r, ev_effect := r_effect r,
                           ev_authority_digest := av_digest (e_authority (ax_envelope x)),
                           ev_reason := r_reason r, ev_detail := r_detail r\<rparr>)
                       (J_leave [] (OC_attempt a)), f1))))"

section \<open>Verification\<close>

definition verify_request :: "verify_ctx \<Rightarrow> apply_request" where
  "verify_request v =
     \<lparr>rq_attempt = vx_attempt v, rq_envelope = r_envelope (vx_record v), rq_flow = r_flow (vx_record v),
      rq_authority = r_authority (vx_record v), rq_cadence = e_cadence (vx_envelope v),
      rq_worker = r_worker (vx_record v), rq_issued_at_ns = inst_ns (vx_now v),
      rq_deadline_ns = deadline_ns (vx_envelope v)\<rparr>"

definition verify_start :: "attempt_id \<Rightarrow> instant \<Rightarrow> fabric \<Rightarrow> job" where
  "verify_start a now f =
     (if \<not> fb_running f then J_leave [] (OC_status not_running)
      else case find_attempt a f of
        None \<Rightarrow> leave_with EC_NotFound ''attempt not found''
      | Some i \<Rightarrow>
          (let r = record_at f i in
           if r_state r = AS_Cancelled then leave_with EC_Cancelled ''attempt was cancelled''
           else if r_state r = AS_Revoked then leave_with EC_Revoked ''attempt was revoked''
           else if r_state r = AS_Fenced then leave_with EC_Fenced ''attempt was fenced''
           else if r_state r = AS_Stale then
             leave_with EC_StaleGeneration ''attempt was invalidated by authority drift''
           else case find_envelope (gr_id (r_envelope r)) f of
             None \<Rightarrow> leave_with EC_NotFound ''envelope not found''
           | Some k \<Rightarrow>
               (case backend_ptr (gr_id (r_backend r)) f of
                  None \<Rightarrow> leave_with EC_BackendUnavailable ''backend is not registered''
                | Some h \<Rightarrow>
                    J_fetch (K_verify \<lparr>vx_attempt = a, vx_now = now, vx_record = r,
                                       vx_envelope = ee_envelope (fb_envelopes f ! k),
                                       vx_handle = Some h\<rparr>)
                      (FP_local (r_flow r)))))"

definition verify_event :: "event_kind \<Rightarrow> verify_ctx \<Rightarrow> fabric_event" where
  "verify_event k v =
     no_event\<lparr>ev_event := k, ev_at := vx_now v, ev_of_attempt := vx_attempt v,
              ev_flow := r_flow (vx_record v), ev_envelope := r_envelope (vx_record v)\<rparr>"

text \<open>The stale section of a verification and of a revalidation; \<open>mark\<close> is what the latter adds
  to the record. The captured attempt is looked up again, its state is not looked at.\<close>

definition stale_section ::
    "env \<Rightarrow> verify_ctx \<Rightarrow> authority_drift \<Rightarrow> (app_record \<Rightarrow> app_record) \<Rightarrow> fabric \<Rightarrow> fabric" where
  "stale_section en v drift mark f =
     bump ST_stale_rejections
       (case find_attempt (vx_attempt v) f of
          None \<Rightarrow> f
        | Some i \<Rightarrow>
            (let f1 = apply_transition i AS_Stale (vx_now v) (drift_code drift)
                        (''authority drift: '' @ drift_name drift) f
             in journal_attempt en i (vx_now v) (set_record i (mark (record_at f1 i)) f1)))"

definition verify_resume ::
    "env \<Rightarrow> verify_ctx \<Rightarrow> authority_inputs status_or \<Rightarrow> fabric \<Rightarrow> backend_call list \<times> job \<times> fabric" where
  "verify_resume en v res f =
     (case res of
        Inl s \<Rightarrow> ([], J_leave [] (OC_status s), bump ST_stale_rejections f)
      | Inr inp \<Rightarrow>
          (let drift = compare_authority (r_authority (vx_record v)) (ai_vector inp) in
           if drift \<noteq> AD_None then
             ([], J_emit [] ((verify_event EV_AttemptStale v)\<lparr>ev_reason := drift_code drift\<rparr>)
                (leave_with (drift_code drift) ''authority drifted; attempt is stale''),
              stale_section en v drift (\<lambda>r. r) f)
           else ([BC_readback (the (vx_handle v)) (verify_request v)],
                 J_verify_commit v (fst (en_readback en)) (snd (en_readback en)), f)))"

definition verify_commit ::
    "env \<Rightarrow> verify_ctx \<Rightarrow> status \<Rightarrow> readback_evidence \<Rightarrow> fabric \<Rightarrow> job \<times> fabric" where
  "verify_commit en v s ev f =
     (case find_attempt (vx_attempt v) f of
        None \<Rightarrow> (leave_with EC_NotFound ''attempt not found'', f)
      | Some i \<Rightarrow>
          (let f1 = journal_attempt en i (vx_now v)
                      (finalize_evidence i (vx_envelope v) ev (readback_good s ev)
                         (readback_error s ev) (vx_now v) f);
               r = record_at f1 i
           in (J_emit []
                 ((verify_event (if r_state r = AS_Applied then EV_ApplyVerified else EV_ApplyUnverified) v)
                    \<lparr>ev_state := r_state r, ev_effect := r_effect r, ev_reason := r_reason r\<rparr>)
                 (J_leave [] (OC_status success)), f1)))"

section \<open>Revalidation\<close>

definition revalidate_start :: "attempt_id \<Rightarrow> instant \<Rightarrow> fabric \<Rightarrow> job" where
  "revalidate_start a now f =
     (if \<not> fb_running f then J_leave [] (OC_status not_running)
      else case find_attempt a f of
        None \<Rightarrow> leave_with EC_NotFound ''attempt not found''
      | Some i \<Rightarrow>
          (let r = record_at f i in
           if r_state r \<in> {AS_Cancelled, AS_Revoked, AS_Fenced, AS_Failed} then
             leave_with EC_InvalidState ''attempt is closed; it cannot be revalidated''
           else case find_envelope (gr_id (r_envelope r)) f of
             None \<Rightarrow> leave_with EC_RequiresRevalidation
                       ''governing envelope is no longer present; derive and re-apply''
           | Some k \<Rightarrow>
               J_fetch (K_revalidate \<lparr>vx_attempt = a, vx_now = now, vx_record = r,
                                      vx_envelope = ee_envelope (fb_envelopes f ! k),
                                      vx_handle = backend_ptr (gr_id (r_backend r)) f\<rparr>)
                 (FP_local (r_flow r))))"

definition revalidate_resume ::
    "env \<Rightarrow> verify_ctx \<Rightarrow> authority_inputs status_or \<Rightarrow> fabric \<Rightarrow> backend_call list \<times> job \<times> fabric" where
  "revalidate_resume en v res f =
     (case res of
        Inl s \<Rightarrow> ([], J_leave [] (OC_status s), bump ST_stale_rejections f)
      | Inr inp \<Rightarrow>
          (let drift = compare_authority (r_authority (vx_record v)) (ai_vector inp) in
           if drift \<noteq> AD_None then
             ([], J_emit [] ((verify_event EV_AttemptStale v)\<lparr>ev_reason := drift_code drift,
                    ev_detail := ''revalidation rejected: authority drifted''\<rparr>)
                (leave_with (drift_code drift) ''authority drifted; the recorded effect is not current''),
              stale_section en v drift (\<lambda>r. r\<lparr>r_requires_revalidation := True\<rparr>) f)
           else case vx_handle v of
             None \<Rightarrow>
               ([], leave_with EC_BackendUnavailable
                      ''backend is not registered; pacing must be re-applied against a live backend'', f)
           | Some h \<Rightarrow>
               ([BC_readback h (verify_request v)],
                J_revalidate_commit v (fst (en_readback en)) (snd (en_readback en)), f)))"

definition revalidate_commit ::
    "env \<Rightarrow> verify_ctx \<Rightarrow> status \<Rightarrow> readback_evidence \<Rightarrow> fabric \<Rightarrow> job \<times> fabric" where
  "revalidate_commit en v s ev f =
     (if \<not> readback_good s ev then
        (leave_with EC_RequiresRevalidation ''no positive backend evidence; pacing must be re-applied'',
         (case find_attempt (vx_attempt v) f of
            None \<Rightarrow> f
          | Some i \<Rightarrow>
              (let f1 = set_record i ((record_at f i)\<lparr>r_requires_revalidation := True\<rparr>) f;
                   f2 = (if \<not> is_terminal (r_state (record_at f1 i))
                         then apply_transition i AS_RequiresRevalidation (vx_now v) EC_RequiresRevalidation
                                ''revalidation could not obtain positive backend evidence'' f1
                         else f1)
               in journal_attempt en i (vx_now v) f2)))
      else case find_attempt (vx_attempt v) f of
        None \<Rightarrow> (leave_with EC_NotFound ''attempt not found'', f)
      | Some i \<Rightarrow>
          (let f1 = finalize_evidence i (vx_envelope v) ev True EC_Ok (vx_now v) f;
               f2 = bump ST_revalidations
                      (set_record i ((record_at f1 i)\<lparr>r_requires_revalidation :=
                                       (r_state (record_at f1 i) \<noteq> AS_Applied)\<rparr>) f1);
               f3 = journal_attempt en i (vx_now v) f2;
               r = record_at f3 i
           in (J_emit []
                 ((verify_event (if r_state r = AS_Applied then EV_AttemptRevalidated
                                 else EV_ApplyMismatched) v)
                    \<lparr>ev_state := r_state r, ev_effect := r_effect r, ev_reason := r_reason r,
                     ev_detail := r_detail r\<rparr>)
                 (J_revalidate_result (vx_attempt v)), f3)))"

definition revalidate_result :: "attempt_id \<Rightarrow> fabric \<Rightarrow> job" where
  "revalidate_result a f =
     (case find_attempt a f of
        None \<Rightarrow> leave_with EC_NotFound ''attempt not found''
      | Some i \<Rightarrow>
          if r_state (record_at f i) \<noteq> AS_Applied then
            leave_with EC_RequiresRevalidation ''readback did not confirm a matching effect''
          else J_leave [] (OC_status success))"

section \<open>Cancellation, revocation and fencing\<close>

fun closed_state :: "app_state \<Rightarrow> bool" where
  "closed_state AS_Revoked = True"
| "closed_state AS_Fenced = True"
| "closed_state AS_Stale = True"
| "closed_state AS_Failed = True"
| "closed_state AS_Cancelled = True"
| "closed_state AS_Ambiguous = True"
| "closed_state _ = False"

definition withdrawal_request :: "app_record \<Rightarrow> cadence \<Rightarrow> instant \<Rightarrow> apply_request" where
  "withdrawal_request r c now =
     \<lparr>rq_attempt = r_attempt r, rq_envelope = r_envelope r, rq_flow = r_flow r,
      rq_authority = r_authority r, rq_cadence = c, rq_worker = r_worker r,
      rq_issued_at_ns = inst_ns now, rq_deadline_ns = 0\<rparr>"

text \<open>States whose attempts were reported with an effect, or without a verdict, become
  \<^verbatim>\<open>Revoked\<close>; the others become \<^verbatim>\<open>Cancelled\<close>. No withdrawal is issued for a record in state
  \<^verbatim>\<open>Unknown\<close> (the \<^verbatim>\<open>default\<close> of the switch).\<close>

definition cancel_attempt :: "env \<Rightarrow> attempt_id \<Rightarrow> string \<Rightarrow> instant \<Rightarrow> fabric \<Rightarrow> job \<times> fabric" where
  "cancel_attempt en a reason now f =
     (if \<not> fb_running f then (J_leave [] (OC_status not_running), f)
      else case find_attempt a f of
        None \<Rightarrow> (leave_with EC_NotFound ''attempt not found'', f)
      | Some i \<Rightarrow>
          (let r = record_at f i; e = no_event\<lparr>ev_event := EV_AttemptCancelled, ev_at := now, ev_of_attempt := a\<rparr> in
           if closed_state (r_state r) then
             (J_emit [] (e\<lparr>ev_state := r_state r\<rparr>) (J_leave [] (OC_status success)), f)
           else
             (let c = (case find_envelope (gr_id (r_envelope r)) f of
                         Some k \<Rightarrow> e_cadence (ee_envelope (fb_envelopes f ! k)) | None \<Rightarrow> r_desired r);
                  rq = (withdrawal_request r c now)\<lparr>rq_attempt := a\<rparr>;
                  f1 = (if r_state r \<in> {AS_Applied, AS_AppliedUnverified, AS_Mismatched,
                                          AS_RequiresRevalidation}
                        then bump ST_revocations
                          (apply_transition i AS_Revoked now EC_Revoked
                             (if reason = [] then ''revoked by operator'' else reason) f)
                        else bump ST_cancellations
                          (apply_transition i AS_Cancelled now EC_Cancelled
                             (if reason = [] then ''cancelled by operator'' else reason) f));
                  f2 = journal_attempt en i now f1;
                  r2 = record_at f2 i
              in (J_emit
                    (case backend_ptr (gr_id (r_backend r)) f of
                       Some h \<Rightarrow> if r_state r \<noteq> AS_Unknown then [BC_revoke h rq reason] else []
                     | None \<Rightarrow> [])
                    (e\<lparr>ev_flow := r_flow r2, ev_envelope := r_envelope r2, ev_state := r_state r2,
                       ev_reason := r_reason r2, ev_detail := r_detail r2\<rparr>)
                    (J_leave [] (OC_status success)), f2))))"

text \<open>One round of the loop of \<^verbatim>\<open>revoke_envelope\<close> over the attempts of the envelope; \<open>ws\<close>
  collects the withdrawals.\<close>

definition revoke_one ::
    "env \<Rightarrow> cadence \<Rightarrow> string \<Rightarrow> instant \<Rightarrow> attempt_id \<Rightarrow> (handle \<times> apply_request) list \<times> fabric \<Rightarrow>
     (handle \<times> apply_request) list \<times> fabric" where
  "revoke_one en c reason now a = (\<lambda>(ws, f).
     (case find_attempt a f of
        None \<Rightarrow> (ws, f)
      | Some i \<Rightarrow>
          (let r = record_at f i in
           if closed_state (r_state r) then (ws, f)
           else
             (case backend_ptr (gr_id (r_backend r)) f of
                None \<Rightarrow> ws | Some h \<Rightarrow> ws @ [(h, withdrawal_request r c now)],
              close_attempt en i AS_Revoked now EC_Revoked reason ST_revocations f))))"

definition revoke_calls :: "string \<Rightarrow> (handle \<times> apply_request) list \<Rightarrow> backend_call list" where
  "revoke_calls reason ws = map (\<lambda>(h, rq). BC_revoke h rq reason) ws"

definition set_revoked :: "nat \<Rightarrow> bool \<Rightarrow> string \<Rightarrow> fabric \<Rightarrow> fabric" where
  "set_revoked i b reason f =
     f\<lparr>fb_envelopes := (fb_envelopes f)[i := (fb_envelopes f ! i)\<lparr>ee_revoked := b, ee_reason := reason\<rparr>]\<rparr>"

text \<open>The entry is marked first; a writer that overflows leaves the mark, a journal that fails
  takes it back.\<close>

definition mark_revoked :: "env \<Rightarrow> nat \<Rightarrow> envelope_ref \<Rightarrow> string \<Rightarrow> instant \<Rightarrow> fabric \<Rightarrow> status \<times> fabric" where
  "mark_revoked en i ref reason now f =
     (if ee_revoked (fb_envelopes f ! i) then (success, f)
      else
        (let g = set_revoked i True reason f in
         case encoded 512 (encode_revocation ref reason) of
           Inl s \<Rightarrow> (s, g)
         | Inr payload \<Rightarrow>
             (let (s, g1) = journal_record en DR_EnvelopeRevocation payload (inst_ns now) g in
              if \<not> st_ok s then (s, set_revoked i False [] g1) else (success, g1))))"

definition revoke_envelope :: "env \<Rightarrow> envelope_ref \<Rightarrow> string \<Rightarrow> instant \<Rightarrow> fabric \<Rightarrow> job \<times> fabric" where
  "revoke_envelope en ref reason now f =
     (if \<not> fb_running f then (J_leave [] (OC_status not_running), f)
      else case find_envelope (gr_id ref) f of
        None \<Rightarrow> (leave_with EC_NotFound ''envelope not found'', f)
      | Some i \<Rightarrow>
          (let e = ee_envelope (fb_envelopes f ! i) in
           if gr_gen (e_ref e) \<noteq> gr_gen ref then
             (leave_with EC_StaleGeneration ''envelope generation does not match'',
              bump ST_stale_rejections f)
           else
             (let (s, f1) = mark_revoked en i ref reason now f
              in if \<not> st_ok s then (J_leave [] (OC_status s), f1)
                 else
                   (let (ws, f2) = fold (revoke_one en (e_cadence e) reason now) (attempts_of (gr_id ref) f1) ([], f1)
                    in (J_emit (revoke_calls reason ws)
                          (no_event\<lparr>ev_event := EV_EnvelopeRevoked, ev_at := now, ev_envelope := ref,
                             ev_flow := e_flow e, ev_reason := EC_Revoked, ev_detail := reason\<rparr>)
                          (J_leave [] (OC_status success)), f2)))))"

definition fence_entry :: "epoch \<Rightarrow> string \<Rightarrow> envelope_entry \<Rightarrow> envelope_entry" where
  "fence_entry ep reason e =
     (if ee_live e \<and> \<not> ee_revoked e \<and> av_epoch (e_authority (ee_envelope e)) < ep
      then e\<lparr>ee_revoked := True, ee_reason := reason\<rparr> else e)"

definition fence_count :: "epoch \<Rightarrow> envelope_entry list \<Rightarrow> nat" where
  "fence_count ep es =
     length (filter (\<lambda>e. ee_live e \<and> \<not> ee_revoked e \<and> av_epoch (e_authority (ee_envelope e)) < ep) es)"

definition to_fence :: "epoch \<Rightarrow> attempt_entry \<Rightarrow> bool" where
  "to_fence ep a =
     (at_live a \<and> av_epoch (r_authority (at_record a)) < ep \<and> \<not> closed_state (r_state (at_record a)))"

definition fence_one ::
    "env \<Rightarrow> epoch \<Rightarrow> instant \<Rightarrow> nat \<Rightarrow> (handle \<times> apply_request) list \<times> nat \<times> fabric \<Rightarrow>
     (handle \<times> apply_request) list \<times> nat \<times> fabric" where
  "fence_one en ep now i = (\<lambda>(ws, n, f).
     (if \<not> to_fence ep (fb_attempts f ! i) then (ws, n, f)
      else
        (let r = record_at f i;
             claimed = (claims_effect r \<or> r_state r = AS_AppliedUnverified \<or> r_state r = AS_Mismatched)
         in (case backend_ptr (gr_id (r_backend r)) f of
               Some h \<Rightarrow> if claimed then ws @ [(h, withdrawal_request r (r_desired r) now)] else ws
             | None \<Rightarrow> ws,
             n + 1,
             journal_attempt en i now
               (apply_transition i AS_Fenced now EC_Fenced ''fenced by coordinator epoch'' f)))))"

definition fence_below :: "env \<Rightarrow> epoch \<Rightarrow> instant \<Rightarrow> fabric \<Rightarrow> job \<times> fabric" where
  "fence_below en ep now f =
     (if \<not> fb_running f then (J_leave [] (OC_status not_running), f)
      else
        (let n0 = fence_count ep (fb_envelopes f);
             f1 = f\<lparr>fb_envelopes := map (fence_entry ep ''fenced by coordinator epoch'') (fb_envelopes f)\<rparr>;
             (ws, n, f2) = fold (fence_one en ep now) [0..<length (fb_attempts f1)] ([], n0, f1)
         in (J_emit (revoke_calls ''fenced by coordinator epoch'' ws)
               (no_event\<lparr>ev_event := EV_Fenced, ev_at := now,
                  ev_detail := ''fenced '' @ show_nat n @ '' records below epoch '' @ show_u64 (epoch_value ep)\<rparr>)
               (J_leave [] (OC_status success)),
             bump_by (of_nat n) ST_fences f2)))"

section \<open>Advancing the epoch\<close>

definition epoch_fence_one :: "env \<Rightarrow> instant \<Rightarrow> nat \<Rightarrow> fabric \<Rightarrow> fabric" where
  "epoch_fence_one en now i f =
     (if \<not> to_fence (fb_epoch f) (fb_attempts f ! i) then f
      else close_attempt en i AS_Fenced now EC_Fenced
             ''coordinator epoch advanced past this attempt'' ST_fences f)"

definition advance_epoch_locked :: "env \<Rightarrow> instant \<Rightarrow> fabric \<Rightarrow> status \<times> fabric" where
  "advance_epoch_locked en now f =
     (let (next, exhausted) = epoch_advanced (fb_epoch f) in
      if exhausted then (Status EC_ResourceExhausted ''coordinator epoch is exhausted'', f)
      else
        (let f1 = f\<lparr>fb_epoch := next\<rparr>;
             f2 = bump_by (of_nat (fence_count next (fb_envelopes f1))) ST_fences
                    (f1\<lparr>fb_envelopes := map (fence_entry next ''coordinator epoch advanced'') (fb_envelopes f1)\<rparr>);
             f3 = fold (epoch_fence_one en now) [0..<length (fb_attempts f2)] f2
         in case encoded 256 (encode_epoch (fb_epoch f3) (fb_boot f3)) of
              Inl s \<Rightarrow> (s, f3)
            | Inr payload \<Rightarrow> journal_record en DR_EpochAdvance payload (inst_ns now) f3))"

definition advance_epoch :: "env \<Rightarrow> instant \<Rightarrow> fabric \<Rightarrow> job \<times> fabric" where
  "advance_epoch en now f =
     (if \<not> fb_running f then (J_leave [] (OC_status not_running), f)
      else
        (let (s, f1) = advance_epoch_locked en now f in
         if \<not> st_ok s then (J_leave [] (OC_status s), f1)
         else (J_emit (map (\<lambda>b. BC_rebind (snd b) (fb_epoch f1)) (fb_backends f1))
                 (no_event\<lparr>ev_event := EV_EpochAdvanced, ev_at := now,
                    ev_detail := ''coordinator epoch advanced; all older-epoch authority fenced''\<rparr>)
                 (J_leave [] (OC_status success)), f1)))"

end
