(* ===== verification/PF_Recovery.thy ===== *)
theory PF_Recovery
  imports PF_Operations
begin

text \<open>
  \<^verbatim>\<open>recover_locked\<close>, \<^verbatim>\<open>initialize\<close> and \<^verbatim>\<open>shutdown\<close> of \<^verbatim>\<open>src/fabric.cpp\<close>: how a coordinator
  rebuilds its state from the recovered records, and why nothing that was in force before a
  restart is in force after it.
\<close>

section \<open>Replaying one record\<close>

text \<open>The largest identities seen, which become the floors of the minters.\<close>

record recovery_acc =
  ra_fabric :: fabric
  ra_envelope_id :: u64
  ra_attempt_id :: u64
  ra_provenance_id :: u64

text \<open>A decoder's answer counts only when it consumed the whole payload.\<close>

definition decoded :: "'a status_or decode \<Rightarrow> u8 list \<Rightarrow> 'a option" where
  "decoded p bs =
     (case run_state p (reader_new bs) of
        (Inl _, _) \<Rightarrow> None
      | (Inr x, r) \<Rightarrow> if rd_exhausted r then Some x else None)"

definition on_recovery :: "(recovery_report \<Rightarrow> recovery_report) \<Rightarrow> fabric \<Rightarrow> fabric" where
  "on_recovery g f = f\<lparr>fb_recovery := g (fb_recovery f)\<rparr>"

definition reject_record :: "fabric \<Rightarrow> fabric" where
  "reject_record = on_recovery (\<lambda>r. r\<lparr>rc_records_rejected := rc_records_rejected r + 1\<rparr>)"

definition restore_envelope :: "envelope \<Rightarrow> recovery_acc \<Rightarrow> recovery_acc" where
  "restore_envelope e a =
     (let f = ra_fabric a in
      case find_envelope (gr_id (e_ref e)) f of
        Some i \<Rightarrow> a\<lparr>ra_fabric := f\<lparr>fb_envelopes := (fb_envelopes f)[i := (fb_envelopes f ! i)\<lparr>ee_envelope := e\<rparr>]\<rparr>\<rparr>
      | None \<Rightarrow>
          a\<lparr>ra_fabric := insert_envelope e f,
            ra_envelope_id := (if id_value (gr_id (e_ref e)) > ra_envelope_id a
                               then id_value (gr_id (e_ref e)) else ra_envelope_id a),
            ra_provenance_id := (if id_value (pv_id (e_provenance e)) > ra_provenance_id a
                                 then id_value (pv_id (e_provenance e)) else ra_provenance_id a)\<rparr>)"

definition restore_attempt :: "app_record \<Rightarrow> recovery_acc \<Rightarrow> recovery_acc" where
  "restore_attempt r a =
     (let f = ra_fabric a in
      case find_attempt (r_attempt r) f of
        Some i \<Rightarrow> a\<lparr>ra_fabric := set_record i r f\<rparr>
      | None \<Rightarrow>
          a\<lparr>ra_fabric := insert_attempt r f,
            ra_attempt_id := (if id_value (r_attempt r) > ra_attempt_id a
                              then id_value (r_attempt r) else ra_attempt_id a)\<rparr>)"

text \<open>The retry loop that avoids the nonce of the persisted boot: at most eight rounds.\<close>

fun retry_nonce :: "env \<Rightarrow> u64 \<Rightarrow> nat \<Rightarrow> u64 \<Rightarrow> u64 \<times> fabric \<Rightarrow> u64 \<times> fabric" where
  "retry_nonce en avoid 0 i s = s"
| "retry_nonce en avoid (Suc n) i (x, f) =
     (if x = avoid then retry_nonce en avoid n (i + 1) (make_nonce en (x XOR (i + 1)) f) else (x, f))"

definition restore_epoch :: "env \<Rightarrow> epoch \<Rightarrow> boot_id \<Rightarrow> fabric \<Rightarrow> fabric" where
  "restore_epoch en ep b f =
     (let f1 = on_recovery (\<lambda>r. r\<lparr>rc_epoch_before := ep, rc_boot_before := b\<rparr>) f;
          f2 = f1\<lparr>fb_epoch := (if epoch_value ep > epoch_value (fb_epoch f1) then ep else fb_epoch f1)\<rparr>
      in if bo_counter b \<ge> bo_counter (fb_boot f2) then
           (let (x, f3) = retry_nonce en (bo_nonce b) 8 0
                  (make_nonce en (bo_counter b * 0x100000001B3 + fc_fabric_instance (fb_config f2)) f2)
            in f3\<lparr>fb_boot := \<lparr>bo_counter = bo_counter b, bo_nonce = x\<rparr>\<rparr>)
         else f2)"

definition replay_record :: "env \<Rightarrow> durable_record \<Rightarrow> recovery_acc \<Rightarrow> recovery_acc" where
  "replay_record en d a0 =
     (let l = fb_limits (ra_fabric a0); bs = dr_payload d;
          f = (ra_fabric a0)\<lparr>fb_sequence := (if dr_sequence d > fb_sequence (ra_fabric a0) then dr_sequence d
                                              else fb_sequence (ra_fabric a0))\<rparr>;
          a = a0\<lparr>ra_fabric := f\<rparr>; rejected = a\<lparr>ra_fabric := reject_record f\<rparr>
      in case dr_type d of
           DR_FlowBinding \<Rightarrow>
             (case decoded (decode_binding l) bs of
                None \<Rightarrow> rejected
              | Some b \<Rightarrow> a\<lparr>ra_fabric := f\<lparr>fb_bindings := snd (binding_restore l b (fb_bindings f))\<rparr>\<rparr>)
         | DR_Policy \<Rightarrow>
             (case decoded (decode_policy l) bs of
                None \<Rightarrow> rejected
              | Some p \<Rightarrow> a\<lparr>ra_fabric := f\<lparr>fb_policies := snd (policy_restore l p (fb_policies f))\<rparr>\<rparr>)
         | DR_Envelope \<Rightarrow>
             (case decoded (decode_envelope l) bs of None \<Rightarrow> rejected | Some e \<Rightarrow> restore_envelope e a)
         | DR_Attempt \<Rightarrow>
             (case decoded (decode_attempt l) bs of None \<Rightarrow> rejected | Some r \<Rightarrow> restore_attempt r a)
         | DR_EnvelopeRevocation \<Rightarrow>
             (case decoded decode_revocation bs of
                None \<Rightarrow> rejected
              | Some (ref, reason) \<Rightarrow>
                  (case find_envelope (gr_id ref) f of
                     None \<Rightarrow> a
                   | Some i \<Rightarrow> a\<lparr>ra_fabric := set_revoked i True reason f\<rparr>))
         | DR_EpochAdvance \<Rightarrow>
             (case decoded decode_epoch bs of
                None \<Rightarrow> rejected
              | Some (ep, b) \<Rightarrow> a\<lparr>ra_fabric := restore_epoch en ep b f\<rparr>)
         | DR_BackendRegistration \<Rightarrow>
             (case decoded (decode_backend_descriptor l) bs of
                None \<Rightarrow> rejected
              | Some _ \<Rightarrow>
                  a\<lparr>ra_fabric := on_recovery (\<lambda>r. r\<lparr>rc_backends_requiring_registration :=
                                                    rc_backends_requiring_registration r + 1\<rparr>) f\<rparr>)
         | DR_FlowUnbound \<Rightarrow>
             (case decoded decode_identity_u64 bs of
                None \<Rightarrow> rejected
              | Some v \<Rightarrow> a\<lparr>ra_fabric := f\<lparr>fb_bindings := snd (binding_unbind (Id v) (fb_bindings f))\<rparr>\<rparr>)
         | DR_PolicyRemoved \<Rightarrow>
             (case decoded decode_identity_u64 bs of
                None \<Rightarrow> rejected
              | Some v \<Rightarrow> a\<lparr>ra_fabric := f\<lparr>fb_policies := snd (policy_remove (Id v) (fb_policies f))\<rparr>\<rparr>)
         | _ \<Rightarrow> rejected)"

section \<open>Nothing is restored as in force\<close>

definition invalidate_entry :: "envelope_entry \<Rightarrow> envelope_entry" where
  "invalidate_entry e =
     (if ee_live e
      then e\<lparr>ee_revoked := True, ee_reason := ''coordinator restart: prior epoch authority fenced''\<rparr> else e)"

definition restart_record :: "app_record \<Rightarrow> app_record" where
  "restart_record r0 =
     (let r = r0\<lparr>r_requires_revalidation := True\<rparr>;
          r1 = (if \<not> is_terminal (r_state r) then
                  r\<lparr>r_last_known_state := r_state r, r_state := AS_Ambiguous, r_reason := EC_Ambiguous,
                    r_detail := ''coordinator restart during an in-flight application attempt''\<rparr>
                else if asserts_effect (r_state r) \<or> r_state r = AS_AppliedUnverified \<or>
                        r_state r = AS_Mismatched then
                  r\<lparr>r_last_known_state := r_state r, r_state := AS_RequiresRevalidation,
                    r_reason := EC_RequiresRevalidation,
                    r_detail := ''coordinator restart: effect not restored without revalidation''\<rparr>
                else r)
      in r1\<lparr>r_effect := EL_None\<rparr>)"

definition restart_attempt :: "env \<Rightarrow> instant \<Rightarrow> nat \<Rightarrow> fabric \<Rightarrow> fabric" where
  "restart_attempt en now i f =
     (if \<not> at_live (fb_attempts f ! i) then f
      else
        (let r = record_at f i;
             f1 = on_recovery (\<lambda>c. c\<lparr>rc_attempts_ambiguous :=
                     (if \<not> is_terminal (r_state r) then rc_attempts_ambiguous c + 1 else rc_attempts_ambiguous c),
                     rc_attempts_requiring_revalidation := rc_attempts_requiring_revalidation c + 1\<rparr>)
                   (set_record i (restart_record r) f)
         in journal_attempt en i now f1))"

text \<open>A \<^verbatim>\<open>u32\<close> incremented once for each live attempt that is still pending.\<close>

definition count_pending :: "attempt_entry list \<Rightarrow> nat" where
  "count_pending as = length (filter (\<lambda>a. at_live a \<and> \<not> is_terminal (r_state (at_record a))) as)"

definition advance_boot :: "env \<Rightarrow> fabric \<Rightarrow> status \<times> fabric" where
  "advance_boot en f =
     (let (next, exhausted) = epoch_advanced (fb_epoch f); f1 = f\<lparr>fb_epoch := next\<rparr> in
      if exhausted then (Status EC_ResourceExhausted ''coordinator epoch is exhausted'', f1)
      else if next \<le> fb_epoch f then (Status EC_Internal ''epoch did not advance'', f1)
      else if bo_counter (fb_boot f1) = kU64Max then
        (Status EC_ResourceExhausted ''boot counter is exhausted'', f1)
      else
        (let counter = bo_counter (fb_boot f1) + 1;
             (x, f2) = make_nonce en (counter * 0x9E3779B97F4A7C15 + fc_fabric_instance (fb_config f1)) f1;
             f3 = f2\<lparr>fb_boot := \<lparr>bo_counter = counter, bo_nonce = x\<rparr>\<rparr>
         in (success, on_recovery (\<lambda>r. r\<lparr>rc_epoch_after := fb_epoch f3, rc_boot_after := fb_boot f3\<rparr>) f3)))"

definition invalidate_all :: "env \<Rightarrow> instant \<Rightarrow> fabric \<Rightarrow> fabric" where
  "invalidate_all en now f =
     (let live = of_nat (length (filter ee_live (fb_envelopes f)));
          f1 = on_recovery (\<lambda>r. r\<lparr>rc_envelopes_invalidated := rc_envelopes_invalidated r + live\<rparr>)
                 (f\<lparr>fb_envelopes := map invalidate_entry (fb_envelopes f)\<rparr>);
          f2 = fold (restart_attempt en now) [0..<length (fb_attempts f1)] f1
      in f2\<lparr>fb_pending := of_nat (count_pending (fb_attempts f2))\<rparr>)"

definition recover_locked :: "env \<Rightarrow> fabric \<Rightarrow> status \<times> fabric" where
  "recover_locked en f0 =
     (let now = en_clock en; records = (case fb_durable f0 of None \<Rightarrow> [] | Some d \<Rightarrow> ds_recovered d);
          f1 = sample_clock now
                 (on_recovery (\<lambda>r. r\<lparr>rc_performed := True, rc_records_replayed := of_nat (length records)\<rparr>) f0);
          a = fold (replay_record en) records
                \<lparr>ra_fabric = f1, ra_envelope_id = 0, ra_attempt_id = 0, ra_provenance_id = 0\<rparr>;
          f2 = on_recovery (\<lambda>r. r\<lparr>
                 rc_bindings_restored := of_nat (length (live_bindings (fb_bindings (ra_fabric a)))),
                 rc_policies_restored := of_nat (length (live_policies (fb_policies (ra_fabric a))))\<rparr>) (ra_fabric a);
          (s, f3) = advance_boot en f2
      in if \<not> st_ok s then (s, f3)
         else
           (let f4 = invalidate_all en now f3;
                f5 = f4\<lparr>fb_envelope_ids := minter_set_floor (ra_envelope_id a) (fb_envelope_ids f4),
                        fb_attempt_ids := minter_set_floor (ra_attempt_id a) (fb_attempt_ids f4),
                        fb_provenance_ids := minter_set_floor (ra_provenance_id a) (fb_provenance_ids f4)\<rparr>
            in case encoded 256 (encode_epoch (fb_epoch f5) (fb_boot f5)) of
                 Inl e \<Rightarrow> (e, f5)
               | Inr payload \<Rightarrow> journal_record en DR_EpochAdvance payload (inst_ns now) f5))"

section \<open>Initialization and shutdown\<close>

definition check_config :: "fabric_config \<Rightarrow> status" where
  "check_config c =
     (if \<not> limits_are_coherent (fc_limits c) then
        Status EC_InvalidArgument ''configured limits are incoherent''
      else if fc_tick_period_ns c = 0 \<or> fc_tick_period_ns c > l_max_interval_ns (fc_limits c) then
        Status EC_InvalidArgument ''tick period is zero or above the configured bound''
      else if fc_envelope_lifetime_ns c = 0 \<or>
              fc_envelope_lifetime_ns c > l_max_envelope_lifetime_ns (fc_limits c) then
        Status EC_InvalidArgument ''envelope lifetime is zero or above the bound''
      else if fc_fabric_instance c = 0 then
        Status EC_InvalidArgument ''fabric instance identity must be non-zero''
      else if fc_max_pending_attempts c = 0 then
        Status EC_InvalidArgument ''pending attempt bound must be non-zero''
      else success)"

definition initialize_durability :: "env \<Rightarrow> fabric \<Rightarrow> status \<times> fabric" where
  "initialize_durability en f =
     (let c = fb_config f in
      if \<not> (fc_enable_durability c \<and> fc_durable_directory c \<noteq> []) then (success, f)
      else
        (let (opened, k, d) = durable_open (en_open_io en) (fb_disk f)
                                (durable_new (fc_durable_directory c) (fc_limits c));
             f1 = f\<lparr>fb_disk := k\<rparr>
         in if \<not> st_ok opened then
              (opened, on_recovery (\<lambda>r. r\<lparr>rc_code := st_code opened, rc_detail := st_detail opened\<rparr>)
                         (f1\<lparr>fb_durable := None\<rparr>))
            else
              (let (s, f2) = recover_locked en
                     (on_recovery (\<lambda>r. r\<lparr>rc_durable_directory_used := True\<rparr>) (f1\<lparr>fb_durable := Some d\<rparr>))
               in if \<not> st_ok s then
                    (s, on_recovery (\<lambda>r. r\<lparr>rc_code := st_code s,
                          rc_detail := (if rc_detail r = [] then st_detail s else rc_detail r)\<rparr>) f2)
                  else (s, f2))))"

definition initialize :: "env \<Rightarrow> instant \<Rightarrow> fabric \<Rightarrow> (status \<times> fabric_event option) \<times> fabric" where
  "initialize en now f =
     (if fb_initialized f then
        ((Status EC_InvalidState ''fabric is already initialized'', None), f)
      else if \<not> st_ok (check_config (fb_config f)) then ((check_config (fb_config f), None), f)
      else
        (let (x, f1) = make_nonce en (fc_fabric_instance (fb_config f)) f;
             f2 = f1\<lparr>fb_boot := \<lparr>bo_counter = 1, bo_nonce = x\<rparr>, fb_epoch := Epoch 1\<rparr>;
             f3 = f2\<lparr>fb_recovery := empty_recovery\<lparr>rc_boot_after := fb_boot f2, rc_epoch_after := fb_epoch f2\<rparr>\<rparr>;
             (s, f4) = initialize_durability en f3
         in if \<not> st_ok s then ((s, None), f4)
            else
              ((s, Some (no_event\<lparr>ev_event := EV_RecoveryCompleted, ev_at := now, ev_authority_digest := 0,
                   ev_detail := (if rc_performed (fb_recovery f4)
                                 then ''durable state recovered; all prior effects require revalidation''
                                 else ''no durable state; coordinator started fresh'')\<rparr>)),
               f4\<lparr>fb_initialized := True, fb_running := True\<rparr>)))"

text \<open>Shutdown: stop accepting work and wait until no operation is in flight, then take the store
  and close it, then forget the backends. Each is a lock section of its own.\<close>

definition shutdown_stop :: "fabric \<Rightarrow> job \<times> fabric" where
  "shutdown_stop f =
     (if \<not> fb_initialized f then (J_done (OC_status success), f) else (J_drain, f\<lparr>fb_running := False\<rparr>))"

definition shutdown_close :: "fabric \<Rightarrow> job \<times> fabric" where
  "shutdown_close f = (J_clear (fb_durable f), f\<lparr>fb_durable := None, fb_initialized := False\<rparr>)"

definition shutdown_clear :: "fabric \<Rightarrow> job \<times> fabric" where
  "shutdown_clear f = (J_done (OC_status success), f\<lparr>fb_backends := []\<rparr>)"

end
