(* ===== verification/PF_System.thy ===== *)
theory PF_System
  imports PF_Recovery
begin

text \<open>
  The coordinator as a transition system. A step runs one lock section of one operation in flight
  (a job), with any answers of the world; any number of operations interleave. A single operation
  run alone is \<open>run_job\<close>, which is what the sequential properties are about.
\<close>

section \<open>One step of one operation\<close>

text \<open>What an operation does before its first lock section: enter the guard, check that the
  clock is trustworthy where it must be, sample the clock, check the arguments.\<close>

fun guarded :: "request \<Rightarrow> bool" where
  "guarded RQ_shutdown = False"
| "guarded _ = True"

fun needs_clock :: "request \<Rightarrow> bool" where
  "needs_clock (RQ_derive_envelope _) = True"
| "needs_clock (RQ_apply_envelope _ _ _) = True"
| "needs_clock (RQ_verify_attempt _) = True"
| "needs_clock (RQ_revalidate _) = True"
| "needs_clock _ = False"

fun samples_clock :: "request \<Rightarrow> bool" where
  "samples_clock (RQ_unregister_backend _) = False"
| "samples_clock RQ_shutdown = False"
| "samples_clock _ = True"

fun check_arguments :: "limits \<Rightarrow> request \<Rightarrow> status" where
  "check_arguments l (RQ_apply_envelope ref backend _) =
     (if \<not> id_valid (gr_id ref) \<or> \<not> gen_known (gr_gen ref) then
        Status EC_InvalidArgument ''envelope reference is not generation-bound''
      else if \<not> id_valid backend then Status EC_InvalidArgument ''backend id is zero''
      else success)"
| "check_arguments l (RQ_cancel_attempt _ reason) =
     (if length reason > unat (l_max_explanation_bytes l) then
        Status EC_Oversized ''cancellation reason above configured bound''
      else success)"
| "check_arguments l (RQ_revoke_envelope ref reason) =
     (if \<not> id_valid (gr_id ref) then Status EC_InvalidArgument ''envelope id is zero''
      else if length reason > unat (l_max_explanation_bytes l) then
        Status EC_Oversized ''revocation reason above configured bound''
      else success)"
| "check_arguments l (RQ_fence_below ep) =
     (if \<not> epoch_valid ep then Status EC_InvalidArgument ''fence epoch is not valid'' else success)"
| "check_arguments l _ = success"

definition call_step :: "env \<Rightarrow> request \<Rightarrow> fabric \<Rightarrow> job \<times> fabric" where
  "call_step en rq f =
     (let f1 = (if guarded rq then op_enter f else f) in
      if needs_clock rq \<and> \<not> st_ok (require_trustworthy_clock f1) then
        (J_leave [] (OC_status (require_trustworthy_clock f1)), f1)
      else
        (let now = en_clock en;
             f2 = (if samples_clock rq then sample_clock now f1 else f1);
             s = check_arguments (fb_limits f2) rq
         in if \<not> st_ok s then (J_leave [] (OC_status s), f2)
            else case rq of
              RQ_derive_envelope flow \<Rightarrow> (J_fetch (K_derive flow now) (FP_local flow), f2)
            | _ \<Rightarrow> (J_work rq now, f2)))"

definition with_status :: "status \<times> fabric \<Rightarrow> job \<times> fabric" where
  "with_status r = (J_leave [] (OC_status (fst r)), snd r)"

definition with_event :: "(status \<times> fabric_event option) \<times> fabric \<Rightarrow> job \<times> fabric" where
  "with_event r =
     (case snd (fst r) of
        None \<Rightarrow> (J_leave [] (OC_status (fst (fst r))), snd r)
      | Some e \<Rightarrow> (J_emit [] e (J_leave [] (OC_status (fst (fst r)))), snd r))"

fun work_step :: "env \<Rightarrow> request \<Rightarrow> instant \<Rightarrow> fabric \<Rightarrow> job \<times> fabric" where
  "work_step en (RQ_bind_flow b) now f = with_status (bind_flow en b now f)"
| "work_step en (RQ_unbind_flow flow) now f = with_status (unbind_flow en flow now f)"
| "work_step en (RQ_register_backend h) now f = with_event (register_backend en h now f)"
| "work_step en (RQ_unregister_backend k) now f = with_status (unregister_backend k f)"
| "work_step en (RQ_publish_policy p) now f =
     (case publish_policy en p now f of
        (Inl s, f') \<Rightarrow> (J_leave [] (OC_status s), f')
      | (Inr r, f') \<Rightarrow> (J_leave [] (OC_policy r), f'))"
| "work_step en (RQ_remove_policy k) now f = with_status (remove_policy en k now f)"
| "work_step en (RQ_derive_envelope flow) now f = (J_fetch (K_derive flow now) (FP_local flow), f)"
| "work_step en (RQ_apply_envelope ref backend requested) now f = apply_resolve ref backend requested now f"
| "work_step en (RQ_verify_attempt a) now f = (verify_start a now f, f)"
| "work_step en (RQ_cancel_attempt a reason) now f = cancel_attempt en a reason now f"
| "work_step en (RQ_revoke_envelope ref reason) now f = revoke_envelope en ref reason now f"
| "work_step en (RQ_fence_below ep) now f = fence_below en ep now f"
| "work_step en (RQ_revalidate a) now f = (revalidate_start a now f, f)"
| "work_step en RQ_advance_epoch now f = advance_epoch en now f"
| "work_step en RQ_shutdown now f = shutdown_stop f"

fun fetch_step :: "env \<Rightarrow> cont \<Rightarrow> fetch_pc \<Rightarrow> fabric \<Rightarrow> job \<times> fabric" where
  "fetch_step en k (FP_local flow) f =
     ((case fetch_local flow f of
         Inl s \<Rightarrow> J_resume k (Inl s)
       | Inr (b, p) \<Rightarrow> J_fetch k (FP_call flow b p)), f)"
| "fetch_step en k (FP_call flow b p) f =
     (case fetch_call en f of
        (Inl s, f') \<Rightarrow> (J_resume k (Inl s), f')
      | (Inr g, f') \<Rightarrow> (J_fetch k (FP_stamp flow b p g), f'))"
| "fetch_step en k (FP_stamp flow b p g) f = (J_resume k (fetch_stamp flow b p g f), f)"

fun resume_step ::
    "env \<Rightarrow> cont \<Rightarrow> authority_inputs status_or \<Rightarrow> fabric \<Rightarrow> backend_call list \<times> job \<times> fabric" where
  "resume_step en (K_derive flow now) r f = ([], derive_resume en flow now r f)"
| "resume_step en (K_apply x) r f = ([], apply_resume en x r f)"
| "resume_step en (K_unverified x rq) r f = ([], apply_unverified en x rq r f)"
| "resume_step en (K_commit x rq s ev) r f = ([], apply_commit en x rq s ev r f)"
| "resume_step en (K_verify v) r f = verify_resume en v r f"
| "resume_step en (K_revalidate v) r f = revalidate_resume en v r f"

definition readback_step :: "env \<Rightarrow> apply_ctx \<Rightarrow> apply_request \<Rightarrow> backend_call list \<times> job" where
  "readback_step en x rq =
     (let flow = e_flow (ax_envelope x) in
      if \<not> bd_supports_readback (en_describe en (ax_handle x)) then
        ([], J_fetch (K_unverified x rq) (FP_local flow))
      else ([BC_readback (ax_handle x) rq],
            J_fetch (K_commit x rq (fst (en_readback en)) (snd (en_readback en))) (FP_local flow)))"

fun job_step :: "env \<Rightarrow> job \<Rightarrow> fabric \<Rightarrow> backend_call list \<times> job \<times> fabric" where
  "job_step en (J_call rq) f = ([], call_step en rq f)"
| "job_step en (J_work rq now) f = ([], work_step en rq now f)"
| "job_step en (J_fetch k pc) f = ([], fetch_step en k pc f)"
| "job_step en (J_resume k r) f = resume_step en k r f"
| "job_step en (J_apply x a) f =
     (let rq = apply_request_of x a f in
      ([BC_apply (ax_handle x) rq], J_complete x rq (fst (en_apply en)) (snd (en_apply en)), f))"
| "job_step en (J_complete x rq s ack) f = ([], apply_complete en x rq s ack f)"
| "job_step en (J_refused x a) f = ([], apply_refused x a f, f)"
| "job_step en (J_readback x rq) f = (fst (readback_step en x rq), snd (readback_step en x rq), f)"
| "job_step en (J_verify_commit v s ev) f = ([], verify_commit en v s ev f)"
| "job_step en (J_revalidate_commit v s ev) f = ([], revalidate_commit en v s ev f)"
| "job_step en (J_revalidate_result a) f = ([], revalidate_result a f, f)"
| "job_step en J_drain f = ([], if fb_active f = 0 then J_close else J_drain, f)"
| "job_step en J_close f = ([], shutdown_close f)"
| "job_step en (J_clear d) f = ([], shutdown_clear f)"
| "job_step en (J_emit cs e j) f = (cs, j, emit e f)"
| "job_step en (J_leave cs oc) f = (cs, J_done oc, op_leave f)"
| "job_step en (J_done oc) f = ([], J_done oc, f)"

section \<open>One operation alone\<close>

fun run_job :: "env list \<Rightarrow> job \<Rightarrow> fabric \<Rightarrow> backend_call list \<times> job \<times> fabric" where
  "run_job [] j f = ([], j, f)"
| "run_job (en # ens) j f =
     (let (cs, j1, f1) = job_step en j f; (cs', j2, f2) = run_job ens j1 f1 in (cs @ cs', j2, f2))"

section \<open>All operations together\<close>

record system =
  sy_fabric :: fabric
  sy_jobs :: "job list"

text \<open>\<open>initialize\<close> is one lock section and the emission of its event; it is run on its own, before
  any operation.\<close>

definition start_fabric :: "env \<Rightarrow> fabric \<Rightarrow> status \<times> fabric" where
  "start_fabric en f =
     (let now = en_clock en; ((s, ev), f1) = initialize en now (sample_clock now f)
      in (s, case ev of None \<Rightarrow> f1 | Some e \<Rightarrow> emit e f1))"

text \<open>
  \<open>reach f\<close>: the states of one incarnation, from the state \<open>f\<close> in which
  \<open>initialize\<close> left the coordinator: any calls, in any interleaving. A run stops before the
  64-bit envelope counter would wrap; the code does not check it.
\<close>

inductive reach :: "fabric \<Rightarrow> system \<Rightarrow> bool" for f0 where
  start: "reach f0 \<lparr>sy_fabric = f0, sy_jobs = []\<rparr>"
| call: "reach f0 s \<Longrightarrow> reach f0 (s\<lparr>sy_jobs := sy_jobs s @ [J_call rq]\<rparr>)"
| sink: "reach f0 s \<Longrightarrow> reach f0 (s\<lparr>sy_fabric := (sy_fabric s)\<lparr>fb_sink := b\<rparr>\<rparr>)"
| run: "reach f0 s \<Longrightarrow> i < length (sy_jobs s) \<Longrightarrow> fb_envelope_ids (sy_fabric s) \<noteq> kU64Max \<Longrightarrow>
        job_step en (sy_jobs s ! i) (sy_fabric s) = (cs, j, f) \<Longrightarrow>
        reach f0 \<lparr>sy_fabric = f, sy_jobs = (sy_jobs s)[i := j]\<rparr>"

end
