(* ===== verification/PF_Frames.thy ===== *)
theory PF_Frames
  imports PF_System
begin

text \<open>
  What the shared helpers of the coordinator leave alone, field by field, as rewrite rules: the
  proofs about operations see through journalling, counters, events and the clock.
\<close>

lemma bump_frame [simp]:
  "fb_config (bump_by n s f) = fb_config f"
  "fb_initialized (bump_by n s f) = fb_initialized f"
  "fb_running (bump_by n s f) = fb_running f"
  "fb_active (bump_by n s f) = fb_active f"
  "fb_pending (bump_by n s f) = fb_pending f"
  "fb_dead_envelopes (bump_by n s f) = fb_dead_envelopes f"
  "fb_dead_attempts (bump_by n s f) = fb_dead_attempts f"
  "fb_envelope_hint (bump_by n s f) = fb_envelope_hint f"
  "fb_attempt_hint (bump_by n s f) = fb_attempt_hint f"
  "fb_boot (bump_by n s f) = fb_boot f"
  "fb_epoch (bump_by n s f) = fb_epoch f"
  "fb_sequence (bump_by n s f) = fb_sequence f"
  "fb_last_ns (bump_by n s f) = fb_last_ns f"
  "fb_regressed (bump_by n s f) = fb_regressed f"
  "fb_bindings (bump_by n s f) = fb_bindings f"
  "fb_policies (bump_by n s f) = fb_policies f"
  "fb_envelopes (bump_by n s f) = fb_envelopes f"
  "fb_envelope_index (bump_by n s f) = fb_envelope_index f"
  "fb_latest (bump_by n s f) = fb_latest f"
  "fb_attempts (bump_by n s f) = fb_attempts f"
  "fb_attempt_index (bump_by n s f) = fb_attempt_index f"
  "fb_by_envelope (bump_by n s f) = fb_by_envelope f"
  "fb_backends (bump_by n s f) = fb_backends f"
  "fb_envelope_ids (bump_by n s f) = fb_envelope_ids f"
  "fb_attempt_ids (bump_by n s f) = fb_attempt_ids f"
  "fb_provenance_ids (bump_by n s f) = fb_provenance_ids f"
  "fb_recovery (bump_by n s f) = fb_recovery f"
  "fb_durable (bump_by n s f) = fb_durable f"
  "fb_disk (bump_by n s f) = fb_disk f"
  "fb_nonces (bump_by n s f) = fb_nonces f"
  "fb_sink (bump_by n s f) = fb_sink f"
  "fb_events (bump_by n s f) = fb_events f"
  by (simp_all add: bump_by_def)

lemma emit_frame [simp]:
  "fb_config (emit e f) = fb_config f"
  "fb_initialized (emit e f) = fb_initialized f"
  "fb_running (emit e f) = fb_running f"
  "fb_active (emit e f) = fb_active f"
  "fb_pending (emit e f) = fb_pending f"
  "fb_dead_envelopes (emit e f) = fb_dead_envelopes f"
  "fb_dead_attempts (emit e f) = fb_dead_attempts f"
  "fb_envelope_hint (emit e f) = fb_envelope_hint f"
  "fb_attempt_hint (emit e f) = fb_attempt_hint f"
  "fb_boot (emit e f) = fb_boot f"
  "fb_epoch (emit e f) = fb_epoch f"
  "fb_sequence (emit e f) = fb_sequence f"
  "fb_last_ns (emit e f) = fb_last_ns f"
  "fb_regressed (emit e f) = fb_regressed f"
  "fb_bindings (emit e f) = fb_bindings f"
  "fb_policies (emit e f) = fb_policies f"
  "fb_envelopes (emit e f) = fb_envelopes f"
  "fb_envelope_index (emit e f) = fb_envelope_index f"
  "fb_latest (emit e f) = fb_latest f"
  "fb_attempts (emit e f) = fb_attempts f"
  "fb_attempt_index (emit e f) = fb_attempt_index f"
  "fb_by_envelope (emit e f) = fb_by_envelope f"
  "fb_backends (emit e f) = fb_backends f"
  "fb_envelope_ids (emit e f) = fb_envelope_ids f"
  "fb_attempt_ids (emit e f) = fb_attempt_ids f"
  "fb_provenance_ids (emit e f) = fb_provenance_ids f"
  "fb_recovery (emit e f) = fb_recovery f"
  "fb_durable (emit e f) = fb_durable f"
  "fb_disk (emit e f) = fb_disk f"
  "fb_nonces (emit e f) = fb_nonces f"
  "fb_sink (emit e f) = fb_sink f"
  by (simp_all add: emit_def Let_def)

lemma sample_clock_frame [simp]:
  "fb_config (sample_clock now f) = fb_config f"
  "fb_initialized (sample_clock now f) = fb_initialized f"
  "fb_running (sample_clock now f) = fb_running f"
  "fb_active (sample_clock now f) = fb_active f"
  "fb_pending (sample_clock now f) = fb_pending f"
  "fb_dead_envelopes (sample_clock now f) = fb_dead_envelopes f"
  "fb_dead_attempts (sample_clock now f) = fb_dead_attempts f"
  "fb_envelope_hint (sample_clock now f) = fb_envelope_hint f"
  "fb_attempt_hint (sample_clock now f) = fb_attempt_hint f"
  "fb_boot (sample_clock now f) = fb_boot f"
  "fb_epoch (sample_clock now f) = fb_epoch f"
  "fb_sequence (sample_clock now f) = fb_sequence f"
  "fb_bindings (sample_clock now f) = fb_bindings f"
  "fb_policies (sample_clock now f) = fb_policies f"
  "fb_envelopes (sample_clock now f) = fb_envelopes f"
  "fb_envelope_index (sample_clock now f) = fb_envelope_index f"
  "fb_latest (sample_clock now f) = fb_latest f"
  "fb_attempts (sample_clock now f) = fb_attempts f"
  "fb_attempt_index (sample_clock now f) = fb_attempt_index f"
  "fb_by_envelope (sample_clock now f) = fb_by_envelope f"
  "fb_backends (sample_clock now f) = fb_backends f"
  "fb_envelope_ids (sample_clock now f) = fb_envelope_ids f"
  "fb_attempt_ids (sample_clock now f) = fb_attempt_ids f"
  "fb_provenance_ids (sample_clock now f) = fb_provenance_ids f"
  "fb_stats (sample_clock now f) = fb_stats f"
  "fb_recovery (sample_clock now f) = fb_recovery f"
  "fb_durable (sample_clock now f) = fb_durable f"
  "fb_disk (sample_clock now f) = fb_disk f"
  "fb_nonces (sample_clock now f) = fb_nonces f"
  "fb_sink (sample_clock now f) = fb_sink f"
  "fb_events (sample_clock now f) = fb_events f"
  by (simp_all add: sample_clock_def)

lemma op_enter_frame [simp]:
  "fb_config (op_enter f) = fb_config f"
  "fb_initialized (op_enter f) = fb_initialized f"
  "fb_running (op_enter f) = fb_running f"
  "fb_pending (op_enter f) = fb_pending f"
  "fb_dead_envelopes (op_enter f) = fb_dead_envelopes f"
  "fb_dead_attempts (op_enter f) = fb_dead_attempts f"
  "fb_envelope_hint (op_enter f) = fb_envelope_hint f"
  "fb_attempt_hint (op_enter f) = fb_attempt_hint f"
  "fb_boot (op_enter f) = fb_boot f"
  "fb_epoch (op_enter f) = fb_epoch f"
  "fb_sequence (op_enter f) = fb_sequence f"
  "fb_last_ns (op_enter f) = fb_last_ns f"
  "fb_regressed (op_enter f) = fb_regressed f"
  "fb_bindings (op_enter f) = fb_bindings f"
  "fb_policies (op_enter f) = fb_policies f"
  "fb_envelopes (op_enter f) = fb_envelopes f"
  "fb_envelope_index (op_enter f) = fb_envelope_index f"
  "fb_latest (op_enter f) = fb_latest f"
  "fb_attempts (op_enter f) = fb_attempts f"
  "fb_attempt_index (op_enter f) = fb_attempt_index f"
  "fb_by_envelope (op_enter f) = fb_by_envelope f"
  "fb_backends (op_enter f) = fb_backends f"
  "fb_envelope_ids (op_enter f) = fb_envelope_ids f"
  "fb_attempt_ids (op_enter f) = fb_attempt_ids f"
  "fb_provenance_ids (op_enter f) = fb_provenance_ids f"
  "fb_stats (op_enter f) = fb_stats f"
  "fb_recovery (op_enter f) = fb_recovery f"
  "fb_durable (op_enter f) = fb_durable f"
  "fb_disk (op_enter f) = fb_disk f"
  "fb_nonces (op_enter f) = fb_nonces f"
  "fb_sink (op_enter f) = fb_sink f"
  "fb_events (op_enter f) = fb_events f"
  by (simp_all add: op_enter_def)

lemma op_leave_frame [simp]:
  "fb_config (op_leave f) = fb_config f"
  "fb_initialized (op_leave f) = fb_initialized f"
  "fb_running (op_leave f) = fb_running f"
  "fb_pending (op_leave f) = fb_pending f"
  "fb_dead_envelopes (op_leave f) = fb_dead_envelopes f"
  "fb_dead_attempts (op_leave f) = fb_dead_attempts f"
  "fb_envelope_hint (op_leave f) = fb_envelope_hint f"
  "fb_attempt_hint (op_leave f) = fb_attempt_hint f"
  "fb_boot (op_leave f) = fb_boot f"
  "fb_epoch (op_leave f) = fb_epoch f"
  "fb_sequence (op_leave f) = fb_sequence f"
  "fb_last_ns (op_leave f) = fb_last_ns f"
  "fb_regressed (op_leave f) = fb_regressed f"
  "fb_bindings (op_leave f) = fb_bindings f"
  "fb_policies (op_leave f) = fb_policies f"
  "fb_envelopes (op_leave f) = fb_envelopes f"
  "fb_envelope_index (op_leave f) = fb_envelope_index f"
  "fb_latest (op_leave f) = fb_latest f"
  "fb_attempts (op_leave f) = fb_attempts f"
  "fb_attempt_index (op_leave f) = fb_attempt_index f"
  "fb_by_envelope (op_leave f) = fb_by_envelope f"
  "fb_backends (op_leave f) = fb_backends f"
  "fb_envelope_ids (op_leave f) = fb_envelope_ids f"
  "fb_attempt_ids (op_leave f) = fb_attempt_ids f"
  "fb_provenance_ids (op_leave f) = fb_provenance_ids f"
  "fb_stats (op_leave f) = fb_stats f"
  "fb_recovery (op_leave f) = fb_recovery f"
  "fb_durable (op_leave f) = fb_durable f"
  "fb_disk (op_leave f) = fb_disk f"
  "fb_nonces (op_leave f) = fb_nonces f"
  "fb_sink (op_leave f) = fb_sink f"
  "fb_events (op_leave f) = fb_events f"
  by (simp_all add: op_leave_def)

lemma set_record_frame [simp]:
  "fb_config (set_record i r f) = fb_config f"
  "fb_initialized (set_record i r f) = fb_initialized f"
  "fb_running (set_record i r f) = fb_running f"
  "fb_active (set_record i r f) = fb_active f"
  "fb_pending (set_record i r f) = fb_pending f"
  "fb_dead_envelopes (set_record i r f) = fb_dead_envelopes f"
  "fb_dead_attempts (set_record i r f) = fb_dead_attempts f"
  "fb_envelope_hint (set_record i r f) = fb_envelope_hint f"
  "fb_attempt_hint (set_record i r f) = fb_attempt_hint f"
  "fb_boot (set_record i r f) = fb_boot f"
  "fb_epoch (set_record i r f) = fb_epoch f"
  "fb_sequence (set_record i r f) = fb_sequence f"
  "fb_last_ns (set_record i r f) = fb_last_ns f"
  "fb_regressed (set_record i r f) = fb_regressed f"
  "fb_bindings (set_record i r f) = fb_bindings f"
  "fb_policies (set_record i r f) = fb_policies f"
  "fb_envelopes (set_record i r f) = fb_envelopes f"
  "fb_envelope_index (set_record i r f) = fb_envelope_index f"
  "fb_latest (set_record i r f) = fb_latest f"
  "fb_attempt_index (set_record i r f) = fb_attempt_index f"
  "fb_by_envelope (set_record i r f) = fb_by_envelope f"
  "fb_backends (set_record i r f) = fb_backends f"
  "fb_envelope_ids (set_record i r f) = fb_envelope_ids f"
  "fb_attempt_ids (set_record i r f) = fb_attempt_ids f"
  "fb_provenance_ids (set_record i r f) = fb_provenance_ids f"
  "fb_stats (set_record i r f) = fb_stats f"
  "fb_recovery (set_record i r f) = fb_recovery f"
  "fb_durable (set_record i r f) = fb_durable f"
  "fb_disk (set_record i r f) = fb_disk f"
  "fb_nonces (set_record i r f) = fb_nonces f"
  "fb_sink (set_record i r f) = fb_sink f"
  "fb_events (set_record i r f) = fb_events f"
  by (simp_all add: set_record_def)

lemma apply_transition_frame [simp]:
  "fb_config (apply_transition i next now reason detail f) = fb_config f"
  "fb_initialized (apply_transition i next now reason detail f) = fb_initialized f"
  "fb_running (apply_transition i next now reason detail f) = fb_running f"
  "fb_active (apply_transition i next now reason detail f) = fb_active f"
  "fb_dead_envelopes (apply_transition i next now reason detail f) = fb_dead_envelopes f"
  "fb_dead_attempts (apply_transition i next now reason detail f) = fb_dead_attempts f"
  "fb_envelope_hint (apply_transition i next now reason detail f) = fb_envelope_hint f"
  "fb_attempt_hint (apply_transition i next now reason detail f) = fb_attempt_hint f"
  "fb_boot (apply_transition i next now reason detail f) = fb_boot f"
  "fb_epoch (apply_transition i next now reason detail f) = fb_epoch f"
  "fb_sequence (apply_transition i next now reason detail f) = fb_sequence f"
  "fb_last_ns (apply_transition i next now reason detail f) = fb_last_ns f"
  "fb_regressed (apply_transition i next now reason detail f) = fb_regressed f"
  "fb_bindings (apply_transition i next now reason detail f) = fb_bindings f"
  "fb_policies (apply_transition i next now reason detail f) = fb_policies f"
  "fb_envelopes (apply_transition i next now reason detail f) = fb_envelopes f"
  "fb_envelope_index (apply_transition i next now reason detail f) = fb_envelope_index f"
  "fb_latest (apply_transition i next now reason detail f) = fb_latest f"
  "fb_attempt_index (apply_transition i next now reason detail f) = fb_attempt_index f"
  "fb_by_envelope (apply_transition i next now reason detail f) = fb_by_envelope f"
  "fb_backends (apply_transition i next now reason detail f) = fb_backends f"
  "fb_envelope_ids (apply_transition i next now reason detail f) = fb_envelope_ids f"
  "fb_attempt_ids (apply_transition i next now reason detail f) = fb_attempt_ids f"
  "fb_provenance_ids (apply_transition i next now reason detail f) = fb_provenance_ids f"
  "fb_stats (apply_transition i next now reason detail f) = fb_stats f"
  "fb_recovery (apply_transition i next now reason detail f) = fb_recovery f"
  "fb_durable (apply_transition i next now reason detail f) = fb_durable f"
  "fb_disk (apply_transition i next now reason detail f) = fb_disk f"
  "fb_nonces (apply_transition i next now reason detail f) = fb_nonces f"
  "fb_sink (apply_transition i next now reason detail f) = fb_sink f"
  "fb_events (apply_transition i next now reason detail f) = fb_events f"
  by (simp_all add: apply_transition_def)

lemma set_revoked_frame [simp]:
  "fb_config (set_revoked i b reason f) = fb_config f"
  "fb_initialized (set_revoked i b reason f) = fb_initialized f"
  "fb_running (set_revoked i b reason f) = fb_running f"
  "fb_active (set_revoked i b reason f) = fb_active f"
  "fb_pending (set_revoked i b reason f) = fb_pending f"
  "fb_dead_envelopes (set_revoked i b reason f) = fb_dead_envelopes f"
  "fb_dead_attempts (set_revoked i b reason f) = fb_dead_attempts f"
  "fb_envelope_hint (set_revoked i b reason f) = fb_envelope_hint f"
  "fb_attempt_hint (set_revoked i b reason f) = fb_attempt_hint f"
  "fb_boot (set_revoked i b reason f) = fb_boot f"
  "fb_epoch (set_revoked i b reason f) = fb_epoch f"
  "fb_sequence (set_revoked i b reason f) = fb_sequence f"
  "fb_last_ns (set_revoked i b reason f) = fb_last_ns f"
  "fb_regressed (set_revoked i b reason f) = fb_regressed f"
  "fb_bindings (set_revoked i b reason f) = fb_bindings f"
  "fb_policies (set_revoked i b reason f) = fb_policies f"
  "fb_envelope_index (set_revoked i b reason f) = fb_envelope_index f"
  "fb_latest (set_revoked i b reason f) = fb_latest f"
  "fb_attempts (set_revoked i b reason f) = fb_attempts f"
  "fb_attempt_index (set_revoked i b reason f) = fb_attempt_index f"
  "fb_by_envelope (set_revoked i b reason f) = fb_by_envelope f"
  "fb_backends (set_revoked i b reason f) = fb_backends f"
  "fb_envelope_ids (set_revoked i b reason f) = fb_envelope_ids f"
  "fb_attempt_ids (set_revoked i b reason f) = fb_attempt_ids f"
  "fb_provenance_ids (set_revoked i b reason f) = fb_provenance_ids f"
  "fb_stats (set_revoked i b reason f) = fb_stats f"
  "fb_recovery (set_revoked i b reason f) = fb_recovery f"
  "fb_durable (set_revoked i b reason f) = fb_durable f"
  "fb_disk (set_revoked i b reason f) = fb_disk f"
  "fb_nonces (set_revoked i b reason f) = fb_nonces f"
  "fb_sink (set_revoked i b reason f) = fb_sink f"
  "fb_events (set_revoked i b reason f) = fb_events f"
  by (simp_all add: set_revoked_def)

text \<open>Journalling touches the store, the disk, the sequence and two counters.\<close>

definition unjournalled :: "fabric \<Rightarrow> fabric" where
  "unjournalled f =
     f\<lparr>fb_durable := None, fb_disk := \<lparr>dk_snapshot = None, dk_journal = None\<rparr>, fb_sequence := 0, fb_stats := (\<lambda>_. 0)\<rparr>"

definition journal_frame :: "fabric \<Rightarrow> fabric \<Rightarrow> bool" where
  "journal_frame f g = (unjournalled g = unjournalled f)"

lemma unjournalled_simps [simp]:
  "unjournalled (f\<lparr>fb_durable := d\<rparr>) = unjournalled f" "unjournalled (f\<lparr>fb_disk := k\<rparr>) = unjournalled f"
  "unjournalled (f\<lparr>fb_sequence := q\<rparr>) = unjournalled f" "unjournalled (f\<lparr>fb_stats := st\<rparr>) = unjournalled f"
  "unjournalled (bump_by n x f) = unjournalled f"
  by (simp_all add: unjournalled_def bump_by_def)

lemma journal_frame_refl: "journal_frame f f"
  by (simp add: journal_frame_def)

lemma maybe_checkpoint_frame: "journal_frame f (snd (maybe_checkpoint en f))"
  by (auto simp: maybe_checkpoint_def journal_frame_def Let_def split: option.splits sum.splits prod.splits)

lemma journal_record_frame: "journal_frame f (snd (journal_record en t payload ts f))"
proof (cases "fb_durable f")
  case None
  then show ?thesis by (simp add: journal_record_def journal_frame_refl)
next
  case (Some d)
  obtain s f1 where m: "maybe_checkpoint en f = (s, f1)" by fastforce
  have f1: "journal_frame f f1" using maybe_checkpoint_frame [of f en] by (simp add: m)
  show ?thesis
    using f1 by (auto simp: journal_record_def Some m journal_frame_def Let_def split: prod.splits)
qed

lemma journal_frameD:
  assumes "journal_frame f g"
  shows "fb_config g = fb_config f"
    and "fb_initialized g = fb_initialized f"
    and "fb_running g = fb_running f"
    and "fb_active g = fb_active f"
    and "fb_pending g = fb_pending f"
    and "fb_dead_envelopes g = fb_dead_envelopes f"
    and "fb_dead_attempts g = fb_dead_attempts f"
    and "fb_envelope_hint g = fb_envelope_hint f"
    and "fb_attempt_hint g = fb_attempt_hint f"
    and "fb_boot g = fb_boot f"
    and "fb_epoch g = fb_epoch f"
    and "fb_last_ns g = fb_last_ns f"
    and "fb_regressed g = fb_regressed f"
    and "fb_bindings g = fb_bindings f"
    and "fb_policies g = fb_policies f"
    and "fb_envelopes g = fb_envelopes f"
    and "fb_envelope_index g = fb_envelope_index f"
    and "fb_latest g = fb_latest f"
    and "fb_attempts g = fb_attempts f"
    and "fb_attempt_index g = fb_attempt_index f"
    and "fb_by_envelope g = fb_by_envelope f"
    and "fb_backends g = fb_backends f"
    and "fb_envelope_ids g = fb_envelope_ids f"
    and "fb_attempt_ids g = fb_attempt_ids f"
    and "fb_provenance_ids g = fb_provenance_ids f"
    and "fb_recovery g = fb_recovery f"
    and "fb_nonces g = fb_nonces f"
    and "fb_sink g = fb_sink f"
    and "fb_events g = fb_events f"
proof -
  have *: "unjournalled g = unjournalled f" using assms by (simp add: journal_frame_def)
  show "fb_config g = fb_config f" using arg_cong [OF *, of fb_config] by (simp add: unjournalled_def)
  show "fb_initialized g = fb_initialized f" using arg_cong [OF *, of fb_initialized] by (simp add: unjournalled_def)
  show "fb_running g = fb_running f" using arg_cong [OF *, of fb_running] by (simp add: unjournalled_def)
  show "fb_active g = fb_active f" using arg_cong [OF *, of fb_active] by (simp add: unjournalled_def)
  show "fb_pending g = fb_pending f" using arg_cong [OF *, of fb_pending] by (simp add: unjournalled_def)
  show "fb_dead_envelopes g = fb_dead_envelopes f" using arg_cong [OF *, of fb_dead_envelopes] by (simp add: unjournalled_def)
  show "fb_dead_attempts g = fb_dead_attempts f" using arg_cong [OF *, of fb_dead_attempts] by (simp add: unjournalled_def)
  show "fb_envelope_hint g = fb_envelope_hint f" using arg_cong [OF *, of fb_envelope_hint] by (simp add: unjournalled_def)
  show "fb_attempt_hint g = fb_attempt_hint f" using arg_cong [OF *, of fb_attempt_hint] by (simp add: unjournalled_def)
  show "fb_boot g = fb_boot f" using arg_cong [OF *, of fb_boot] by (simp add: unjournalled_def)
  show "fb_epoch g = fb_epoch f" using arg_cong [OF *, of fb_epoch] by (simp add: unjournalled_def)
  show "fb_last_ns g = fb_last_ns f" using arg_cong [OF *, of fb_last_ns] by (simp add: unjournalled_def)
  show "fb_regressed g = fb_regressed f" using arg_cong [OF *, of fb_regressed] by (simp add: unjournalled_def)
  show "fb_bindings g = fb_bindings f" using arg_cong [OF *, of fb_bindings] by (simp add: unjournalled_def)
  show "fb_policies g = fb_policies f" using arg_cong [OF *, of fb_policies] by (simp add: unjournalled_def)
  show "fb_envelopes g = fb_envelopes f" using arg_cong [OF *, of fb_envelopes] by (simp add: unjournalled_def)
  show "fb_envelope_index g = fb_envelope_index f" using arg_cong [OF *, of fb_envelope_index] by (simp add: unjournalled_def)
  show "fb_latest g = fb_latest f" using arg_cong [OF *, of fb_latest] by (simp add: unjournalled_def)
  show "fb_attempts g = fb_attempts f" using arg_cong [OF *, of fb_attempts] by (simp add: unjournalled_def)
  show "fb_attempt_index g = fb_attempt_index f" using arg_cong [OF *, of fb_attempt_index] by (simp add: unjournalled_def)
  show "fb_by_envelope g = fb_by_envelope f" using arg_cong [OF *, of fb_by_envelope] by (simp add: unjournalled_def)
  show "fb_backends g = fb_backends f" using arg_cong [OF *, of fb_backends] by (simp add: unjournalled_def)
  show "fb_envelope_ids g = fb_envelope_ids f" using arg_cong [OF *, of fb_envelope_ids] by (simp add: unjournalled_def)
  show "fb_attempt_ids g = fb_attempt_ids f" using arg_cong [OF *, of fb_attempt_ids] by (simp add: unjournalled_def)
  show "fb_provenance_ids g = fb_provenance_ids f" using arg_cong [OF *, of fb_provenance_ids] by (simp add: unjournalled_def)
  show "fb_recovery g = fb_recovery f" using arg_cong [OF *, of fb_recovery] by (simp add: unjournalled_def)
  show "fb_nonces g = fb_nonces f" using arg_cong [OF *, of fb_nonces] by (simp add: unjournalled_def)
  show "fb_sink g = fb_sink f" using arg_cong [OF *, of fb_sink] by (simp add: unjournalled_def)
  show "fb_events g = fb_events f" using arg_cong [OF *, of fb_events] by (simp add: unjournalled_def)
qed

lemmas journal_record_simps [simp] = journal_frameD [OF journal_record_frame]

lemma journal_attempt_frame: "journal_frame f (journal_attempt en i now f)"
  by (simp add: journal_attempt_def journal_record_frame journal_frame_refl split: sum.split)

lemmas journal_attempt_simps [simp] = journal_frameD [OF journal_attempt_frame]

lemma journal_record_fst:
  assumes "journal_record en t payload ts f = (s, g)"
  shows "journal_frame f g"
  using journal_record_frame [of f en t payload ts] assms by simp

lemma close_attempt_frame [simp]:
  "fb_config (close_attempt en i next now reason detail st f) = fb_config f"
  "fb_initialized (close_attempt en i next now reason detail st f) = fb_initialized f"
  "fb_running (close_attempt en i next now reason detail st f) = fb_running f"
  "fb_active (close_attempt en i next now reason detail st f) = fb_active f"
  "fb_dead_envelopes (close_attempt en i next now reason detail st f) = fb_dead_envelopes f"
  "fb_dead_attempts (close_attempt en i next now reason detail st f) = fb_dead_attempts f"
  "fb_envelope_hint (close_attempt en i next now reason detail st f) = fb_envelope_hint f"
  "fb_attempt_hint (close_attempt en i next now reason detail st f) = fb_attempt_hint f"
  "fb_boot (close_attempt en i next now reason detail st f) = fb_boot f"
  "fb_epoch (close_attempt en i next now reason detail st f) = fb_epoch f"
  "fb_last_ns (close_attempt en i next now reason detail st f) = fb_last_ns f"
  "fb_regressed (close_attempt en i next now reason detail st f) = fb_regressed f"
  "fb_bindings (close_attempt en i next now reason detail st f) = fb_bindings f"
  "fb_policies (close_attempt en i next now reason detail st f) = fb_policies f"
  "fb_envelopes (close_attempt en i next now reason detail st f) = fb_envelopes f"
  "fb_envelope_index (close_attempt en i next now reason detail st f) = fb_envelope_index f"
  "fb_latest (close_attempt en i next now reason detail st f) = fb_latest f"
  "fb_attempt_index (close_attempt en i next now reason detail st f) = fb_attempt_index f"
  "fb_by_envelope (close_attempt en i next now reason detail st f) = fb_by_envelope f"
  "fb_backends (close_attempt en i next now reason detail st f) = fb_backends f"
  "fb_envelope_ids (close_attempt en i next now reason detail st f) = fb_envelope_ids f"
  "fb_attempt_ids (close_attempt en i next now reason detail st f) = fb_attempt_ids f"
  "fb_provenance_ids (close_attempt en i next now reason detail st f) = fb_provenance_ids f"
  "fb_recovery (close_attempt en i next now reason detail st f) = fb_recovery f"
  "fb_nonces (close_attempt en i next now reason detail st f) = fb_nonces f"
  "fb_sink (close_attempt en i next now reason detail st f) = fb_sink f"
  "fb_events (close_attempt en i next now reason detail st f) = fb_events f"
  by (simp_all add: close_attempt_def)

end
