(* ===== verification/PF_Ledger.thy ===== *)
theory PF_Ledger
  imports PF_Frames
begin

text \<open>
  The attempt ledger is consistent in every state the coordinator can reach: attempt identities
  are unique, the index finds exactly the entries of the ledger, and the pending counter is the
  number of attempts that have not reached a terminal state, so it never underflows or drifts.
\<close>

named_theorems ledger_intros

definition ledger_ok :: "attempt_entry list \<Rightarrow> (u64 \<Rightarrow> nat option) \<Rightarrow> u32 \<Rightarrow> bool" where
  "ledger_ok as idx p =
     ((\<forall>a \<in> set as. at_live a) \<and>
      (\<forall>k i. idx k = Some i \<longleftrightarrow> i < length as \<and> id_value (r_attempt (at_record (as ! i))) = k) \<and>
      unat p = count_pending as)"

definition consistent_ledger :: "fabric \<Rightarrow> bool" where
  "consistent_ledger f = ledger_ok (fb_attempts f) (fb_attempt_index f) (fb_pending f)"

text \<open>What does not touch the ledger.\<close>

lemma ledger_neutral [simp]:
  "consistent_ledger (f\<lparr>fb_config := v_config\<rparr>) = consistent_ledger f"
  "consistent_ledger (f\<lparr>fb_initialized := v_initialized\<rparr>) = consistent_ledger f"
  "consistent_ledger (f\<lparr>fb_running := v_running\<rparr>) = consistent_ledger f"
  "consistent_ledger (f\<lparr>fb_active := v_active\<rparr>) = consistent_ledger f"
  "consistent_ledger (f\<lparr>fb_dead_envelopes := v_dead_envelopes\<rparr>) = consistent_ledger f"
  "consistent_ledger (f\<lparr>fb_dead_attempts := v_dead_attempts\<rparr>) = consistent_ledger f"
  "consistent_ledger (f\<lparr>fb_envelope_hint := v_envelope_hint\<rparr>) = consistent_ledger f"
  "consistent_ledger (f\<lparr>fb_attempt_hint := v_attempt_hint\<rparr>) = consistent_ledger f"
  "consistent_ledger (f\<lparr>fb_boot := v_boot\<rparr>) = consistent_ledger f"
  "consistent_ledger (f\<lparr>fb_epoch := v_epoch\<rparr>) = consistent_ledger f"
  "consistent_ledger (f\<lparr>fb_sequence := v_sequence\<rparr>) = consistent_ledger f"
  "consistent_ledger (f\<lparr>fb_last_ns := v_last_ns\<rparr>) = consistent_ledger f"
  "consistent_ledger (f\<lparr>fb_regressed := v_regressed\<rparr>) = consistent_ledger f"
  "consistent_ledger (f\<lparr>fb_bindings := v_bindings\<rparr>) = consistent_ledger f"
  "consistent_ledger (f\<lparr>fb_policies := v_policies\<rparr>) = consistent_ledger f"
  "consistent_ledger (f\<lparr>fb_envelopes := v_envelopes\<rparr>) = consistent_ledger f"
  "consistent_ledger (f\<lparr>fb_envelope_index := v_envelope_index\<rparr>) = consistent_ledger f"
  "consistent_ledger (f\<lparr>fb_latest := v_latest\<rparr>) = consistent_ledger f"
  "consistent_ledger (f\<lparr>fb_by_envelope := v_by_envelope\<rparr>) = consistent_ledger f"
  "consistent_ledger (f\<lparr>fb_backends := v_backends\<rparr>) = consistent_ledger f"
  "consistent_ledger (f\<lparr>fb_envelope_ids := v_envelope_ids\<rparr>) = consistent_ledger f"
  "consistent_ledger (f\<lparr>fb_attempt_ids := v_attempt_ids\<rparr>) = consistent_ledger f"
  "consistent_ledger (f\<lparr>fb_provenance_ids := v_provenance_ids\<rparr>) = consistent_ledger f"
  "consistent_ledger (f\<lparr>fb_stats := v_stats\<rparr>) = consistent_ledger f"
  "consistent_ledger (f\<lparr>fb_recovery := v_recovery\<rparr>) = consistent_ledger f"
  "consistent_ledger (f\<lparr>fb_durable := v_durable\<rparr>) = consistent_ledger f"
  "consistent_ledger (f\<lparr>fb_disk := v_disk\<rparr>) = consistent_ledger f"
  "consistent_ledger (f\<lparr>fb_nonces := v_nonces\<rparr>) = consistent_ledger f"
  "consistent_ledger (f\<lparr>fb_sink := v_sink\<rparr>) = consistent_ledger f"
  "consistent_ledger (f\<lparr>fb_events := v_events\<rparr>) = consistent_ledger f"
  by (simp_all add: consistent_ledger_def)

lemma ledger_frames [simp]:
  "consistent_ledger (bump_by n st f) = consistent_ledger f"
  "consistent_ledger (emit e f) = consistent_ledger f"
  "consistent_ledger (sample_clock now f) = consistent_ledger f"
  "consistent_ledger (op_enter f) = consistent_ledger f"
  "consistent_ledger (op_leave f) = consistent_ledger f"
  "consistent_ledger (set_revoked j b reason f) = consistent_ledger f"
  "consistent_ledger (journal_attempt en i t f) = consistent_ledger f"
  "consistent_ledger (snd (journal_record en ty payload ts f)) = consistent_ledger f"
  by (simp_all add: consistent_ledger_def)

lemma ledger_journalled: "journal_frame f g \<Longrightarrow> consistent_ledger g = consistent_ledger f"
  by (simp add: consistent_ledger_def journal_frameD)

lemma ledger_find:
  assumes "consistent_ledger f"
  shows "find_attempt a f = Some i \<longleftrightarrow> i < length (fb_attempts f) \<and> r_attempt (record_at f i) = a"
proof -
  have idx: "fb_attempt_index f (id_value a) = Some i \<longleftrightarrow> i < length (fb_attempts f) \<and> r_attempt (record_at f i) = a" for i
    using assms by (simp add: consistent_ledger_def ledger_ok_def)
  have live: "i < length (fb_attempts f) \<Longrightarrow> at_live (fb_attempts f ! i)" for i
    using assms by (simp add: consistent_ledger_def ledger_ok_def)
  show ?thesis
  proof (cases "fb_attempt_index f (id_value a)")
    case None
    then show ?thesis using idx [of i] by (simp add: find_attempt_def)
  next
    case (Some j)
    then have j: "j < length (fb_attempts f)" "r_attempt (record_at f j) = a" using idx [of j] by simp_all
    have "i = j" if "i < length (fb_attempts f)" "r_attempt (record_at f i) = a"
      using idx [of i] that Some by simp
    then show ?thesis using j live [OF j(1)] by (auto simp: find_attempt_def Some)
  qed
qed

lemma find_attempt_length: "find_attempt a f = Some i \<Longrightarrow> i < length (fb_attempts f)"
  by (auto simp: find_attempt_def split: option.splits if_splits)

section \<open>Counting\<close>

lemma count_pending_Cons:
  "count_pending (a # as) = (if at_live a \<and> \<not> is_terminal (r_state (at_record a)) then 1 else 0) + count_pending as"
  by (simp add: count_pending_def)

lemma count_pending_update:
  "i < length as \<Longrightarrow> at_live (as ! i) \<Longrightarrow> at_live a \<Longrightarrow>
     count_pending (as[i := a]) + (if is_terminal (r_state (at_record (as ! i))) then 0 else 1) =
     count_pending as + (if is_terminal (r_state (at_record a)) then 0 else 1)"
proof (induction as arbitrary: i)
  case Nil
  then show ?case by simp
next
  case (Cons x xs)
  show ?case
  proof (cases i)
    case 0
    then show ?thesis using Cons.prems by (simp add: count_pending_Cons)
  next
    case (Suc n)
    then show ?thesis using Cons.IH [of n] Cons.prems by (simp add: count_pending_Cons)
  qed
qed

lemma count_pending_snoc:
  "count_pending (as @ [a]) = count_pending as + (if at_live a \<and> \<not> is_terminal (r_state (at_record a)) then 1 else 0)"
  by (simp add: count_pending_def)

lemma transition_record_simps [simp]:
  "r_attempt (transition_record next now reason detail r) = r_attempt r"
  "r_envelope (transition_record next now reason detail r) = r_envelope r"
  "r_desired (transition_record next now reason detail r) = r_desired r"
  "r_authority (transition_record next now reason detail r) = r_authority r"
  "r_backend (transition_record next now reason detail r) = r_backend r"
  "r_backend_synthetic (transition_record next now reason detail r) = r_backend_synthetic r"
  "r_state (transition_record next now reason detail r) = next"
  "r_observed_rate_bps (transition_record next now reason detail r) = r_observed_rate_bps r"
  "r_observed_quantum_bytes (transition_record next now reason detail r) = r_observed_quantum_bytes r"
  "r_observed_burst_bytes (transition_record next now reason detail r) = r_observed_burst_bytes r"
  "r_observed_interval_ns (transition_record next now reason detail r) = r_observed_interval_ns r"
  "r_evidence_integrity_ok (transition_record next now reason detail r) = r_evidence_integrity_ok r"
  by (cases "next"; simp add: transition_record_def Let_def)+

lemma fb_attempts_set_record:
  "fb_attempts (set_record i r f) = (fb_attempts f)[i := (fb_attempts f ! i)\<lparr>at_record := r\<rparr>]"
  by (simp add: set_record_def)

lemma fb_attempts_apply_transition:
  "fb_attempts (apply_transition i next now reason detail f) =
     (fb_attempts f)[i := (fb_attempts f ! i)\<lparr>at_record := transition_record next now reason detail (record_at f i)\<rparr>]"
  "fb_pending (apply_transition i next now reason detail f) =
     transition_pending (r_state (record_at f i)) next (fb_pending f)"
  by (simp_all add: apply_transition_def set_record_def)

lemma length_attempts [simp]:
  "length (fb_attempts (set_record i r f)) = length (fb_attempts f)"
  "length (fb_attempts (apply_transition i next now reason detail f)) = length (fb_attempts f)"
  "length (fb_attempts (close_attempt en i next now reason detail st f)) = length (fb_attempts f)"
  by (simp_all add: set_record_def apply_transition_def close_attempt_def)

lemma record_at_set_record [simp]:
  "i < length (fb_attempts f) \<Longrightarrow> record_at (set_record i r f) j = (if j = i then r else record_at f j)"
  by (simp add: fb_attempts_set_record)

lemma record_at_apply_transition [simp]:
  "i < length (fb_attempts f) \<Longrightarrow>
     record_at (apply_transition i next now reason detail f) j =
       (if j = i then transition_record next now reason detail (record_at f i) else record_at f j)"
  by (simp add: fb_attempts_apply_transition)

section \<open>The primitive updates\<close>

lemma ledger_update:
  assumes "ledger_ok as idx p" "i < length as"
    and "r_attempt r = r_attempt (at_record (as ! i))"
    and "unat q + (if is_terminal (r_state (at_record (as ! i))) then 0 else 1) =
         unat p + (if is_terminal (r_state r) then 0 else 1)"
  shows "ledger_ok (as[i := (as ! i)\<lparr>at_record := r\<rparr>]) idx q"
proof -
  have live: "\<forall>a \<in> set as. at_live a" using assms(1) by (simp add: ledger_ok_def)
  have "\<forall>a \<in> set (as[i := (as ! i)\<lparr>at_record := r\<rparr>]). at_live a"
    using live assms(2) set_update_subset_insert [of as i "(as ! i)\<lparr>at_record := r\<rparr>"] by auto
  moreover have "count_pending (as[i := (as ! i)\<lparr>at_record := r\<rparr>]) = unat q"
    using count_pending_update [of i as "(as ! i)\<lparr>at_record := r\<rparr>"] assms live by (auto simp: ledger_ok_def split: if_splits)
  moreover have "id_value (r_attempt (at_record (as[i := (as ! i)\<lparr>at_record := r\<rparr>] ! j))) = id_value (r_attempt (at_record (as ! j)))"
    if "j < length as" for j
    using that assms(3) by (cases "j = i") simp_all
  ultimately show ?thesis using assms(1) by (auto simp: ledger_ok_def)
qed

lemma ledger_set_record [ledger_intros]:
  assumes "consistent_ledger f" "i < length (fb_attempts f)"
    and "r_attempt r = r_attempt (record_at f i)" "is_terminal (r_state r) = is_terminal (r_state (record_at f i))"
  shows "consistent_ledger (set_record i r f)"
  using ledger_update [OF assms(1) [unfolded consistent_ledger_def] assms(2,3)] assms(4)
  by (simp add: set_record_def consistent_ledger_def)

lemma pending_positive:
  assumes "ledger_ok as idx p" "i < length as" "\<not> is_terminal (r_state (at_record (as ! i)))"
  shows "0 < p"
proof -
  have "at_live (as ! i)" using assms(1,2) by (simp add: ledger_ok_def)
  then have "as ! i \<in> set (filter (\<lambda>a. at_live a \<and> \<not> is_terminal (r_state (at_record a))) as)"
    using assms(2,3) by simp
  then have "0 < count_pending as" unfolding count_pending_def by (metis length_pos_if_in_set)
  then show ?thesis using assms(1) by (simp add: ledger_ok_def word_less_nat_alt)
qed

lemma ledger_apply_transition [ledger_intros]:
  assumes "consistent_ledger f" "i < length (fb_attempts f)"
    and "is_terminal (r_state (record_at f i)) \<longrightarrow> is_terminal next"
  shows "consistent_ledger (apply_transition i next now reason detail f)"
proof -
  let ?r = "transition_record next now reason detail (record_at f i)"
  let ?q = "transition_pending (r_state (record_at f i)) next (fb_pending f)"
  have "unat ?q + (if is_terminal (r_state (record_at f i)) then 0 else 1) =
        unat (fb_pending f) + (if is_terminal (r_state ?r) then 0 else 1)"
    using assms(3) pending_positive [OF assms(1) [unfolded consistent_ledger_def] assms(2)]
    by (auto simp: transition_pending_def unat_sub word_less_nat_alt word_le_nat_alt)
  from ledger_update [OF assms(1) [unfolded consistent_ledger_def] assms(2) _ this] show ?thesis
    by (simp add: apply_transition_def set_record_def consistent_ledger_def)
qed

lemma ledger_insert:
  assumes "ledger_ok as idx p" "idx (id_value (r_attempt r)) = None" "p \<noteq> -1" "\<not> is_terminal (r_state r)"
  shows "ledger_ok (as @ [\<lparr>at_record = r, at_live = True\<rparr>]) (idx(id_value (r_attempt r) \<mapsto> length as)) (p + 1)"
proof -
  have "unat (p + 1) = unat p + 1"
    using assms(3) by (metis Suc_eq_plus1 add.commute unatSuc add_eq_0_iff)
  moreover have "id_value (r_attempt (at_record (as ! i))) \<noteq> id_value (r_attempt r)" if "i < length as" for i
    using assms(1,2) that unfolding ledger_ok_def by (metis option.distinct(1))
  ultimately show ?thesis
    using assms(1,4) by (auto simp: ledger_ok_def count_pending_snoc nth_append less_Suc_eq)
qed

lemma index_by_unique:
  assumes "\<And>i j. i < length xs \<Longrightarrow> j < length xs \<Longrightarrow> key (xs ! i) = key (xs ! j) \<Longrightarrow> i = j"
  shows "index_by key xs k = Some i \<longleftrightarrow> i < length xs \<and> key (xs ! i) = k"
proof -
  have "fold (\<lambda>i m. m(key (xs ! i) \<mapsto> i)) [0..<n] Map.empty k = Some i \<longleftrightarrow> i < n \<and> key (xs ! i) = k"
    if "n \<le> length xs" for n
    using that
  proof (induction n)
    case 0
    then show ?case by simp
  next
    case (Suc n)
    then show ?case using assms [of n i] by (auto simp: less_Suc_eq)
  qed
  then show ?thesis by (simp add: index_by_def)
qed

lemma ledger_compact_attempts:
  assumes "consistent_ledger f"
  shows "consistent_ledger (compact_attempts f)"
proof -
  have all: "filter at_live (fb_attempts f) = fb_attempts f"
    using assms by (simp add: consistent_ledger_def ledger_ok_def filter_id_conv)
  have "i = j" if "i < length (fb_attempts f)" "j < length (fb_attempts f)"
    "id_value (r_attempt (record_at f i)) = id_value (r_attempt (record_at f j))" for i j
    using assms that unfolding consistent_ledger_def ledger_ok_def by (metis option.inject)
  note idx = index_by_unique [of "fb_attempts f" "\<lambda>a. id_value (r_attempt (at_record a))", OF this]
  show ?thesis
    using assms by (simp add: compact_attempts_def Let_def all consistent_ledger_def ledger_ok_def idx)
qed

section \<open>The lock sections\<close>

lemma ledger_close_attempt [ledger_intros]:
  "consistent_ledger f \<Longrightarrow> i < length (fb_attempts f) \<Longrightarrow> is_terminal next \<Longrightarrow>
     consistent_ledger (close_attempt en i next now reason detail st f)"
  using ledger_apply_transition [of f i "next" now reason detail] by (simp add: close_attempt_def)

lemma ledger_evict_and_compact [ledger_intros]:
  "consistent_ledger f \<Longrightarrow> consistent_ledger (evict_and_compact f)"
proof -
  have e: "consistent_ledger (evict_one g) = consistent_ledger g" for g
    by (simp add: evict_one_def evict_at_def Let_def split: option.split)
  have c: "consistent_ledger (compact_envelopes g) = consistent_ledger g" for g
    by (simp add: compact_envelopes_def Let_def)
  show "consistent_ledger f \<Longrightarrow> consistent_ledger (evict_and_compact f)"
    by (simp add: evict_and_compact_def Let_def e c ledger_compact_attempts)
qed

lemma ledger_finalize_evidence [ledger_intros]:
  assumes "consistent_ledger f" "i < length (fb_attempts f)"
  shows "consistent_ledger (finalize_evidence i e ev ok code now f)"
proof -
  have "consistent_ledger (set_record i (record_evidence ev (record_at f i)) f)"
    using assms by (intro ledger_set_record) (simp_all add: record_evidence_def)
  then show ?thesis
    using assms(2) by (simp add: finalize_evidence_def Let_def ledger_apply_transition)
qed

lemma length_finalize [simp]: "length (fb_attempts (finalize_evidence i e ev ok code now f)) = length (fb_attempts f)"
  by (simp add: finalize_evidence_def Let_def)

lemma ledger_stale_section [ledger_intros]:
  assumes "consistent_ledger f" "\<And>r. r_attempt (mark r) = r_attempt r \<and> r_state (mark r) = r_state r"
  shows "consistent_ledger (stale_section en v drift mark f)"
  using assms by (auto simp: stale_section_def Let_def split: option.split dest: find_attempt_length
    intro!: ledger_set_record ledger_apply_transition)

lemma ledger_fold:
  assumes "\<And>x g. P g \<Longrightarrow> P (step x g)" "P f"
  shows "P (fold step xs f)"
  using assms(2) by (induction xs arbitrary: f) (simp_all add: assms(1))

lemma ledger_revoke_one: "consistent_ledger (snd g) \<Longrightarrow> consistent_ledger (snd (revoke_one en c reason now a g))"
  by (cases g) (auto simp: revoke_one_def Let_def split: option.split dest: find_attempt_length intro!: ledger_close_attempt)

lemma to_fence_length:
  "fence_one en ep now i (ws, n, f) = (ws', n', f') \<Longrightarrow> length (fb_attempts f') = length (fb_attempts f)"
  by (auto simp: fence_one_def Let_def split: if_splits)


lemma ledger_mark_revoked [simp]: "consistent_ledger (snd (mark_revoked en i ref reason now f)) = consistent_ledger f"
  by (auto simp: mark_revoked_def Let_def split: sum.split prod.splits dest!: journal_record_fst ledger_journalled)

lemma ledger_revoke_envelope: "consistent_ledger f \<Longrightarrow> consistent_ledger (snd (revoke_envelope en ref reason now f))"
proof -
  assume f: "consistent_ledger f"
  have fold: "consistent_ledger (snd (fold (revoke_one en c reason now) as g))" if "consistent_ledger (snd g)" for c as g
    by (rule ledger_fold [of "\<lambda>g. consistent_ledger (snd g)", OF ledger_revoke_one that])
  obtain s f1 i where m: "mark_revoked en i ref reason now f = (s, f1)" "find_envelope (gr_id ref) f = Some i \<or> find_envelope (gr_id ref) f = None"
    by (metis option.exhaust prod.exhaust)
  have "consistent_ledger f1" using ledger_mark_revoked [of en i ref reason now f] f m(1) by simp
  with f m fold [of "([], f1)"] show ?thesis
    by (auto simp: revoke_envelope_def Let_def split_beta)
qed

lemma ledger_fence_one: "consistent_ledger (snd (snd g)) \<and> length (fb_attempts (snd (snd g))) = n \<Longrightarrow> i < n \<Longrightarrow>
    consistent_ledger (snd (snd (fence_one en ep now i g))) \<and> length (fb_attempts (snd (snd (fence_one en ep now i g)))) = n"
  by (cases g) (auto simp: fence_one_def Let_def intro!: ledger_apply_transition)

lemma ledger_fold_indexes:
  assumes "\<And>i g. P g \<Longrightarrow> i < n \<Longrightarrow> P (step i g)" "P f"
  shows "P (fold step [0..<n] f)"
proof -
  have "P (fold step [0..<m] f)" if "m \<le> n" for m
    using that by (induction m) (simp_all add: assms)
  then show ?thesis by simp
qed

lemma ledger_fence_below: "consistent_ledger f \<Longrightarrow> consistent_ledger (snd (fence_below en ep now f))"
proof -
  assume f: "consistent_ledger f"
  let ?n = "length (fb_attempts f)"
  have "consistent_ledger (snd (snd (fold (fence_one en ep now) [0..<?n] g)))"
    if "consistent_ledger (snd (snd g))" "length (fb_attempts (snd (snd g))) = ?n" for g
    using ledger_fold_indexes [of "\<lambda>g. consistent_ledger (snd (snd g)) \<and> length (fb_attempts (snd (snd g))) = ?n" ?n
        "fence_one en ep now" g] ledger_fence_one that by blast
  note fold = this [of "(ws, k, f\<lparr>fb_envelopes := es\<rparr>)" for ws k es, simplified]
  show ?thesis using f fold by (simp add: fence_below_def Let_def split_beta)
qed

lemma ledger_advance_epoch_locked: "consistent_ledger f \<Longrightarrow> consistent_ledger (snd (advance_epoch_locked en now f))"
proof -
  assume f: "consistent_ledger f"
  let ?n = "length (fb_attempts f)"
  have "consistent_ledger (fold (epoch_fence_one en now) [0..<?n] g)"
    if "consistent_ledger g" "length (fb_attempts g) = ?n" for g
  proof -
    have "consistent_ledger (fold (epoch_fence_one en now) [0..<?n] g) \<and>
          length (fb_attempts (fold (epoch_fence_one en now) [0..<?n] g)) = ?n"
      by (rule ledger_fold_indexes) (auto simp: that epoch_fence_one_def intro!: ledger_close_attempt)
    then show ?thesis by simp
  qed
  note fold = this
  show ?thesis using f
    by (auto simp: advance_epoch_locked_def Let_def fold split: prod.split sum.split)
qed

end
