(* ===== verification/PF_Pending.thy ===== *)
theory PF_Pending
  imports PF_Ledger
begin

text \<open>
  Every lock section of every operation keeps the attempt ledger consistent, and so does every
  interleaving of them.
\<close>

lemma ledger_insert_envelope [simp]: "consistent_ledger (insert_envelope e f) = consistent_ledger f"
  by (simp add: insert_envelope_def Let_def)

lemma ledger_advance_epoch: "consistent_ledger f \<Longrightarrow> consistent_ledger (snd (advance_epoch en now f))"
  using ledger_advance_epoch_locked [of f en now] by (simp add: advance_epoch_def Let_def split_beta)

lemma ledger_cancel_attempt: "consistent_ledger f \<Longrightarrow> consistent_ledger (snd (cancel_attempt en a reason now f))"
  by (auto simp: cancel_attempt_def Let_def split: option.split dest: find_attempt_length
      intro!: ledger_apply_transition)

lemma ledger_apply_complete: "consistent_ledger f \<Longrightarrow> consistent_ledger (snd (apply_complete en x rq s ack f))"
  by (auto simp: apply_complete_def Let_def split: option.split dest: find_attempt_length
      intro!: ledger_close_attempt ledger_apply_transition ledger_set_record)

lemma ledger_apply_unverified: "consistent_ledger f \<Longrightarrow> consistent_ledger (snd (apply_unverified en x rq res f))"
  by (auto simp: apply_unverified_def Let_def split_beta split: option.split dest: find_attempt_length
      intro!: ledger_close_attempt ledger_apply_transition ledger_set_record)

lemma ledger_apply_commit: "consistent_ledger f \<Longrightarrow> consistent_ledger (snd (apply_commit en x rq s ev res f))"
  by (auto simp: apply_commit_def Let_def split_beta split: option.split dest: find_attempt_length
      intro!: ledger_close_attempt ledger_finalize_evidence)

lemma ledger_verify_commit: "consistent_ledger f \<Longrightarrow> consistent_ledger (snd (verify_commit en v s ev f))"
  by (auto simp: verify_commit_def Let_def split: option.split dest: find_attempt_length intro!: ledger_finalize_evidence)

lemma ledger_verify_resume: "consistent_ledger f \<Longrightarrow> consistent_ledger (snd (snd (verify_resume en v res f)))"
  by (auto simp: verify_resume_def Let_def split: sum.split intro!: ledger_stale_section)

lemma ledger_revalidate_resume: "consistent_ledger f \<Longrightarrow> consistent_ledger (snd (snd (revalidate_resume en v res f)))"
  by (auto simp: revalidate_resume_def Let_def split: sum.split option.split intro!: ledger_stale_section)

lemma ledger_revalidate_commit:
  assumes "consistent_ledger f"
  shows "consistent_ledger (snd (revalidate_commit en v s ev f))"
proof (cases "find_attempt (vx_attempt v) f")
  case None
  then show ?thesis using assms by (simp add: revalidate_commit_def)
next
  case (Some i)
  note i = find_attempt_length [OF Some]
  let ?g = "set_record i ((record_at f i)\<lparr>r_requires_revalidation := True\<rparr>) f"
  let ?h = "finalize_evidence i (vx_envelope v) ev True EC_Ok (vx_now v) f"
  have g: "consistent_ledger ?g" using assms i by (intro ledger_set_record) simp_all
  have h: "consistent_ledger (set_record i ((record_at ?h i)\<lparr>r_requires_revalidation := b\<rparr>) ?h)" for b
    using assms i by (intro ledger_set_record ledger_finalize_evidence) simp_all
  show ?thesis
    using g h i by (simp add: revalidate_commit_def Some Let_def ledger_apply_transition)
qed

lemma ledger_insert_attempt:
  assumes "consistent_ledger f" "find_attempt (r_attempt r) f = None" "fb_pending f \<noteq> -1" "\<not> is_terminal (r_state r)"
  shows "consistent_ledger ((insert_attempt r f)\<lparr>fb_pending := fb_pending f + 1\<rparr>)"
proof -
  have "fb_attempt_index f (id_value (r_attempt r)) = None"
  proof (rule ccontr)
    assume "fb_attempt_index f (id_value (r_attempt r)) \<noteq> None"
    then obtain i where "fb_attempt_index f (id_value (r_attempt r)) = Some i" by blast
    then have "i < length (fb_attempts f) \<and> r_attempt (record_at f i) = r_attempt r"
      using assms(1) by (simp add: consistent_ledger_def ledger_ok_def)
    then show False using ledger_find [OF assms(1), of "r_attempt r" i] assms(2) by simp
  qed
  from ledger_insert [OF assms(1) [unfolded consistent_ledger_def] this assms(3,4)] show ?thesis
    by (simp add: insert_attempt_def Let_def consistent_ledger_def)
qed

lemma find_attempt_cong:
  "fb_attempts g = fb_attempts f \<Longrightarrow> fb_attempt_index g = fb_attempt_index f \<Longrightarrow> find_attempt a g = find_attempt a f"
  by (simp add: find_attempt_def split: option.split)

lemma find_attempt_neutral [simp]:
  "find_attempt a (f\<lparr>fb_attempt_ids := v\<rparr>) = find_attempt a f"
  "find_attempt a (bump_by n st f) = find_attempt a f"
  by (rule find_attempt_cong; simp)+

lemma find_attempt_journalled: "journal_frame f g \<Longrightarrow> find_attempt a g = find_attempt a f"
  by (rule find_attempt_cong) (simp_all add: journal_frameD)

lemma evict_pending [simp]:
  "fb_pending (evict_one f) = fb_pending f" "fb_config (evict_one f) = fb_config f"
  "fb_pending (compact_envelopes f) = fb_pending f" "fb_config (compact_envelopes f) = fb_config f"
  "fb_pending (compact_attempts f) = fb_pending f" "fb_config (compact_attempts f) = fb_config f"
  by (simp_all add: evict_one_def evict_at_def compact_envelopes_def compact_attempts_def Let_def
      split: option.split)

lemma evict_and_compact_pending [simp]:
  "fb_pending (evict_and_compact f) = fb_pending f" "fb_config (evict_and_compact f) = fb_config f"
  by (simp_all add: evict_and_compact_def Let_def)

lemma ledger_apply_admit:
  assumes "consistent_ledger f" "fb_pending f \<noteq> -1"
  shows "consistent_ledger (snd (apply_admit en x f))"
proof -
  let ?e = "evict_and_compact f"
  have e: "consistent_ledger ?e" "fb_pending ?e \<noteq> -1" using assms by (simp_all add: ledger_evict_and_compact)
  have ins: "consistent_ledger ((insert_attempt r g)\<lparr>fb_pending := fb_pending g + 1\<rparr>)"
    if "find_attempt (r_attempt r) ?e = None" "journal_frame (?e\<lparr>fb_attempt_ids := v\<rparr>) g" "\<not> is_terminal (r_state r)" for g v r
    using e that by (intro ledger_insert_attempt)
      (simp_all add: ledger_journalled find_attempt_journalled journal_frameD(5))
  show ?thesis
    using e ins by (auto simp: apply_admit_def Let_def reserved_record_def split: sum.split prod.split
        dest!: journal_record_fst simp: ledger_journalled)
qed


lemma ledger_apply_reserve: "consistent_ledger f \<Longrightarrow> consistent_ledger (snd (apply_reserve en x f))"
proof -
  assume f: "consistent_ledger f"
  have "fb_pending f \<noteq> -1" if "\<not> fc_max_pending_attempts (fb_config f) \<le> fb_pending f"
    using that by (metis word_order.extremum)
  then show ?thesis
    using f ledger_apply_admit [OF f, of en x]
    by (auto simp: apply_reserve_def Let_def split: option.split)
qed

lemma ledger_apply_resume: "consistent_ledger f \<Longrightarrow> consistent_ledger (snd (apply_resume en x r f))"
  by (auto simp: apply_resume_def Let_def ledger_apply_reserve split: sum.split)

lemma ledger_derive_internal:
  "consistent_ledger f \<Longrightarrow> consistent_ledger (snd (derive_envelope_internal en inp now f))"
  by (auto simp: derive_envelope_internal_def Let_def split_beta ledger_evict_and_compact split: sum.split)

lemma ledger_derive_resume: "consistent_ledger f \<Longrightarrow> consistent_ledger (snd (derive_resume en flow now r f))"
  using ledger_derive_internal [of f en _ now]
  by (auto simp: derive_resume_def Let_def split: sum.split prod.split) (metis snd_conv)+

lemma ledger_registries [simp]:
  "consistent_ledger (snd (bind_flow en b now f)) = consistent_ledger f"
  "consistent_ledger (snd (unbind_flow en flow now f)) = consistent_ledger f"
  "consistent_ledger (snd (unregister_backend k f)) = consistent_ledger f"
  "consistent_ledger (snd (remove_policy en pid now f)) = consistent_ledger f"
  by (simp_all add: bind_flow_def unbind_flow_def unregister_backend_def remove_policy_def Let_def split_beta
      split: sum.split option.split)

lemma ledger_register [simp]: "consistent_ledger (snd (register_backend en h now f)) = consistent_ledger f"
  by (simp add: register_backend_def Let_def split_beta split: sum.split option.split)

lemma ledger_publish [simp]: "consistent_ledger (snd (publish_policy en p now f)) = consistent_ledger f"
  by (simp add: publish_policy_def Let_def split_beta split: sum.split)

lemma with_status_snd [simp]: "snd (with_status r) = snd r" "snd (with_event e) = snd e"
  by (simp_all add: with_status_def with_event_def split: option.split)

lemma ledger_apply_resolve [simp]: "consistent_ledger (snd (apply_resolve ref b rq now f)) = consistent_ledger f"
  by (simp add: apply_resolve_def Let_def split: option.split)

lemma ledger_call_step [simp]: "consistent_ledger (snd (call_step en rq f)) = consistent_ledger f"
  by (cases rq) (simp_all add: call_step_def Let_def)

lemma ledger_work_step: "consistent_ledger f \<Longrightarrow> consistent_ledger (snd (work_step en rq now f))"
proof (cases rq)
  case (RQ_publish_policy p)
  assume "consistent_ledger f"
  moreover have "snd (work_step en rq now f) = snd (publish_policy en p now f)"
    by (simp add: RQ_publish_policy split: prod.split sum.split)
  ultimately show ?thesis by simp
qed (simp_all add: ledger_cancel_attempt ledger_revoke_envelope ledger_fence_below ledger_advance_epoch shutdown_stop_def)

lemma ledger_fetch_call [simp]: "consistent_ledger (snd (fetch_call en f)) = consistent_ledger f"
  by (simp add: fetch_call_def Let_def split: sum.split)

lemma ledger_fetch_step [simp]: "consistent_ledger (snd (fetch_step en k pc f)) = consistent_ledger f"
proof (cases pc)
  case (FP_call flow b p)
  have "snd (fetch_step en k pc f) = snd (fetch_call en f)" by (simp add: FP_call split: prod.split sum.split)
  then show ?thesis by simp
qed simp_all

lemma ledger_resume_step: "consistent_ledger f \<Longrightarrow> consistent_ledger (snd (snd (resume_step en k r f)))"
  by (cases k) (simp_all add: ledger_derive_resume ledger_apply_resume ledger_apply_unverified ledger_apply_commit
      ledger_verify_resume ledger_revalidate_resume)

text \<open>Every step of every operation keeps the ledger consistent.\<close>

lemma ledger_job_step: "consistent_ledger f \<Longrightarrow> consistent_ledger (snd (snd (job_step en j f)))"
  by (cases j) (simp_all add: ledger_work_step ledger_resume_step ledger_apply_complete ledger_verify_commit
      ledger_revalidate_commit shutdown_close_def shutdown_clear_def Let_def)

lemma ledger_reach: "reach f0 s \<Longrightarrow> consistent_ledger f0 \<Longrightarrow> consistent_ledger (sy_fabric s)"
proof (induction rule: reach.induct)
  case (run s i en cs j f)
  then show ?case using ledger_job_step [of "sy_fabric s" en "sy_jobs s ! i"] by simp
qed simp_all

end
