(* ===== verification/PF_Restart.thy ===== *)
theory PF_Restart
  imports PF_Pending
begin

text \<open>
  Recovery: replaying any records into an empty coordinator builds tables whose identities are
  unique and below the minters' floors, and the restart leaves nothing of them in force: every
  envelope is revoked, every attempt is terminal and asks for revalidation, no backend is
  registered, and epoch and boot counter are above every persisted one.
\<close>

definition indexed_ledger :: "fabric \<Rightarrow> bool" where
  "indexed_ledger f =
     ((\<forall>a \<in> set (fb_attempts f). at_live a) \<and>
      (\<forall>k i. fb_attempt_index f k = Some i \<longleftrightarrow>
         i < length (fb_attempts f) \<and> id_value (r_attempt (record_at f i)) = k))"

lemma consistent_indexed:
  "consistent_ledger f \<longleftrightarrow> indexed_ledger f \<and> unat (fb_pending f) = count_pending (fb_attempts f)"
  by (auto simp: consistent_ledger_def ledger_ok_def indexed_ledger_def)

lemma indexed_cong:
  "fb_attempts g = fb_attempts f \<Longrightarrow> fb_attempt_index g = fb_attempt_index f \<Longrightarrow> indexed_ledger g = indexed_ledger f"
  by (simp add: indexed_ledger_def)

lemma indexed_set_record:
  assumes "indexed_ledger f" "i < length (fb_attempts f)" "r_attempt r = r_attempt (record_at f i)"
  shows "indexed_ledger (set_record i r f)"
proof -
  have "\<forall>a \<in> set (fb_attempts (set_record i r f)). at_live a"
    using assms(1,2) by (auto simp: fb_attempts_set_record indexed_ledger_def dest!: set_update_subset_insert [THEN subsetD])
  moreover have "id_value (r_attempt (record_at (set_record i r f) j)) = id_value (r_attempt (record_at f j))" for j
    using assms(2,3) by simp
  ultimately show ?thesis using assms(1) by (simp add: indexed_ledger_def)
qed

lemma indexed_insert:
  assumes "indexed_ledger f" "find_attempt (r_attempt r) f = None"
  shows "indexed_ledger (insert_attempt r f)"
proof -
  have none: "fb_attempt_index f (id_value (r_attempt r)) = None"
  proof (rule ccontr)
    assume "fb_attempt_index f (id_value (r_attempt r)) \<noteq> None"
    then obtain i where i: "fb_attempt_index f (id_value (r_attempt r)) = Some i" by blast
    then have "i < length (fb_attempts f)" "at_live (fb_attempts f ! i)" using assms(1) by (simp_all add: indexed_ledger_def)
    then show False using i assms(2) by (simp add: find_attempt_def)
  qed
  have "id_value (r_attempt (record_at f i)) \<noteq> id_value (r_attempt r)" if "i < length (fb_attempts f)" for i
    using assms(1) none that unfolding indexed_ledger_def by (metis option.distinct(1))
  then show ?thesis
    using assms(1) none by (auto simp: insert_attempt_def Let_def indexed_ledger_def nth_append less_Suc_eq)
qed

lemma find_attempt_record:
  "indexed_ledger f \<Longrightarrow> find_attempt a f = Some i \<Longrightarrow> i < length (fb_attempts f) \<and> r_attempt (record_at f i) = a"
  by (cases a) (auto simp: find_attempt_def indexed_ledger_def split: option.splits if_splits intro: ident.expand)

section \<open>Replaying\<close>

lemma on_recovery_frame [simp]:
  "fb_attempts (on_recovery g f) = fb_attempts f" "fb_attempt_index (on_recovery g f) = fb_attempt_index f"
  "fb_envelopes (on_recovery g f) = fb_envelopes f" "fb_envelope_index (on_recovery g f) = fb_envelope_index f"
  "fb_config (on_recovery g f) = fb_config f" "fb_epoch (on_recovery g f) = fb_epoch f"
  "fb_boot (on_recovery g f) = fb_boot f" "fb_durable (on_recovery g f) = fb_durable f"
  "fb_backends (on_recovery g f) = fb_backends f" "fb_pending (on_recovery g f) = fb_pending f"
  "fb_envelope_ids (on_recovery g f) = fb_envelope_ids f" "fb_attempt_ids (on_recovery g f) = fb_attempt_ids f"
  "fb_recovery (on_recovery g f) = g (fb_recovery f)"
  "fb_sequence (on_recovery g f) = fb_sequence f"
  by (simp_all add: on_recovery_def)

lemma make_nonce_frame [simp]:
  "fb_attempts (snd (make_nonce en s f)) = fb_attempts f" "fb_attempt_index (snd (make_nonce en s f)) = fb_attempt_index f"
  "fb_envelopes (snd (make_nonce en s f)) = fb_envelopes f" "fb_envelope_index (snd (make_nonce en s f)) = fb_envelope_index f"
  "fb_config (snd (make_nonce en s f)) = fb_config f" "fb_epoch (snd (make_nonce en s f)) = fb_epoch f"
  "fb_boot (snd (make_nonce en s f)) = fb_boot f" "fb_durable (snd (make_nonce en s f)) = fb_durable f"
  "fb_backends (snd (make_nonce en s f)) = fb_backends f" "fb_pending (snd (make_nonce en s f)) = fb_pending f"
  "fb_envelope_ids (snd (make_nonce en s f)) = fb_envelope_ids f" "fb_attempt_ids (snd (make_nonce en s f)) = fb_attempt_ids f"
  by (simp_all add: make_nonce_def Let_def)

definition nonce_frame :: "fabric \<Rightarrow> fabric \<Rightarrow> bool" where
  "nonce_frame f g = (\<exists>n. g = f\<lparr>fb_nonces := n\<rparr>)"

lemma retry_nonce_frame: "nonce_frame f0 (snd s) \<Longrightarrow> nonce_frame f0 (snd (retry_nonce en avoid n i s))"
proof (induction n arbitrary: i s)
  case 0
  then show ?case by simp
next
  case (Suc n)
  obtain x f where s: "s = (x, f)" by (cases s)
  have "nonce_frame f0 (snd (make_nonce en t f))" for t
    using Suc.prems by (auto simp: s nonce_frame_def make_nonce_def Let_def)
  then show ?case using Suc by (simp add: s)
qed

lemma make_nonce_nonce_frame: "nonce_frame f (snd (make_nonce en t f))"
  by (auto simp: nonce_frame_def make_nonce_def Let_def)

lemma restore_epoch_frame [simp]:
  "fb_attempts (restore_epoch en ep b f) = fb_attempts f" "fb_attempt_index (restore_epoch en ep b f) = fb_attempt_index f"
  "fb_envelopes (restore_epoch en ep b f) = fb_envelopes f" "fb_envelope_index (restore_epoch en ep b f) = fb_envelope_index f"
  "fb_config (restore_epoch en ep b f) = fb_config f" "fb_durable (restore_epoch en ep b f) = fb_durable f"
  "fb_backends (restore_epoch en ep b f) = fb_backends f"
  "fb_envelope_ids (restore_epoch en ep b f) = fb_envelope_ids f" "fb_attempt_ids (restore_epoch en ep b f) = fb_attempt_ids f"
  "fb_epoch (restore_epoch en ep b f) = (if epoch_value ep > epoch_value (fb_epoch f) then ep else fb_epoch f)"
  "bo_counter (fb_boot (restore_epoch en ep b f)) = max (bo_counter b) (bo_counter (fb_boot f))"
proof -
  let ?f2 = "(on_recovery (\<lambda>r. r\<lparr>rc_epoch_before := ep, rc_boot_before := b\<rparr>) f)
     \<lparr>fb_epoch := (if epoch_value ep > epoch_value (fb_epoch f) then ep else fb_epoch f)\<rparr>"
  have "\<exists>n m. restore_epoch en ep b f = ?f2\<lparr>fb_nonces := n, fb_boot := m\<rparr> \<and>
      bo_counter m = max (bo_counter b) (bo_counter (fb_boot f))"
  proof (cases "bo_counter b \<ge> bo_counter (fb_boot f)")
    case True
    obtain x f3 where r: "retry_nonce en (bo_nonce b) 8 0
        (make_nonce en (bo_counter b * 0x100000001B3 + fc_fabric_instance (fb_config f)) ?f2) = (x, f3)"
      by (metis prod.exhaust)
    have "nonce_frame ?f2 f3"
      using retry_nonce_frame [OF make_nonce_nonce_frame, of ?f2 en "bo_nonce b" 8 0] r by (metis snd_conv)
    then obtain n where "f3 = ?f2\<lparr>fb_nonces := n\<rparr>" by (auto simp: nonce_frame_def)
    moreover have "restore_epoch en ep b f = f3\<lparr>fb_boot := \<lparr>bo_counter = bo_counter b, bo_nonce = x\<rparr>\<rparr>"
      using True r by (simp add: restore_epoch_def Let_def split del: if_split cong: if_cong)
    ultimately have "restore_epoch en ep b f = ?f2\<lparr>fb_nonces := n, fb_boot := \<lparr>bo_counter = bo_counter b, bo_nonce = x\<rparr>\<rparr>"
      by simp
    then show ?thesis using True by (intro exI conjI) (assumption, simp add: max_def)
  next
    case False
    then have "restore_epoch en ep b f = ?f2\<lparr>fb_nonces := fb_nonces ?f2, fb_boot := fb_boot ?f2\<rparr>"
      by (simp add: restore_epoch_def Let_def)
    then show ?thesis using False by (intro exI conjI) (assumption, simp add: max_absorb2 linorder_not_le less_imp_le)
  qed
  then obtain n m where eq: "restore_epoch en ep b f = ?f2\<lparr>fb_nonces := n, fb_boot := m\<rparr>"
    and m: "bo_counter m = max (bo_counter b) (bo_counter (fb_boot f))" by blast
  show "fb_attempts (restore_epoch en ep b f) = fb_attempts f" "fb_attempt_index (restore_epoch en ep b f) = fb_attempt_index f"
    "fb_envelopes (restore_epoch en ep b f) = fb_envelopes f" "fb_envelope_index (restore_epoch en ep b f) = fb_envelope_index f"
    "fb_config (restore_epoch en ep b f) = fb_config f" "fb_durable (restore_epoch en ep b f) = fb_durable f"
    "fb_backends (restore_epoch en ep b f) = fb_backends f"
    "fb_envelope_ids (restore_epoch en ep b f) = fb_envelope_ids f" "fb_attempt_ids (restore_epoch en ep b f) = fb_attempt_ids f"
    "fb_epoch (restore_epoch en ep b f) = (if epoch_value ep > epoch_value (fb_epoch f) then ep else fb_epoch f)"
    "bo_counter (fb_boot (restore_epoch en ep b f)) = max (bo_counter b) (bo_counter (fb_boot f))"
    by (simp_all add: eq m)
qed

text \<open>What the replay of one record keeps.\<close>

lemma reject_frame [simp]:
  "fb_attempts (reject_record f) = fb_attempts f" "fb_attempt_index (reject_record f) = fb_attempt_index f"
  "fb_envelopes (reject_record f) = fb_envelopes f" "fb_epoch (reject_record f) = fb_epoch f"
  "fb_backends (reject_record f) = fb_backends f" "fb_config (reject_record f) = fb_config f"
  "fb_durable (reject_record f) = fb_durable f"
  by (simp_all add: reject_record_def)

lemma indexed_neutral [simp]:
  "indexed_ledger (f\<lparr>fb_sequence := v1\<rparr>) = indexed_ledger f"
  "indexed_ledger (f\<lparr>fb_bindings := v2\<rparr>) = indexed_ledger f"
  "indexed_ledger (f\<lparr>fb_policies := v3\<rparr>) = indexed_ledger f"
  "indexed_ledger (f\<lparr>fb_envelopes := v4\<rparr>) = indexed_ledger f"
  "indexed_ledger (f\<lparr>fb_epoch := v5\<rparr>) = indexed_ledger f"
  "indexed_ledger (f\<lparr>fb_boot := v6\<rparr>) = indexed_ledger f"
  "indexed_ledger (f\<lparr>fb_durable := v7\<rparr>) = indexed_ledger f"
  "indexed_ledger (f\<lparr>fb_disk := v8\<rparr>) = indexed_ledger f"
  "indexed_ledger (on_recovery g f) = indexed_ledger f"
  "indexed_ledger (reject_record f) = indexed_ledger f"
  "indexed_ledger (restore_epoch en ep b f) = indexed_ledger f"
  "indexed_ledger (set_revoked i x y f) = indexed_ledger f"
  "indexed_ledger (insert_envelope e f) = indexed_ledger f"
  "indexed_ledger (sample_clock now f) = indexed_ledger f"
  by (rule indexed_cong; simp add: insert_envelope_def set_revoked_def Let_def)+

lemma replay_indexed: "indexed_ledger (ra_fabric a) \<Longrightarrow> indexed_ledger (ra_fabric (replay_record en d a))"
proof -
  assume a: "indexed_ledger (ra_fabric a)"
  have env: "indexed_ledger (ra_fabric (restore_envelope e b))" if "indexed_ledger (ra_fabric b)" for e b
    using that by (simp add: restore_envelope_def Let_def split: option.split)
  have att: "indexed_ledger (ra_fabric (restore_attempt r b))" if "indexed_ledger (ra_fabric b)" for r b
    using that by (auto simp: restore_attempt_def Let_def split: option.split
        intro!: indexed_set_record indexed_insert dest: find_attempt_record)
  show ?thesis
    using a by (simp add: replay_record_def Let_def env att split: record_type.split option.split prod.split)
qed


section \<open>What the replay has seen\<close>

lemma find_envelope_length: "find_envelope k f = Some i \<Longrightarrow> i < length (fb_envelopes f)"
  by (auto simp: find_envelope_def split: option.splits if_splits)

definition envelope_indexed :: "fabric \<Rightarrow> bool" where
  "envelope_indexed f =
     ((\<forall>e \<in> set (fb_envelopes f). ee_live e) \<and>
      (\<forall>k i. fb_envelope_index f k = Some i \<longrightarrow>
         i < length (fb_envelopes f) \<and> id_value (gr_id (e_ref (ee_envelope (fb_envelopes f ! i)))) = k))"

lemma find_envelope_ref:
  "envelope_indexed f \<Longrightarrow> find_envelope k f = Some i \<Longrightarrow>
     i < length (fb_envelopes f) \<and> gr_id (e_ref (ee_envelope (fb_envelopes f ! i))) = k"
  by (cases k) (auto simp: find_envelope_def envelope_indexed_def split: option.splits if_splits intro: ident.expand)


text \<open>\<open>restored\<close>: what holds of the accumulator during the replay, started from an empty coordinator.\<close>

definition restored :: "recovery_acc \<Rightarrow> bool" where
  "restored a =
     (indexed_ledger (ra_fabric a) \<and> envelope_indexed (ra_fabric a) \<and> fb_backends (ra_fabric a) = [] \<and>
      (\<forall>e \<in> set (fb_envelopes (ra_fabric a)). id_value (gr_id (e_ref (ee_envelope e))) \<le> ra_envelope_id a) \<and>
      (\<forall>x \<in> set (fb_attempts (ra_fabric a)). id_value (r_attempt (at_record x)) \<le> ra_attempt_id a))"

lemma envelope_indexed_cong:
  "fb_envelopes g = fb_envelopes f \<Longrightarrow> fb_envelope_index g = fb_envelope_index f \<Longrightarrow> envelope_indexed g = envelope_indexed f"
  by (simp add: envelope_indexed_def)

lemma restored_cong:
  "fb_attempts g = fb_attempts (ra_fabric a) \<Longrightarrow> fb_attempt_index g = fb_attempt_index (ra_fabric a) \<Longrightarrow>
     fb_envelopes g = fb_envelopes (ra_fabric a) \<Longrightarrow> fb_envelope_index g = fb_envelope_index (ra_fabric a) \<Longrightarrow>
     fb_backends g = fb_backends (ra_fabric a) \<Longrightarrow> restored (a\<lparr>ra_fabric := g\<rparr>) = restored a"
  using indexed_cong [of g "ra_fabric a"] envelope_indexed_cong [of g "ra_fabric a"] by (simp add: restored_def)

lemma restored_envelope: "restored a \<Longrightarrow> restored (restore_envelope e a)"
proof -
  assume a: "restored a"
  let ?f = "ra_fabric a"
  show ?thesis
  proof (cases "find_envelope (gr_id (e_ref e)) ?f")
    case None
    have "indexed_ledger (insert_envelope e ?f)" using a by (simp add: restored_def)
    moreover have "envelope_indexed (insert_envelope e ?f)"
      using a by (auto simp: restored_def envelope_indexed_def insert_envelope_def Let_def nth_append less_SucI split: if_splits)
    ultimately show ?thesis
      using a by (auto simp: restore_envelope_def Let_def None restored_def insert_envelope_def)
  next
    case (Some i)
    from a have i: "i < length (fb_envelopes ?f)" "gr_id (e_ref (ee_envelope (fb_envelopes ?f ! i))) = gr_id (e_ref e)"
      using find_envelope_ref [OF _ Some] by (simp_all add: restored_def)
    have live: "ee_live (fb_envelopes ?f ! i)" using a i(1) by (simp add: restored_def envelope_indexed_def)
    have "id_value (gr_id (e_ref (ee_envelope (fb_envelopes ?f ! i)))) \<le> ra_envelope_id a"
      using a i(1) by (auto simp: restored_def)
    then have bound: "id_value (gr_id (e_ref e)) \<le> ra_envelope_id a" by (simp add: i(2))
    let ?u = "(fb_envelopes ?f)[i := (fb_envelopes ?f ! i)\<lparr>ee_envelope := e\<rparr>]"
    have sub: "set ?u \<subseteq> insert ((fb_envelopes ?f ! i)\<lparr>ee_envelope := e\<rparr>) (set (fb_envelopes ?f))"
      by (rule set_update_subset_insert)
    have keys: "id_value (gr_id (e_ref (ee_envelope (?u ! j)))) = id_value (gr_id (e_ref (ee_envelope (fb_envelopes ?f ! j))))"
      if "j < length (fb_envelopes ?f)" for j
      using that i by (cases "j = i") simp_all
    have "envelope_indexed (?f\<lparr>fb_envelopes := ?u\<rparr>)"
      using a sub live keys by (auto simp: restored_def envelope_indexed_def)
    then show ?thesis
      using a sub bound by (auto simp: restore_envelope_def Let_def Some restored_def)
  qed
qed

lemma restored_attempt: "restored a \<Longrightarrow> restored (restore_attempt r a)"
proof -
  assume a: "restored a"
  let ?f = "ra_fabric a"
  have env: "envelope_indexed (set_record i r ?f)" "envelope_indexed (insert_attempt r ?f)" for i
    using a envelope_indexed_cong [of "set_record i r ?f" ?f] envelope_indexed_cong [of "insert_attempt r ?f" ?f]
    by (simp_all add: restored_def insert_attempt_def Let_def)
  show ?thesis
  proof (cases "find_attempt (r_attempt r) ?f")
    case None
    then show ?thesis
      using a env indexed_insert [of ?f r] by (auto simp: restore_attempt_def Let_def restored_def insert_attempt_def)
  next
    case (Some i)
    with a have i: "i < length (fb_attempts ?f)" "r_attempt (record_at ?f i) = r_attempt r"
      by (auto simp: restored_def dest: find_attempt_record)
    have "id_value (r_attempt (record_at ?f i)) \<le> ra_attempt_id a" using a i(1) by (auto simp: restored_def)
    moreover have "set (fb_attempts (set_record i r ?f)) \<subseteq> insert ((fb_attempts ?f ! i)\<lparr>at_record := r\<rparr>) (set (fb_attempts ?f))"
      unfolding fb_attempts_set_record by (rule set_update_subset_insert)
    ultimately show ?thesis
      using a env i indexed_set_record [of ?f i r] by (auto simp: restore_attempt_def Let_def Some restored_def)
  qed
qed

lemma restored_revoked: "restored a \<Longrightarrow> i < length (fb_envelopes (ra_fabric a)) \<Longrightarrow>
    restored (a\<lparr>ra_fabric := set_revoked i x y (ra_fabric a)\<rparr>)"
proof -
  assume a: "restored a" and i: "i < length (fb_envelopes (ra_fabric a))"
  let ?es = "fb_envelopes (ra_fabric a)" let ?e = "(?es ! i)\<lparr>ee_revoked := x, ee_reason := y\<rparr>"
  have sub: "set (?es[i := ?e]) \<subseteq> insert ?e (set ?es)" by (rule set_update_subset_insert)
  have keys: "id_value (gr_id (e_ref (ee_envelope (?es[i := ?e] ! j)))) = id_value (gr_id (e_ref (ee_envelope (?es ! j))))"
    if "j < length ?es" for j
    using that i by (cases "j = i") simp_all
  have "envelope_indexed (set_revoked i x y (ra_fabric a))"
    using a sub keys i by (auto simp: restored_def envelope_indexed_def set_revoked_def)
  then show ?thesis using a sub i by (auto simp: restored_def set_revoked_def)
qed

lemma restored_replay: "restored a \<Longrightarrow> restored (replay_record en d a)"
proof -
  assume a: "restored a"
  define f where "f = (ra_fabric a)\<lparr>fb_sequence := (if dr_sequence d > fb_sequence (ra_fabric a) then dr_sequence d
                                              else fb_sequence (ra_fabric a))\<rparr>"
  have b: "restored (a\<lparr>ra_fabric := f\<rparr>)" using a by (subst restored_cong) (simp_all add: f_def)
  have same: "restored (a\<lparr>ra_fabric := g\<rparr>)"
    if "fb_attempts g = fb_attempts f" "fb_attempt_index g = fb_attempt_index f"
      "fb_envelopes g = fb_envelopes f" "fb_envelope_index g = fb_envelope_index f"
      "fb_backends g = fb_backends f" for g
    using that b restored_cong [of g a] restored_cong [of f a] by (simp add: f_def)
  have rejected: "restored (a\<lparr>ra_fabric := reject_record f\<rparr>)" by (rule same) (simp_all add: reject_record_def)
  note unfolded = replay_record_def Let_def f_def [symmetric]
  show ?thesis
  proof (cases "dr_type d")
    case DR_EnvelopeRevocation
    have "restored (a\<lparr>ra_fabric := set_revoked i True y f\<rparr>)" if "find_envelope k f = Some i" for i k y
      using restored_revoked [OF b] find_envelope_length [OF that] by simp
    then show ?thesis
      unfolding unfolded DR_EnvelopeRevocation using b rejected by (simp split: option.split prod.split)
  next
    case DR_EpochAdvance
    have "restored (a\<lparr>ra_fabric := restore_epoch en ep bo f\<rparr>)" for ep bo by (rule same) simp_all
    then show ?thesis
      unfolding unfolded DR_EpochAdvance using rejected by (simp split: option.split prod.split)
  next
    case DR_Envelope
    show ?thesis unfolding unfolded DR_Envelope using b rejected by (simp add: restored_envelope split: option.split)
  next
    case DR_Attempt
    show ?thesis unfolding unfolded DR_Attempt using b rejected by (simp add: restored_attempt split: option.split)
  next
    case DR_FlowBinding
    show ?thesis unfolding unfolded DR_FlowBinding using rejected by (simp add: same split: option.split)
  next
    case DR_Policy
    show ?thesis unfolding unfolded DR_Policy using rejected by (simp add: same split: option.split)
  next
    case DR_BackendRegistration
    show ?thesis unfolding unfolded DR_BackendRegistration using rejected by (simp add: same split: option.split)
  next
    case DR_FlowUnbound
    show ?thesis unfolding unfolded DR_FlowUnbound using rejected by (simp add: same split: option.split)
  next
    case DR_PolicyRemoved
    show ?thesis unfolding unfolded DR_PolicyRemoved using rejected by (simp add: same split: option.split)
  qed (unfold unfolded, simp_all add: rejected)
qed


section \<open>The epoch and the boot counter\<close>

definition persisted_epoch :: "durable_record \<Rightarrow> (epoch \<times> boot_id) option" where
  "persisted_epoch d = (if dr_type d = DR_EpochAdvance then decoded decode_epoch (dr_payload d) else None)"

definition at_least :: "epoch \<Rightarrow> boot_id \<Rightarrow> fabric \<Rightarrow> bool" where
  "at_least ep b f = (epoch_value ep \<le> epoch_value (fb_epoch f) \<and> bo_counter b \<le> bo_counter (fb_boot f))"

lemma replay_epoch_cases:
  "(\<exists>g. fb_epoch g = fb_epoch (ra_fabric a) \<and> fb_boot g = fb_boot (ra_fabric a) \<and>
      (case persisted_epoch d of
         None \<Rightarrow> fb_epoch (ra_fabric (replay_record en d a)) = fb_epoch g \<and>
                 fb_boot (ra_fabric (replay_record en d a)) = fb_boot g
       | Some (ep, b) \<Rightarrow> ra_fabric (replay_record en d a) = restore_epoch en ep b g))"
proof -
  define f where "f = (ra_fabric a)\<lparr>fb_sequence := (if dr_sequence d > fb_sequence (ra_fabric a) then dr_sequence d
                                              else fb_sequence (ra_fabric a))\<rparr>"
  have f: "fb_epoch f = fb_epoch (ra_fabric a)" "fb_boot f = fb_boot (ra_fabric a)" by (simp_all add: f_def)
  note unfolded = replay_record_def Let_def f_def [symmetric]
  show ?thesis
    by (rule exI [of _ f], unfold unfolded, cases "dr_type d")
      (auto simp: f persisted_epoch_def reject_record_def restore_envelope_def restore_attempt_def insert_envelope_def
        insert_attempt_def set_record_def set_revoked_def Let_def on_recovery_def split: option.split)
qed

lemma replay_epoch:
  "at_least ep b (ra_fabric a) \<Longrightarrow> at_least ep b (ra_fabric (replay_record en d a))"
  "persisted_epoch d = Some (ep, b) \<Longrightarrow> at_least ep b (ra_fabric (replay_record en d a))"
  using replay_epoch_cases [of a en d]
  by (auto simp: at_least_def le_max_iff_disj split: option.splits prod.splits)

lemma replay_all_epochs:
  "d \<in> set ds \<Longrightarrow> persisted_epoch d = Some (ep, b) \<Longrightarrow> at_least ep b (ra_fabric (fold (replay_record en) ds a))"
proof (induction ds arbitrary: a)
  case Nil
  then show ?case by simp
next
  case (Cons x xs)
  have keep: "at_least ep b (ra_fabric (fold (replay_record en) ys c))" if "at_least ep b (ra_fabric c)" for ys c
    using that by (induction ys arbitrary: c) (simp_all add: replay_epoch)
  show ?case
  proof (cases "d \<in> set xs")
    case True
    then show ?thesis using Cons.IH Cons.prems by simp
  next
    case False
    then show ?thesis using Cons.prems by (auto intro: keep replay_epoch)
  qed
qed

section \<open>Nothing comes back in force\<close>

lemma restart_attempt_attempts:
  "i < length (fb_attempts f) \<Longrightarrow> at_live (fb_attempts f ! i) \<Longrightarrow>
     fb_attempts (restart_attempt en now i f) =
       (fb_attempts f)[i := (fb_attempts f ! i)\<lparr>at_record := restart_record (record_at f i)\<rparr>]"
  by (simp add: restart_attempt_def Let_def set_record_def)

lemma restart_attempt_frame [simp]:
  "fb_attempt_index (restart_attempt en now i f) = fb_attempt_index f"
  "fb_envelope_index (restart_attempt en now i f) = fb_envelope_index f"
  "fb_envelopes (restart_attempt en now i f) = fb_envelopes f"
  "fb_backends (restart_attempt en now i f) = fb_backends f"
  "fb_epoch (restart_attempt en now i f) = fb_epoch f"
  "fb_boot (restart_attempt en now i f) = fb_boot f"
  "fb_config (restart_attempt en now i f) = fb_config f"
  by (simp_all add: restart_attempt_def Let_def)

abbreviation restart_entry :: "attempt_entry \<Rightarrow> attempt_entry" where
  "restart_entry a \<equiv> a\<lparr>at_record := restart_record (at_record a)\<rparr>"

lemma restart_fold:
  assumes "\<forall>a \<in> set (fb_attempts f). at_live a" "m \<le> length (fb_attempts f)"
  shows "fb_attempts (fold (restart_attempt en now) [0..<m] f) =
           map restart_entry (take m (fb_attempts f)) @ drop m (fb_attempts f)"
  using assms(2)
proof (induction m)
  case 0
  then show ?case by simp
next
  case (Suc m)
  then have m: "m < length (fb_attempts f)" by simp
  let ?g = "fold (restart_attempt en now) [0..<m] f"
  have g: "fb_attempts ?g = map restart_entry (take m (fb_attempts f)) @ drop m (fb_attempts f)" using Suc by simp
  then have "fb_attempts ?g ! m = fb_attempts f ! m" "length (fb_attempts ?g) = length (fb_attempts f)"
    using m by (simp_all add: nth_append)
  then show ?case
    using m assms(1) g by (simp add: restart_attempt_attempts list_update_append take_Suc_conv_app_nth Cons_nth_drop_Suc [symmetric])
qed

lemma restart_fold_frame [simp]:
  "fb_attempt_index (fold (restart_attempt en now) is f) = fb_attempt_index f"
  "fb_envelope_index (fold (restart_attempt en now) is f) = fb_envelope_index f"
  "fb_envelopes (fold (restart_attempt en now) is f) = fb_envelopes f"
  "fb_backends (fold (restart_attempt en now) is f) = fb_backends f"
  "fb_epoch (fold (restart_attempt en now) is f) = fb_epoch f"
  "fb_boot (fold (restart_attempt en now) is f) = fb_boot f"
  by (induction "is" arbitrary: f) simp_all

text \<open>What a restart leaves of an attempt, and of an envelope.\<close>

definition out_of_force :: "app_record \<Rightarrow> bool" where
  "out_of_force r =
     (r_requires_revalidation r \<and> r_effect r = EL_None \<and> is_terminal (r_state r) \<and>
      r_state r \<notin> {AS_Applied, AS_AppliedUnverified, AS_Mismatched})"

lemma restart_record_out: "out_of_force (restart_record r)" "r_attempt (restart_record r) = r_attempt r"
  by (cases "r_state r"; simp add: restart_record_def Let_def out_of_force_def asserts_effect_def)+

definition fenced_off :: "fabric \<Rightarrow> bool" where
  "fenced_off f =
     (consistent_ledger f \<and> envelope_indexed f \<and> fb_pending f = 0 \<and> fb_backends f = [] \<and>
      (\<forall>e \<in> set (fb_envelopes f). ee_live e \<and> ee_revoked e) \<and>
      (\<forall>a \<in> set (fb_attempts f). out_of_force (at_record a)))"

lemma invalidate_all_fences:
  assumes "indexed_ledger f" "envelope_indexed f" "fb_backends f = []"
  shows "fenced_off (invalidate_all en now f)"
    "fb_epoch (invalidate_all en now f) = fb_epoch f" "fb_boot (invalidate_all en now f) = fb_boot f"
    "map (\<lambda>e. e_ref (ee_envelope e)) (fb_envelopes (invalidate_all en now f)) = map (\<lambda>e. e_ref (ee_envelope e)) (fb_envelopes f)"
    "map (\<lambda>a. r_attempt (at_record a)) (fb_attempts (invalidate_all en now f)) = map (\<lambda>a. r_attempt (at_record a)) (fb_attempts f)"
proof -
  define f1 where "f1 = on_recovery (\<lambda>r. r\<lparr>rc_envelopes_invalidated := rc_envelopes_invalidated r +
      of_nat (length (filter ee_live (fb_envelopes f)))\<rparr>) (f\<lparr>fb_envelopes := map invalidate_entry (fb_envelopes f)\<rparr>)"
  have f1: "fb_attempts f1 = fb_attempts f" "fb_attempt_index f1 = fb_attempt_index f" "fb_backends f1 = []"
    "fb_envelopes f1 = map invalidate_entry (fb_envelopes f)" "fb_envelope_index f1 = fb_envelope_index f" "fb_epoch f1 = fb_epoch f" "fb_boot f1 = fb_boot f"
    using assms(3) by (simp_all add: f1_def)
  let ?g = "fold (restart_attempt en now) [0..<length (fb_attempts f)] f1"
  have inv: "invalidate_all en now f = ?g\<lparr>fb_pending := of_nat (count_pending (fb_attempts ?g))\<rparr>"
    by (simp add: invalidate_all_def Let_def f1_def [symmetric])
  have as: "fb_attempts ?g = map restart_entry (fb_attempts f)"
    using restart_fold [of f1 "length (fb_attempts f)" en now] assms(1) by (simp add: f1 indexed_ledger_def)
  have "filter (\<lambda>a. at_live a \<and> \<not> is_terminal (r_state (at_record a))) (map restart_entry (fb_attempts f)) = []"
    using restart_record_out(1) by (auto simp: filter_empty_conv out_of_force_def)
  then have none: "count_pending (map restart_entry (fb_attempts f)) = 0" by (simp add: count_pending_def)
  have "indexed_ledger (invalidate_all en now f)"
    using assms(1) by (auto simp: inv indexed_ledger_def as f1 restart_record_out)
  then have "consistent_ledger (invalidate_all en now f)" by (simp add: consistent_indexed inv as none)
  then show "fenced_off (invalidate_all en now f)"
    using assms(2) by (auto simp: fenced_off_def inv none as f1 restart_record_out invalidate_entry_def envelope_indexed_def)
  show "fb_epoch (invalidate_all en now f) = fb_epoch f" "fb_boot (invalidate_all en now f) = fb_boot f"
    "map (\<lambda>e. e_ref (ee_envelope e)) (fb_envelopes (invalidate_all en now f)) = map (\<lambda>e. e_ref (ee_envelope e)) (fb_envelopes f)"
    "map (\<lambda>a. r_attempt (at_record a)) (fb_attempts (invalidate_all en now f)) = map (\<lambda>a. r_attempt (at_record a)) (fb_attempts f)"
    by (simp_all add: inv as f1 invalidate_entry_def restart_record_out)
qed


section \<open>Recovery and initialization\<close>

lemma advance_boot_success:
  assumes "advance_boot en f = (s, g)" "st_ok s"
  shows "fb_attempts g = fb_attempts f" "fb_attempt_index g = fb_attempt_index f" "fb_envelopes g = fb_envelopes f"
    "fb_envelope_index g = fb_envelope_index f" "fb_backends g = fb_backends f"
    "epoch_value (fb_epoch f) < epoch_value (fb_epoch g)" "bo_counter (fb_boot f) < bo_counter (fb_boot g)"
proof -
  obtain ep ex where e: "epoch_advanced (fb_epoch f) = (ep, ex)" by (metis prod.exhaust)
  have ok: "\<not> ex" "\<not> ep \<le> fb_epoch f" "bo_counter (fb_boot f) \<noteq> kU64Max"
    using assms by (auto simp: advance_boot_def e Let_def st_ok_def split: if_splits)
  show "fb_attempts g = fb_attempts f" "fb_attempt_index g = fb_attempt_index f" "fb_envelopes g = fb_envelopes f"
    "fb_envelope_index g = fb_envelope_index f" "fb_backends g = fb_backends f"
    using assms(1) ok by (auto simp: advance_boot_def e Let_def split_beta)
  have "fb_epoch g = ep" using assms(1) ok by (auto simp: advance_boot_def e Let_def split_beta)
  then show "epoch_value (fb_epoch f) < epoch_value (fb_epoch g)" using ok(2) by (simp add: less_eq_epoch_def)
  have "bo_counter (fb_boot g) = bo_counter (fb_boot f) + 1"
    using assms(1) ok by (auto simp: advance_boot_def e Let_def split_beta)
  then show "bo_counter (fb_boot f) < bo_counter (fb_boot g)"
    using ok(3) unat_inc_u64 [of "bo_counter (fb_boot f)"] by (simp add: kU64Max_def word_less_nat_alt)
qed

lemma empty_restored: "fb_attempts f = [] \<Longrightarrow> fb_attempt_index f = Map.empty \<Longrightarrow> fb_envelopes f = [] \<Longrightarrow>
    fb_envelope_index f = Map.empty \<Longrightarrow> fb_backends f = [] \<Longrightarrow>
    restored \<lparr>ra_fabric = f, ra_envelope_id = 0, ra_attempt_id = 0, ra_provenance_id = 0\<rparr>"
  by (simp add: restored_def indexed_ledger_def envelope_indexed_def)

definition ids_are_floors :: "fabric \<Rightarrow> bool" where
  "ids_are_floors f =
     ((\<forall>e \<in> set (fb_envelopes f). id_value (gr_id (e_ref (ee_envelope e))) \<le> fb_envelope_ids f) \<and>
      (\<forall>a \<in> set (fb_attempts f). id_value (r_attempt (at_record a)) \<le> fb_attempt_ids f))"

lemma recover_locked_success:
  assumes f0: "fb_attempts f0 = []" "fb_attempt_index f0 = Map.empty" "fb_envelopes f0 = []"
      "fb_envelope_index f0 = Map.empty" "fb_backends f0 = []" "fb_durable f0 = Some d0"
    and r: "recover_locked en f0 = (s, f)" "st_ok s"
  shows "fenced_off f" "ids_are_floors f"
    "d \<in> set (ds_recovered d0) \<Longrightarrow> persisted_epoch d = Some (ep, b) \<Longrightarrow>
       epoch_value ep < epoch_value (fb_epoch f) \<and> bo_counter b < bo_counter (fb_boot f)"
proof -
  define now where "now = en_clock en"
  define f1 where "f1 = sample_clock now (on_recovery (\<lambda>r. r\<lparr>rc_performed := True,
     rc_records_replayed := of_nat (length (ds_recovered d0))\<rparr>) f0)"
  define a where "a = fold (replay_record en) (ds_recovered d0)
     \<lparr>ra_fabric = f1, ra_envelope_id = 0, ra_attempt_id = 0, ra_provenance_id = 0\<rparr>"
  define f2 where "f2 = on_recovery (\<lambda>r. r\<lparr>
                 rc_bindings_restored := of_nat (length (live_bindings (fb_bindings (ra_fabric a)))),
                 rc_policies_restored := of_nat (length (live_policies (fb_policies (ra_fabric a))))\<rparr>) (ra_fabric a)"
  obtain sb f3 where adv: "advance_boot en f2 = (sb, f3)" by (metis prod.exhaust)
  have rec: "recover_locked en f0 =
      (if \<not> st_ok sb then (sb, f3)
       else
         (let f4 = invalidate_all en now f3;
              f5 = f4\<lparr>fb_envelope_ids := minter_set_floor (ra_envelope_id a) (fb_envelope_ids f4),
                      fb_attempt_ids := minter_set_floor (ra_attempt_id a) (fb_attempt_ids f4),
                      fb_provenance_ids := minter_set_floor (ra_provenance_id a) (fb_provenance_ids f4)\<rparr>
          in case encoded 256 (encode_epoch (fb_epoch f5) (fb_boot f5)) of
               Inl e \<Rightarrow> (e, f5)
             | Inr payload \<Rightarrow> journal_record en DR_EpochAdvance payload (inst_ns now) f5))"
    by (simp only: recover_locked_def Let_def f0(6) option.case now_def [symmetric] f1_def [symmetric] a_def [symmetric]
        f2_def [symmetric] adv prod.case)
  have sb: "st_ok sb" using r rec by (auto split: if_splits)
  define f4 where "f4 = invalidate_all en now f3"
  define f5 where "f5 = f4\<lparr>fb_envelope_ids := minter_set_floor (ra_envelope_id a) (fb_envelope_ids f4),
                      fb_attempt_ids := minter_set_floor (ra_attempt_id a) (fb_attempt_ids f4),
                      fb_provenance_ids := minter_set_floor (ra_provenance_id a) (fb_provenance_ids f4)\<rparr>"
  have "recover_locked en f0 = (case encoded 256 (encode_epoch (fb_epoch f5) (fb_boot f5)) of
               Inl e \<Rightarrow> (e, f5)
             | Inr payload \<Rightarrow> journal_record en DR_EpochAdvance payload (inst_ns now) f5)"
    by (simp only: rec sb Let_def f4_def [symmetric] f5_def [symmetric] not_True_eq_False if_False)
  then have "(case encoded 256 (encode_epoch (fb_epoch f5) (fb_boot f5)) of
               Inl e \<Rightarrow> (e, f5)
             | Inr payload \<Rightarrow> journal_record en DR_EpochAdvance payload (inst_ns now) f5) = (s, f)"
    using r(1) by simp
  then have jf: "journal_frame f5 f"
    using journal_record_frame by (auto simp: journal_frame_refl split: sum.splits) (metis snd_conv)
  have a: "restored a"
    unfolding a_def
    by (rule ledger_fold [of restored "replay_record en"], erule restored_replay)
      (rule empty_restored; simp add: f1_def f0)
  then have f3: "indexed_ledger f3" "envelope_indexed f3" "fb_backends f3 = []"
    "\<forall>e \<in> set (fb_envelopes f3). id_value (gr_id (e_ref (ee_envelope e))) \<le> ra_envelope_id a"
    "\<forall>x \<in> set (fb_attempts f3). id_value (r_attempt (at_record x)) \<le> ra_attempt_id a"
    using advance_boot_success [OF adv sb] indexed_cong [of f3 "ra_fabric a"] envelope_indexed_cong [of f3 "ra_fabric a"]
    by (simp_all add: f2_def restored_def)
  note inv = invalidate_all_fences [OF f3(1-3), of en now, folded f4_def]
  have "fenced_off f5" using inv(1) by (simp add: f5_def fenced_off_def envelope_indexed_def)
  then show "fenced_off f"
    using jf envelope_indexed_cong [of f f5] by (simp add: fenced_off_def ledger_journalled journal_frameD)
  have "id_value (gr_id (e_ref (ee_envelope e))) \<le> ra_envelope_id a" if "e \<in> set (fb_envelopes f4)" for e
  proof -
    have "e_ref (ee_envelope e) \<in> set (map (\<lambda>e. e_ref (ee_envelope e)) (fb_envelopes f3))"
      unfolding inv(4) [symmetric] using that by simp
    then show ?thesis using f3(4) by auto
  qed
  moreover have "id_value (r_attempt (at_record x)) \<le> ra_attempt_id a" if "x \<in> set (fb_attempts f4)" for x
  proof -
    have "r_attempt (at_record x) \<in> set (map (\<lambda>a. r_attempt (at_record a)) (fb_attempts f3))"
      unfolding inv(5) [symmetric] using that by simp
    then show ?thesis using f3(5) by auto
  qed
  moreover have "m \<le> n \<Longrightarrow> m \<le> minter_set_floor n k" for m n k :: u64
    by (auto simp: minter_set_floor_def)
  ultimately have "ids_are_floors f5" by (simp add: ids_are_floors_def f5_def)
  then show "ids_are_floors f" using jf by (simp add: ids_are_floors_def journal_frameD)
  have "fb_epoch f = fb_epoch f3" "fb_boot f = fb_boot f3"
    using inv(2,3) jf by (simp_all add: journal_frameD f5_def)
  then show "epoch_value ep < epoch_value (fb_epoch f) \<and> bo_counter b < bo_counter (fb_boot f)"
    if "d \<in> set (ds_recovered d0)" "persisted_epoch d = Some (ep, b)"
    using replay_all_epochs [OF that, of en "\<lparr>ra_fabric = f1, ra_envelope_id = 0, ra_attempt_id = 0, ra_provenance_id = 0\<rparr>",
        folded a_def] advance_boot_success(6,7) [OF adv sb]
    by (auto simp: at_least_def f2_def)
qed

definition blank :: "fabric \<Rightarrow> bool" where
  "blank f =
     (fb_attempts f = [] \<and> fb_attempt_index f = Map.empty \<and> fb_envelopes f = [] \<and>
      fb_envelope_index f = Map.empty \<and> fb_backends f = [] \<and> fb_pending f = 0)"

lemma blank_fenced: "blank f \<Longrightarrow> fenced_off f \<and> ids_are_floors f"
  by (simp add: blank_def fenced_off_def ids_are_floors_def consistent_ledger_def ledger_ok_def count_pending_def
      envelope_indexed_def)

lemma durability_success:
  assumes b: "blank f0" and i: "initialize_durability en f0 = (s, f)" "st_ok s"
  shows "fenced_off f" "ids_are_floors f"
    "fc_enable_durability (fb_config f0) \<Longrightarrow> fc_durable_directory (fb_config f0) \<noteq> [] \<Longrightarrow>
     durable_open (en_open_io en) (fb_disk f0) (durable_new (fc_durable_directory (fb_config f0)) (fb_limits f0)) = (opened, k, d0) \<Longrightarrow>
     d \<in> set (ds_recovered d0) \<Longrightarrow> persisted_epoch d = Some (ep, bo) \<Longrightarrow>
     epoch_value ep < epoch_value (fb_epoch f) \<and> bo_counter bo < bo_counter (fb_boot f)"
proof -
  obtain opened' k' d' where o: "durable_open (en_open_io en) (fb_disk f0)
      (durable_new (fc_durable_directory (fb_config f0)) (fb_limits f0)) = (opened', k', d')" by (metis prod.exhaust)
  let ?g = "on_recovery (\<lambda>r. r\<lparr>rc_durable_directory_used := True\<rparr>) (f0\<lparr>fb_disk := k', fb_durable := Some d'\<rparr>)"
  obtain s' f' where r: "recover_locked en ?g = (s', f')" by (metis prod.exhaust)
  have eq: "f = f'" "st_ok s'" if "fc_enable_durability (fb_config f0)" "fc_durable_directory (fb_config f0) \<noteq> []"
    using i that o r by (auto simp: initialize_durability_def Let_def split: if_splits)
  note rec = recover_locked_success [of ?g d', OF _ _ _ _ _ _ r]
  show "fenced_off f" "ids_are_floors f"
    using b blank_fenced i rec(1,2) eq
    by (cases "fc_enable_durability (fb_config f0) \<and> fc_durable_directory (fb_config f0) \<noteq> []";
        simp add: initialize_durability_def blank_def Let_def)+
  show "epoch_value ep < epoch_value (fb_epoch f) \<and> bo_counter bo < bo_counter (fb_boot f)"
    if "fc_enable_durability (fb_config f0)" "fc_durable_directory (fb_config f0) \<noteq> []"
     "durable_open (en_open_io en) (fb_disk f0) (durable_new (fc_durable_directory (fb_config f0)) (fb_limits f0)) = (opened, k, d0)"
     "d \<in> set (ds_recovered d0)" "persisted_epoch d = Some (ep, bo)"
    using that b rec(3) [of d ep bo] eq o by (simp add: blank_def)
qed

text \<open>A coordinator started on any disk.\<close>

lemma start_success:
  assumes "start_fabric en (fabric_new c dsk) = (s, f)" "st_ok s"
  shows "fenced_off f" "ids_are_floors f" "fb_running f"
    "fc_enable_durability c \<Longrightarrow> fc_durable_directory c \<noteq> [] \<Longrightarrow>
     durable_open (en_open_io en) dsk (durable_new (fc_durable_directory c) (fc_limits c)) = (opened, k, d0) \<Longrightarrow>
     d \<in> set (ds_recovered d0) \<Longrightarrow> persisted_epoch d = Some (ep, b) \<Longrightarrow>
     epoch_value ep < epoch_value (fb_epoch f) \<and> bo_counter b < bo_counter (fb_boot f)"
proof -
  let ?n = "sample_clock (en_clock en) (fabric_new c dsk)"
  obtain x f1 where n: "make_nonce en (fc_fabric_instance c) ?n = (x, f1)" by (metis prod.exhaust)
  let ?f2 = "f1\<lparr>fb_boot := \<lparr>bo_counter = 1, bo_nonce = x\<rparr>, fb_epoch := Epoch 1\<rparr>"
  let ?f3 = "?f2\<lparr>fb_recovery := empty_recovery\<lparr>rc_boot_after := fb_boot ?f2, rc_epoch_after := fb_epoch ?f2\<rparr>\<rparr>"
  obtain s4 f4 where i: "initialize_durability en ?f3 = (s4, f4)" by (metis prod.exhaust)
  have f1: "f1 = snd (make_nonce en (fc_fabric_instance c) ?n)" by (simp add: n)
  have new: "fb_config ?n = c" "fb_disk ?n = dsk" "\<not> fb_initialized ?n" "blank ?n"
    by (simp_all add: fabric_new_def blank_def)
  have dsk: "fb_disk f1 = dsk" "fb_config f1 = c"
    using new by (simp_all add: f1 make_nonce_def Let_def)
  have b: "blank ?f3" using new(4) by (simp add: f1 blank_def)
  have s: "st_ok s4" "s = s4" "\<exists>e. f = emit e (f4\<lparr>fb_initialized := True, fb_running := True\<rparr>)"
    using assms new n i by (auto simp: start_fabric_def initialize_def Let_def st_ok_def split: if_splits)
  note init = durability_success [OF b i s(1)]
  have f: "fb_epoch f = fb_epoch f4" "fb_boot f = fb_boot f4" "fb_running f"
    "fb_attempts f = fb_attempts f4" "fb_envelopes f = fb_envelopes f4" "fb_envelope_index f = fb_envelope_index f4" "fb_backends f = fb_backends f4"
    "fb_pending f = fb_pending f4" "fb_attempt_index f = fb_attempt_index f4"
    "fb_envelope_ids f = fb_envelope_ids f4" "fb_attempt_ids f = fb_attempt_ids f4"
    using s(3) by auto
  show "fenced_off f" "ids_are_floors f" "fb_running f"
    using init(1,2) f by (auto simp: fenced_off_def ids_are_floors_def consistent_ledger_def envelope_indexed_def)
  show "epoch_value ep < epoch_value (fb_epoch f) \<and> bo_counter b < bo_counter (fb_boot f)"
    if "fc_enable_durability c" "fc_durable_directory c \<noteq> []"
     "durable_open (en_open_io en) dsk (durable_new (fc_durable_directory c) (fc_limits c)) = (opened, k, d0)"
     "d \<in> set (ds_recovered d0)" "persisted_epoch d = Some (ep, b)"
    using that init(3) [of opened k d0 d ep b] f(1,2) dsk by simp
qed

end
