(* ===== verification/PF_Effects.thy ===== *)
theory PF_Effects
  imports PF_Restart
begin

text \<open>
  Asserted effects are justified. A record in state \<^verbatim>\<open>Applied\<close> carries readback evidence that
  passed its integrity check and equals the cadence the attempt was authorized with, and its label
  says whether the backend was synthetic; no other record carries a verified label. The invariant
  links the tables, through the identities that are never reused, to what the operations in flight
  have captured.
\<close>

section \<open>What a section leaves alone\<close>

definition statics :: "fabric \<Rightarrow> (attempt_id \<times> envelope_id \<times> cadence) list" where
  "statics f = map (\<lambda>a. (r_attempt (at_record a), gr_id (r_envelope (at_record a)), r_desired (at_record a))) (fb_attempts f)"

definition pairs :: "fabric \<Rightarrow> (envelope_id \<times> cadence) set" where
  "pairs f = (\<lambda>e. (gr_id (e_ref (ee_envelope e)), e_cadence (ee_envelope e))) ` set (fb_envelopes f)"

definition keyed :: "fabric \<Rightarrow> bool" where
  "keyed f = (\<forall>k i. fb_envelope_index f k = Some i \<longrightarrow>
     i < length (fb_envelopes f) \<and> id_value (gr_id (e_ref (ee_envelope (fb_envelopes f ! i)))) = k)"

definition effect_justified :: "app_record \<Rightarrow> bool" where
  "effect_justified r =
     ((r_state r = AS_Applied \<longrightarrow>
         r_observed_rate_bps r = c_rate_bps (r_desired r) \<and>
         r_observed_quantum_bytes r = c_quantum_bytes (r_desired r) \<and>
         r_observed_burst_bytes r = c_burst_bytes (r_desired r) \<and>
         r_observed_interval_ns r = c_interval_ns (r_desired r) \<and>
         r_evidence_integrity_ok r \<and>
         r_effect r = (if r_backend_synthetic r then EL_SyntheticVerified else EL_Verified)) \<and>
      (r_effect r \<in> {EL_Verified, EL_SyntheticVerified} \<longrightarrow> r_state r = AS_Applied))"

definition all_justified :: "fabric \<Rightarrow> bool" where
  "all_justified f = (\<forall>a \<in> set (fb_attempts f). effect_justified (at_record a))"

definition kept :: "fabric \<Rightarrow> fabric \<Rightarrow> bool" where
  "kept f g =
     (statics g = statics f \<and> pairs g \<subseteq> pairs f \<and> fb_envelope_ids f \<le> fb_envelope_ids g \<and>
      (keyed f \<longrightarrow> keyed g) \<and> (all_justified f \<longrightarrow> all_justified g))"

named_theorems kept_intros

lemma kept_refl [kept_intros]: "kept f f"
  by (simp add: kept_def)

lemma kept_length: "kept f g \<Longrightarrow> length (fb_attempts g) = length (fb_attempts f)"
proof -
  assume "kept f g"
  then have "length (statics g) = length (statics f)" by (simp add: kept_def)
  then show ?thesis by (simp add: statics_def)
qed

lemma kept_trans: "kept f g \<Longrightarrow> kept g h \<Longrightarrow> kept f h"
  unfolding kept_def by (metis subset_trans order_trans)

lemma kept_same:
  "fb_attempts g = fb_attempts f \<Longrightarrow> fb_envelopes g = fb_envelopes f \<Longrightarrow> fb_envelope_index g = fb_envelope_index f \<Longrightarrow>
     fb_envelope_ids g = fb_envelope_ids f \<Longrightarrow> kept f g"
  by (simp add: kept_def statics_def pairs_def keyed_def all_justified_def)

lemma kept_bump [kept_intros]: "kept f g \<Longrightarrow> kept f (bump_by n st g)"
  by (erule kept_trans, rule kept_same) simp_all

lemma kept_journal_attempt [kept_intros]: "kept f g \<Longrightarrow> kept f (journal_attempt en i now g)"
  by (erule kept_trans, rule kept_same) simp_all

lemma kept_journalled: "kept f g \<Longrightarrow> journal_frame g h \<Longrightarrow> kept f h"
  by (erule kept_trans, rule kept_same) (simp_all add: journal_frameD)

lemma kept_set_record [kept_intros]:
  assumes "kept f g" "i < length (fb_attempts f)" "r_attempt r = r_attempt (record_at g i)"
    "r_envelope r = r_envelope (record_at g i)" "r_desired r = r_desired (record_at g i)"
    "effect_justified (record_at g i) \<Longrightarrow> effect_justified r"
  shows "kept f (set_record i r g)"
proof -
  have i: "i < length (fb_attempts g)" using kept_length [OF assms(1)] assms(2) by simp
  let ?st = "\<lambda>a. (r_attempt (at_record a), gr_id (r_envelope (at_record a)), r_desired (at_record a))"
  have "?st ((fb_attempts g ! i)\<lparr>at_record := r\<rparr>) = ?st (fb_attempts g ! i)" using assms by simp
  then have "statics (set_record i r g) = statics g"
    by (simp add: statics_def fb_attempts_set_record map_update) (metis (no_types, lifting) i list_update_id map_update nth_map)
  moreover have "all_justified g \<longrightarrow> all_justified (set_record i r g)"
    using assms(6) i set_update_subset_insert [of "fb_attempts g" i "(fb_attempts g ! i)\<lparr>at_record := r\<rparr>"]
    by (auto simp: all_justified_def fb_attempts_set_record)
  ultimately have "kept g (set_record i r g)" by (simp add: kept_def pairs_def keyed_def)
  then show ?thesis by (rule kept_trans [OF assms(1)])
qed

lemma justified_transition:
  "next \<noteq> AS_Applied \<Longrightarrow> effect_justified (transition_record next now reason detail r)"
  by (cases "next"; simp add: effect_justified_def transition_record_def Let_def)

lemma kept_transition_justified:
  assumes "kept f g" "i < length (fb_attempts f)"
    "effect_justified (transition_record next now reason detail (record_at g i))"
  shows "kept f (apply_transition i next now reason detail g)"
proof -
  have "kept f (set_record i (transition_record next now reason detail (record_at g i)) g)"
    using assms by (intro kept_set_record) simp_all
  then show ?thesis
    by (rule kept_trans) (rule kept_same; simp add: apply_transition_def)
qed

lemma kept_apply_transition [kept_intros]:
  "kept f g \<Longrightarrow> i < length (fb_attempts f) \<Longrightarrow> next \<noteq> AS_Applied \<Longrightarrow>
     kept f (apply_transition i next now reason detail g)"
  by (rule kept_transition_justified) (simp_all add: justified_transition)

lemma kept_close_attempt [kept_intros]:
  "kept f g \<Longrightarrow> i < length (fb_attempts f) \<Longrightarrow> next \<noteq> AS_Applied \<Longrightarrow>
     kept f (close_attempt en i next now reason detail st g)"
  unfolding close_attempt_def by (intro kept_intros)

lemma kept_neutral [kept_intros]:
  "kept f g \<Longrightarrow> kept f (g\<lparr>fb_attempt_ids := v1\<rparr>)"
  "kept f g \<Longrightarrow> kept f (g\<lparr>fb_bindings := v2\<rparr>)"
  "kept f g \<Longrightarrow> kept f (g\<lparr>fb_policies := v3\<rparr>)"
  "kept f g \<Longrightarrow> kept f (g\<lparr>fb_backends := v4\<rparr>)"
  "kept f g \<Longrightarrow> kept f (g\<lparr>fb_epoch := v5\<rparr>)"
  "kept f g \<Longrightarrow> kept f (g\<lparr>fb_pending := v6\<rparr>)"
  "kept f g \<Longrightarrow> kept f (g\<lparr>fb_running := v7\<rparr>)"
  "kept f g \<Longrightarrow> kept f (g\<lparr>fb_initialized := v8\<rparr>)"
  "kept f g \<Longrightarrow> kept f (g\<lparr>fb_durable := v9\<rparr>)"
  "kept f g \<Longrightarrow> kept f (emit e g)"
  "kept f g \<Longrightarrow> kept f (op_enter g)"
  "kept f g \<Longrightarrow> kept f (op_leave g)"
  "kept f g \<Longrightarrow> kept f (sample_clock now g)"
  by (erule kept_trans, rule kept_same; simp)+

lemma kept_envelopes [kept_intros]:
  assumes "kept f g" "length es = length (fb_envelopes g)"
    "\<And>i. i < length es \<Longrightarrow> ee_envelope (es ! i) = ee_envelope (fb_envelopes g ! i)"
  shows "kept f (g\<lparr>fb_envelopes := es\<rparr>)"
proof -
  have m: "map ee_envelope es = map ee_envelope (fb_envelopes g)"
    using assms(2,3) by (simp add: list_eq_iff_nth_eq)
  have "ee_envelope ` set es = ee_envelope ` set (fb_envelopes g)"
    using arg_cong [OF m, of set] by simp
  then have "pairs (g\<lparr>fb_envelopes := es\<rparr>) = pairs g"
    unfolding pairs_def by (simp add: image_image [symmetric, where g = ee_envelope and f = "\<lambda>e. (gr_id (e_ref e), e_cadence e)"])
  then have "kept g (g\<lparr>fb_envelopes := es\<rparr>)"
    using assms(2,3) by (auto simp: kept_def statics_def keyed_def all_justified_def)
  then show ?thesis by (rule kept_trans [OF assms(1)])
qed

lemma kept_set_revoked [kept_intros]: "kept f g \<Longrightarrow> kept f (set_revoked i b reason g)"
  unfolding set_revoked_def
proof (rule kept_envelopes)
  fix j assume "j < length ((fb_envelopes g)[i := (fb_envelopes g ! i)\<lparr>ee_revoked := b, ee_reason := reason\<rparr>])"
  then show "ee_envelope ((fb_envelopes g)[i := (fb_envelopes g ! i)\<lparr>ee_revoked := b, ee_reason := reason\<rparr>] ! j) =
      ee_envelope (fb_envelopes g ! j)" by (cases "j = i") simp_all
qed simp_all

lemma index_by_keyed: "index_by key xs k = Some i \<Longrightarrow> i < length xs \<and> key (xs ! i) = k"
proof -
  have "fold (\<lambda>i m. m(key (xs ! i) \<mapsto> i)) [0..<n] Map.empty k = Some i \<Longrightarrow> i < n \<and> key (xs ! i) = k" for n
    by (induction n) (auto split: if_splits simp: less_Suc_eq)
  then show "index_by key xs k = Some i \<Longrightarrow> i < length xs \<and> key (xs ! i) = k" by (simp add: index_by_def)
qed

lemma kept_evict_and_compact:
  assumes "consistent_ledger f"
  shows "kept f (evict_and_compact f)"
proof -
  have c: "kept g (compact_envelopes g)" for g
    by (auto simp: kept_def compact_envelopes_def Let_def statics_def pairs_def keyed_def all_justified_def dest!: index_by_keyed)
  have a: "kept g (compact_attempts g)" if "consistent_ledger g" for g
  proof -
    have "filter at_live (fb_attempts g) = fb_attempts g"
      using that by (simp add: consistent_ledger_def ledger_ok_def filter_id_conv)
    then show ?thesis by (simp add: kept_def compact_attempts_def Let_def statics_def pairs_def keyed_def all_justified_def)
  qed
  have e: "kept g (evict_at i g)" for i g
  proof -
    have "kept g (g\<lparr>fb_envelopes := (fb_envelopes g)[i := (fb_envelopes g ! i)\<lparr>ee_live := False,
                   ee_reason := ''evicted: envelope table at capacity''\<rparr>]\<rparr>)" (is "kept g ?h")
    proof (rule kept_envelopes [OF kept_refl])
      fix j assume "j < length ((fb_envelopes g)[i := (fb_envelopes g ! i)\<lparr>ee_live := False,
                   ee_reason := ''evicted: envelope table at capacity''\<rparr>])"
      then show "ee_envelope ((fb_envelopes g)[i := (fb_envelopes g ! i)\<lparr>ee_live := False,
                   ee_reason := ''evicted: envelope table at capacity''\<rparr>] ! j) = ee_envelope (fb_envelopes g ! j)"
        by (cases "j = i") simp_all
    qed simp
    moreover have "kept ?h (evict_at i g)"
      by (auto simp: kept_def evict_at_def Let_def statics_def pairs_def keyed_def all_justified_def split: if_splits)
    ultimately show ?thesis by (rule kept_trans)
  qed
  have o: "kept g (evict_one g)" for g
    by (auto simp: evict_one_def Let_def e kept_refl split: option.split intro: kept_same)
  have "consistent_ledger (compact_envelopes f)"
    using assms by (simp add: compact_envelopes_def Let_def)
  then have p: "consistent_ledger (if p then compact_envelopes f else f)" "kept f (if p then compact_envelopes f else f)" for p
    using assms c kept_refl by simp_all
  have q: "kept g (if q then compact_attempts g else g)" if "consistent_ledger g" for q g
    using a [OF that] kept_refl by simp
  show ?thesis
    unfolding evict_and_compact_def Let_def by (rule kept_trans [OF kept_trans [OF p(2) q [OF p(1)]] o])
qed

lemma justified_updates [simp]:
  "effect_justified (r\<lparr>r_backend_seq := v1\<rparr>) = effect_justified r"
  "effect_justified (r\<lparr>r_evidence_kind := v2\<rparr>) = effect_justified r"
  "effect_justified (r\<lparr>r_requires_revalidation := v3\<rparr>) = effect_justified r"
  by (simp_all add: effect_justified_def)

section \<open>The lock sections that add nothing\<close>

lemma kept_fold:
  assumes "\<And>x g. P g \<Longrightarrow> x \<in> set xs \<Longrightarrow> P (step x g)" "P f"
  shows "P (fold step xs f)"
  using assms by (induction xs arbitrary: f) simp_all

lemma kept_cancel_attempt: "kept f (snd (cancel_attempt en a reason now f))"
  by (auto simp: cancel_attempt_def Let_def split: option.split dest: find_attempt_length intro!: kept_intros)

lemma kept_apply_complete: "kept f (snd (apply_complete en x rq s ack f))"
  by (auto simp: apply_complete_def Let_def split: option.split dest: find_attempt_length intro!: kept_intros)

lemma kept_apply_unverified: "kept f (snd (apply_unverified en x rq res f))"
  by (auto simp: apply_unverified_def Let_def split_beta split: option.split dest: find_attempt_length intro!: kept_intros)


lemma kept_finalize:
  assumes "kept f g" "i < length (fb_attempts f)" "ok \<Longrightarrow> ev_integrity_ok ev"
    "e_cadence e = r_desired (record_at g i)"
  shows "kept f (finalize_evidence i e ev ok code now g)"
proof -
  let ?r = "record_at g i"
  have i: "i < length (fb_attempts g)" using kept_length [OF assms(1)] assms(2) by simp
  text \<open>Evidence and verdict together: between the two the record is not consistent.\<close>
  have both: "kept f (apply_transition i nx now reason d (set_record i (record_evidence ev ?r) g))"
    if "effect_justified (transition_record nx now reason d (record_evidence ev ?r))" for nx reason d
  proof -
    have "kept f (set_record i (transition_record nx now reason d (record_evidence ev ?r)) g)"
      using assms that by (intro kept_set_record) (simp_all add: record_evidence_def)
    then show ?thesis
      by (rule kept_trans) (rule kept_same; simp add: apply_transition_def set_record_def i)
  qed
  have applied: "effect_justified (transition_record AS_Applied now reason d (record_evidence ev ?r))"
    if ok "evidence_matches ev ?r (e_cadence e)" for reason d
    using that assms(3,4) by (simp add: effect_justified_def transition_record_def Let_def record_evidence_def evidence_matches_def)
  show ?thesis
    using both applied by (simp add: finalize_evidence_def Let_def kept_bump justified_transition)
qed

lemma kept_apply_commit:
  assumes "\<And>i. find_attempt (rq_attempt rq) f = Some i \<Longrightarrow> e_cadence (ax_envelope x) = r_desired (record_at f i)"
  shows "kept f (snd (apply_commit en x rq s ev res f))"
  using assms
  by (auto simp: apply_commit_def Let_def split_beta readback_good_def split: option.split dest: find_attempt_length
      intro!: kept_intros kept_finalize)

lemma kept_stale_section:
  assumes "\<And>r. mark r = r \<or> mark r = r\<lparr>r_requires_revalidation := True\<rparr>"
  shows "kept f (stale_section en v drift mark f)"
proof -
  have "r_attempt (mark r) = r_attempt r \<and> r_envelope (mark r) = r_envelope r \<and> r_desired (mark r) = r_desired r \<and>
      effect_justified (mark r) = effect_justified r" for r
    using assms [of r] by (elim disjE) simp_all
  then show ?thesis
    by (auto simp: stale_section_def Let_def split: option.split dest: find_attempt_length intro!: kept_intros)
qed

lemma kept_verify_resume: "kept f (snd (snd (verify_resume en v res f)))"
  by (auto simp: verify_resume_def Let_def split: sum.split intro!: kept_intros kept_stale_section)

lemma kept_revalidate_resume: "kept f (snd (snd (revalidate_resume en v res f)))"
  by (auto simp: revalidate_resume_def Let_def split: sum.split option.split intro!: kept_intros kept_stale_section)

lemma kept_verify_commit:
  assumes "\<And>i. find_attempt (vx_attempt v) f = Some i \<Longrightarrow> e_cadence (vx_envelope v) = r_desired (record_at f i)"
  shows "kept f (snd (verify_commit en v s ev f))"
  using assms
  by (auto simp: verify_commit_def Let_def readback_good_def split: option.split dest: find_attempt_length
      intro!: kept_intros kept_finalize)

lemma kept_revalidate_commit:
  assumes "\<And>i. find_attempt (vx_attempt v) f = Some i \<Longrightarrow> e_cadence (vx_envelope v) = r_desired (record_at f i)"
  shows "kept f (snd (revalidate_commit en v s ev f))"
  using assms
  by (auto simp: revalidate_commit_def Let_def readback_good_def split: option.split dest: find_attempt_length
      intro!: kept_intros kept_finalize)

lemma kept_revoke_one: "kept f (snd g) \<Longrightarrow> kept f (snd (revoke_one en c reason now a g))"
proof (cases g)
  case (Pair ws h)
  assume "kept f (snd g)"
  then show ?thesis
    by (auto simp: Pair revoke_one_def Let_def kept_length [of f h] split: option.split dest: find_attempt_length intro!: kept_close_attempt)
qed

lemma kept_mark_revoked: "kept f (snd (mark_revoked en i ref reason now f))"
  by (auto simp: mark_revoked_def Let_def split: sum.split prod.split dest!: journal_record_fst
      intro!: kept_intros intro: kept_journalled)

lemma kept_revoke_envelope: "kept f (snd (revoke_envelope en ref reason now f))"
proof -
  have fold: "kept f (snd (fold (revoke_one en c reason now) as g))" if "kept f (snd g)" for c as g
    by (rule ledger_fold [of "\<lambda>g. kept f (snd g)", OF kept_revoke_one that])
  obtain s f1 i where m: "mark_revoked en i ref reason now f = (s, f1)" "find_envelope (gr_id ref) f = Some i \<or> find_envelope (gr_id ref) f = None"
    by (metis option.exhaust prod.exhaust)
  have "kept f f1" using kept_mark_revoked [of f en i ref reason now] m(1) by simp
  with m fold [of "([], f1)"] show ?thesis
    by (auto simp: revoke_envelope_def Let_def split_beta intro: kept_intros intro!: kept_bump [OF kept_refl])
qed

lemma kept_fence_below: "kept f (snd (fence_below en ep now f))"
proof -
  let ?g = "f\<lparr>fb_envelopes := map (fence_entry ep ''fenced by coordinator epoch'') (fb_envelopes f)\<rparr>"
  have one: "kept f (snd (snd (fence_one en ep now i g)))" if "kept f (snd (snd g))" "i < length (fb_attempts f)" for g i
    using that by (cases g) (auto simp: fence_one_def Let_def intro!: kept_intros)
  have g: "kept f ?g" by (auto simp: fence_entry_def intro!: kept_envelopes kept_refl)
  have "kept f (snd (snd (fold (fence_one en ep now) [0..<length (fb_attempts f)] (ws, k, ?g))))" for ws k
    by (rule kept_fold [of "\<lambda>g. kept f (snd (snd g))"]) (simp_all add: one g)
  then show ?thesis by (auto simp: fence_below_def Let_def split_beta intro: kept_intros)
qed

lemma kept_advance_epoch: "kept f (snd (advance_epoch en now f))"
proof -
  have one: "kept f (epoch_fence_one en now i g)" if "kept f g" "i < length (fb_attempts f)" for g i
    using that by (auto simp: epoch_fence_one_def intro!: kept_close_attempt)
  have fold: "kept f (fold (epoch_fence_one en now) [0..<length (fb_attempts f)] g)" if "kept f g" for g
    by (rule kept_fold [of "kept f"]) (simp_all add: one that)
  have g: "kept f (f\<lparr>fb_epoch := ep, fb_envelopes := map (fence_entry ep' reason) (fb_envelopes f)\<rparr>)" for ep ep' reason
    using kept_envelopes [of f "f\<lparr>fb_epoch := ep\<rparr>" "map (fence_entry ep' reason) (fb_envelopes f)"]
    by (simp add: kept_intros fence_entry_def)
  have "kept f (snd (advance_epoch_locked en now f))"
    by (auto simp: advance_epoch_locked_def Let_def split: prod.split sum.split
        intro!: kept_refl fold kept_bump g intro: kept_journalled [OF _ journal_record_frame])
  then show ?thesis by (simp add: advance_epoch_def Let_def split_beta kept_refl)
qed


section \<open>The two that add an entry\<close>

lemma evict_ids [simp]: "fb_envelope_ids (evict_and_compact f) = fb_envelope_ids f"
proof -
  have "fb_envelope_ids (evict_one g) = fb_envelope_ids g" "fb_envelope_ids (compact_envelopes g) = fb_envelope_ids g"
    "fb_envelope_ids (compact_attempts g) = fb_envelope_ids g" for g
    by (simp_all add: evict_one_def evict_at_def compact_envelopes_def compact_attempts_def Let_def split: option.split)
  then show ?thesis by (simp add: evict_and_compact_def Let_def)
qed

lemma derive_internal_grows:
  assumes "fb_envelope_ids f \<noteq> kU64Max" "consistent_ledger f" "derive_envelope_internal en inp now f = (res, g)"
  shows "case res of
      Inl s \<Rightarrow> kept f g
    | Inr e \<Rightarrow> \<exists>h. kept f h \<and> g = bump ST_envelopes_derived (insert_envelope e h) \<and>
               id_value (gr_id (e_ref e)) = fb_envelope_ids f + 1 \<and> fb_envelope_ids h = fb_envelope_ids f + 1"
proof (cases "\<exists>out expiry. derive_cadence (derivation_of inp) (fb_limits f) = Inr out \<and>
    envelope_expiry (fb_config f) (ai_grant inp) now = Inr expiry")
  case False
  then show ?thesis
    using assms(3)
    by (auto simp: derive_envelope_internal_def split: sum.splits intro!: kept_bump kept_refl)
next
  case True
  then obtain out expiry where o: "derive_cadence (derivation_of inp) (fb_limits f) = Inr out"
    "envelope_expiry (fb_config f) (ai_grant inp) now = Inr expiry" by blast
  define f1 where "f1 = f\<lparr>fb_envelope_ids := minter_next (fb_envelope_ids f), fb_provenance_ids := minter_next (fb_provenance_ids f)\<rparr>"
  define e where "e = build_envelope en inp out expiry now f"
  have "fb_envelope_ids f \<le> fb_envelope_ids f + 1"
    using assms(1) unat_inc_u64 [of "fb_envelope_ids f"] by (simp add: kU64Max_def word_le_nat_alt)
  then have f1: "kept f f1"
    by (simp add: f1_def kept_def minter_next_def statics_def pairs_def keyed_def all_justified_def)
  have eid: "id_value (gr_id (e_ref e)) = fb_envelope_ids f + 1" "fb_envelope_ids f1 = fb_envelope_ids f + 1"
    by (simp_all add: e_def f1_def build_envelope_def Let_def minter_next_def)
  have D: "derive_envelope_internal en inp now f =
      (case encode_envelope_payload e of
         Inl s \<Rightarrow> (Inl s, f1)
       | Inr payload \<Rightarrow>
           (let (s, f2) = journal_record en DR_Envelope payload (inst_ns now) f1 in
            if \<not> st_ok s then (Inl s, f2)
            else
              (let f3 = evict_and_compact f2 in
               if length (fb_envelopes f3) \<ge> unat (l_max_envelopes (fb_limits f3)) then
                 (Inl (Status EC_ResourceExhausted ''envelope table is at capacity and nothing is evictable''), f3)
               else (Inr e, bump ST_envelopes_derived (insert_envelope e f3)))))"
    by (simp only: derive_envelope_internal_def o sum.case Let_def e_def [symmetric] f1_def [symmetric])
  show ?thesis
  proof (cases "encode_envelope_payload e")
    case (Inl s)
    then show ?thesis using D assms(3) f1 by auto
  next
    case (Inr payload)
    obtain s f2 where j: "journal_record en DR_Envelope payload (inst_ns now) f1 = (s, f2)" by (metis prod.exhaust)
    have f2: "kept f f2" "consistent_ledger f2" "fb_envelope_ids f2 = fb_envelope_ids f + 1"
      using kept_journalled [OF f1 journal_record_fst [OF j]] ledger_journalled [OF journal_record_fst [OF j]]
        journal_frameD [OF journal_record_fst [OF j]] assms(2) eid(2)
      by (simp_all add: f1_def)
    have f3: "kept f (evict_and_compact f2)" by (rule kept_trans [OF f2(1) kept_evict_and_compact [OF f2(2)]])
    show ?thesis
      using D assms(3) f2 f3 eid(1) by (auto simp: Inr j Let_def split: if_splits)
  qed
qed

lemma apply_admit_grows:
  assumes "consistent_ledger f" "apply_admit en x f = (j, g)"
  shows "(kept f g \<and> (\<exists>cs oc. j = J_leave cs oc)) \<or>
    (\<exists>h r ev. kept f h \<and> g = bump ST_applies_reserved ((insert_attempt r h)\<lparr>fb_pending := fb_pending h + 1\<rparr>) \<and>
       find_attempt (r_attempt r) h = None \<and>
       r_envelope r = ax_ref x \<and> r_desired r = e_cadence (ax_envelope x) \<and> effect_justified r \<and>
       j = J_emit [] ev (J_apply x (r_attempt r)))"
proof -
  define f1 where "f1 = evict_and_compact f"
  have e: "kept f f1" unfolding f1_def by (rule kept_evict_and_compact [OF assms(1)])
  define minted where "minted = (\<not> id_valid (ax_requested x))"
  define a where "a = (if minted then Id (minter_next (fb_attempt_ids f1)) else ax_requested x)"
  define f2 where "f2 = (if minted then f1\<lparr>fb_attempt_ids := minter_next (fb_attempt_ids f1)\<rparr> else f1)"
  define f3 where "f3 = f2\<lparr>fb_attempt_ids := minter_set_floor (id_value a) (fb_attempt_ids f2)\<rparr>"
  define r where "r = reserved_record x a (en_describe en (ax_handle x)) f3"
  have k: "kept f f2" "kept f f3" using e by (auto simp: f2_def f3_def intro: kept_intros)
  have r: "r_attempt r = a" "r_envelope r = ax_ref x" "r_desired r = e_cadence (ax_envelope x)"
    "effect_justified (r\<lparr>r_state := AS_Submitted\<rparr>)"
    by (simp_all add: r_def reserved_record_def effect_justified_def)
  have D: "apply_admit en x f =
      (if length (fb_attempts f1) \<ge> unat (l_max_attempts (fb_limits f1)) then
         (leave_with EC_ResourceExhausted ''attempt ledger is at capacity'', bump ST_applies_refused f1)
       else if find_attempt a f2 \<noteq> None then (leave_with EC_AlreadyExists ''attempt id already exists'', f2)
       else case encode_attempt_payload r of
              Inl s \<Rightarrow> (J_leave [] (OC_status s), f3)
            | Inr payload \<Rightarrow>
                (let (s, f4) = journal_record en DR_Attempt payload (inst_ns (ax_now x)) f3 in
                 if \<not> st_ok s then (J_leave [] (OC_status s), bump ST_applies_refused f4)
                 else
                   (J_emit [] (no_event\<lparr>ev_event := EV_ApplyReserved, ev_at := ax_now x,
                        ev_flow := e_flow (ax_envelope x), ev_envelope := ax_ref x,
                        ev_of_attempt := a, ev_state := AS_Submitted,
                        ev_authority_digest := av_digest (e_authority (ax_envelope x))\<rparr>)
                      (J_apply x a),
                    bump ST_applies_reserved
                      ((insert_attempt (r\<lparr>r_state := AS_Submitted\<rparr>) f4)
                         \<lparr>fb_pending := fb_pending f4 + 1\<rparr>))))"
    by (simp only: apply_admit_def Let_def f1_def [symmetric] minted_def [symmetric] a_def [symmetric] f2_def [symmetric]
        f3_def [symmetric] r_def [symmetric])
  show ?thesis
  proof (cases "length (fb_attempts f1) \<ge> unat (l_max_attempts (fb_limits f1)) \<or> find_attempt a f2 \<noteq> None")
    case True
    then show ?thesis using D assms(2) e k by (auto intro: kept_bump split: if_splits)
  next
    case False
    then have none: "find_attempt a f3 = None" by (simp add: f3_def)
    show ?thesis
    proof (cases "encode_attempt_payload r")
      case (Inl s)
      then show ?thesis using D assms(2) k False by auto
    next
      case (Inr payload)
      obtain s f4 where j: "journal_record en DR_Attempt payload (inst_ns (ax_now x)) f3 = (s, f4)" by (metis prod.exhaust)
      note jf = journal_record_fst [OF j]
      have f4: "kept f f4" "find_attempt a f4 = None"
        using kept_journalled [OF k(2) jf] find_attempt_journalled [OF jf, of a] none by simp_all
      show ?thesis
      proof (cases "st_ok s")
        case True
        then show ?thesis
          using D assms(2) False f4 r by (auto simp: Inr j intro!: exI [of _ f4] exI [of _ "r\<lparr>r_state := AS_Submitted\<rparr>"])
      next
        case False
        then show ?thesis
          using D assms(2) \<open>\<not> (_ \<or> _)\<close> f4 by (auto simp: Inr j intro: kept_bump)
      qed
    qed
  qed
qed


section \<open>The tables and the operations in flight agree\<close>

text \<open>\<open>M\<close> gives the cadence of every envelope there has been.\<close>

definition tables :: "(envelope_id \<Rightarrow> cadence option) \<Rightarrow> fabric \<Rightarrow> bool" where
  "tables M f =
     (consistent_ledger f \<and> keyed f \<and> all_justified f \<and>
      (\<forall>(k, c) \<in> pairs f. M k = Some c) \<and>
      (\<forall>(a, k, c) \<in> set (statics f). M k = Some c) \<and>
      (\<forall>k c. M k = Some c \<longrightarrow> id_value k \<le> fb_envelope_ids f))"

definition reserved_as :: "attempt_id \<Rightarrow> cadence \<Rightarrow> (attempt_id \<times> envelope_id \<times> cadence) set \<Rightarrow> bool" where
  "reserved_as a c S = (\<exists>k. (a, k, c) \<in> S)"

fun cont_linked :: "(envelope_id \<Rightarrow> cadence option) \<Rightarrow> (attempt_id \<times> envelope_id \<times> cadence) set \<Rightarrow> cont \<Rightarrow> bool" where
  "cont_linked M S (K_derive flow now) = True"
| "cont_linked M S (K_apply x) = (M (gr_id (ax_ref x)) = Some (e_cadence (ax_envelope x)))"
| "cont_linked M S (K_unverified x rq) = reserved_as (rq_attempt rq) (e_cadence (ax_envelope x)) S"
| "cont_linked M S (K_commit x rq s ev) = reserved_as (rq_attempt rq) (e_cadence (ax_envelope x)) S"
| "cont_linked M S (K_verify v) = reserved_as (vx_attempt v) (e_cadence (vx_envelope v)) S"
| "cont_linked M S (K_revalidate v) = reserved_as (vx_attempt v) (e_cadence (vx_envelope v)) S"

fun job_linked :: "(envelope_id \<Rightarrow> cadence option) \<Rightarrow> (attempt_id \<times> envelope_id \<times> cadence) set \<Rightarrow> job \<Rightarrow> bool" where
  "job_linked M S (J_fetch k pc) = cont_linked M S k"
| "job_linked M S (J_resume k r) = cont_linked M S k"
| "job_linked M S (J_apply x a) = reserved_as a (e_cadence (ax_envelope x)) S"
| "job_linked M S (J_complete x rq s ack) = reserved_as (rq_attempt rq) (e_cadence (ax_envelope x)) S"
| "job_linked M S (J_readback x rq) = reserved_as (rq_attempt rq) (e_cadence (ax_envelope x)) S"
| "job_linked M S (J_verify_commit v s ev) = reserved_as (vx_attempt v) (e_cadence (vx_envelope v)) S"
| "job_linked M S (J_revalidate_commit v s ev) = reserved_as (vx_attempt v) (e_cadence (vx_envelope v)) S"
| "job_linked M S (J_emit cs ev j) = job_linked M S j"
| "job_linked M S _ = True"

lemma reserved_mono: "S \<subseteq> T \<Longrightarrow> reserved_as a c S \<Longrightarrow> reserved_as a c T"
  by (auto simp: reserved_as_def)

lemma job_linked_mono: "job_linked M S j \<Longrightarrow> M \<subseteq>\<^sub>m N \<Longrightarrow> S \<subseteq> T \<Longrightarrow> job_linked N T j"
proof -
  have k: "cont_linked N T k" if "cont_linked M S k" "M \<subseteq>\<^sub>m N" "S \<subseteq> T" for k
    using that by (cases k) (auto simp: map_le_def dom_def intro: reserved_mono)
  show "job_linked M S j \<Longrightarrow> M \<subseteq>\<^sub>m N \<Longrightarrow> S \<subseteq> T \<Longrightarrow> job_linked N T j"
    by (induction j) (auto intro: k reserved_mono)
qed

text \<open>What the context of an operation knows about the attempt it carries.\<close>

lemma reserved_desired:
  assumes "consistent_ledger f" "reserved_as a c (set (statics f))" "find_attempt a f = Some i"
  shows "r_desired (record_at f i) = c"
proof -
  from assms(2) obtain j where j: "j < length (fb_attempts f)" "r_attempt (record_at f j) = a" "r_desired (record_at f j) = c"
    by (auto simp: reserved_as_def statics_def in_set_conv_nth)
  then have "find_attempt a f = Some j" using ledger_find [OF assms(1)] by simp
  then show ?thesis using assms(3) j(3) by simp
qed

lemma find_reserved: "find_attempt a f = Some i \<Longrightarrow> consistent_ledger f \<Longrightarrow>
    (a, gr_id (r_envelope (record_at f i)), r_desired (record_at f i)) \<in> set (statics f)"
  using ledger_find [of f a i] by (force simp: statics_def)

lemma tables_envelope:
  assumes "tables M f" "find_envelope k f = Some i"
  shows "M k = Some (e_cadence (ee_envelope (fb_envelopes f ! i)))"
proof -
  have i: "i < length (fb_envelopes f)" "fb_envelope_index f (id_value k) = Some i"
    using assms(2) by (auto simp: find_envelope_def split: option.splits if_splits)
  then have "gr_id (e_ref (ee_envelope (fb_envelopes f ! i))) = k"
    using assms(1) by (cases k) (auto simp: tables_def keyed_def intro: ident.expand)
  moreover have "(gr_id (e_ref (ee_envelope (fb_envelopes f ! i))), e_cadence (ee_envelope (fb_envelopes f ! i))) \<in> pairs f"
    using i(1) by (auto simp: pairs_def)
  ultimately show ?thesis using assms(1) by (auto simp: tables_def)
qed

lemma kept_tables: "kept f g \<Longrightarrow> consistent_ledger g \<Longrightarrow> tables M f \<Longrightarrow> tables M g"
  unfolding kept_def tables_def by (auto intro: order_trans)

lemma verify_start_linked:
  assumes "tables M f"
  shows "job_linked M (set (statics f)) (verify_start a now f)"
    "job_linked M (set (statics f)) (revalidate_start a now f)"
proof -
  have led: "consistent_ledger f" using assms by (simp add: tables_def)
  have "reserved_as a (e_cadence (ee_envelope (fb_envelopes f ! k))) (set (statics f))"
    if "find_attempt a f = Some i" "find_envelope (gr_id (r_envelope (record_at f i))) f = Some k" for i k
  proof -
    note m = find_reserved [OF that(1) led]
    then have "M (gr_id (r_envelope (record_at f i))) = Some (r_desired (record_at f i))"
      using assms by (auto simp: tables_def)
    then show ?thesis using m tables_envelope [OF assms that(2)] by (auto simp: reserved_as_def)
  qed
  then show "job_linked M (set (statics f)) (verify_start a now f)"
    "job_linked M (set (statics f)) (revalidate_start a now f)"
    by (auto simp: verify_start_def revalidate_start_def Let_def split: option.split app_state.split)
qed


section \<open>One step\<close>

lemma plain_jobs [simp]:
  "job_linked M S (fst (with_status st))"
  "job_linked M S (fst (with_event e))"
  "job_linked M S (fst (cancel_attempt en a reason now f))"
  "job_linked M S (fst (revoke_envelope en ref reason now f))"
  "job_linked M S (fst (fence_below en ep now f))"
  "job_linked M S (fst (advance_epoch en now f))"
  "job_linked M S (fst (shutdown_stop f))"
  "job_linked M S (fst (derive_resume en flow now r f))"
  "job_linked M S (fst (apply_unverified en x rq res f))"
  "job_linked M S (fst (apply_commit en x rq s ev res f))"
  "job_linked M S (fst (verify_commit en v s ev f))"
  "job_linked M S (fst (revalidate_commit en v s ev f))"
  "job_linked M S (revalidate_result a f)"
  "job_linked M S (apply_refused x a f)"
  "job_linked M S (closed_early x rq c d)"
  by (auto simp: with_status_def with_event_def cancel_attempt_def revoke_envelope_def fence_below_def advance_epoch_def
      shutdown_stop_def derive_resume_def apply_unverified_def apply_commit_def verify_commit_def revalidate_commit_def
      revalidate_result_def apply_refused_def closed_early_def Let_def split_beta
      split: option.split sum.split prod.split)

lemma call_step_linked [simp]: "job_linked M S (fst (call_step en rq f))"
  by (cases rq) (simp_all add: call_step_def Let_def)

lemma resume_linked:
  "cont_linked M S (K_verify v) \<Longrightarrow> job_linked M S (fst (snd (verify_resume en v res f)))"
  "cont_linked M S (K_revalidate v) \<Longrightarrow> job_linked M S (fst (snd (revalidate_resume en v res f)))"
  by (auto simp: verify_resume_def revalidate_resume_def Let_def split: sum.split option.split)

lemma apply_complete_linked:
  "reserved_as (rq_attempt rq) (e_cadence (ax_envelope x)) S \<Longrightarrow> job_linked M S (fst (apply_complete en x rq s ack f))"
  by (auto simp: apply_complete_def Let_def split: option.split)

lemma readback_linked:
  "reserved_as (rq_attempt rq) (e_cadence (ax_envelope x)) S \<Longrightarrow> job_linked M S (snd (readback_step en x rq))"
  by (simp add: readback_step_def Let_def)

lemma fetch_step_linked: "cont_linked M S k \<Longrightarrow> job_linked M S (fst (fetch_step en k pc f))"
  by (cases pc) (auto split: sum.split prod.split)

lemma work_step_linked:
  assumes "tables M f"
  shows "job_linked M (set (statics f)) (fst (work_step en rq now f))"
proof (cases rq)
  case (RQ_apply_envelope ref b requested)
  then show ?thesis
    using tables_envelope [OF assms, of "gr_id ref"] by (auto simp: apply_resolve_def Let_def split: option.split)
next
  case (RQ_publish_policy p)
  then show ?thesis by (auto split: prod.split sum.split)
qed (simp_all add: verify_start_linked [OF assms])

lemma kept_registries:
  "kept f (snd (bind_flow en b now f))" "kept f (snd (unbind_flow en flow now f))"
  "kept f (snd (unregister_backend k f))" "kept f (snd (remove_policy en pid now f))"
  "kept f (snd (register_backend en h now f))" "kept f (snd (publish_policy en p now f))"
  by (auto simp: bind_flow_def unbind_flow_def unregister_backend_def remove_policy_def register_backend_def
      publish_policy_def Let_def split_beta split: sum.split option.split
      intro!: kept_refl kept_neutral intro: kept_journalled [OF _ journal_record_frame])

lemma kept_work_step: "kept f (snd (work_step en rq now f))"
proof (cases rq)
  case (RQ_publish_policy p)
  have "snd (work_step en rq now f) = snd (publish_policy en p now f)"
    by (simp add: RQ_publish_policy split: prod.split sum.split)
  then show ?thesis using kept_registries by simp
qed (auto simp: kept_registries kept_cancel_attempt kept_revoke_envelope kept_fence_below kept_advance_epoch kept_refl
    shutdown_stop_def apply_resolve_def Let_def split: option.split intro: kept_intros)

lemma kept_call_step: "kept f (snd (call_step en rq f))"
  by (cases rq) (auto simp: call_step_def Let_def intro: kept_intros)

lemma kept_fetch_step: "kept f (snd (fetch_step en k pc f))"
proof (cases pc)
  case (FP_call flow b p)
  have "snd (fetch_step en k pc f) = snd (fetch_call en f)" by (simp add: FP_call split: prod.split sum.split)
  then show ?thesis by (auto simp: fetch_call_def Let_def split: sum.split intro: kept_intros)
qed (simp_all add: kept_refl)

definition advances :: "(envelope_id \<Rightarrow> cadence option) \<Rightarrow> fabric \<Rightarrow> job \<Rightarrow> fabric \<Rightarrow> bool" where
  "advances M f j g =
     (\<exists>N. M \<subseteq>\<^sub>m N \<and> set (statics f) \<subseteq> set (statics g) \<and> tables N g \<and> job_linked N (set (statics g)) j)"

lemma advances_kept:
  "tables M f \<Longrightarrow> kept f g \<Longrightarrow> consistent_ledger g \<Longrightarrow> job_linked M (set (statics f)) j \<Longrightarrow> advances M f j g"
  using kept_tables [of f g M] by (auto simp: advances_def kept_def intro!: exI [of _ M])

lemma advances_derive:
  assumes t: "tables M f" and ids: "fb_envelope_ids f \<noteq> kU64Max"
  shows "advances M f (fst (derive_resume en flow now r f)) (snd (derive_resume en flow now r f))"
proof (cases "\<exists>inp e g. r = Inr inp \<and> fb_running f \<and> derive_envelope_internal en inp now f = (Inr e, g)")
  case False
  have led: "consistent_ledger f" using t by (simp add: tables_def)
  have "kept f (snd (derive_resume en flow now r f))"
  proof (cases r)
    case (Inl s)
    then show ?thesis by (auto simp: derive_resume_def Let_def intro: kept_intros)
  next
    case (Inr inp)
    obtain res g where d: "derive_envelope_internal en inp now f = (res, g)" by (metis prod.exhaust)
    with derive_internal_grows [OF ids led d] False Inr show ?thesis
      by (cases res) (auto simp: derive_resume_def kept_refl)
  qed
  then show ?thesis
    using led by (intro advances_kept [OF t]) (simp_all add: ledger_derive_resume)
next
  case True
  then obtain inp e g where r: "r = Inr inp" "fb_running f" and d: "derive_envelope_internal en inp now f = (Inr e, g)" by blast
  have led: "consistent_ledger f" using t by (simp add: tables_def)
  from derive_internal_grows [OF ids led d] obtain h where h: "kept f h"
    "g = bump ST_envelopes_derived (insert_envelope e h)"
    "id_value (gr_id (e_ref e)) = fb_envelope_ids f + 1" "fb_envelope_ids h = fb_envelope_ids f + 1" by auto
  have lt: "fb_envelope_ids f < fb_envelope_ids f + 1"
    using ids unat_inc_u64 [of "fb_envelope_ids f"] by (simp add: kU64Max_def word_less_nat_alt)
  let ?k = "gr_id (e_ref e)"
  have new: "M ?k = None"
    using t h(3) lt by (cases "M ?k") (auto simp: tables_def dest!: spec [of _ ?k])
  have led_g: "consistent_ledger g" using ledger_derive_internal [OF led, of en inp now] d by simp
  have led_h: "consistent_ledger h" using led_g h(2) by simp
  have th: "tables M h" by (rule kept_tables [OF h(1) led_h t])
  have st: "statics g = statics f" using h(1,2) by (simp add: kept_def statics_def insert_envelope_def Let_def)
  have "tables (M(?k \<mapsto> e_cadence e)) g"
    using th new led_g lt h(3,4)
    by (auto simp: h(2) tables_def insert_envelope_def Let_def pairs_def statics_def keyed_def all_justified_def nth_append
        less_SucI split: if_splits)
  moreover have "M \<subseteq>\<^sub>m M(?k \<mapsto> e_cadence e)" using new by (auto simp: map_le_def)
  ultimately have "advances M f j g" if "job_linked (M(?k \<mapsto> e_cadence e)) (set (statics g)) j" for j
    using that st by (auto simp: advances_def)
  moreover have "snd (derive_resume en flow now r f) = g" by (simp add: derive_resume_def r d)
  ultimately show ?thesis by simp
qed


lemma advances_admit:
  assumes t: "tables M f" and p: "fb_pending f \<noteq> -1" and x: "M (gr_id (ax_ref x)) = Some (e_cadence (ax_envelope x))"
  shows "advances M f (fst (apply_admit en x f)) (snd (apply_admit en x f))"
proof -
  have led: "consistent_ledger f" using t by (simp add: tables_def)
  obtain j g where a: "apply_admit en x f = (j, g)" by (metis prod.exhaust)
  have led_g: "consistent_ledger g" using ledger_apply_admit [OF led p, of en x] a by simp
  from apply_admit_grows [OF led a] consider
      (none) "kept f g" "\<exists>cs oc. j = J_leave cs oc"
    | (new) h r ev where "kept f h" "g = bump ST_applies_reserved ((insert_attempt r h)\<lparr>fb_pending := fb_pending h + 1\<rparr>)"
        "r_envelope r = ax_ref x" "r_desired r = e_cadence (ax_envelope x)" "effect_justified r"
        "j = J_emit [] ev (J_apply x (r_attempt r))"
    by blast
  then have "advances M f j g"
  proof cases
    case none
    then show ?thesis using led_g by (auto intro: advances_kept [OF t])
  next
    case new
    have st: "statics g = statics f @ [(r_attempt r, gr_id (ax_ref x), e_cadence (ax_envelope x))]"
      using new by (simp add: kept_def statics_def insert_attempt_def Let_def)
    have "tables M g"
      using t x led_g new(1,5) unfolding new(2)
      by (auto simp: tables_def kept_def statics_def insert_attempt_def Let_def pairs_def keyed_def all_justified_def new(3,4)
          intro: order_trans)
    then show ?thesis using st new(6) by (auto simp: advances_def reserved_as_def intro!: exI [of _ M])
  qed
  then show ?thesis by (simp add: a)
qed

lemma advances_reserve:
  assumes t: "tables M f" and x: "M (gr_id (ax_ref x)) = Some (e_cadence (ax_envelope x))"
  shows "advances M f (fst (apply_reserve en x f)) (snd (apply_reserve en x f))"
proof -
  have led: "consistent_ledger f" using t by (simp add: tables_def)
  have kept: "advances M f (J_leave cs oc) g" if "kept f g" "consistent_ledger g" for cs oc g
    using that by (auto intro: advances_kept [OF t])
  have "fb_pending f \<noteq> -1" if "\<not> fc_max_pending_attempts (fb_config f) \<le> fb_pending f"
    using that by (metis word_order.extremum)
  note admit = advances_admit [OF t this x]
  show ?thesis
    using admit led by (auto simp: apply_reserve_def Let_def split: option.split intro!: kept kept_bump kept_refl)
qed

lemma advances_resume:
  assumes t: "tables M f" and x: "M (gr_id (ax_ref x)) = Some (e_cadence (ax_envelope x))"
  shows "advances M f (fst (apply_resume en x r f)) (snd (apply_resume en x r f))"
proof -
  have led: "consistent_ledger f" using t by (simp add: tables_def)
  have kept: "advances M f j g" if "kept f g" "consistent_ledger g" "job_linked M (set (statics f)) j" for j g
    using that by (auto intro: advances_kept [OF t])
  show ?thesis
    using advances_reserve [OF t x, of en] led
    by (auto simp: apply_resume_def Let_def split: sum.split intro!: kept kept_bump kept_refl)
qed

lemma advances_step:
  assumes t: "tables M f" and j: "job_linked M (set (statics f)) j" and ids: "fb_envelope_ids f \<noteq> kU64Max"
  shows "advances M f (fst (snd (job_step en j f))) (snd (snd (job_step en j f)))"
proof -
  have led: "consistent_ledger f" using t by (simp add: tables_def)
  have kept: "advances M f i g" if "kept f g" "consistent_ledger g" "job_linked M (set (statics f)) i" for i g
    using that by (auto intro: advances_kept [OF t])
  have cad: "c = r_desired (record_at f i)" if "reserved_as a c (set (statics f))" "find_attempt a f = Some i" for a c i
    using reserved_desired [OF led that] by simp
  have stay: "advances M f i f" if "job_linked M (set (statics f)) i" for i
    using kept [OF kept_refl led that] .
  show ?thesis
  proof (cases j)
    case (J_call rq)
    then show ?thesis using led by (auto intro: kept kept_call_step)
  next
    case (J_work rq now)
    then show ?thesis using led t by (auto intro: kept kept_work_step ledger_work_step work_step_linked)
  next
    case (J_fetch k pc)
    then show ?thesis using led j by (auto intro: kept kept_fetch_step fetch_step_linked)
  next
    case (J_resume k r)
    show ?thesis
    proof (cases k)
      case (K_derive flow now)
      then show ?thesis using advances_derive [OF t ids] by (simp add: J_resume)
    next
      case (K_apply x)
      then show ?thesis using advances_resume [OF t] j by (simp add: J_resume)
    next
      case (K_unverified x rq)
      then show ?thesis using led by (auto simp: J_resume intro: kept kept_apply_unverified ledger_apply_unverified)
    next
      case (K_commit x rq s ev)
      then show ?thesis using led j cad
        by (auto simp: J_resume intro!: kept kept_apply_commit ledger_apply_commit)
    next
      case (K_verify v)
      then show ?thesis using led j by (auto simp: J_resume intro!: kept kept_verify_resume ledger_verify_resume resume_linked)
    next
      case (K_revalidate v)
      then show ?thesis using led j by (auto simp: J_resume intro!: kept kept_revalidate_resume ledger_revalidate_resume resume_linked)
    qed
  next
    case (J_apply x a)
    then show ?thesis using j by (auto simp: Let_def apply_request_of_def intro!: stay)
  next
    case (J_complete x rq s ack)
    then show ?thesis using led j by (auto intro!: kept kept_apply_complete ledger_apply_complete apply_complete_linked)
  next
    case (J_readback x rq)
    then show ?thesis using j by (auto intro!: stay readback_linked)
  next
    case (J_verify_commit v s ev)
    then show ?thesis using led j cad by (auto intro!: kept kept_verify_commit ledger_verify_commit)
  next
    case (J_revalidate_commit v s ev)
    then show ?thesis using led j cad by (auto intro!: kept kept_revalidate_commit ledger_revalidate_commit)
  next
    case (J_emit cs e i)
    then show ?thesis using led j by (auto intro!: kept kept_neutral kept_refl)
  next
    case (J_leave cs oc)
    then show ?thesis using led by (auto intro!: kept kept_neutral kept_refl)
  next
    case J_close
    then show ?thesis using led by (auto simp: shutdown_close_def intro!: kept kept_neutral kept_refl)
  next
    case (J_clear d)
    then show ?thesis using led by (auto simp: shutdown_clear_def intro!: kept kept_neutral kept_refl)
  qed (auto intro!: stay)
qed

section \<open>Every reachable state\<close>

lemma linked_reach:
  assumes "reach f0 s" "tables M0 f0"
  shows "\<exists>M. tables M (sy_fabric s) \<and> (\<forall>j \<in> set (sy_jobs s). job_linked M (set (statics (sy_fabric s))) j)"
  using assms
proof (induction rule: reach.induct)
  case start
  then show ?case by auto
next
  case (call s rq)
  then show ?case by auto
next
  case (sink s b)
  then obtain M where M: "tables M (sy_fabric s)" "\<forall>j \<in> set (sy_jobs s). job_linked M (set (statics (sy_fabric s))) j" by blast
  have k: "kept (sy_fabric s) ((sy_fabric s)\<lparr>fb_sink := b\<rparr>)" by (rule kept_same) simp_all
  have "consistent_ledger ((sy_fabric s)\<lparr>fb_sink := b\<rparr>)" using M(1) by (simp add: tables_def)
  from kept_tables [OF k this M(1)] M(2) k show ?case by (auto simp: kept_def)
next
  case (run s i en cs j f)
  then obtain M where M: "tables M (sy_fabric s)" "\<forall>j \<in> set (sy_jobs s). job_linked M (set (statics (sy_fabric s))) j" by blast
  then have "job_linked M (set (statics (sy_fabric s))) (sy_jobs s ! i)" using run.hyps(2) by simp
  from advances_step [OF M(1) this run.hyps(3), of en] run.hyps(4)
  obtain N where N: "M \<subseteq>\<^sub>m N" "set (statics (sy_fabric s)) \<subseteq> set (statics f)" "tables N f" "job_linked N (set (statics f)) j"
    by (auto simp: advances_def)
  have "job_linked N (set (statics f)) j'" if "j' \<in> set ((sy_jobs s)[i := j])" for j'
    using that set_update_subset_insert [of "sy_jobs s" i j] M(2) N job_linked_mono [OF _ N(1,2)] by auto
  then show ?case using N(3) by auto
qed

text \<open>Tables that agree, stated without the map.\<close>

definition tables_agree :: "fabric \<Rightarrow> bool" where
  "tables_agree f =
     (let es = map (\<lambda>e. (gr_id (e_ref (ee_envelope e)), e_cadence (ee_envelope e))) (fb_envelopes f) @
               map (\<lambda>a. (gr_id (r_envelope (at_record a)), r_desired (at_record a))) (fb_attempts f)
      in \<forall>p \<in> set es. id_value (fst p) \<le> fb_envelope_ids f \<and> (\<forall>q \<in> set es. fst p = fst q \<longrightarrow> snd p = snd q))"

lemma tables_agree_map:
  assumes "tables_agree f" "consistent_ledger f" "keyed f" "all_justified f"
  shows "\<exists>M. tables M f"
proof -
  define es where "es = map (\<lambda>e. (gr_id (e_ref (ee_envelope e)), e_cadence (ee_envelope e))) (fb_envelopes f) @
               map (\<lambda>a. (gr_id (r_envelope (at_record a)), r_desired (at_record a))) (fb_attempts f)"
  have agree: "\<forall>p \<in> set es. id_value (fst p) \<le> fb_envelope_ids f \<and> (\<forall>q \<in> set es. fst p = fst q \<longrightarrow> snd p = snd q)"
    using assms(1) by (simp only: tables_agree_def Let_def es_def)
  have some: "map_of es k = Some c" if "(k, c) \<in> set es" for k c
  proof -
    from that obtain c' where c': "map_of es k = Some c'" by (metis weak_map_of_SomeI)
    then have "(k, c') \<in> set es" by (rule map_of_SomeD)
    then show ?thesis using agree that c' by force
  qed
  have "tables (map_of es) f"
    unfolding tables_def
  proof (intro conjI)
    show "\<forall>(k, c) \<in> pairs f. map_of es k = Some c"
      by (auto simp: pairs_def es_def [symmetric] intro!: some) (auto simp: es_def)
    show "\<forall>(a, k, c) \<in> set (statics f). map_of es k = Some c"
      by (auto simp: statics_def intro!: some) (auto simp: es_def)
    show "\<forall>k c. map_of es k = Some c \<longrightarrow> id_value k \<le> fb_envelope_ids f"
      using agree by (force dest: map_of_SomeD)
  qed (use assms in simp_all)
  then show ?thesis by blast
qed

lemma justified_reach:
  assumes "reach f0 s" "tables_agree f0" "consistent_ledger f0" "keyed f0" "all_justified f0"
    "a \<in> set (fb_attempts (sy_fabric s))"
  shows "effect_justified (at_record a)"
proof -
  obtain M0 where "tables M0 f0" using tables_agree_map [OF assms(2-5)] by blast
  then obtain M where "tables M (sy_fabric s)" using linked_reach [OF assms(1)] by blast
  then show ?thesis using assms(6) by (simp add: tables_def all_justified_def)
qed

lemma fenced_off_start: "fenced_off f \<Longrightarrow> consistent_ledger f \<and> keyed f \<and> all_justified f"
  by (auto simp: fenced_off_def keyed_def envelope_indexed_def all_justified_def out_of_force_def effect_justified_def)

end
