(* ===== verification/PF_Progress.thy ===== *)
theory PF_Progress
  imports PF_Effects
begin

text \<open>
  Progress of the coordinator's operations: every operation but a shutdown takes at most sixteen
  steps whatever the world answers, the count of operations in flight is exact in every
  interleaving, and a clock that was seen moving backwards stays distrusted.
\<close>

section \<open>Every operation finishes\<close>

text \<open>An upper bound of the steps an operation still takes when every step is run.\<close>

fun resume_rank :: "cont \<Rightarrow> nat" where
  "resume_rank (K_derive flow now) = 3"
| "resume_rank (K_apply x) = 11"
| "resume_rank (K_unverified x rq) = 3"
| "resume_rank (K_commit x rq s ev) = 3"
| "resume_rank (K_verify v) = 4"
| "resume_rank (K_revalidate v) = 5"

fun fetch_rank :: "fetch_pc \<Rightarrow> nat" where
  "fetch_rank (FP_local flow) = 3"
| "fetch_rank (FP_call flow b p) = 2"
| "fetch_rank (FP_stamp flow b p g) = 1"

fun job_rank :: "job \<Rightarrow> nat" where
  "job_rank (J_call rq) = 16"
| "job_rank (J_work rq now) = 15"
| "job_rank (J_fetch k pc) = resume_rank k + fetch_rank pc"
| "job_rank (J_resume k r) = resume_rank k"
| "job_rank (J_apply x a) = 9"
| "job_rank (J_complete x rq s ack) = 8"
| "job_rank (J_refused x a) = 3"
| "job_rank (J_readback x rq) = 7"
| "job_rank (J_verify_commit v s ev) = 3"
| "job_rank (J_revalidate_commit v s ev) = 4"
| "job_rank (J_revalidate_result a) = 2"
| "job_rank J_drain = 3"
| "job_rank J_close = 2"
| "job_rank (J_clear d) = 1"
| "job_rank (J_emit cs e j) = Suc (job_rank j)"
| "job_rank (J_leave cs oc) = 1"
| "job_rank (J_done oc) = 0"

lemma ranks:
  "job_rank (fst (with_status st)) < 15"
  "job_rank (fst (with_event e)) < 15"
  "job_rank (fst (cancel_attempt en a reason now f)) < 15"
  "job_rank (fst (revoke_envelope en ref reason now f)) < 15"
  "job_rank (fst (fence_below en ep now f)) < 15"
  "job_rank (fst (advance_epoch en now f)) < 15"
  "job_rank (fst (shutdown_stop f)) < 15"
  "job_rank (fst (apply_resolve ref b rq now f)) < 15"
  "job_rank (verify_start a now f) < 15"
  "job_rank (revalidate_start a now f) < 15"
  "job_rank (fst (derive_resume en flow now r f)) < 3"
  "job_rank (fst (apply_unverified en x arq res f)) < 3"
  "job_rank (fst (apply_commit en x arq s ev res f)) < 3"
  "job_rank (fst (verify_commit en v s ev f)) < 3"
  "job_rank (fst (revalidate_commit en v s ev f)) < 4"
  "job_rank (revalidate_result a f) < 2"
  "job_rank (apply_refused x a f) < 3"
  "job_rank (fst (apply_complete en x arq s ack f)) < 8"
  "job_rank (fst (snd (verify_resume en v res f))) < 4"
  "job_rank (fst (snd (revalidate_resume en v res f))) < 5"
  "job_rank (snd (readback_step en x arq)) < 7"
  by (auto simp: with_status_def with_event_def cancel_attempt_def revoke_envelope_def fence_below_def advance_epoch_def
      shutdown_stop_def derive_resume_def apply_unverified_def apply_commit_def verify_commit_def revalidate_commit_def
      revalidate_result_def apply_refused_def closed_early_def apply_resolve_def verify_start_def revalidate_start_def
      apply_complete_def verify_resume_def revalidate_resume_def readback_step_def Let_def split_beta
      split: option.split sum.split prod.split app_state.split)

lemma rank_admit: "job_rank (fst (apply_admit en x f)) < 11"
  by (auto simp: apply_admit_def Let_def split: sum.split prod.split)

lemma rank_apply_resume: "job_rank (fst (apply_resume en x r f)) < 11"
  using rank_admit [of en x f] by (auto simp: apply_resume_def apply_reserve_def Let_def split: sum.split option.split)

lemma rank_call: "job_rank (fst (call_step en rq f)) < 16"
  by (cases rq) (auto simp: call_step_def Let_def)

lemma rank_work: "job_rank (fst (work_step en rq now f)) < 15"
  by (cases rq) (auto simp: ranks split: prod.split sum.split)

lemma rank_fetch: "job_rank (fst (fetch_step en k pc f)) < resume_rank k + fetch_rank pc"
  by (cases pc) (auto split: prod.split sum.split)

lemma rank_step:
  assumes "j = J_drain \<longrightarrow> fb_active f = 0"
  shows "job_rank (fst (snd (job_step en j f))) \<le> job_rank j - 1"
proof (cases j)
  case (J_call rq)
  then show ?thesis using rank_call [of en rq f] by simp
next
  case (J_work rq now)
  then show ?thesis using rank_work [of en rq now f] by simp
next
  case (J_fetch k pc)
  then show ?thesis using rank_fetch [of en k pc f] by simp
next
  case (J_resume k r)
  then show ?thesis using ranks rank_apply_resume by (cases k) (simp_all add: less_Suc_eq_le [symmetric])
next
  case (J_complete x rq s ack)
  then show ?thesis using ranks(18) [of en x rq s ack f] by simp
next
  case (J_refused x a)
  then show ?thesis using ranks(17) [of x a f] by simp
next
  case (J_readback x rq)
  then show ?thesis using ranks(21) [of en x rq] by simp
next
  case (J_verify_commit v s ev)
  then show ?thesis using ranks(14) [of en v s ev f] by simp
next
  case (J_revalidate_commit v s ev)
  then show ?thesis using ranks(15) [of en v s ev f] by simp
next
  case (J_revalidate_result a)
  then show ?thesis using ranks(16) [of a f] by simp
qed (use assms in \<open>simp_all add: Let_def shutdown_close_def shutdown_clear_def\<close>)

lemma resume_rank_pos [simp]: "resume_rank k \<noteq> 0"
  by (cases k) simp_all

lemma rank_zero: "job_rank j = 0 \<Longrightarrow> \<exists>oc. j = J_done oc"
  by (cases j) auto

section \<open>The count of operations in flight\<close>

text \<open>The operations that hold the guard.\<close>

fun in_flight :: "job \<Rightarrow> bool" where
  "in_flight (J_call rq) = False"
| "in_flight (J_work rq now) = guarded rq"
| "in_flight J_drain = False"
| "in_flight J_close = False"
| "in_flight (J_clear d) = False"
| "in_flight (J_emit cs e j) = in_flight j"
| "in_flight (J_done oc) = False"
| "in_flight _ = True"

text \<open>What every section inside the guard leaves alone: the count, and a regression once observed.\<close>

definition calm :: "fabric \<Rightarrow> fabric \<Rightarrow> bool" where
  "calm f g = (fb_active g = fb_active f \<and> (fb_regressed f \<longrightarrow> fb_regressed g))"

lemma calm_refl [simp]: "calm f f"
  by (simp add: calm_def)

lemma calm_trans: "calm f g \<Longrightarrow> calm g h \<Longrightarrow> calm f h"
  by (simp add: calm_def)

lemma calm_evict [simp]:
  "fb_active (evict_and_compact f) = fb_active f" "fb_regressed (evict_and_compact f) = fb_regressed f"
proof -
  have "fb_active (evict_one g) = fb_active g" "fb_active (compact_envelopes g) = fb_active g"
    "fb_active (compact_attempts g) = fb_active g" "fb_regressed (evict_one g) = fb_regressed g"
    "fb_regressed (compact_envelopes g) = fb_regressed g" "fb_regressed (compact_attempts g) = fb_regressed g" for g
    by (simp_all add: evict_one_def evict_at_def compact_envelopes_def compact_attempts_def Let_def split: option.split)
  then show "fb_active (evict_and_compact f) = fb_active f" "fb_regressed (evict_and_compact f) = fb_regressed f"
    by (simp_all add: evict_and_compact_def Let_def)
qed

lemma calm_sample [simp]: "calm f (sample_clock now f)"
  by (simp add: calm_def sample_clock_def)

lemma calm_finalize [simp]:
  "fb_active (finalize_evidence i e ev ok code now f) = fb_active f"
  "fb_regressed (finalize_evidence i e ev ok code now f) = fb_regressed f"
  by (simp_all add: finalize_evidence_def Let_def)

lemma calm_inserts [simp]:
  "fb_active (insert_attempt r f) = fb_active f" "fb_regressed (insert_attempt r f) = fb_regressed f"
  "fb_active (insert_envelope e f) = fb_active f" "fb_regressed (insert_envelope e f) = fb_regressed f"
  by (simp_all add: insert_attempt_def insert_envelope_def Let_def)

lemma calm_registries:
  "calm f (snd (bind_flow en b now f))" "calm f (snd (unbind_flow en flow now f))"
  "calm f (snd (unregister_backend k f))" "calm f (snd (remove_policy en pid now f))"
  "calm f (snd (register_backend en h now f))" "calm f (snd (publish_policy en p now f))"
  by (auto simp: calm_def bind_flow_def unbind_flow_def unregister_backend_def remove_policy_def register_backend_def
      publish_policy_def Let_def split_beta split: sum.split option.split)

lemma calm_sections:
  "calm f (snd (cancel_attempt en a reason now f))"
  "calm f (snd (apply_resolve ref bk rq now f))"
  "calm f (snd (apply_complete en x arq s ack f))"
  "calm f (snd (apply_unverified en x arq res f))"
  "calm f (snd (apply_commit en x arq s ev res f))"
  "calm f (snd (verify_commit en v s ev f))"
  "calm f (snd (revalidate_commit en v s ev f))"
  "calm f (stale_section en v drift mark f)"
  by (auto simp: calm_def cancel_attempt_def apply_resolve_def apply_complete_def apply_unverified_def apply_commit_def
      verify_commit_def revalidate_commit_def stale_section_def Let_def split_beta split: option.split)

lemma calm_resumes:
  "calm f (snd (snd (verify_resume en v res f)))" "calm f (snd (snd (revalidate_resume en v res f)))"
  using calm_sections(8) [of f en v]
  by (auto simp: verify_resume_def revalidate_resume_def calm_def Let_def split: sum.split option.split)

lemma calm_derive_internal: "calm f (snd (derive_envelope_internal en inp now f))"
  by (auto simp: calm_def derive_envelope_internal_def Let_def split_beta split: sum.split)

lemma calm_derive: "calm f (snd (derive_resume en flow now r f))"
  using calm_derive_internal [of f en _ now]
  by (auto simp: derive_resume_def Let_def calm_def split: sum.split prod.split) (metis snd_conv)+

lemma calm_apply_resume: "calm f (snd (apply_resume en x r f))"
proof -
  have "calm f (snd (apply_admit en x f))"
    by (auto simp: calm_def apply_admit_def Let_def split_beta split: sum.split)
  then show ?thesis
    by (auto simp: apply_resume_def apply_reserve_def Let_def calm_def split: sum.split option.split)
qed

lemma calm_revoke_envelope: "calm f (snd (revoke_envelope en ref reason now f))"
proof -
  have one: "calm f (snd (revoke_one en c reason now a g))" if "calm f (snd g)" for c a g
    using that by (cases g) (auto simp: calm_def revoke_one_def Let_def split: option.split)
  have fold: "calm f (snd (fold (revoke_one en c reason now) as g))" if "calm f (snd g)" for c as g
    by (rule ledger_fold [of "\<lambda>g. calm f (snd g)", OF one that])
  have "calm f (snd (mark_revoked en i ref reason now f))" for i
    by (auto simp: calm_def mark_revoked_def Let_def split_beta split: sum.split)
  then show ?thesis
    using fold by (auto simp: revoke_envelope_def Let_def split_beta calm_def split: option.split)
qed

lemma calm_fence_below: "calm f (snd (fence_below en ep now f))"
proof -
  have one: "calm f (snd (snd (fence_one en ep now i g)))" if "calm f (snd (snd g))" for i g
    using that by (cases g) (auto simp: calm_def fence_one_def Let_def)
  have "calm f (snd (snd (fold (fence_one en ep now) is g)))" if "calm f (snd (snd g))" for "is" g
    by (rule ledger_fold [of "\<lambda>g. calm f (snd (snd g))", OF one that])
  from this [of "(_, _, f\<lparr>fb_envelopes := _\<rparr>)"] show ?thesis
    by (auto simp: fence_below_def Let_def split_beta calm_def)
qed

lemma calm_advance_epoch: "calm f (snd (advance_epoch en now f))"
proof -
  have one: "calm f (epoch_fence_one en now i g)" if "calm f g" for i g
    using that by (auto simp: calm_def epoch_fence_one_def)
  have "calm f (fold (epoch_fence_one en now) is g)" if "calm f g" for "is" g
    by (rule ledger_fold [of "calm f", OF one that])
  then have "calm f (fold (epoch_fence_one en now) is (bump_by n st (f\<lparr>fb_epoch := ep, fb_envelopes := es\<rparr>)))" for "is" n st ep es
    by (simp add: calm_def)
  then show ?thesis
    by (auto simp: advance_epoch_def advance_epoch_locked_def Let_def split_beta calm_def split: sum.split)
qed

lemma calm_fetch_step: "calm f (snd (fetch_step en k pc f))"
proof (cases pc)
  case (FP_call flow b p)
  have "snd (fetch_step en k pc f) = snd (fetch_call en f)" by (simp add: FP_call split: prod.split sum.split)
  then show ?thesis by (simp add: fetch_call_def Let_def split: sum.split)
qed simp_all

lemma calm_work_step: "calm f (snd (work_step en rq now f))"
proof (cases rq)
  case (RQ_publish_policy p)
  have "snd (work_step en rq now f) = snd (publish_policy en p now f)"
    by (simp add: RQ_publish_policy split: prod.split sum.split)
  then show ?thesis using calm_registries by simp
next
  case RQ_shutdown
  then show ?thesis by (simp add: shutdown_stop_def calm_def)
qed (simp_all add: calm_registries calm_sections calm_revoke_envelope calm_fence_below calm_advance_epoch)


lemma flight_jobs:
  "in_flight (fst (with_status st))"
  "in_flight (fst (with_event e))"
  "in_flight (fst (cancel_attempt en a reason now f))"
  "in_flight (fst (revoke_envelope en ref reason now f))"
  "in_flight (fst (fence_below en ep now f))"
  "in_flight (fst (advance_epoch en now f))"
  "in_flight (fst (apply_resolve ref b rq now f))"
  "in_flight (verify_start a now f)"
  "in_flight (revalidate_start a now f)"
  "in_flight (fst (derive_resume en flow now r f))"
  "in_flight (fst (apply_unverified en x arq res f))"
  "in_flight (fst (apply_commit en x arq s ev res f))"
  "in_flight (fst (verify_commit en v s ev f))"
  "in_flight (fst (revalidate_commit en v s ev f))"
  "in_flight (revalidate_result a f)"
  "in_flight (apply_refused x a f)"
  "in_flight (fst (apply_complete en x arq s ack f))"
  "in_flight (fst (snd (verify_resume en v res f)))"
  "in_flight (fst (snd (revalidate_resume en v res f)))"
  "in_flight (snd (readback_step en x arq))"
  by (auto simp: with_status_def with_event_def cancel_attempt_def revoke_envelope_def fence_below_def advance_epoch_def
      derive_resume_def apply_unverified_def apply_commit_def verify_commit_def revalidate_commit_def
      revalidate_result_def apply_refused_def closed_early_def apply_resolve_def verify_start_def revalidate_start_def
      apply_complete_def verify_resume_def revalidate_resume_def readback_step_def Let_def split_beta
      split: option.split sum.split prod.split app_state.split)

lemma flight_apply_resume: "in_flight (fst (apply_resume en x r f))"
  by (auto simp: apply_resume_def apply_reserve_def apply_admit_def Let_def split: sum.split option.split prod.split)

lemma flight_work: "guarded rq \<Longrightarrow> in_flight (fst (work_step en rq now f))"
  by (cases rq) (auto simp: flight_jobs split: prod.split sum.split)

text \<open>An operation inside the guard stays there until it leaves.\<close>

lemma flight_step:
  assumes "in_flight j"
  shows "if (\<exists>cs oc. j = J_leave cs oc)
    then snd (snd (job_step en j f)) = op_leave f \<and> (\<exists>oc. fst (snd (job_step en j f)) = J_done oc)
    else calm f (snd (snd (job_step en j f))) \<and> in_flight (fst (snd (job_step en j f)))"
proof (cases j)
  case (J_work rq now)
  then show ?thesis using assms flight_work calm_work_step by simp
next
  case (J_fetch k pc)
  have "in_flight (fst (fetch_step en k pc f))" by (cases pc) (auto split: prod.split sum.split)
  then show ?thesis using J_fetch calm_fetch_step by simp
next
  case (J_resume k r)
  then show ?thesis
    by (cases k) (simp_all add: calm_derive calm_apply_resume calm_sections calm_resumes flight_jobs flight_apply_resume)
next
  case (J_emit cs e i)
  then show ?thesis using assms by (simp add: calm_def emit_def Let_def)
qed (use assms in \<open>simp_all add: Let_def calm_sections flight_jobs\<close>)

lemma call_flight:
  "guarded rq \<Longrightarrow> in_flight (fst (call_step en rq f)) \<and> fb_active (snd (call_step en rq f)) = fb_active f + 1"
  "\<not> guarded rq \<Longrightarrow> \<not> in_flight (fst (call_step en rq f)) \<and> snd (call_step en rq f) = f"
  by (cases rq; simp add: call_step_def Let_def op_enter_def sample_clock_def)+

lemma outside_step:
  assumes "\<not> in_flight j" "\<And>rq. j \<noteq> J_call rq"
  shows "fb_active (snd (snd (job_step en j f))) = fb_active f \<and> fb_regressed (snd (snd (job_step en j f))) = fb_regressed f \<and>
    \<not> in_flight (fst (snd (job_step en j f)))"
proof (cases j)
  case (J_work rq now)
  then show ?thesis using assms(1) by (cases rq) (simp_all add: shutdown_stop_def)
qed (use assms in \<open>simp_all add: Let_def shutdown_close_def shutdown_clear_def emit_def\<close>)

definition flight :: "job \<Rightarrow> u32" where
  "flight j = (if in_flight j then 1 else 0)"

lemma active_step:
  "fb_active (snd (snd (job_step en j f))) + flight j = fb_active f + flight (fst (snd (job_step en j f)))"
proof (cases "\<exists>rq. j = J_call rq")
  case True
  then obtain rq where "j = J_call rq" by blast
  then show ?thesis using call_flight [of rq en f] by (cases "guarded rq") (simp_all add: flight_def)
next
  case False
  show ?thesis
  proof (cases "in_flight j")
    case True
    then show ?thesis using flight_step [OF True, of en f] by (auto simp: flight_def calm_def op_leave_def split: if_splits)
  next
    case outside: False
    then show ?thesis using outside_step [OF outside, of en f] False by (auto simp: flight_def)
  qed
qed

definition operations :: "job list \<Rightarrow> u32" where
  "operations js = sum_list (map flight js)"

lemma operations_update:
  "i < length js \<Longrightarrow> operations (js[i := j]) + flight (js ! i) = operations js + flight j"
proof (induction js arbitrary: i)
  case Nil
  then show ?case by simp
next
  case (Cons x xs)
  show ?case
  proof (cases i)
    case 0
    then show ?thesis by (simp add: operations_def)
  next
    case (Suc n)
    then show ?thesis using Cons.IH [of n] Cons.prems by (simp add: operations_def)
  qed
qed

lemma active_reach: "reach f0 s \<Longrightarrow> fb_active f0 = 0 \<Longrightarrow> fb_active (sy_fabric s) = operations (sy_jobs s)"
proof (induction rule: reach.induct)
  case start
  then show ?case by (simp add: operations_def)
next
  case (call s rq)
  then show ?case by (simp add: operations_def flight_def)
next
  case (sink s b)
  then show ?case by simp
next
  case (run s i en cs j f)
  have "fb_active f + flight (sy_jobs s ! i) = fb_active (sy_fabric s) + flight j"
    using active_step [of en "sy_jobs s ! i" "sy_fabric s"] run.hyps(4) by simp
  moreover have "operations ((sy_jobs s)[i := j]) + flight (sy_jobs s ! i) = operations (sy_jobs s) + flight j"
    using operations_update run.hyps(2) by blast
  ultimately show ?case using run.IH run.prems by (metis add_right_cancel system.select_convs)
qed

text \<open>A clock that was seen moving backwards stays distrusted.\<close>

lemma regressed_step: "fb_regressed f \<Longrightarrow> fb_regressed (snd (snd (job_step en j f)))"
proof (cases "\<exists>rq. j = J_call rq")
  case True
  assume f: "fb_regressed f"
  from True obtain rq where "j = J_call rq" by blast
  then show ?thesis using f by (cases rq) (simp_all add: call_step_def Let_def sample_clock_def)
next
  case False
  assume f: "fb_regressed f"
  show ?thesis
  proof (cases "in_flight j")
    case True
    then show ?thesis using flight_step [OF True, of en f] f by (auto simp: calm_def split: if_splits)
  next
    case outside: False
    then show ?thesis using outside_step [OF outside, of en f] False f by auto
  qed
qed

lemma regressed_reach: "reach f0 s \<Longrightarrow> fb_regressed f0 \<Longrightarrow> fb_regressed (sy_fabric s)"
proof (induction rule: reach.induct)
  case (run s i en cs j f)
  then show ?case using regressed_step [of "sy_fabric s" en "sy_jobs s ! i"] by simp
qed simp_all

lemma run_job_append:
  "run_job (xs @ ys) j f =
     (let (cs, j1, f1) = run_job xs j f; (cs', j2, f2) = run_job ys j1 f1 in (cs @ cs', j2, f2))"
  by (induction xs arbitrary: j f) (simp_all add: split_beta)

lemma run_flight: "in_flight j \<or> (\<exists>oc. j = J_done oc) \<Longrightarrow> job_rank j \<le> length ens \<Longrightarrow>
    \<exists>oc. fst (snd (run_job ens j f)) = J_done oc"
proof (induction ens arbitrary: j f)
  case Nil
  then show ?case using rank_zero by simp
next
  case (Cons en ens)
  have drain: "j = J_drain \<longrightarrow> fb_active f = 0" using Cons.prems(1) by auto
  obtain cs j1 f1 where s: "job_step en j f = (cs, j1, f1)" by (metis prod.exhaust)
  have "in_flight j1 \<or> (\<exists>oc. j1 = J_done oc)"
  proof (cases "in_flight j")
    case True
    then show ?thesis using flight_step [OF True, of en f] s by (auto split: if_splits)
  next
    case False
    then show ?thesis using Cons.prems(1) s by auto
  qed
  moreover have "job_rank j1 \<le> length ens" using rank_step [OF drain, of en] Cons.prems(2) s by simp
  ultimately show ?case using Cons.IH [of j1 f1] s by (simp add: split_beta)
qed

lemma run_finishes:
  assumes "guarded rq" "16 \<le> length ens"
  shows "\<exists>cs oc g. run_job ens (J_call rq) f = (cs, J_done oc, g)"
proof (cases ens)
  case Nil
  then show ?thesis using assms(2) by simp
next
  case (Cons en ens')
  obtain j1 f1 where s: "call_step en rq f = (j1, f1)" by (metis prod.exhaust)
  then have "in_flight j1" "job_rank j1 < 16" using call_flight(1) [OF assms(1), of en f] rank_call [of en rq f] by simp_all
  then obtain oc where "fst (snd (run_job ens' j1 f1)) = J_done oc"
    using run_flight [of j1 ens' f1] assms(2) Cons by auto
  then show ?thesis by (cases "run_job ens' j1 f1") (auto simp: Cons s)
qed

end
