(* ===== verification/PF_Contracts.thy ===== *)
theory PF_Contracts
  imports PF_Progress
begin

text \<open>
  Contracts of single sections of the coordinator: a derived envelope stays within the grant it
  was derived from, a reservation is in the journal before the backend is called, and what the
  identities of envelopes look like after a restart.
\<close>

section \<open>What a derived envelope promises\<close>

lemma envelope_expiry_bounds:
  assumes "envelope_expiry c g now = Inr expiry"
  shows "inst_ns now < expiry"
    "unat expiry \<le> unat (inst_ns now) + unat (l_max_envelope_lifetime_ns (fc_limits c))"
    "dl_set (g_valid_until g) \<longrightarrow> expiry \<le> inst_ns (dl_instant (g_valid_until g))"
proof -
  let ?lt = "if fc_envelope_lifetime_ns c > l_max_envelope_lifetime_ns (fc_limits c)
                      then l_max_envelope_lifetime_ns (fc_limits c) else fc_envelope_lifetime_ns c"
  obtain e0 where e0: "checked_add (inst_ns now) ?lt = Some e0"
    and e: "expiry = (if dl_set (g_valid_until g) \<and> inst_ns (dl_instant (g_valid_until g)) < e0
                       then inst_ns (dl_instant (g_valid_until g)) else e0)" "\<not> expiry \<le> inst_ns now"
    using assms by (auto simp: envelope_expiry_def Let_def split: option.splits if_splits)
  show "inst_ns now < expiry" using e(2) by simp
  have lt: "unat ?lt \<le> unat (l_max_envelope_lifetime_ns (fc_limits c))"
    by (simp add: word_le_nat_alt [symmetric] linorder_not_less)
  have "unat e0 = unat (inst_ns now) + unat ?lt" using checked_add_SomeD [OF e0] by simp
  moreover have "unat expiry \<le> unat e0" using e(1) by (auto simp: word_less_nat_alt)
  ultimately show "unat expiry \<le> unat (inst_ns now) + unat (l_max_envelope_lifetime_ns (fc_limits c))" using lt by simp
  show "dl_set (g_valid_until g) \<longrightarrow> expiry \<le> inst_ns (dl_instant (g_valid_until g))" using e(1) by auto
qed

lemma derivation_of_ceiling [simp]: "di_ceiling_bps (derivation_of inp) = g_ceiling_bps (ai_grant inp)"
    "di_floor_bps (derivation_of inp) = g_floor_bps (ai_grant inp)"
  by (simp_all add: derivation_of_def Let_def split: option.split)

definition within_grant :: "authority_inputs \<Rightarrow> limits \<Rightarrow> instant \<Rightarrow> envelope \<Rightarrow> bool" where
  "within_grant inp l now e =
     (c_rate_bps (e_cadence e) \<le> g_ceiling_bps (ai_grant inp) \<and> g_floor_bps (ai_grant inp) \<le> c_rate_bps (e_cadence e) \<and>
      cadence_within (derivation_of inp) l (e_cadence e) \<and>
      e_ceiling_bps e = g_ceiling_bps (ai_grant inp) \<and> e_authority e = ai_vector inp \<and>
      dl_set (e_valid_until e) \<and> inst_ns now < inst_ns (dl_instant (e_valid_until e)) \<and>
      unat (inst_ns (dl_instant (e_valid_until e))) \<le> unat (inst_ns now) + unat (l_max_envelope_lifetime_ns l) \<and>
      (dl_set (g_valid_until (ai_grant inp)) \<longrightarrow>
         inst_ns (dl_instant (e_valid_until e)) \<le> inst_ns (dl_instant (g_valid_until (ai_grant inp)))))"

lemma derive_internal_within:
  assumes "derive_envelope_internal en inp now f = (Inr e, g)"
  shows "within_grant inp (fb_limits f) now e"
    "\<exists>h. g = bump ST_envelopes_derived (insert_envelope e h)"
    "id_value (gr_id (e_ref e)) = fb_envelope_ids f + 1"
proof -
  obtain out expiry where o: "derive_cadence (derivation_of inp) (fb_limits f) = Inr out"
    "envelope_expiry (fb_config f) (ai_grant inp) now = Inr expiry"
    and r: "e = build_envelope en inp out expiry now f" "\<exists>h. g = bump ST_envelopes_derived (insert_envelope e h)"
    using assms by (auto simp: derive_envelope_internal_def Let_def split: sum.splits prod.splits if_splits)
  have e: "e_cadence e = do_cadence out" "e_ceiling_bps e = g_ceiling_bps (ai_grant inp)" "e_authority e = ai_vector inp"
    "e_valid_until e = deadline_at (Instant expiry)" "id_value (gr_id (e_ref e)) = fb_envelope_ids f + 1"
    by (simp_all add: r(1) build_envelope_def Let_def minter_next_def)
  note w = derive_cadence_within [OF o(1)]
  show "within_grant inp (fb_limits f) now e"
    using w envelope_expiry_bounds [OF o(2)] by (auto simp: within_grant_def e deadline_at_def cadence_within_def)
  show "\<exists>h. g = bump ST_envelopes_derived (insert_envelope e h)" "id_value (gr_id (e_ref e)) = fb_envelope_ids f + 1"
    using r(2) e(5) by simp_all
qed

lemma insert_envelope_find: "find_envelope (gr_id (e_ref e)) (insert_envelope e h) = Some (length (fb_envelopes h))"
    "fb_envelopes (insert_envelope e h) ! length (fb_envelopes h) =
       \<lparr>ee_envelope = e, ee_revoked = False, ee_live = True, ee_reason = []\<rparr>"
  by (simp_all add: find_envelope_def insert_envelope_def Let_def)

lemma derive_internal_found:
  assumes "derive_envelope_internal en inp now f = (Inr e, g)"
  shows "\<exists>i. find_envelope (gr_id (e_ref e)) g = Some i \<and>
     fb_envelopes g ! i = \<lparr>ee_envelope = e, ee_revoked = False, ee_live = True, ee_reason = []\<rparr>"
proof -
  obtain h where "g = bump ST_envelopes_derived (insert_envelope e h)" using derive_internal_within(2) [OF assms] by blast
  then have "find_envelope (gr_id (e_ref e)) g = find_envelope (gr_id (e_ref e)) (insert_envelope e h)"
    "fb_envelopes g = fb_envelopes (insert_envelope e h)"
    by (simp_all add: find_envelope_def split: option.split)
  then show ?thesis using insert_envelope_find [of e h] by simp
qed

section \<open>The reservation is durable first\<close>

lemma durable_append_success:
  assumes "durable_append io r k d = (s, k', d')" "st_ok s"
  shows "k' = journal_append (frame r) k"
  using assms by (auto simp: durable_append_def Let_def st_ok_def split: if_splits append_io.splits)

lemma journal_record_success:
  assumes "journal_record en t payload ts f = (s, g)" "st_ok s" "fb_durable f = Some d"
  shows "\<exists>k sq. fb_disk g = journal_append (frame \<lparr>dr_type = t, dr_sequence = sq, dr_timestamp_ns = ts, dr_payload = payload\<rparr>) k"
proof -
  obtain r1 f1 where m: "maybe_checkpoint en f = (r1, f1)" by (metis prod.exhaust)
  obtain s2 k2 d2 where a: "durable_append (en_append_io en (fb_sequence f1 + 1))
      \<lparr>dr_type = t, dr_sequence = fb_sequence f1 + 1, dr_timestamp_ns = ts, dr_payload = payload\<rparr>
      (fb_disk f1) (the (fb_durable f1)) = (s2, k2, d2)" by (metis prod.exhaust)
  have ok: "st_ok r1" "st_ok s2" "fb_disk g = k2"
    using assms m a by (auto simp: journal_record_def Let_def split: if_splits)
  then show ?thesis using durable_append_success [OF a ok(2)] by blast
qed

lemma apply_admit_durable:
  assumes "apply_admit en x f = (J_emit cs ev (J_apply y a), g)" "fb_durable f = Some d"
  shows "\<exists>r k sq payload. encode_attempt_payload r = Inr payload \<and> r_attempt r = a \<and> r_envelope r = ax_ref x \<and>
      r_state r = AS_Reserved \<and> r_authority r = e_authority (ax_envelope x) \<and>
      fb_disk g = journal_append (frame \<lparr>dr_type = DR_Attempt, dr_sequence = sq,
                    dr_timestamp_ns = inst_ns (ax_now x), dr_payload = payload\<rparr>) k"
proof -
  have dur: "fb_durable (evict_and_compact h) = fb_durable h" for h
  proof -
    have "fb_durable (evict_one u) = fb_durable u" "fb_durable (compact_envelopes u) = fb_durable u"
      "fb_durable (compact_attempts u) = fb_durable u" for u
      by (simp_all add: evict_one_def evict_at_def compact_envelopes_def compact_attempts_def Let_def split: option.split)
    then show ?thesis by (simp add: evict_and_compact_def Let_def)
  qed
  define f1 where "f1 = evict_and_compact f"
  define minted where "minted = (\<not> id_valid (ax_requested x))"
  define b where "b = (if minted then Id (minter_next (fb_attempt_ids f1)) else ax_requested x)"
  define f2 where "f2 = (if minted then f1\<lparr>fb_attempt_ids := minter_next (fb_attempt_ids f1)\<rparr> else f1)"
  define f3 where "f3 = f2\<lparr>fb_attempt_ids := minter_set_floor (id_value b) (fb_attempt_ids f2)\<rparr>"
  define r where "r = reserved_record x b (en_describe en (ax_handle x)) f3"
  have f3: "fb_durable f3 = Some d" using assms(2) by (simp add: f3_def f2_def f1_def dur)
  obtain payload s f4 where p: "encode_attempt_payload r = Inr payload"
    "journal_record en DR_Attempt payload (inst_ns (ax_now x)) f3 = (s, f4)" "st_ok s"
    and g: "g = bump ST_applies_reserved ((insert_attempt (r\<lparr>r_state := AS_Submitted\<rparr>) f4)\<lparr>fb_pending := fb_pending f4 + 1\<rparr>)"
      "a = b"
    using assms(1)
    unfolding apply_admit_def Let_def f1_def [symmetric] minted_def [symmetric] b_def [symmetric] f2_def [symmetric]
        f3_def [symmetric] r_def [symmetric]
    by (auto split: if_splits sum.splits prod.splits)
  obtain k sq where k: "fb_disk f4 = journal_append (frame \<lparr>dr_type = DR_Attempt, dr_sequence = sq,
      dr_timestamp_ns = inst_ns (ax_now x), dr_payload = payload\<rparr>) k"
    using journal_record_success [OF p(2,3) f3] by blast
  have "fb_disk g = fb_disk f4" by (simp add: g(1) insert_attempt_def Let_def)
  then show ?thesis
    using p(1) k by (intro exI [of _ r] exI [of _ k] exI [of _ sq] exI [of _ payload])
      (simp add: r_def reserved_record_def g(2))
qed

section \<open>Identities after a restart\<close>

text \<open>An attempt whose envelope is gone from the records: the floor of the envelope identities
  does not cover the identity the attempt names.\<close>

lemma replay_attempt_only:
  assumes "fb_attempts (ra_fabric a) = []" "fb_attempt_index (ra_fabric a) = Map.empty" "fb_by_envelope (ra_fabric a) = Map.empty"
    and "dr_type d = DR_Attempt" "decoded (decode_attempt (fb_limits (ra_fabric a))) (dr_payload d) = Some r"
  shows "ra_envelope_id (replay_record en d a) = ra_envelope_id a"
    "find_existing_attempt (r_envelope r) (gr_id (r_backend r)) (ra_fabric (replay_record en d a)) = Some 0"
  using assms
  by (simp_all add: replay_record_def Let_def restore_attempt_def find_attempt_def insert_attempt_def
      find_existing_attempt_def attempts_of_def)

end
