(* ===== verification/PF_Governance.thy ===== *)
theory PF_Governance
  imports PF_Progress
begin

text \<open>
  Governance: fencing and the epoch advance leave nothing in force that is stamped with an older
  epoch, a completion that arrives for a closed attempt changes no record and is withdrawn, and
  what a verification does to an attempt that was closed while its readback was under way.
\<close>

section \<open>Fencing\<close>

text \<open>Nothing stamped with an epoch below \<open>ep\<close> is in force.\<close>

definition fenced_below :: "epoch \<Rightarrow> fabric \<Rightarrow> bool" where
  "fenced_below ep f =
     ((\<forall>e \<in> set (fb_envelopes f). ee_live e \<and> av_epoch (e_authority (ee_envelope e)) < ep \<longrightarrow> ee_revoked e) \<and>
      (\<forall>a \<in> set (fb_attempts f). at_live a \<and> av_epoch (r_authority (at_record a)) < ep \<longrightarrow> closed_state (r_state (at_record a))))"

lemma fence_entry_fenced: "ee_live (fence_entry ep reason e) \<and> av_epoch (e_authority (ee_envelope (fence_entry ep reason e))) < ep \<Longrightarrow>
    ee_revoked (fence_entry ep reason e)"
  by (auto simp: fence_entry_def split: if_splits)

text \<open>A loop over the attempts that leaves each visited one unfenceable and the others alone.\<close>

definition fences_at :: "epoch \<Rightarrow> nat \<Rightarrow> fabric \<Rightarrow> fabric \<Rightarrow> bool" where
  "fences_at ep i f g =
     (length (fb_attempts g) = length (fb_attempts f) \<and> fb_envelopes g = fb_envelopes f \<and> fb_epoch g = fb_epoch f \<and>
      \<not> to_fence ep (fb_attempts g ! i) \<and> (\<forall>j. j \<noteq> i \<longrightarrow> fb_attempts g ! j = fb_attempts f ! j))"

lemma fence_loop:
  assumes "\<And>i t. i < length (fb_attempts (pick t)) \<Longrightarrow> fb_epoch (pick t) = fb_epoch (pick s) \<Longrightarrow>
    fences_at ep i (pick t) (pick (step i t))"
  shows "fb_envelopes (pick (fold step [0..<length (fb_attempts (pick s))] s)) = fb_envelopes (pick s)"
    "fb_epoch (pick (fold step [0..<length (fb_attempts (pick s))] s)) = fb_epoch (pick s)"
    "\<forall>a \<in> set (fb_attempts (pick (fold step [0..<length (fb_attempts (pick s))] s))). \<not> to_fence ep a"
proof -
  let ?n = "length (fb_attempts (pick s))"
  have loop: "length (fb_attempts (pick (fold step [0..<m] s))) = ?n \<and>
      fb_envelopes (pick (fold step [0..<m] s)) = fb_envelopes (pick s) \<and>
      fb_epoch (pick (fold step [0..<m] s)) = fb_epoch (pick s) \<and>
      (\<forall>j < m. \<not> to_fence ep (fb_attempts (pick (fold step [0..<m] s)) ! j))" if "m \<le> ?n" for m
    using that
  proof (induction m)
    case 0
    then show ?case by simp
  next
    case (Suc m)
    let ?t = "fold step [0..<m] s"
    from Suc have IH: "length (fb_attempts (pick ?t)) = ?n" "fb_envelopes (pick ?t) = fb_envelopes (pick s)"
      "fb_epoch (pick ?t) = fb_epoch (pick s)" "\<forall>j < m. \<not> to_fence ep (fb_attempts (pick ?t) ! j)" by simp_all
    have "fences_at ep m (pick ?t) (pick (step m ?t))" by (rule assms) (use Suc.prems IH in simp_all)
    then show ?case using IH by (auto simp: fences_at_def less_Suc_eq)
  qed
  from loop [of ?n] show "fb_envelopes (pick (fold step [0..<?n] s)) = fb_envelopes (pick s)"
    "fb_epoch (pick (fold step [0..<?n] s)) = fb_epoch (pick s)"
    "\<forall>a \<in> set (fb_attempts (pick (fold step [0..<?n] s))). \<not> to_fence ep a"
    by (auto simp: in_set_conv_nth)
qed

lemma transition_fences:
  "i < length (fb_attempts f) \<Longrightarrow> fences_at ep i f (apply_transition i AS_Fenced now reason detail f)"
  by (simp add: fences_at_def fb_attempts_apply_transition to_fence_def)

lemma fence_one_fences:
  "i < length (fb_attempts (snd (snd s))) \<Longrightarrow> fences_at ep i (snd (snd s)) (snd (snd (fence_one en ep now i s)))"
  using transition_fences [of i "snd (snd s)" ep now EC_Fenced]
  by (cases s) (auto simp: fence_one_def Let_def fences_at_def)

lemma epoch_fence_one_fences:
  "i < length (fb_attempts f) \<Longrightarrow> fb_epoch f = ep \<Longrightarrow> fences_at ep i f (epoch_fence_one en now i f)"
  using transition_fences [of i f "fb_epoch f" now EC_Fenced]
  by (auto simp: epoch_fence_one_def close_attempt_def fences_at_def)

lemma fence_below_fences:
  assumes "fb_running f"
  shows "fenced_below ep (snd (fence_below en ep now f))"
proof -
  let ?es = "map (fence_entry ep ''fenced by coordinator epoch'') (fb_envelopes f)"
  let ?s = "([], fence_count ep (fb_envelopes f), f\<lparr>fb_envelopes := ?es\<rparr>)"
  note loop = fence_loop [where pick = "\<lambda>s. snd (snd s)" and ep = ep and step = "fence_one en ep now" and s = ?s,
      OF fence_one_fences, simplified]
  have "fenced_below ep (snd (snd (fold (fence_one en ep now) [0..<length (fb_attempts f)] ?s)))"
    using loop(1,3) fence_entry_fenced by (auto simp: fenced_below_def to_fence_def)
  then show ?thesis using assms by (simp add: fence_below_def Let_def split_beta fenced_below_def)
qed

lemma advance_epoch_fences:
  assumes "epoch_advanced (fb_epoch f) = (ep, False)"
  shows "fb_epoch (snd (advance_epoch_locked en now f)) = ep" "fenced_below ep (snd (advance_epoch_locked en now f))"
    "fb_envelopes (snd (advance_epoch_locked en now f)) = map (fence_entry ep ''coordinator epoch advanced'') (fb_envelopes f)"
proof -
  define f1 where "f1 = f\<lparr>fb_epoch := ep\<rparr>"
  define f2 where "f2 = bump_by (of_nat (fence_count ep (fb_envelopes f1))) ST_fences
      (f1\<lparr>fb_envelopes := map (fence_entry ep ''coordinator epoch advanced'') (fb_envelopes f1)\<rparr>)"
  have f2: "fb_epoch f2 = ep" "fb_envelopes f2 = map (fence_entry ep ''coordinator epoch advanced'') (fb_envelopes f)"
    by (simp_all add: f2_def f1_def)
  define f3 where "f3 = fold (epoch_fence_one en now) [0..<length (fb_attempts f2)] f2"
  have step: "fences_at ep i t (epoch_fence_one en now i t)" if "i < length (fb_attempts t)" "fb_epoch t = fb_epoch f2" for i t
    using epoch_fence_one_fences that f2 by simp
  note loop = fence_loop [where pick = "\<lambda>f. f" and ep = ep and step = "epoch_fence_one en now" and s = f2, OF step, folded f3_def]
  have "fb_epoch f3 = ep" "fenced_below ep f3" "fb_envelopes f3 = map (fence_entry ep ''coordinator epoch advanced'') (fb_envelopes f)"
    using loop f2 fence_entry_fenced by (auto simp: fenced_below_def to_fence_def)
  moreover have "advance_epoch_locked en now f =
      (case encoded 256 (encode_epoch (fb_epoch f3) (fb_boot f3)) of
         Inl s \<Rightarrow> (s, f3) | Inr payload \<Rightarrow> journal_record en DR_EpochAdvance payload (inst_ns now) f3)"
    by (simp only: advance_epoch_locked_def assms prod.case Let_def if_False f1_def [symmetric] f2_def [symmetric] f3_def [symmetric])
  ultimately show "fb_epoch (snd (advance_epoch_locked en now f)) = ep" "fenced_below ep (snd (advance_epoch_locked en now f))"
    "fb_envelopes (snd (advance_epoch_locked en now f)) = map (fence_entry ep ''coordinator epoch advanced'') (fb_envelopes f)"
    by (auto simp: fenced_below_def split: sum.split)
qed

section \<open>Completions that come late\<close>

lemma closed_not_open: "closed_state s \<Longrightarrow> s \<noteq> AS_Submitted \<and> s \<noteq> AS_Acknowledged"
  by (cases s) simp_all

lemma late_apply:
  assumes "find_attempt (rq_attempt rq) f = Some i" "closed_state (r_state (record_at f i))"
  shows "fb_attempts (snd (apply_complete en x rq s ack f)) = fb_attempts f"
    "\<exists>e oc. fst (apply_complete en x rq s ack f) = J_emit [BC_revoke (ax_handle x) rq ''late backend completion discarded''] e (J_leave [] (OC_status oc))"
    "fb_attempts (snd (apply_commit en x rq s' ev res f)) = fb_attempts f"
    "\<exists>oc. fst (apply_commit en x rq s' ev res f) = J_leave [BC_revoke (ax_handle x) rq ''late readback discarded''] (OC_status oc)"
    "fb_attempts (snd (apply_unverified en x rq res f)) = fb_attempts f"
  using assms closed_not_open [OF assms(2)]
  by (auto simp: apply_complete_def apply_commit_def apply_unverified_def Let_def split_beta closed_early_def)

text \<open>A verification or a revalidation does not look at the state again.\<close>

lemma finalize_matches:
  assumes "i < length (fb_attempts f)" "evidence_matches ev (record_at f i) (e_cadence e)"
  shows "r_state (record_at (finalize_evidence i e ev True code now f) i) = AS_Applied"
  using assms by (simp add: finalize_evidence_def Let_def)

lemma find_attempt_updates [simp]:
  "find_attempt a (journal_attempt en i now f) = find_attempt a f"
  by (rule find_attempt_cong) simp_all

lemma find_attempt_transition:
  "i < length (fb_attempts f) \<Longrightarrow> find_attempt a (apply_transition i nx now reason d f) = find_attempt a f"
  by (auto simp: find_attempt_def fb_attempts_apply_transition nth_list_update split: option.split)

lemma cancel_closes:
  assumes "fb_running f" "find_attempt a f = Some i"
  shows "closed_state (r_state (record_at (snd (cancel_attempt en a reason now f)) i))"
    "find_attempt a (snd (cancel_attempt en a reason now f)) = Some i"
    "\<exists>cs e. fst (cancel_attempt en a reason now f) = J_emit cs e (J_leave [] (OC_status success))"
    "r_attempt (record_at (snd (cancel_attempt en a reason now f)) i) = r_attempt (record_at f i)"
    "r_backend (record_at (snd (cancel_attempt en a reason now f)) i) = r_backend (record_at f i)"
proof -
  have i: "i < length (fb_attempts f)" by (rule find_attempt_length [OF assms(2)])
  show "closed_state (r_state (record_at (snd (cancel_attempt en a reason now f)) i))"
    "find_attempt a (snd (cancel_attempt en a reason now f)) = Some i"
    "\<exists>cs e. fst (cancel_attempt en a reason now f) = J_emit cs e (J_leave [] (OC_status success))"
    "r_attempt (record_at (snd (cancel_attempt en a reason now f)) i) = r_attempt (record_at f i)"
    "r_backend (record_at (snd (cancel_attempt en a reason now f)) i) = r_backend (record_at f i)"
    using assms i by (simp_all add: cancel_attempt_def Let_def find_attempt_transition transition_record_def)
qed

lemma verify_applies:
  assumes "find_attempt (vx_attempt v) f = Some i" "readback_good s ev"
    "evidence_matches ev (record_at f i) (e_cadence (vx_envelope v))"
  shows "r_state (record_at (snd (verify_commit en v s ev f)) i) = AS_Applied"
  using assms finalize_matches [OF find_attempt_length [OF assms(1)] assms(3)] by (simp add: verify_commit_def Let_def)

end
