(* ===== verification/PF_Runs.thy ===== *)
theory PF_Runs
  imports PF_Contracts PF_Governance PF_Samples
begin

text \<open>
  A concrete configuration, a concrete world and a concrete disk, for the witnesses of the
  properties of runs: the disk holds the journal of an earlier incarnation, and starting the
  coordinator on it succeeds. No definition here models code.
\<close>

section \<open>A configuration, a world and a disk\<close>

definition sample_config :: fabric_config where
  "sample_config =
     \<lparr>fc_limits = default_limits, fc_durable_directory = ''d'', fc_fabric_instance = 1,
      fc_tick_period_ns = 1000000, fc_envelope_lifetime_ns = 1000000000, fc_enable_durability = True,
      fc_max_pending_attempts = 4096\<rparr>"

definition sample_desc :: backend_descriptor where
  "sample_desc =
     \<lparr>bd_ref = mk_ref (Id 9) gen_first, bd_name = ''shaper'', bd_nature = BN_Synthetic,
      bd_supports_readback = True, bd_max_rate_bps = 0, bd_max_burst_bytes = 0,
      bd_capability_flags = 0\<rparr>"

definition sample_evidence :: readback_evidence where
  "sample_evidence =
     \<lparr>ev_present = True, ev_kind = EK_SyntheticReadback, ev_backend = mk_ref (Id 9) gen_first,
      ev_attempt = Id 1, ev_rate_bps = 5000000000, ev_quantum_bytes = 1500, ev_burst_bytes = 1500,
      ev_interval_ns = 2400, ev_backend_seq = 1, ev_observed_at_ns = 20, ev_integrity_ok = True,
      ev_digest = 0\<rparr>"

definition sample_env :: env where
  "sample_env =
     \<lparr>en_clock = Instant 10, en_grant = Inr sample_grant, en_authority_synthetic = True,
      en_describe = (\<lambda>_. sample_desc),
      en_apply = (success, \<lparr>ack_attempt = Id 1, ack_accepted = True, ack_backend_seq = 1, ack_detail = []\<rparr>),
      en_readback = (success, sample_evidence),
      en_append_io = (\<lambda>_. AI_Done), en_checkpoint_io = (\<lambda>_. CI_Done), en_checkpoint_ns = (\<lambda>_. 0),
      en_open_io = good_open_io, en_ticks = (\<lambda>_. 0)\<rparr>"

text \<open>The journal of an earlier incarnation that had reached epoch 5 and boot 3.\<close>

definition sample_epoch_record :: durable_record where
  "sample_epoch_record =
     \<lparr>dr_type = DR_EpochAdvance, dr_sequence = 1, dr_timestamp_ns = 0,
      dr_payload = record_bytes 256 (encode_epoch (Epoch 5) \<lparr>bo_counter = 3, bo_nonce = 77\<rparr>)\<rparr>"

definition sample_disk :: disk where
  "sample_disk = \<lparr>dk_snapshot = None, dk_journal = Some (journal_header @ sum_frames [sample_epoch_record])\<rparr>"

lemma sized_epoch: "sized (encode_epoch e b) 24"
  unfolding encode_epoch_def by (rule sized_eq, (rule size_rules)+, simp)

lemma epoch_payload: "length (record_bytes 256 (encode_epoch e b)) = 24"
  "encoded 256 (encode_epoch e b) = Inr (record_bytes 256 (encode_epoch e b))"
proof -
  show "length (record_bytes 256 (encode_epoch e b)) = 24" by (rule sized_record_bytes [OF sized_epoch]) simp
  have "encodable 256 (encode_epoch e b)" by (simp add: sized_encodable [OF sized_epoch])
  then show "encoded 256 (encode_epoch e b) = Inr (record_bytes 256 (encode_epoch e b))"
    by (simp add: encoded_def Let_def record_bytes_def encodable_def w_ok_def)
qed

lemma decoded_reads: "reads p bs (Inr x) \<Longrightarrow> decoded p bs = Some x"
proof -
  assume "reads p bs (Inr x)"
  then have "run_state p (rd_on (bs @ [])) = (Inr x, rd_on [])" unfolding reads_def by blast
  then show ?thesis by (simp add: decoded_def reader_new_def rd_exhausted_def rd_ok_def)
qed

lemma sample_persisted: "persisted_epoch sample_epoch_record = Some (Epoch 5, \<lparr>bo_counter = 3, bo_nonce = 77\<rparr>)"
proof -
  have "encodable 256 (encode_epoch (Epoch 5) \<lparr>bo_counter = 3, bo_nonce = 77\<rparr>)" by (simp add: sized_encodable [OF sized_epoch])
  then have "decoded decode_epoch (record_bytes 256 (encode_epoch (Epoch 5) \<lparr>bo_counter = 3, bo_nonce = 77\<rparr>)) =
      Some (Epoch 5, \<lparr>bo_counter = 3, bo_nonce = 77\<rparr>)"
    using decoded_reads [OF codes_reads [OF codes_epoch]] by simp
  then show ?thesis by (simp add: persisted_epoch_def sample_epoch_record_def)
qed

lemma sample_load: "\<exists>s d. durable_load good_open_io sample_disk (durable_new ''d'' default_limits) = (s, d) \<and> st_ok s \<and>
    ds_recovered d = [sample_epoch_record] \<and> ds_limits d = default_limits \<and> ds_journal_records d = 0 \<and> ds_directory d = ''d''"
proof -
  have f: "frame_ok default_limits sample_epoch_record"
    by (simp add: frame_ok_def sample_epoch_record_def epoch_payload default_limits_def record_types_def)
  then have "journal_holds default_limits (dk_journal sample_disk) [sample_epoch_record]"
    by (simp add: journal_holds_def sample_disk_def sample_epoch_record_def epoch_payload default_limits_def header_sizes)
  then have "recovered_by default_limits sample_disk = Some ([] @ filter (\<lambda>r. 0 < dr_sequence r) [sample_epoch_record])"
    by (intro recovered_by_holds) (simp_all add: snapshot_holds_def sample_disk_def)
  moreover obtain s d where d: "durable_load good_open_io sample_disk (durable_new ''d'' default_limits) = (s, d)"
    by (metis prod.exhaust)
  moreover have "ds_limits d = default_limits" "ds_journal_records d = 0" "ds_directory d = ''d''"
    using d by (auto simp: durable_load_def durable_new_def Let_def split_beta)
  ultimately show ?thesis
    by (auto simp: recovered_by_def sample_epoch_record_def split: prod.splits if_splits)
qed

lemma sample_open: "\<exists>d. durable_open good_open_io sample_disk (durable_new ''d'' default_limits) = (success, sample_disk, d) \<and>
    ds_recovered d = [sample_epoch_record] \<and> ds_limits d = default_limits \<and> ds_journal_records d = 0 \<and>
    ds_open d \<and> ds_journal_open d \<and> ds_journal_bytes d = 72"
proof -
  obtain s d where d: "durable_load good_open_io sample_disk (durable_new ''d'' default_limits) = (s, d)" "st_ok s"
    "ds_recovered d = [sample_epoch_record]" "ds_limits d = default_limits" "ds_journal_records d = 0"
    using sample_load by blast
  have "length (journal_header @ sum_frames [sample_epoch_record]) = 72"
    by (simp add: header_sizes sample_epoch_record_def epoch_payload)
  then show ?thesis
    using durable_open_journal [OF d(1,2)] d by (simp add: sample_disk_def)
qed

lemma sample_replay:
  "ra_fabric (replay_record sample_env sample_epoch_record \<lparr>ra_fabric = f, ra_envelope_id = 0, ra_attempt_id = 0, ra_provenance_id = 0\<rparr>)
     = restore_epoch sample_env (Epoch 5) \<lparr>bo_counter = 3, bo_nonce = 77\<rparr>
         (f\<lparr>fb_sequence := (if 1 > fb_sequence f then 1 else fb_sequence f)\<rparr>)"
  using sample_persisted
  by (simp add: replay_record_def persisted_epoch_def Let_def sample_epoch_record_def)

definition idle_on :: "disk \<Rightarrow> durable_store \<Rightarrow> fabric \<Rightarrow> bool" where
  "idle_on k d f = (fb_config f = sample_config \<and> fb_disk f = k \<and> fb_durable f = Some d \<and>
     fb_attempts f = [] \<and> fb_envelopes f = [] \<and> fb_envelope_ids f = 0)"

lemma idle_nonce: "idle_on k d (snd (make_nonce en s f)) = idle_on k d f"
  "fb_epoch (snd (make_nonce en s f)) = fb_epoch f"
  by (simp_all add: make_nonce_def Let_def idle_on_def)

lemma idle_retry: "idle_on k d (snd (retry_nonce en a n i xf)) = idle_on k d (snd xf)"
  "fb_epoch (snd (retry_nonce en a n i xf)) = fb_epoch (snd xf)"
proof (induction n arbitrary: i xf)
  case (Suc n)
  { case 1 show ?case by (cases xf) (simp add: Suc idle_nonce) }
  { case 2 show ?case by (cases xf) (simp add: Suc idle_nonce) }
qed simp_all

lemma idle_recovery: "idle_on k d (on_recovery g f) = idle_on k d f"
  "fb_epoch (on_recovery g f) = fb_epoch f" "fb_boot (on_recovery g f) = fb_boot f"
  "fb_attempts (on_recovery g f) = fb_attempts f" "fb_envelopes (on_recovery g f) = fb_envelopes f"
  "fb_envelope_ids (on_recovery g f) = fb_envelope_ids f"
  by (simp_all add: on_recovery_def idle_on_def)

lemma idle_restore:
  assumes "fb_epoch f = Epoch 1" "bo_counter (fb_boot f) = 1" "idle_on k d f"
  shows "idle_on k d (restore_epoch en (Epoch 5) \<lparr>bo_counter = 3, bo_nonce = 77\<rparr> f)"
    "fb_epoch (restore_epoch en (Epoch 5) \<lparr>bo_counter = 3, bo_nonce = 77\<rparr> f) = Epoch 5"
    "bo_counter (fb_boot (restore_epoch en (Epoch 5) \<lparr>bo_counter = 3, bo_nonce = 77\<rparr> f)) = 3"
proof -
  have up: "idle_on k d (g\<lparr>fb_epoch := e\<rparr>) = idle_on k d g" "idle_on k d (g\<lparr>fb_boot := b\<rparr>) = idle_on k d g" for g e b
    by (simp_all add: idle_on_def)
  show "idle_on k d (restore_epoch en (Epoch 5) \<lparr>bo_counter = 3, bo_nonce = 77\<rparr> f)"
    "fb_epoch (restore_epoch en (Epoch 5) \<lparr>bo_counter = 3, bo_nonce = 77\<rparr> f) = Epoch 5"
    "bo_counter (fb_boot (restore_epoch en (Epoch 5) \<lparr>bo_counter = 3, bo_nonce = 77\<rparr> f)) = 3"
    using assms by (simp_all add: restore_epoch_def Let_def split_beta idle_retry idle_nonce idle_recovery up)
qed

definition sample_store :: "durable_store \<Rightarrow> bool" where
  "sample_store d = (ds_recovered d = [sample_epoch_record] \<and> ds_limits d = default_limits \<and>
     ds_journal_records d = 0 \<and> ds_open d \<and> ds_journal_open d \<and> ds_journal_bytes d = 72)"

lemma sample_journal:
  assumes "fb_durable f = Some d" "sample_store d" "length payload \<le> 1000" "t \<in> set record_types"
  shows "st_ok (fst (journal_record sample_env t payload ts f))"
proof -
  have "\<not> needs_checkpoint d" using assms(2) by (simp add: needs_checkpoint_def sample_store_def default_limits_def)
  moreover have "appendable d \<lparr>dr_type = t, dr_sequence = sq, dr_timestamp_ns = ts, dr_payload = payload\<rparr>" for sq
    using assms(2,3,4) by (simp add: appendable_def frame_ok_def sample_store_def default_limits_def header_sizes)
  ultimately show ?thesis using assms(1)
    by (simp add: journal_record_def maybe_checkpoint_def Let_def durable_append_ok sample_env_def split_beta)
qed

lemma idle_recover:
  assumes "idle_on k d f" "sample_store d" "fb_epoch f = Epoch 1" "bo_counter (fb_boot f) = 1"
  shows "st_ok (fst (recover_locked sample_env f))"
    "fb_attempts (snd (recover_locked sample_env f)) = []" "fb_envelopes (snd (recover_locked sample_env f)) = []"
    "fb_envelope_ids (snd (recover_locked sample_env f)) = 0"
proof -
  have up: "idle_on k d (g\<lparr>fb_epoch := e\<rparr>) = idle_on k d g" "idle_on k d (g\<lparr>fb_boot := b\<rparr>) = idle_on k d g" 
    "idle_on k d (g\<lparr>fb_envelopes := []\<rparr>) = (idle_on k d (g\<lparr>fb_envelopes := []\<rparr>))"
    "idle_on k d (sample_clock now g) = idle_on k d g" "idle_on k d (g\<lparr>fb_sequence := n\<rparr>) = idle_on k d g"
    "fb_epoch (sample_clock now g) = fb_epoch g" "fb_boot (sample_clock now g) = fb_boot g" for g e b n now
    by (simp_all add: idle_on_def sample_clock_def)
  define f1 where "f1 = sample_clock (en_clock sample_env)
     (on_recovery (\<lambda>r. r\<lparr>rc_performed := True, rc_records_replayed := of_nat (length [sample_epoch_record])\<rparr>) f)"
  have f1: "idle_on k d f1" "fb_epoch f1 = Epoch 1" "bo_counter (fb_boot f1) = 1"
    using assms by (simp_all add: f1_def up idle_recovery)
  define a where "a = replay_record sample_env sample_epoch_record
     \<lparr>ra_fabric = f1, ra_envelope_id = 0, ra_attempt_id = 0, ra_provenance_id = 0\<rparr>"
  have a: "idle_on k d (ra_fabric a)" "fb_epoch (ra_fabric a) = Epoch 5" "bo_counter (fb_boot (ra_fabric a)) = 3"
    using f1 by (simp_all add: a_def sample_replay idle_restore up)
  have rec: "(case fb_durable f of None \<Rightarrow> [] | Some d \<Rightarrow> ds_recovered d) = [sample_epoch_record]"
    using assms by (simp add: idle_on_def sample_store_def)
  define f2 where "f2 = on_recovery (\<lambda>r. r\<lparr>
                 rc_bindings_restored := of_nat (length (live_bindings (fb_bindings (ra_fabric a)))),
                 rc_policies_restored := of_nat (length (live_policies (fb_policies (ra_fabric a))))\<rparr>) (ra_fabric a)"
  have f2: "idle_on k d f2" "fb_epoch f2 = Epoch 5" "bo_counter (fb_boot f2) = 3"
    using a by (simp_all add: f2_def idle_recovery)
  obtain s f3 where ab: "advance_boot sample_env f2 = (s, f3)" by (metis prod.exhaust)
  have f3: "st_ok s" "idle_on k d f3"
    using ab f2 by (auto simp: advance_boot_def less_eq_epoch_def epoch_advanced_def Let_def split_beta idle_nonce idle_recovery up st_ok_def success_def kU64Max_def split: if_splits)
  define f4 where "f4 = invalidate_all sample_env (en_clock sample_env) f3"
  have f4: "idle_on k d f4" using f3(2) by (simp add: f4_def invalidate_all_def Let_def idle_on_def on_recovery_def)
  define f5 where "f5 = f4\<lparr>fb_envelope_ids := minter_set_floor (ra_envelope_id a) (fb_envelope_ids f4),
                        fb_attempt_ids := minter_set_floor (ra_attempt_id a) (fb_attempt_ids f4),
                        fb_provenance_ids := minter_set_floor (ra_provenance_id a) (fb_provenance_ids f4)\<rparr>"
  have "ra_envelope_id a = 0" by (simp add: a_def replay_record_def Let_def sample_epoch_record_def split: option.split)
  then have f5: "idle_on k d f5" using f4 by (simp add: f5_def idle_on_def minter_set_floor_def)
  have "recover_locked sample_env f = journal_record sample_env DR_EpochAdvance
      (record_bytes 256 (encode_epoch (fb_epoch f5) (fb_boot f5))) (inst_ns (en_clock sample_env)) f5"
    unfolding recover_locked_def Let_def rec f1_def [symmetric] fold_Cons fold_Nil comp_def id_def
      a_def [symmetric] f2_def [symmetric] ab prod.case f4_def [symmetric] f5_def [symmetric] epoch_payload(2)
    using f3(1) by simp
  then show "st_ok (fst (recover_locked sample_env f))"
    "fb_attempts (snd (recover_locked sample_env f)) = []" "fb_envelopes (snd (recover_locked sample_env f)) = []"
    "fb_envelope_ids (snd (recover_locked sample_env f)) = 0"
    using sample_journal [OF _ assms(2), of f5] f5 by (simp_all add: idle_on_def epoch_payload record_types_def)
qed

definition sample_fabric :: fabric where
  "sample_fabric = snd (start_fabric sample_env (fabric_new sample_config sample_disk))"

lemma sample_starts:
  "\<exists>s. start_fabric sample_env (fabric_new sample_config sample_disk) = (s, sample_fabric) \<and> st_ok s"
  "fb_attempts sample_fabric = []" "fb_envelopes sample_fabric = []" "fb_envelope_ids sample_fabric = 0"
proof -
  obtain d where d: "durable_open good_open_io sample_disk (durable_new ''d'' default_limits) = (success, sample_disk, d)" "sample_store d"
    using sample_open by (auto simp: sample_store_def)
  have i: "st_ok (fst (initialize_durability sample_env f)) \<and> fb_attempts (snd (initialize_durability sample_env f)) = [] \<and>
      fb_envelopes (snd (initialize_durability sample_env f)) = [] \<and> fb_envelope_ids (snd (initialize_durability sample_env f)) = 0"
    if "fb_config f = sample_config" "fb_disk f = sample_disk"
    "fb_attempts f = []" "fb_envelopes f = []" "fb_envelope_ids f = 0" "fb_epoch f = Epoch 1" "bo_counter (fb_boot f) = 1" for f
  proof -
    have "idle_on sample_disk d (on_recovery (\<lambda>r. r\<lparr>rc_durable_directory_used := True\<rparr>)
        (f\<lparr>fb_disk := sample_disk, fb_durable := Some d\<rparr>))" using that by (simp add: on_recovery_def idle_on_def)
    note r = idle_recover [OF this d(2)]
    have "fc_enable_durability sample_config" "fc_durable_directory sample_config = ''d''" "fc_limits sample_config = default_limits"
      "en_open_io sample_env = good_open_io" by (simp_all add: sample_config_def sample_env_def)
    then show ?thesis using d(1) that r
      by (simp add: initialize_durability_def Let_def split_beta idle_recovery)
  qed
  have c: "st_ok (check_config sample_config)" by code_simp
  let ?n = "sample_clock (en_clock sample_env) (fabric_new sample_config sample_disk)"
  have n: "fb_initialized ?n = False" "fb_config ?n = sample_config" "fb_disk ?n = sample_disk" "fb_attempts ?n = []" "fb_envelopes ?n = []" "fb_envelope_ids ?n = 0"
    by (simp_all add: fabric_new_def sample_clock_def)
  have "st_ok (fst (start_fabric sample_env (fabric_new sample_config sample_disk))) \<and> fb_attempts sample_fabric = [] \<and>
      fb_envelopes sample_fabric = [] \<and> fb_envelope_ids sample_fabric = 0"
    using i c n by (simp add: sample_fabric_def start_fabric_def initialize_def Let_def split_beta make_nonce_def)
  then show "\<exists>s. start_fabric sample_env (fabric_new sample_config sample_disk) = (s, sample_fabric) \<and> st_ok s"
    "fb_attempts sample_fabric = []" "fb_envelopes sample_fabric = []" "fb_envelope_ids sample_fabric = 0"
    by (simp_all add: sample_fabric_def prod_eq_iff)
qed

text \<open>A coordinator without durability, and a run of one call in it.\<close>

definition memory_fabric :: fabric where
  "memory_fabric = (fabric_new (sample_config\<lparr>fc_enable_durability := False\<rparr>) sample_disk)
     \<lparr>fb_initialized := True, fb_running := True, fb_epoch := Epoch 1, fb_boot := \<lparr>bo_counter = 1, bo_nonce = 7\<rparr>\<rparr>"

text \<open>The same with one envelope, one attempt and one backend, and with that attempt cancelled.\<close>

definition busy_fabric :: fabric where
  "busy_fabric = memory_fabric
     \<lparr>fb_envelopes := [\<lparr>ee_envelope = sample_envelope, ee_revoked = False, ee_live = True, ee_reason = []\<rparr>],
      fb_envelope_index := [1 \<mapsto> 0], fb_attempts := [\<lparr>at_record = sample_record, at_live = True\<rparr>],
      fb_attempt_index := [1 \<mapsto> 0], fb_by_envelope := [1 \<mapsto> [Id 1]], fb_backends := [(Id 9, 0)],
      fb_pending := 1, fb_envelope_ids := 1, fb_attempt_ids := 1\<rparr>"

definition cancelled_fabric :: fabric where
  "cancelled_fabric = busy_fabric
     \<lparr>fb_attempts := [\<lparr>at_record = sample_record\<lparr>r_state := AS_Cancelled\<rparr>, at_live = True\<rparr>], fb_pending := 0\<rparr>"

definition sample_apply :: apply_ctx where
  "sample_apply =
     \<lparr>ax_ref = mk_ref (Id 1) gen_first, ax_backend = Id 9, ax_requested = Id 0, ax_now = Instant 20,
      ax_envelope = sample_envelope, ax_handle = 0\<rparr>"

definition sample_verify :: verify_ctx where
  "sample_verify =
     \<lparr>vx_attempt = Id 1, vx_now = Instant 20, vx_record = sample_record, vx_envelope = sample_envelope,
      vx_handle = Some 0\<rparr>"

definition sample_inputs :: authority_inputs where
  "sample_inputs =
     \<lparr>ai_binding = sample_binding, ai_policy = sample_policy, ai_grant = sample_grant, ai_vector = sample_authority\<rparr>"

section \<open>Payloads that always encode\<close>

lemma encode_envelope_succeeds: "\<exists>bs. encode_envelope_payload e = Inr bs"
  using sized_encodable [OF sized_envelope, of kEncodeCapacityBytes e]
  by (simp add: encode_envelope_payload_def encoded_def Let_def encodable_def w_ok_def kEncodeCapacityBytes_def)

lemma encode_attempt_succeeds:
  assumes "length (r_detail r) \<le> 1000"
  shows "\<exists>bs. encode_attempt_payload r = Inr bs \<and> length bs = 327 + length (r_detail r)"
proof -
  have z: "sized (encode_attempt r) (327 + length (r_detail r))"
    by (rule sized_attempt) (use assms in \<open>simp add: kMaxStringBytes_def\<close>)
  show ?thesis
    using sized_encodable [OF z, of kEncodeCapacityBytes] sized_record_bytes [OF z, of kEncodeCapacityBytes] assms
    by (simp add: encode_attempt_payload_def encoded_def Let_def encodable_def record_bytes_def w_ok_def kEncodeCapacityBytes_def)
qed

lemma sample_record_wf: "attempt_wf default_limits sample_record"
  by (simp add: attempt_wf_def sample_defs av_complete_def boot_valid_def gen_first_def default_limits_def kMaxStringBytes_def)

lemma sample_record_encodable: "encodable 1048576 (encode_attempt sample_record)"
  by (rule iffD2 [OF sized_encodable [OF sized_attempt]]) (simp_all add: sample_record_def kMaxStringBytes_def)

section \<open>An admission with a journal, and one call\<close>

definition journal_fabric :: fabric where
  "journal_fabric = memory_fabric
     \<lparr>fb_disk := sample_disk,
      fb_durable := Some ((durable_new ''d'' default_limits)
        \<lparr>ds_recovered := [sample_epoch_record], ds_open := True, ds_journal_open := True, ds_journal_bytes := 72\<rparr>)\<rparr>"

lemma evict_empty: "fb_envelopes f = [] \<Longrightarrow> fb_attempts f = [] \<Longrightarrow> fb_limits f = default_limits \<Longrightarrow> evict_and_compact f = f"
  by (simp add: evict_and_compact_def evict_one_def Let_def default_limits_def)

lemma journal_fabric_admits:
  "\<exists>ev a g. apply_admit sample_env sample_apply journal_fabric = (J_emit [] ev (J_apply sample_apply a), g)"
proof -
  have f: "fb_attempts journal_fabric = []" "fb_attempt_ids journal_fabric = 0" "fb_attempt_index journal_fabric = Map.empty"
    "evict_and_compact journal_fabric = journal_fabric" "fb_limits journal_fabric = default_limits"
    by (simp_all add: journal_fabric_def memory_fabric_def fabric_new_def evict_empty sample_config_def)
  define f3 where "f3 = journal_fabric\<lparr>fb_attempt_ids := 1\<rparr>"
  have d: "\<exists>d. fb_durable f3 = Some d \<and> sample_store d"
    by (simp add: f3_def journal_fabric_def sample_store_def durable_new_def)
  obtain bs where bs: "encode_attempt_payload (reserved_record sample_apply (Id 1) (en_describe sample_env (ax_handle sample_apply)) f3) = Inr bs"
    "length bs \<le> 1000"
    using encode_attempt_succeeds [of "reserved_record sample_apply (Id 1) (en_describe sample_env (ax_handle sample_apply)) f3"]
    by (auto simp: reserved_record_def)
  have "st_ok (fst (journal_record sample_env DR_Attempt bs (inst_ns (ax_now sample_apply)) f3))"
    using d sample_journal [OF _ _ bs(2)] by (auto simp: record_types_def)
  then show ?thesis using f bs(1)
    unfolding apply_admit_def Let_def
    by (auto simp: sample_apply_def minter_next_def minter_set_floor_def find_attempt_def f3_def default_limits_def split_beta)
qed

lemma memory_derives: "\<exists>e g. derive_envelope_internal sample_env sample_inputs (Instant 10) memory_fabric = (Inr e, g)"
proof -
  have c: "fb_config memory_fabric = sample_config\<lparr>fc_enable_durability := False\<rparr>" "fb_limits memory_fabric = default_limits"
    "fb_durable memory_fabric = None" "fb_envelopes memory_fabric = []" "fb_attempts memory_fabric = []"
    by (simp_all add: memory_fabric_def fabric_new_def sample_config_def)
  have "derivation_of sample_inputs = sample_input"
    by (simp add: derivation_of_def sample_inputs_def sample_defs find_exception_def)
  then have d: "derive_cadence (derivation_of sample_inputs) (fb_limits memory_fabric) = Inr sample_outcome"
    using sample_derives c by simp
  have x: "envelope_expiry (fb_config memory_fabric) (ai_grant sample_inputs) (Instant 10) = Inr 1000000010"
    unfolding c by code_simp
  define e where "e = build_envelope sample_env sample_inputs sample_outcome 1000000010 (Instant 10) memory_fabric"
  obtain bs where bs: "encode_envelope_payload e = Inr bs" using encode_envelope_succeeds by blast
  define f1 where "f1 = memory_fabric\<lparr>fb_envelope_ids := minter_next (fb_envelope_ids memory_fabric),
                           fb_provenance_ids := minter_next (fb_provenance_ids memory_fabric)\<rparr>"
  have f1: "evict_and_compact f1 = f1" "fb_durable f1 = None" "fb_envelopes f1 = []" "fb_limits f1 = default_limits"
    using c by (simp_all add: f1_def evict_empty)
  have "journal_record sample_env DR_Envelope bs n f1 = (success, f1)" for n using f1(2) by (simp add: journal_record_def)
  then have "fst (derive_envelope_internal sample_env sample_inputs (Instant 10) memory_fabric) = Inr e"
    unfolding derive_envelope_internal_def d x Let_def sum.case e_def [symmetric] bs f1_def [symmetric]
    using f1 by (simp add: default_limits_def)
  then show ?thesis by (metis prod.collapse)
qed

lemma reach_one_call:
  assumes "fb_envelope_ids f \<noteq> kU64Max"
  shows "reach f \<lparr>sy_fabric = snd (call_step en rq f), sy_jobs = [fst (call_step en rq f)]\<rparr>"
proof -
  have "reach f \<lparr>sy_fabric = f, sy_jobs = [J_call rq]\<rparr>"
    using reach.call [OF reach.start, of f rq] by simp
  from reach.run [OF this, of 0 en] show ?thesis using assms by simp
qed

end
