(* ===== verification/PF_Commit.thy ===== *)
theory PF_Commit
  imports PF_Runs
begin

text \<open>
  One application run alone: when the envelope is in force, the authority unchanged and the backend
  installs what it is told, the sixteen steps of the operation commit the attempt, calling the
  backend exactly twice. The coordinator has no journal here; what a journal adds is in
  \<^verbatim>\<open>PF_Contracts\<close>.
\<close>

section \<open>Runs and what they keep\<close>

definition world :: "fabric \<Rightarrow> fabric_config \<times> bool \<times> bool \<times> durable_store option \<times> binding_registry \<times> policy_store \<times>
    (backend_id \<times> handle) list \<times> epoch \<times> boot_id \<times> u64" where
  "world f = (fb_config f, fb_running f, fb_regressed f, fb_durable f, fb_bindings f, fb_policies f, fb_backends f,
     fb_epoch f, fb_boot f, fb_envelope_ids f)"

text \<open>The minter of envelope identities is at rest during the run.\<close>

fun steady_run :: "env \<Rightarrow> nat \<Rightarrow> job \<Rightarrow> fabric \<Rightarrow> bool" where
  "steady_run en 0 j f = True"
| "steady_run en (Suc n) j f =
     (let (cs, j1, f1) = job_step en j f in fb_envelope_ids f1 = fb_envelope_ids f \<and> steady_run en n j1 f1)"

definition runs :: "env \<Rightarrow> nat \<Rightarrow> job \<Rightarrow> fabric \<Rightarrow> backend_call list \<Rightarrow> job \<Rightarrow> fabric \<Rightarrow> bool" where
  "runs en n j f cs j' f' = (run_job (replicate n en) j f = (cs, j', f') \<and> steady_run en n j f)"

lemma runs_done: "runs en 0 j f [] j f"
  by (simp add: runs_def)

lemma runs_step:
  "job_step en j f = (cs, j1, f1) \<Longrightarrow> fb_envelope_ids f1 = fb_envelope_ids f \<Longrightarrow> runs en n j1 f1 cs' j2 f2 \<Longrightarrow> cs @ cs' = cs2 \<Longrightarrow> runs en (Suc n) j f cs2 j2 f2"
  by (simp add: runs_def)

lemma clock_kept: "fb_last_ns f \<le> inst_ns now \<Longrightarrow> sample_clock now f = f\<lparr>fb_last_ns := inst_ns now\<rparr>"
  by (simp add: sample_clock_def)

lemma memory_journal: "fb_durable f = None \<Longrightarrow> journal_record en t bs ts f = (success, f)"
  "fb_durable f = None \<Longrightarrow> journal_attempt en i now f = f"
  by (simp_all add: journal_record_def journal_attempt_def split: sum.split)

lemma evict_below: "fb_dead_envelopes f = 0 \<Longrightarrow> fb_dead_attempts f = 0 \<Longrightarrow> length (fb_envelopes f) < unat (l_max_envelopes (fb_limits f)) \<Longrightarrow>
    evict_and_compact f = f"
  by (simp add: evict_and_compact_def evict_one_def Let_def)

lemma world_fetch:
  assumes "world g = world f" "fetch_local flow f = Inr (b, p)"
  shows "fetch_local flow g = Inr (b, p)"
proof -
  have "fb_regressed g = fb_regressed f" "fb_bindings g = fb_bindings f" "fb_policies g = fb_policies f"
    using assms(1) by (simp_all add: world_def)
  then have "fetch_local flow g = fetch_local flow f" unfolding fetch_local_def require_trustworthy_clock_def by (simp only:)
  then show ?thesis using assms(2) by simp
qed

lemma world_stamp: "world g = world f \<Longrightarrow> fetch_stamp flow b p gr g = fetch_stamp flow b p gr f"
  by (simp add: fetch_stamp_def world_def)

text \<open>The three sections of a fetch that finds everything in place.\<close>

lemma fetch_runs:
  assumes "world g = world f" "fetch_local flow f = Inr (b, p)" "en_grant en = Inr gr" "grant_usable gr"
    "\<not> grant_expired_at gr (en_clock en)" "fetch_stamp flow b p gr f = Inr inp" "fb_last_ns g \<le> inst_ns (en_clock en)"
    "runs en n (J_resume k (Inr inp)) (g\<lparr>fb_last_ns := inst_ns (en_clock en)\<rparr>) cs j h"
  shows "runs en (Suc (Suc (Suc n))) (J_fetch k (FP_local flow)) g cs j h"
proof -
  let ?g = "g\<lparr>fb_last_ns := inst_ns (en_clock en)\<rparr>"
  have w: "world ?g = world f" using assms(1) by (simp add: world_def)
  have 1: "job_step en (J_fetch k (FP_local flow)) g = ([], J_fetch k (FP_call flow b p), g)"
    using world_fetch [OF assms(1,2)] by simp
  have 2: "job_step en (J_fetch k (FP_call flow b p)) g = ([], J_fetch k (FP_stamp flow b p gr), ?g)"
    using assms(3-5,7) by (simp add: fetch_call_def clock_kept)
  have 3: "job_step en (J_fetch k (FP_stamp flow b p gr)) ?g = ([], J_resume k (Inr inp), ?g)"
    using world_stamp [OF w] assms(6) by simp
  show ?thesis
    by (rule runs_step [OF 1 _ runs_step [OF 2 _ runs_step [OF 3 _ assms(8)]]]) simp_all
qed

text \<open>What an application that goes through finds: an envelope in force, a registered backend, no
  earlier attempt, room in the tables, unchanged authority, and a backend that installs what it is
  told.\<close>

definition applicable :: "env \<Rightarrow> envelope_ref \<Rightarrow> backend_id \<Rightarrow> handle \<Rightarrow> envelope \<Rightarrow> fabric \<Rightarrow> bool" where
  "applicable en ref b h e f =
     (fb_running f \<and> \<not> fb_regressed f \<and> fb_last_ns f \<le> inst_ns (en_clock en) \<and> fb_durable f = None \<and>
      id_valid (gr_id ref) \<and> gen_known (gr_gen ref) \<and> id_valid b \<and> backend_ptr b f = Some h \<and>
      (\<exists>i. find_envelope (gr_id ref) f = Some i \<and> ee_envelope (fb_envelopes f ! i) = e \<and> \<not> ee_revoked (fb_envelopes f ! i)) \<and>
      gr_gen (e_ref e) = gr_gen ref \<and> \<not> envelope_expired_at e (en_clock en) \<and>
      find_existing_attempt ref b f = None \<and> fb_attempt_index f (fb_attempt_ids f + 1) = None \<and>
      fb_pending f < fc_max_pending_attempts (fb_config f) \<and> fb_dead_envelopes f = 0 \<and> fb_dead_attempts f = 0 \<and>
      length (fb_envelopes f) < unat (l_max_envelopes (fb_limits f)) \<and>
      length (fb_attempts f) < unat (l_max_attempts (fb_limits f)))"

definition authority_unchanged :: "env \<Rightarrow> envelope \<Rightarrow> fabric \<Rightarrow> bool" where
  "authority_unchanged en e f =
     (\<exists>bd p g inp. fetch_local (e_flow e) f = Inr (bd, p) \<and> en_grant en = Inr g \<and> grant_usable g \<and>
        \<not> grant_expired_at g (en_clock en) \<and> fetch_stamp (e_flow e) bd p g f = Inr inp \<and>
        compare_authority (e_authority e) (ai_vector inp) = AD_None)"

definition installs :: "env \<Rightarrow> backend_id \<Rightarrow> handle \<Rightarrow> attempt_id \<Rightarrow> envelope \<Rightarrow> bool" where
  "installs en b h a e =
     (st_ok (fst (en_apply en)) \<and> ack_accepted (snd (en_apply en)) \<and> ack_attempt (snd (en_apply en)) = a \<and>
      gr_id (bd_ref (en_describe en h)) = b \<and> bd_supports_readback (en_describe en h) \<and>
      readback_good (fst (en_readback en)) (snd (en_readback en)) \<and>
      ev_attempt (snd (en_readback en)) = a \<and> gr_id (ev_backend (snd (en_readback en))) = b \<and>
      ev_rate_bps (snd (en_readback en)) = c_rate_bps (e_cadence e) \<and>
      ev_quantum_bytes (snd (en_readback en)) = c_quantum_bytes (e_cadence e) \<and>
      ev_burst_bytes (snd (en_readback en)) = c_burst_bytes (e_cadence e) \<and>
      ev_interval_ns (snd (en_readback en)) = c_interval_ns (e_cadence e))"

text \<open>From the reservation to the end.\<close>

definition tracked :: "fabric \<Rightarrow> fabric \<Rightarrow> attempt_id \<Rightarrow> app_state \<Rightarrow> bool" where
  "tracked f g a st =
     (world g = world f \<and> find_attempt a g = Some (length (fb_attempts f)) \<and>
      r_state (record_at g (length (fb_attempts f))) = st \<and> r_attempt (record_at g (length (fb_attempts f))) = a)"

lemma admit_tracks:
  assumes "applicable en ref b h e f" "world g = world f" "fb_attempts g = fb_attempts f" "fb_attempt_index g = fb_attempt_index f"
    "fb_attempt_ids g = fb_attempt_ids f" "fb_dead_envelopes g = 0" "fb_dead_attempts g = 0" "fb_envelopes g = fb_envelopes f"
    "x = \<lparr>ax_ref = ref, ax_backend = b, ax_requested = Id 0, ax_now = now, ax_envelope = e, ax_handle = h\<rparr>"
    "a = Id (fb_attempt_ids f + 1)"
  shows "\<exists>ev g'. apply_admit en x g = (J_emit [] ev (J_apply x a), g') \<and> tracked f g' a AS_Submitted \<and>
     r_backend (record_at g' (length (fb_attempts f))) = bd_ref (en_describe en h) \<and> fb_last_ns g' = fb_last_ns g"
proof -
  have c: "fb_config g = fb_config f" "fb_durable g = None" using assms(1,2) by (simp_all add: world_def applicable_def)
  have ev: "evict_and_compact g = g"
    using assms c by (intro evict_below) (simp_all add: applicable_def)
  define g3 where "g3 = g\<lparr>fb_attempt_ids := fb_attempt_ids f + 1\<rparr>"
  define r where "r = reserved_record x a (en_describe en (ax_handle x)) g3"
  obtain bs where bs: "encode_attempt_payload r = Inr bs" using encode_attempt_succeeds [of r] by (auto simp: r_def reserved_record_def)
  define g' where "g' = bump ST_applies_reserved ((insert_attempt (r\<lparr>r_state := AS_Submitted\<rparr>) g3)\<lparr>fb_pending := fb_pending g3 + 1\<rparr>)"
  have new: "find_attempt a (g\<lparr>fb_attempt_ids := fb_attempt_ids f + 1\<rparr>) = None"
    using assms by (simp add: find_attempt_def applicable_def)
  have d: "fb_durable g3 = None" using c by (simp add: g3_def)
  have minted: "id_valid (ax_requested x) = False" "Id (fb_attempt_ids f + 1) = a" "minter_next (fb_attempt_ids g) = fb_attempt_ids f + 1"
    "length (fb_attempts g) \<ge> unat (l_max_attempts (fb_limits g)) \<longleftrightarrow> False"
    "g\<lparr>fb_attempt_ids := fb_attempt_ids f + 1, fb_attempt_ids := minter_set_floor (id_value a)
        (fb_attempt_ids (g\<lparr>fb_attempt_ids := fb_attempt_ids f + 1\<rparr>))\<rparr> = g3"
    using assms c by (simp_all add: minter_next_def minter_set_floor_def g3_def applicable_def)
  have "\<exists>ev. apply_admit en x g = (J_emit [] ev (J_apply x a), g')"
    unfolding apply_admit_def Let_def ev minted not_False_eq_True if_True if_False new simp_thms r_def [symmetric] bs sum.case
      memory_journal(1) [OF d] prod.case g'_def
    by simp
  moreover have "tracked f g' a AS_Submitted" "r_backend (record_at g' (length (fb_attempts f))) = bd_ref (en_describe en h)"
      "fb_last_ns g' = fb_last_ns g"
    using assms by (simp_all add: tracked_def g'_def g3_def insert_attempt_def Let_def world_def find_attempt_def r_def reserved_record_def bump_by_def)
  ultimately show ?thesis by blast
qed

lemma transition_tracks:
  assumes "tracked f g a st" "fb_durable f = None"
  shows "tracked f (journal_attempt en (length (fb_attempts f)) now (apply_transition (length (fb_attempts f)) nx now code d g)) a nx"
    "r_backend (record_at (journal_attempt en (length (fb_attempts f)) now (apply_transition (length (fb_attempts f)) nx now code d g))
       (length (fb_attempts f))) = r_backend (record_at g (length (fb_attempts f)))"
proof -
  let ?n = "length (fb_attempts f)" and ?g = "apply_transition (length (fb_attempts f)) nx now code d g"
  have l: "?n < length (fb_attempts g)" using assms(1) by (intro find_attempt_length) (auto simp: tracked_def)
  have "fb_durable ?g = None" using assms by (simp add: tracked_def world_def apply_transition_def set_record_def)
  note j = memory_journal(2) [OF this]
  show "tracked f (journal_attempt en ?n now ?g) a nx"
    "r_backend (record_at (journal_attempt en ?n now ?g) ?n) = r_backend (record_at g ?n)"
    using assms l unfolding j
    by (simp_all add: tracked_def find_attempt_transition fb_attempts_apply_transition transition_record_def Let_def split: app_state.split)
       (simp_all add: world_def apply_transition_def set_record_def)
qed

lemma tracked_ids: "tracked f g a st \<Longrightarrow> fb_envelope_ids g = fb_envelope_ids f"
  by (simp add: tracked_def world_def)

lemma tracked_stats [simp]: "tracked f (g\<lparr>fb_stats := v\<rparr>) a st = tracked f g a st"
  "tracked f (g\<lparr>fb_stats := v, fb_events := w\<rparr>) a st = tracked f g a st"
  "tracked f (g\<lparr>fb_last_ns := n\<rparr>) a st = tracked f g a st"
  "tracked f (g\<lparr>fb_active := m\<rparr>) a st = tracked f g a st"
  by (simp_all add: tracked_def world_def find_attempt_def cong: option.case_cong if_cong)

lemma tracked_emit [simp]: "tracked f (emit e g) a st = tracked f g a st"
  by (simp add: emit_def Let_def bump_by_def)

lemma complete_tracks:
  assumes "tracked f g a AS_Submitted" "applicable en ref b h e f" "installs en b h a e"
    "r_backend (record_at g (length (fb_attempts f))) = bd_ref (en_describe en h)" "rq_attempt rq = a"
  shows "\<exists>g'. apply_complete en x rq (fst (en_apply en)) (snd (en_apply en)) g = (J_readback x rq, g') \<and>
    tracked f g' a AS_Acknowledged \<and>
    r_backend (record_at g' (length (fb_attempts f))) = bd_ref (en_describe en h) \<and> fb_last_ns g' = fb_last_ns g"
proof -
  let ?n = "length (fb_attempts f)"
  let ?r = "(record_at g ?n)\<lparr>r_backend_seq := ack_backend_seq (snd (en_apply en))\<rparr>"
  have g: "find_attempt a g = Some ?n" "r_state (record_at g ?n) = AS_Submitted" "world g = world f" "fb_durable f = None"
    using assms(1,2) by (auto simp: tracked_def applicable_def)
  have l: "?n < length (fb_attempts g)" by (rule find_attempt_length [OF g(1)])
  obtain k where b: "find_backend b g = Some k"
    using assms(2) g(3) by (auto simp: applicable_def backend_ptr_def find_backend_def world_def)
  have t: "tracked f (set_record ?n ?r g) a AS_Submitted"
    using assms(1) l by (simp add: tracked_def set_record_def world_def find_attempt_def nth_list_update split: option.splits if_splits)
  note s = transition_tracks [OF t g(4), of en "ax_now x" AS_Acknowledged EC_Ok "ack_detail (snd (en_apply en))"]
  have "apply_complete en x rq (fst (en_apply en)) (snd (en_apply en)) g = (J_readback x rq,
      journal_attempt en ?n (ax_now x) (apply_transition ?n AS_Acknowledged (ax_now x) EC_Ok (ack_detail (snd (en_apply en))) (set_record ?n ?r g)))"
    using assms g b by (simp add: apply_complete_def Let_def installs_def)
  moreover have "record_at (set_record ?n ?r g) ?n = ?r" using l by (simp add: set_record_def)
  ultimately show ?thesis using s assms(4) by simp
qed

lemma commit_tracks:
  assumes "tracked f g a AS_Acknowledged" "applicable en ref b h e f" "installs en b h a e"
    "r_backend (record_at g (length (fb_attempts f))) = bd_ref (en_describe en h)" "rq_attempt rq = a"
    "ax_envelope x = e" "compare_authority (e_authority e) (ai_vector inp) = AD_None"
  shows "\<exists>g' ev. apply_commit en x rq (fst (en_readback en)) (snd (en_readback en)) (Inr inp) g = (J_emit [] ev (J_leave [] (OC_attempt a)), g') \<and>
    tracked f g' a AS_Applied"
proof -
  let ?n = "length (fb_attempts f)" and ?ev = "snd (en_readback en)"
  let ?r = "record_evidence ?ev (record_at g ?n)"
  have g: "find_attempt a g = Some ?n" "r_state (record_at g ?n) = AS_Acknowledged" "world g = world f" "fb_durable f = None"
    "r_attempt (record_at g ?n) = a"
    using assms(1,2) by (auto simp: tracked_def applicable_def)
  have l: "?n < length (fb_attempts g)" by (rule find_attempt_length [OF g(1)])
  obtain k where b: "find_backend b g = Some k"
    using assms(2) g(3) by (auto simp: applicable_def backend_ptr_def find_backend_def world_def)
  have t: "tracked f (set_record ?n ?r g) a AS_Acknowledged"
    using assms(1) l by (simp add: tracked_def set_record_def world_def find_attempt_def record_evidence_def nth_list_update split: option.splits if_splits)
  obtain d where fin: "finalize_evidence ?n e ?ev True (readback_error (fst (en_readback en)) ?ev) (ax_now x) g =
      bump ST_applies_committed (apply_transition ?n AS_Applied (ax_now x) EC_Ok d (set_record ?n ?r g))"
    using assms(3,4) g by (simp add: finalize_evidence_def Let_def evidence_matches_def installs_def)
  let ?h = "bump ST_applies_committed (apply_transition ?n AS_Applied (ax_now x) EC_Ok d (set_record ?n ?r g))"
  have dur: "fb_durable (apply_transition ?n AS_Applied (ax_now x) EC_Ok d (set_record ?n ?r g)) = None"
    using g by (simp add: world_def apply_transition_def set_record_def)
  have "tracked f (apply_transition ?n AS_Applied (ax_now x) EC_Ok d (set_record ?n ?r g)) a AS_Applied"
    using transition_tracks(1) [OF t g(4), of en "ax_now x" AS_Applied EC_Ok d] memory_journal(2) [OF dur] by simp
  then have h: "tracked f ?h a AS_Applied" by (simp add: bump_by_def)
  then have "journal_attempt en ?n (ax_now x) ?h = ?h" using dur by (intro memory_journal) simp
  then have "\<exists>ev. apply_commit en x rq (fst (en_readback en)) ?ev (Inr inp) g = (J_emit [] ev (J_leave [] (OC_attempt a)), ?h)"
  proof -
    have rs: "r_state (record_at ?h ?n) = AS_Applied" using h by (simp add: tracked_def)
    have good: "readback_good (fst (en_readback en)) ?ev = True" "gr_id (bd_ref (en_describe en h)) = b" using assms(3) by (simp_all add: installs_def)
    show "journal_attempt en ?n (ax_now x) ?h = ?h \<Longrightarrow> ?thesis"
      unfolding apply_commit_def assms(4-7) g(1,2) option.case Let_def drift_after_def sum.case good b fin by (simp add: rs [simplified])
  qed
  then show ?thesis using h by blast
qed

section \<open>The whole operation\<close>

lemma existing_cong:
  assumes "fb_attempts g = fb_attempts f" "fb_attempt_index g = fb_attempt_index f" "fb_by_envelope g = fb_by_envelope f"
  shows "find_existing_attempt ref b g = find_existing_attempt ref b f"
proof -
  have a: "find_attempt a g = find_attempt a f" for a unfolding find_attempt_def assms by (rule refl)
  have "first_on_backend b g as = first_on_backend b f as" for as
    by (induction as) (simp_all add: a assms(1) cong: option.case_cong if_cong)
  then show ?thesis using assms(3) by (simp add: find_existing_attempt_def attempts_of_def)
qed

lemma apply_runs:
  assumes "applicable en ref b h e f" "authority_unchanged en e f" "installs en b h a e" "a = Id (fb_attempt_ids f + 1)"
  shows "\<exists>rq g. runs en 16 (J_call (RQ_apply_envelope ref b (Id 0))) f
       [BC_apply h rq, BC_readback h rq] (J_done (OC_attempt a)) g \<and> rq_attempt rq = a \<and> rq_cadence rq = e_cadence e \<and>
     (\<exists>i. find_attempt a g = Some i \<and> r_state (record_at g i) = AS_Applied)"
proof -
  let ?now = "en_clock en" and ?n = "length (fb_attempts f)"
  let ?rq = "RQ_apply_envelope ref b (Id 0)"
  define x where "x = \<lparr>ax_ref = ref, ax_backend = b, ax_requested = Id 0, ax_now = ?now, ax_envelope = e, ax_handle = h\<rparr>"
  from assms(2) obtain bd p gr inp where fetch: "fetch_local (e_flow e) f = Inr (bd, p)" "en_grant en = Inr gr" "grant_usable gr"
    "\<not> grant_expired_at gr ?now" "fetch_stamp (e_flow e) bd p gr f = Inr inp"
    "compare_authority (e_authority e) (ai_vector inp) = AD_None"
    unfolding authority_unchanged_def by blast
  from assms(1) obtain i where f: "fb_running f" "\<not> fb_regressed f" "fb_last_ns f \<le> inst_ns ?now" "id_valid (gr_id ref)"
    "gen_known (gr_gen ref)" "id_valid b" "backend_ptr b f = Some h" "find_envelope (gr_id ref) f = Some i"
    "ee_envelope (fb_envelopes f ! i) = e" "\<not> ee_revoked (fb_envelopes f ! i)" "gr_gen (e_ref e) = gr_gen ref"
    "\<not> envelope_expired_at e ?now" "find_existing_attempt ref b f = None" "fb_pending f < fc_max_pending_attempts (fb_config f)"
    unfolding applicable_def by blast
  define f1 where "f1 = (op_enter f)\<lparr>fb_last_ns := inst_ns ?now\<rparr>"
  define f2 where "f2 = bump ST_applies_requested f1"
  define f4 where "f4 = f2\<lparr>fb_last_ns := inst_ns ?now\<rparr>"
  note up = f1_def f2_def f4_def op_enter_def bump_by_def
  have 1: "job_step en (J_call ?rq) f = ([], J_work ?rq ?now, f1)"
    using f by (simp add: call_step_def Let_def require_trustworthy_clock_def op_enter_def clock_kept f1_def)
  have find: "find_envelope k f1 = find_envelope k f" "backend_ptr b f1 = backend_ptr b f" "fb_envelopes f1 = fb_envelopes f"
     "fb_running f1 = fb_running f" for k
    by (simp_all add: find_envelope_def backend_ptr_def find_backend_def up cong: option.case_cong if_cong)
  have 2: "job_step en (J_work ?rq ?now) f1 = ([], J_fetch (K_apply x) (FP_local (e_flow e)), f2)"
    using f by (simp add: apply_resolve_def Let_def find f2_def x_def)
  have w2: "world f2 = world f" "fb_last_ns f2 \<le> inst_ns ?now" by (simp_all add: world_def up)
  have w4: "world f4 = world f" "fb_attempts f4 = fb_attempts f" "fb_attempt_index f4 = fb_attempt_index f" "fb_attempt_ids f4 = fb_attempt_ids f"
    "fb_dead_envelopes f4 = 0" "fb_dead_attempts f4 = 0" "fb_envelopes f4 = fb_envelopes f"
    using assms(1) by (simp_all add: world_def applicable_def up)
  obtain ev6 f6 where f6: "apply_admit en x f4 = (J_emit [] ev6 (J_apply x a), f6)" "tracked f f6 a AS_Submitted"
      "r_backend (record_at f6 ?n) = bd_ref (en_describe en h)" "fb_last_ns f6 = fb_last_ns f4"
    using admit_tracks [OF assms(1) w4 x_def assms(4)] by blast
  have ex: "find_existing_attempt ref b f4 = None" "find_envelope (gr_id ref) f4 = Some i" "fb_running f4" "fb_pending f4 = fb_pending f" "fb_config f4 = fb_config f"
    using f existing_cong [of f4 f] w4 by (simp_all add: find_envelope_def up cong: option.case_cong if_cong)
  have 6: "job_step en (J_resume (K_apply x) (Inr inp)) f4 = ([], J_emit [] ev6 (J_apply x a), f6)"
    using f f6(1) ex fetch(6) w4 by (simp add: apply_resume_def apply_reserve_def x_def [symmetric] Let_def) (simp add: x_def)
  define f7 where "f7 = emit ev6 f6"
  have t7: "tracked f f7 a AS_Submitted" "r_backend (record_at f7 ?n) = bd_ref (en_describe en h)" "fb_last_ns f7 = inst_ns ?now"
    using f6 by (simp_all add: f7_def emit_def Let_def bump_by_def f4_def)
  define rq where "rq = apply_request_of x a f7"
  have rq: "rq_attempt rq = a" "rq_cadence rq = e_cadence e" by (simp_all add: rq_def apply_request_of_def x_def)
  obtain f9 where f9: "apply_complete en x rq (fst (en_apply en)) (snd (en_apply en)) f7 = (J_readback x rq, f9)"
     "tracked f f9 a AS_Acknowledged" "r_backend (record_at f9 ?n) = bd_ref (en_describe en h)" "fb_last_ns f9 = fb_last_ns f7"
    using complete_tracks [OF t7(1) assms(1,3) t7(2) rq(1)] by blast
  define f12 where "f12 = f9\<lparr>fb_last_ns := inst_ns ?now\<rparr>"
  have t12: "tracked f f12 a AS_Acknowledged" "r_backend (record_at f12 ?n) = bd_ref (en_describe en h)"
    using f9(2,3) by (simp_all add: f12_def)
  have e: "ax_envelope x = e" "ax_handle x = h" by (simp_all add: x_def)
  obtain f14 ev14 where f14: "apply_commit en x rq (fst (en_readback en)) (snd (en_readback en)) (Inr inp) f12 =
       (J_emit [] ev14 (J_leave [] (OC_attempt a)), f14)" "tracked f f14 a AS_Applied"
    using commit_tracks [OF t12(1) assms(1,3) t12(2) rq(1) e(1) fetch(6)] by blast
  define g where "g = op_leave (emit ev14 f14)"
  have w24: "fb_envelope_ids f2 = fb_envelope_ids f" "fb_envelope_ids f4 = fb_envelope_ids f" "fb_envelope_ids f1 = fb_envelope_ids f" by (simp_all add: up)
  note ids = w24 tracked_ids [OF f6(2)] tracked_ids [OF t7(1)] tracked_ids [OF f9(2)] tracked_ids [OF t12(1)] tracked_ids [OF f14(2)]
  have op: "fb_envelope_ids (op_leave (emit ev14 f14)) = fb_envelope_ids f" "fb_envelope_ids (emit ev14 f14) = fb_envelope_ids f"
    using ids by (simp_all add: op_leave_def emit_def Let_def)
  have tail: "runs en 3 (J_resume (K_commit x rq (fst (en_readback en)) (snd (en_readback en))) (Inr inp)) f12 [] (J_done (OC_attempt a)) g"
    by (simp add: runs_def numeral_3_eq_3 f14(1) g_def ids op)
  have w9: "world f9 = world f" "fb_last_ns f9 \<le> inst_ns ?now" using f9(2,4) t7(3) by (simp_all add: tracked_def)
  have after: "runs en 7 (J_readback x rq) f9 [BC_readback h rq] (J_done (OC_attempt a)) g"
  proof -
    have "runs en 6 (J_fetch (K_commit x rq (fst (en_readback en)) (snd (en_readback en))) (FP_local (e_flow e))) f9 [] (J_done (OC_attempt a)) g"
      using fetch_runs [OF w9(1) fetch(1-5) w9(2) tail [unfolded f12_def]] by (simp add: numeral_eq_Suc)
    moreover have "job_step en (J_readback x rq) f9 = ([BC_readback h rq],
        J_fetch (K_commit x rq (fst (en_readback en)) (snd (en_readback en))) (FP_local (e_flow e)), f9)"
      using assms(3) by (simp add: readback_step_def Let_def installs_def e)
    ultimately show ?thesis using runs_step [of en _ f9 _ _ f9 6] by (simp add: numeral_eq_Suc)
  qed
  have rest: "runs en 11 (J_resume (K_apply x) (Inr inp)) f4 [BC_apply h rq, BC_readback h rq] (J_done (OC_attempt a)) g"
    using after 6 f9(1) by (simp add: runs_def numeral_eq_Suc Let_def f7_def [symmetric] rq_def [symmetric] e ids)
  have "runs en 14 (J_fetch (K_apply x) (FP_local (e_flow e))) f2 [BC_apply h rq, BC_readback h rq] (J_done (OC_attempt a)) g"
    using fetch_runs [OF w2(1) fetch(1-5) w2(2) rest [unfolded f4_def]] by (simp add: numeral_eq_Suc)
  then have "runs en 16 (J_call ?rq) f [BC_apply h rq, BC_readback h rq] (J_done (OC_attempt a)) g"
    using 1 2 by (simp add: runs_def numeral_eq_Suc ids del: job_step.simps)
  moreover have "tracked f g a AS_Applied" using f14(2) by (simp add: g_def op_leave_def)
  ultimately show ?thesis using rq unfolding tracked_def by blast
qed

lemma apply_commits:
  assumes "applicable en ref b h e f" "authority_unchanged en e f" "installs en b h a e" "a = Id (fb_attempt_ids f + 1)"
  shows "\<exists>rq g. run_job (replicate 16 en) (J_call (RQ_apply_envelope ref b (Id 0))) f =
       ([BC_apply h rq, BC_readback h rq], J_done (OC_attempt a), g) \<and> rq_attempt rq = a \<and> rq_cadence rq = e_cadence e \<and>
     (\<exists>i. find_attempt a g = Some i \<and> r_state (record_at g i) = AS_Applied)"
  using apply_runs [OF assms] unfolding runs_def by blast

text \<open>A run of one operation is a path of the transition system.\<close>

lemma reach_runs:
  assumes "reach f0 \<lparr>sy_fabric = f, sy_jobs = [j]\<rparr>" "runs en n j f cs j' g" "fb_envelope_ids f \<noteq> kU64Max"
  shows "reach f0 \<lparr>sy_fabric = g, sy_jobs = [j']\<rparr>"
  using assms
proof (induction n arbitrary: j f cs)
  case 0
  then show ?case by (simp add: runs_def)
next
  case (Suc n)
  obtain c1 j1 f1 where s: "job_step en j f = (c1, j1, f1)" by (metis prod.exhaust)
  have "reach f0 \<lparr>sy_fabric = f1, sy_jobs = [j1]\<rparr>" using reach.run [OF Suc.prems(1), of 0 en c1 j1 f1] Suc.prems(3) s by simp
  moreover obtain c2 where "runs en n j1 f1 c2 j' g" "fb_envelope_ids f1 = fb_envelope_ids f"
    using Suc.prems(2) s by (auto simp: runs_def split: prod.splits)
  ultimately show ?case using Suc.IH Suc.prems(3) by simp
qed

text \<open>A coordinator in which the sample envelope can be applied.\<close>

definition ready_fabric :: fabric where
  "ready_fabric = busy_fabric
     \<lparr>fb_attempts := [], fb_attempt_index := Map.empty, fb_by_envelope := Map.empty, fb_pending := 0, fb_attempt_ids := 0,
      fb_boot := sample_boot, fb_bindings := [live_entry (sample_binding\<lparr>b_gen := gen_first\<rparr>)],
      fb_policies := [live_entry sample_policy]\<rparr>"

lemma ready_applicable:
  "applicable sample_env (mk_ref (Id 1) gen_first) (Id 9) 0 sample_envelope ready_fabric"
proof -
  have "\<not> envelope_expired_at sample_envelope (Instant 10)" "gen_known gen_first" by code_simp+
  moreover have "e_ref sample_envelope = mk_ref (Id 1) gen_first" by (simp add: sample_envelope_def)
  ultimately show ?thesis
    by (simp add: applicable_def ready_fabric_def busy_fabric_def memory_fabric_def fabric_new_def sample_env_def sample_config_def
        default_limits_def backend_ptr_def find_backend_def find_envelope_def find_existing_attempt_def attempts_of_def)
qed

lemma ready_authority: "authority_unchanged sample_env sample_envelope ready_fabric"
proof -
  let ?b = "sample_binding\<lparr>b_gen := gen_first\<rparr>"
  have "binding_get (Id 1) [live_entry ?b] = Inr ?b" "policy_resolve (Id 1) (Id 3) [live_entry sample_policy] = Inr sample_policy"
    "binding_usable ?b" "grant_usable sample_grant" "\<not> grant_expired_at sample_grant (Instant 10)" "av_complete sample_authority"
    "gr_id (b_resource ?b) = Id 3" "p_path sample_policy = b_path ?b" "compare_authority sample_authority sample_authority = AD_None"
    by code_simp+
  moreover have "\<lparr>av_flow = mk_ref (Id 1) (b_gen ?b), av_resource = b_resource ?b, av_policy = p_ref sample_policy,
      av_grant = g_ref sample_grant, av_path = b_path ?b, av_epoch = Epoch 1, av_boot = sample_boot\<rparr> = sample_authority"
    by (simp add: sample_defs)
  ultimately show ?thesis
    unfolding authority_unchanged_def
    by (intro exI [of _ ?b] exI [of _ sample_policy] exI [of _ sample_grant]
          exI [of _ "\<lparr>ai_binding = ?b, ai_policy = sample_policy, ai_grant = sample_grant, ai_vector = sample_authority\<rparr>"])
      (simp add: fetch_local_def fetch_stamp_def require_trustworthy_clock_def ready_fabric_def busy_fabric_def memory_fabric_def
        fabric_new_def sample_env_def sample_envelope_def)
qed

lemma ready_installs: "installs sample_env (Id 9) 0 (Id 1) sample_envelope"
  by (simp add: installs_def sample_env_def sample_desc_def sample_evidence_def readback_good_def sample_envelope_def sample_cadence_def)

lemma ready_state: "consistent_ledger ready_fabric" "keyed ready_fabric" "all_justified ready_fabric" "tables_agree ready_fabric"
  "fb_envelope_ids ready_fabric = 1"
  by (simp_all add: consistent_ledger_def ledger_ok_def count_pending_def keyed_def all_justified_def tables_agree_def
      ready_fabric_def busy_fabric_def sample_envelope_def)

lemma ready_reaches:
  "\<exists>oc g i. reach ready_fabric \<lparr>sy_fabric = g, sy_jobs = [J_done oc]\<rparr> \<and> i < length (fb_attempts g) \<and>
     r_state (record_at g i) = AS_Applied"
proof -
  have a: "Id 1 = Id (fb_attempt_ids ready_fabric + 1)" by (simp add: ready_fabric_def)
  obtain cs oc g i where g: "runs sample_env 16 (J_call (RQ_apply_envelope (mk_ref (Id 1) gen_first) (Id 9) (Id 0))) ready_fabric cs (J_done oc) g"
    "find_attempt (Id 1) g = Some i" "r_state (record_at g i) = AS_Applied"
    using apply_runs [OF ready_applicable ready_authority ready_installs a] by blast
  have "reach ready_fabric \<lparr>sy_fabric = ready_fabric, sy_jobs = [J_call (RQ_apply_envelope (mk_ref (Id 1) gen_first) (Id 9) (Id 0))]\<rparr>"
    using reach.call [OF reach.start, of ready_fabric] by simp
  from reach_runs [OF this g(1)] have "reach ready_fabric \<lparr>sy_fabric = g, sy_jobs = [J_done oc]\<rparr>"
    by (simp add: ready_state kU64Max_def)
  then show ?thesis using g(3) find_attempt_length [OF g(2)] by blast
qed

end
