(* ===== verification/PF_Typing.thy ===== *)
theory PF_Typing
  imports PF_Serialize
begin

text \<open>
  What the decoders of \<^verbatim>\<open>src/serialize.cpp\<close> return, whatever the bytes: a decoder either refuses
  or its result is well formed. \<open>yields p P\<close> says this of one decoder, and the rules follow the way
  the decoders are written.
\<close>

definition yields :: "'a status_or decode \<Rightarrow> ('a \<Rightarrow> bool) \<Rightarrow> bool" where
  "yields p P = (\<forall>r x r'. run_state p r = (Inr x, r') \<longrightarrow> P x)"

named_theorems yield_rules

lemma yields_return [yield_rules]: "(\<And>x. v = Inr x \<Longrightarrow> P x) \<Longrightarrow> yields (rd_return v) P"
  by (simp add: yields_def)

lemma yields_check [yield_rules]: "yields p P \<Longrightarrow> yields (rd_check p) P"
  by (auto simp: yields_def rd_check_def split: option.splits)

lemma yields_bind [yield_rules]: "(\<And>x. yields (f x) P) \<Longrightarrow> yields (State_Monad.bind p f) P"
  by (auto simp: yields_def State_Monad.bind_def split: prod.splits)

lemma yields_try: "yields p Q \<Longrightarrow> (\<And>x. Q x \<Longrightarrow> yields (f x) P) \<Longrightarrow> yields (rd_try p f) P"
  by (auto simp: yields_def rd_try_def State_Monad.bind_def split: prod.splits sum.splits) blast

lemma yields_try_any [yield_rules]: "(\<And>x. yields (f x) P) \<Longrightarrow> yields (rd_try p f) P"
  by (rule yields_try [where Q = "\<lambda>_. True"]) (simp_all add: yields_def)

text \<open>A value that is read and used: what it satisfies whatever was read.\<close>

definition always :: "'a decode \<Rightarrow> ('a \<Rightarrow> bool) \<Rightarrow> bool" where
  "always p P = (\<forall>r. P (fst (run_state p r)))"

lemma yields_bind_always: "always p Q \<Longrightarrow> (\<And>x. Q x \<Longrightarrow> yields (f x) P) \<Longrightarrow> yields (State_Monad.bind p f) P"
  by (auto simp: yields_def always_def State_Monad.bind_def split: prod.splits) (metis fst_conv)

lemma always_str: "always (rd_str m) (\<lambda>s. length s \<le> m)"
  by (auto simp: always_def rd_str_def rd_is_ok_def rd_take_def rd_fail_def State_Monad.bind_def split: prod.splits)

lemma always_deadline: "always rd_deadline deadline_wf"
  by (simp add: always_def rd_deadline_def State_Monad.bind_def split_beta)

lemma yields_authority: "yields decode_authority av_complete"
  unfolding decode_authority_def by (rule yield_rules)+ (auto simp: Let_def split: if_splits)

definition attempt_typed :: "limits \<Rightarrow> app_record \<Rightarrow> bool" where
  "attempt_typed l r =
     (id_valid (r_attempt r) \<and> av_complete (r_authority r) \<and> genuine_code (r_reason r) \<and>
      length (r_detail r) \<le> unat (l_max_explanation_bytes l))"

lemma genuine_of_num [simp]: "genuine_code (error_code_of_num n)"
proof (cases "unat n < length error_codes")
  case True
  then have "error_code_of_num n \<in> set error_codes" by (simp add: error_code_of_num_def)
  then show ?thesis by (auto simp: error_codes_def)
next
  case False
  then show ?thesis by (simp add: error_code_of_num_def error_codes_def)
qed

lemma yields_binding: "yields (decode_binding l) (binding_decodable l)"
  unfolding decode_binding_def by (rule yield_rules)+ (auto simp: binding_decodable_def split: if_splits)

lemma yields_policy: "yields (decode_policy l) (policy_decodable l)"
proof -
  have "decoded_policy l p = Inr q \<Longrightarrow> policy_decodable l q" for p q
    by (auto simp: decoded_policy_def policy_decodable_def Let_def split: if_splits)
  then show ?thesis
    unfolding decode_policy_def
    by (intro yields_bind yields_check)
       (auto split: option.splits if_splits intro!: yields_try_any yields_return)
qed

lemma yields_envelope: "yields (decode_envelope l) envelope_wf"
  unfolding decode_envelope_def
  by (rule yields_bind)+
     (rule yields_try [OF yields_authority], rule yields_try_any, (rule yields_bind_always [OF always_deadline] | rule yields_bind)+,
      rule yields_check, rule yields_return, auto simp: envelope_wf_def split: if_splits)

lemma yields_attempt: "yields (decode_attempt l) (attempt_typed l)"
  unfolding decode_attempt_def
  by (rule yields_bind)+
     (rule yields_try [OF yields_authority], rule yields_try_any, (rule yields_bind_always [OF always_str] | rule yields_bind)+,
      rule yields_check, rule yields_return, auto simp: attempt_typed_def split: if_splits option.splits)

lemma yields_grant: "yields (decode_grant l) (grant_wf l)"
  unfolding decode_grant_def
  by (rule yields_bind_always [OF always_deadline] yields_bind yields_check yields_return)+
     (auto simp: grant_wf_def split: if_splits)

lemma yieldsD: "yields p P \<Longrightarrow> run_state p r = (Inr x, r') \<Longrightarrow> P x"
  by (auto simp: yields_def)

end
