(* ===== verification/PF_Explain.thy ===== *)
theory PF_Explain
  imports PF_Ledger
begin

text \<open>
  \<^verbatim>\<open>include/pacing/explain.hpp\<close>, \<^verbatim>\<open>src/explain.cpp\<close> and the observation
  operations of \<^verbatim>\<open>src/fabric.cpp\<close>: what the coordinator says of a flow, and its bounded
  renderings as text and as JSON.
\<close>

section \<open>Observations\<close>

definition observe_envelope :: "envelope_id \<Rightarrow> fabric \<Rightarrow> envelope status_or" where
  "observe_envelope k f =
     (case find_envelope k f of
        None \<Rightarrow> Inl (Status EC_NotFound ''envelope not found'')
      | Some i \<Rightarrow> Inr (ee_envelope (fb_envelopes f ! i)))"

definition envelopes_for_flow :: "flow_id \<Rightarrow> fabric \<Rightarrow> envelope list" where
  "envelopes_for_flow flow f =
     map ee_envelope (filter (\<lambda>e. ee_live e \<and> e_flow (ee_envelope e) = flow) (fb_envelopes f))"

definition attempts_for_flow :: "flow_id \<Rightarrow> fabric \<Rightarrow> app_record list" where
  "attempts_for_flow flow f =
     map at_record (filter (\<lambda>a. at_live a \<and> r_flow (at_record a) = flow) (fb_attempts f))"

definition observe_attempt :: "attempt_id \<Rightarrow> fabric \<Rightarrow> app_record status_or" where
  "observe_attempt a f =
     (case find_attempt a f of
        None \<Rightarrow> Inl (Status EC_NotFound ''attempt not found'')
      | Some i \<Rightarrow> Inr (record_at f i))"

definition observe_binding :: "flow_id \<Rightarrow> fabric \<Rightarrow> binding status_or" where
  "observe_binding flow f = binding_get flow (fb_bindings f)"

definition observe_policy :: "policy_id \<Rightarrow> fabric \<Rightarrow> policy status_or" where
  "observe_policy k f = policy_get k (fb_policies f)"

text \<open>The report of the store, with the record count of now over the one of the load.\<close>

definition observe_durability :: "fabric \<Rightarrow> durability_report" where
  "observe_durability f =
     (case fb_durable f of
        None \<Rightarrow> empty_report
      | Some d \<Rightarrow> (ds_report d)\<lparr>rp_journal_records := ds_journal_records d\<rparr>)"

definition set_event_sink :: "bool \<Rightarrow> fabric \<Rightarrow> fabric" where
  "set_event_sink present f = f\<lparr>fb_sink := present\<rparr>"

section \<open>An explanation\<close>

text \<open>A \<^verbatim>\<open>has_...\<close> flag with its value is an option here: the value is read only under the
  flag.\<close>

record explanation =
  ex_flow :: flow_id
  ex_flow_gen :: generation
  ex_resource :: resource_id
  ex_binding :: "binding option"
  ex_envelope :: "envelope option"
  ex_attempt :: "app_record option"
  ex_grant :: "rate_grant option"
  ex_current :: "authority_vector option"
  ex_drift :: authority_drift
  ex_effect :: effect_label
  ex_refusal :: error_code
  ex_refusal_detail :: string
  ex_reason :: string
  ex_burst_bytes :: u64
  ex_burst_packets :: u64

definition blank_explanation :: "flow_id \<Rightarrow> explanation" where
  "blank_explanation flow =
     \<lparr>ex_flow = flow, ex_flow_gen = gen_unknown, ex_resource = Id 0, ex_binding = None, ex_envelope = None,
      ex_attempt = None, ex_grant = None, ex_current = None, ex_drift = AD_None, ex_effect = EL_None,
      ex_refusal = EC_Ok, ex_refusal_detail = [], ex_reason = [], ex_burst_bytes = 0, ex_burst_packets = 0\<rparr>"

text \<open>The attempt with the largest identity among those of an envelope.\<close>

fun newest_attempt :: "fabric \<Rightarrow> app_record option \<Rightarrow> attempt_id list \<Rightarrow> app_record option" where
  "newest_attempt f best [] = best"
| "newest_attempt f best (a # as) =
     (case find_attempt a f of
        None \<Rightarrow> newest_attempt f best as
      | Some i \<Rightarrow>
          (let r = record_at f i in
           newest_attempt f
             (case best of
                None \<Rightarrow> Some r
              | Some b \<Rightarrow> if id_value (r_attempt r) > id_value (r_attempt b) then Some r else Some b) as))"

text \<open>The first lock section.\<close>

definition explain_binding :: "flow_id \<Rightarrow> fabric \<Rightarrow> explanation" where
  "explain_binding flow f =
     (let out = blank_explanation flow in
      case binding_get flow (fb_bindings f) of
        Inl _ \<Rightarrow> out
      | Inr b \<Rightarrow> out\<lparr>ex_binding := Some b, ex_flow_gen := b_gen b, ex_resource := gr_id (b_resource b)\<rparr>)"

definition explain_lookup :: "flow_id \<Rightarrow> fabric \<Rightarrow> explanation" where
  "explain_lookup flow f =
     (let out = explain_binding flow f in
      case fb_latest f (id_value flow) of
        None \<Rightarrow> out
      | Some i \<Rightarrow>
          if i \<ge> length (fb_envelopes f) then out
          else
            (let entry = fb_envelopes f ! i; e = ee_envelope entry in
             if \<not> ee_live entry then out
             else out\<lparr>ex_envelope := Some e, ex_flow_gen := gr_gen (av_flow (e_authority e)),
                      ex_resource := e_resource e, ex_burst_bytes := c_burst_bytes (e_cadence e),
                      ex_burst_packets := c_burst_packets (e_cadence e),
                      ex_reason := (if ee_revoked entry then ee_reason entry else []),
                      ex_attempt := newest_attempt f None (attempts_of (gr_id (e_ref e)) f)\<rparr>))"

text \<open>The answer of the rate authority, fetched with no lock held.\<close>

definition explain_grant :: "rate_grant status_or \<Rightarrow> explanation \<Rightarrow> explanation" where
  "explain_grant answer out =
     (if \<not> id_valid (ex_resource out) then out
      else case answer of Inl _ \<Rightarrow> out | Inr g \<Rightarrow> out\<lparr>ex_grant := Some g\<rparr>)"

text \<open>What the current authority says, and the verdict.\<close>

definition explain_current :: "authority_inputs status_or \<Rightarrow> explanation \<Rightarrow> explanation" where
  "explain_current current out =
     (case current of
        Inl s \<Rightarrow> out\<lparr>ex_refusal := st_code s, ex_refusal_detail := st_detail s\<rparr>
      | Inr inp \<Rightarrow>
          out\<lparr>ex_current := Some (ai_vector inp),
              ex_drift := (case ex_envelope out of
                             Some e \<Rightarrow> compare_authority (e_authority e) (ai_vector inp)
                           | None \<Rightarrow>
                               (case ex_attempt out of
                                  Some r \<Rightarrow> compare_authority (r_authority r) (ai_vector inp)
                                | None \<Rightarrow> ex_drift out))\<rparr>)"

definition explain_attempt :: "app_record \<Rightarrow> explanation \<Rightarrow> explanation" where
  "explain_attempt r out =
     (let o1 = (if r_requires_revalidation r then
                  (if ex_refusal out = EC_Ok
                   then out\<lparr>ex_effect := EL_None, ex_refusal := EC_RequiresRevalidation,
                            ex_refusal_detail := ''recorded effect is not current until it is revalidated''\<rparr>
                   else out\<lparr>ex_effect := EL_None\<rparr>)
                else out\<lparr>ex_effect := r_effect r\<rparr>)
      in if ex_refusal o1 = EC_Ok \<and> r_reason r \<noteq> EC_Ok \<and> r_effect r = EL_None
         then o1\<lparr>ex_refusal := r_reason r, ex_refusal_detail := r_detail r\<rparr> else o1)"

definition explain_verdict :: "explanation \<Rightarrow> explanation" where
  "explain_verdict out =
     (if ex_drift out \<noteq> AD_None then
        (let d = ''authority drift: '' @ drift_name (ex_drift out) in
         out\<lparr>ex_refusal := drift_code (ex_drift out), ex_refusal_detail := d, ex_reason := d,
             ex_effect := EL_None\<rparr>)
      else
        (let o1 = (case ex_attempt out of
                     Some r \<Rightarrow> explain_attempt r out
                   | None \<Rightarrow> if ex_envelope out \<noteq> None \<and> ex_refusal out = EC_Ok
                             then out\<lparr>ex_effect := EL_None\<rparr> else out)
         in if ex_refusal o1 = EC_Ok then o1\<lparr>ex_refusal_detail := []\<rparr> else o1))"

text \<open>The whole operation, its sections one after the other: the lookup, the grant answered by the
  world \<open>en\<close>, and a fetch of the authority answered by the world \<open>en'\<close>.\<close>

definition fetch_authority :: "env \<Rightarrow> flow_id \<Rightarrow> fabric \<Rightarrow> authority_inputs status_or \<times> fabric" where
  "fetch_authority en flow f =
     (case fetch_local flow f of
        Inl s \<Rightarrow> (Inl s, f)
      | Inr (b, p) \<Rightarrow>
          (case fetch_call en f of
             (Inl s, f1) \<Rightarrow> (Inl s, f1)
           | (Inr g, f1) \<Rightarrow> (fetch_stamp flow b p g f1, f1)))"

definition explain :: "env \<Rightarrow> env \<Rightarrow> flow_id \<Rightarrow> fabric \<Rightarrow> explanation status_or \<times> fabric" where
  "explain en en' flow f =
     (if \<not> id_valid flow then (Inl (Status EC_InvalidArgument ''flow id is zero''), f)
      else
        (let out = explain_grant (en_grant en) (explain_lookup flow f);
             (current, f1) = fetch_authority en' flow f
         in (Inr (explain_verdict (explain_current current out)), f1)))"

section \<open>Bounded text\<close>

definition newline :: string where
  "newline = [CHR 0x0A]"

definition truncation_marker :: string where
  "truncation_marker = newline @ ''[truncated: explanation exceeded its configured bound]''"

definition bound_explanation :: "string \<Rightarrow> nat \<Rightarrow> string" where
  "bound_explanation text n =
     (if n = 0 then []
      else if length text \<le> n then text
      else if n \<le> length truncation_marker then take n text
      else take (n - length truncation_marker) text @ truncation_marker)"

definition text_field :: "string \<Rightarrow> string \<Rightarrow> string" where
  "text_field key value = ''  '' @ key @ '': '' @ value @ newline"

definition text_number :: "string \<Rightarrow> u64 \<Rightarrow> string" where
  "text_number key v = text_field key (show_u64 v)"

definition bool_text :: "bool \<Rightarrow> string" where
  "bool_text b = (if b then ''true'' else ''false'')"

definition text_flag :: "string \<Rightarrow> bool \<Rightarrow> string" where
  "text_flag key b = text_field key (bool_text b)"

definition deadline_of :: "deadline \<Rightarrow> u64" where
  "deadline_of d = (if dl_set d then inst_ns (dl_instant d) else 0)"

definition grant_section :: "rate_grant \<Rightarrow> string" where
  "grant_section g =
     ''upstream_rate_authority'' @ newline @
     text_field ''grant'' (ref_text (g_ref g)) @
     text_number ''ceiling_bps'' (g_ceiling_bps g) @
     text_number ''floor_bps'' (g_floor_bps g) @
     text_number ''upstream_revision'' (g_revision g) @
     text_flag ''authoritative'' (g_authoritative g) @
     text_number ''valid_until_ns'' (deadline_of (g_valid_until g))"

definition burst_bytes_of :: "explanation \<Rightarrow> envelope \<Rightarrow> u64" where
  "burst_bytes_of x e = (if ex_burst_bytes x \<noteq> 0 then ex_burst_bytes x else c_burst_bytes (e_cadence e))"

definition burst_packets_of :: "explanation \<Rightarrow> envelope \<Rightarrow> u64" where
  "burst_packets_of x e = (if ex_burst_packets x \<noteq> 0 then ex_burst_packets x else c_burst_packets (e_cadence e))"

definition envelope_section :: "explanation \<Rightarrow> envelope \<Rightarrow> string" where
  "envelope_section x e =
     (let c = e_cadence e in
      ''pacing_envelope'' @ newline @
      text_field ''envelope'' (ref_text (e_ref e)) @
      text_number ''requested_rate_bps'' (e_requested_rate_bps e) @
      text_number ''authorized_rate_bps'' (c_rate_bps c) @
      text_number ''ceiling_bps'' (e_ceiling_bps e) @
      text_number ''floor_bps'' (e_floor_bps e) @
      text_flag ''clamped_to_ceiling'' (e_clamped_to_ceiling e) @
      text_flag ''clamped_to_floor'' (e_clamped_to_floor e) @
      text_field ''shape'' (shape_name (c_shape c)) @
      text_number ''quantum_bytes'' (c_quantum_bytes c) @
      text_number ''interval_ns'' (c_interval_ns c) @
      text_number ''window_ns'' (c_window_ns c) @
      text_number ''grants_per_window'' (c_grants_per_window c) @
      text_number ''bytes_per_window'' (c_bytes_per_window c) @
      text_number ''burst_budget_bytes'' (burst_bytes_of x e) @
      text_number ''burst_budget_packets'' (burst_packets_of x e) @
      text_flag ''upstream_synthetic'' (e_upstream_synthetic e) @
      text_flag ''policy_synthetic'' (e_policy_synthetic e) @
      text_field ''authority'' (authority_text (e_authority e)) @
      text_number ''authority_digest'' (av_digest (e_authority e)) @
      text_number ''valid_until_ns'' (deadline_of (e_valid_until e)))"

definition attempt_section :: "app_record \<Rightarrow> string" where
  "attempt_section r =
     ''application_state'' @ newline @
     text_number ''attempt'' (id_value (r_attempt r)) @
     text_field ''state'' (state_name (r_state r)) @
     text_field ''last_known_state'' (state_name (r_last_known_state r)) @
     text_field ''effect'' (effect_name (r_effect r)) @
     text_field ''evidence_kind'' (evidence_kind_name (r_evidence_kind r)) @
     text_field ''backend'' (ref_text (r_backend r)) @
     text_flag ''backend_synthetic'' (r_backend_synthetic r) @
     text_number ''observed_rate_bps'' (r_observed_rate_bps r) @
     text_number ''observed_quantum_bytes'' (r_observed_quantum_bytes r) @
     text_number ''observed_burst_bytes'' (r_observed_burst_bytes r) @
     text_number ''backend_seq'' (r_backend_seq r) @
     text_flag ''evidence_integrity_ok'' (r_evidence_integrity_ok r) @
     text_field ''reason'' (error_name (r_reason r)) @
     text_flag ''requires_revalidation'' (r_requires_revalidation r) @
     text_number ''revision'' (r_revision r) @
     (if r_detail r \<noteq> [] then text_field ''detail'' (r_detail r) else [])"

definition explanation_text :: "explanation \<Rightarrow> string" where
  "explanation_text x =
     ''pacing explanation'' @ newline @
     text_number ''flow'' (id_value (ex_flow x)) @
     text_number ''flow_generation'' (gen_value (ex_flow_gen x)) @
     text_number ''resource'' (id_value (ex_resource x)) @
     text_flag ''binding_present'' (ex_binding x \<noteq> None) @
     text_flag ''envelope_present'' (ex_envelope x \<noteq> None) @
     text_flag ''attempt_present'' (ex_attempt x \<noteq> None) @
     text_flag ''grant_present'' (ex_grant x \<noteq> None) @
     text_field ''refusal'' (error_name (ex_refusal x)) @
     (if ex_refusal_detail x \<noteq> [] then text_field ''refusal_detail'' (ex_refusal_detail x) else []) @
     text_field ''authority_drift'' (drift_name (ex_drift x)) @
     (if ex_reason x \<noteq> [] then text_field ''stale_or_revoke_reason'' (ex_reason x) else []) @
     text_field ''asserted_effect'' (effect_name (ex_effect x)) @
     (case ex_grant x of None \<Rightarrow> [] | Some g \<Rightarrow> grant_section g) @
     (case ex_envelope x of None \<Rightarrow> [] | Some e \<Rightarrow> envelope_section x e) @
     (case ex_attempt x of None \<Rightarrow> [] | Some r \<Rightarrow> attempt_section r)"

definition to_text :: "explanation \<Rightarrow> nat \<Rightarrow> string" where
  "to_text x n = bound_explanation (explanation_text x) n"

section \<open>JSON\<close>

definition hex_digit :: "nat \<Rightarrow> char" where
  "hex_digit d = ''0123456789abcdef'' ! d"

fun json_char :: "char \<Rightarrow> string" where
  "json_char c =
     (if c = CHR 0x22 then [CHR 0x5C, CHR 0x22]
      else if c = CHR 0x5C then [CHR 0x5C, CHR 0x5C]
      else if c = CHR 0x0A then [CHR 0x5C, CHR ''n'']
      else if c = CHR 0x0D then [CHR 0x5C, CHR ''r'']
      else if c = CHR 0x09 then [CHR 0x5C, CHR ''t'']
      else if of_char c < (0x20 :: nat) then
        [CHR 0x5C, CHR ''u'', CHR ''0'', CHR ''0'', hex_digit (of_char c div 16), hex_digit (of_char c mod 16)]
      else [c])"

text \<open>At most \<open>n\<close> characters of the input are emitted; a longer input ends in three dots.\<close>

fun json_escape :: "string \<Rightarrow> nat \<Rightarrow> string" where
  "json_escape [] n = []"
| "json_escape (c # cs) 0 = ''...''"
| "json_escape (c # cs) (Suc n) = json_char c @ json_escape cs n"

text \<open>The text so far and whether the next member is the first.\<close>

type_synonym json_out = "string \<times> bool"

definition quoted :: "string \<Rightarrow> string" where
  "quoted s = CHR 0x22 # s @ [CHR 0x22]"

definition json_put :: "string \<Rightarrow> string \<Rightarrow> json_out \<Rightarrow> json_out" where
  "json_put key value = (\<lambda>(out, first). (out @ (if first then [] else '','') @ quoted key @ '':'' @ value, False))"

definition json_member :: "string \<Rightarrow> string \<Rightarrow> json_out \<Rightarrow> json_out" where
  "json_member key value = json_put key (quoted (json_escape value 256))"

definition json_number :: "string \<Rightarrow> u64 \<Rightarrow> json_out \<Rightarrow> json_out" where
  "json_number key value = json_put key (show_u64 value)"

definition json_flag :: "string \<Rightarrow> bool \<Rightarrow> json_out \<Rightarrow> json_out" where
  "json_flag key value = json_put key (bool_text value)"

definition json_all :: "(json_out \<Rightarrow> json_out) list \<Rightarrow> json_out \<Rightarrow> json_out" where
  "json_all fs = fold (\<lambda>f. f) fs"

definition json_head :: "explanation \<Rightarrow> (json_out \<Rightarrow> json_out) list" where
  "json_head x =
     [json_number ''flow'' (id_value (ex_flow x)),
      json_number ''flow_generation'' (gen_value (ex_flow_gen x)),
      json_number ''resource'' (id_value (ex_resource x)),
      json_flag ''binding_present'' (ex_binding x \<noteq> None),
      json_flag ''envelope_present'' (ex_envelope x \<noteq> None),
      json_flag ''attempt_present'' (ex_attempt x \<noteq> None),
      json_flag ''grant_present'' (ex_grant x \<noteq> None),
      json_member ''refusal'' (error_name (ex_refusal x)),
      json_member ''refusal_detail'' (ex_refusal_detail x),
      json_member ''authority_drift'' (drift_name (ex_drift x)),
      json_member ''stale_or_revoke_reason'' (ex_reason x),
      json_member ''asserted_effect'' (effect_name (ex_effect x))]"

definition json_grant :: "rate_grant \<Rightarrow> (json_out \<Rightarrow> json_out) list" where
  "json_grant g =
     [json_number ''ceiling_bps'' (g_ceiling_bps g), json_number ''floor_bps'' (g_floor_bps g),
      json_number ''upstream_revision'' (g_revision g), json_flag ''authoritative'' (g_authoritative g)]"

definition json_envelope :: "explanation \<Rightarrow> envelope \<Rightarrow> (json_out \<Rightarrow> json_out) list" where
  "json_envelope x e =
     (let c = e_cadence e in
      [json_number ''envelope_id'' (id_value (gr_id (e_ref e))),
       json_number ''envelope_generation'' (gen_value (gr_gen (e_ref e))),
       json_number ''requested_rate_bps'' (e_requested_rate_bps e),
       json_number ''authorized_rate_bps'' (c_rate_bps c),
       json_flag ''clamped_to_ceiling'' (e_clamped_to_ceiling e),
       json_flag ''clamped_to_floor'' (e_clamped_to_floor e),
       json_member ''shape'' (shape_name (c_shape c)),
       json_number ''quantum_bytes'' (c_quantum_bytes c),
       json_number ''interval_ns'' (c_interval_ns c),
       json_number ''window_ns'' (c_window_ns c),
       json_number ''grants_per_window'' (c_grants_per_window c),
       json_number ''bytes_per_window'' (c_bytes_per_window c),
       json_number ''burst_budget_bytes'' (burst_bytes_of x e),
       json_number ''burst_budget_packets'' (burst_packets_of x e),
       json_flag ''upstream_synthetic'' (e_upstream_synthetic e),
       json_flag ''policy_synthetic'' (e_policy_synthetic e),
       json_number ''authority_digest'' (av_digest (e_authority e))])"

definition json_attempt :: "app_record \<Rightarrow> (json_out \<Rightarrow> json_out) list" where
  "json_attempt r =
     [json_number ''attempt_id'' (id_value (r_attempt r)),
      json_member ''state'' (state_name (r_state r)),
      json_member ''last_known_state'' (state_name (r_last_known_state r)),
      json_member ''effect'' (effect_name (r_effect r)),
      json_member ''evidence_kind'' (evidence_kind_name (r_evidence_kind r)),
      json_member ''backend'' (ref_text (r_backend r)),
      json_flag ''backend_synthetic'' (r_backend_synthetic r),
      json_number ''observed_rate_bps'' (r_observed_rate_bps r),
      json_number ''observed_quantum_bytes'' (r_observed_quantum_bytes r),
      json_number ''observed_burst_bytes'' (r_observed_burst_bytes r),
      json_number ''backend_seq'' (r_backend_seq r),
      json_flag ''evidence_integrity_ok'' (r_evidence_integrity_ok r),
      json_member ''reason'' (error_name (r_reason r)),
      json_flag ''requires_revalidation'' (r_requires_revalidation r),
      json_number ''revision'' (r_revision r),
      json_member ''detail'' (r_detail r)]"

definition explanation_json :: "explanation \<Rightarrow> string" where
  "explanation_json x =
     fst (json_all
       (json_head x @
        (case ex_grant x of None \<Rightarrow> [] | Some g \<Rightarrow> json_grant g) @
        (case ex_envelope x of None \<Rightarrow> [] | Some e \<Rightarrow> json_envelope x e) @
        (case ex_attempt x of None \<Rightarrow> [] | Some r \<Rightarrow> json_attempt r)) (''{'', True)) @ ''}''"

definition to_json :: "explanation \<Rightarrow> nat \<Rightarrow> string" where
  "to_json x n = bound_explanation (explanation_json x) n"

section \<open>Renderings are bounded\<close>

lemma bound_explanation_length: "length (bound_explanation t n) \<le> n"
  by (simp add: bound_explanation_def)

lemma bound_explanation_whole: "length t \<le> n \<Longrightarrow> bound_explanation t n = t"
  by (cases t) (simp_all add: bound_explanation_def)

lemma bound_explanation_marked:
  "n < length t \<Longrightarrow> length truncation_marker < n \<Longrightarrow>
     bound_explanation t n = take (n - length truncation_marker) t @ truncation_marker"
  by (simp add: bound_explanation_def)

section \<open>The JSON reads back\<close>

text \<open>A reader of JSON strings: it stops at the first quote that is not escaped and refuses raw
  control characters.\<close>

definition hex_value :: "char \<Rightarrow> nat" where
  "hex_value c = (if of_char c < (97 :: nat) then of_char c - 48 else of_char c - 87)"

definition unescaped :: "char \<Rightarrow> char" where
  "unescaped c = (if c = CHR ''n'' then CHR 0x0A else if c = CHR ''r'' then CHR 0x0D
                  else if c = CHR ''t'' then CHR 0x09 else c)"

definition with_char :: "char \<Rightarrow> (string \<times> string) option \<Rightarrow> (string \<times> string) option" where
  "with_char c = map_option (\<lambda>(s, rest). (c # s, rest))"

fun read_string :: "string \<Rightarrow> (string \<times> string) option" where
  "read_string [] = None"
| "read_string (c # cs) =
     (if c = CHR 0x22 then Some ([], cs)
      else if of_char c < (0x20 :: nat) then None
      else if c \<noteq> CHR 0x5C then with_char c (read_string cs)
      else case cs of
        [] \<Rightarrow> None
      | d # ds \<Rightarrow>
          if d \<noteq> CHR ''u'' then with_char (unescaped d) (read_string ds)
          else
            (case ds of
               z0 # z1 # h # l # rest \<Rightarrow> with_char (char_of (16 * hex_value h + hex_value l)) (read_string rest)
             | _ \<Rightarrow> None))"

lemma hex_value_digit: "d < 16 \<Longrightarrow> hex_value (hex_digit d) = d"
proof -
  have "\<forall>d \<in> set [0..<16]. hex_value (hex_digit d) = d" by code_simp
  then show "d < 16 \<Longrightarrow> hex_value (hex_digit d) = d" by simp
qed

lemma read_json_char: "read_string (json_char c @ s) = with_char c (read_string s)"
proof (cases "c = CHR 0x22 \<or> c = CHR 0x5C \<or> c = CHR 0x0A \<or> c = CHR 0x0D \<or> c = CHR 0x09")
  case True
  then show ?thesis by (elim disjE) (simp_all add: unescaped_def)
next
  case False
  show ?thesis
  proof (cases "of_char c < (0x20 :: nat)")
    case True
    have "16 * (of_char c div 16) + of_char c mod 16 = (of_char c :: nat)" by simp
    then show ?thesis using False True by (simp add: hex_value_digit)
  next
    case big: False
    then show ?thesis using False by simp
  qed
qed

declare json_char.simps [simp del] read_string.simps [simp del]

definition shortened :: "string \<Rightarrow> nat \<Rightarrow> string" where
  "shortened s n = (if length s \<le> n then s else take n s @ ''...'')"

lemma read_json_escape: "read_string (json_escape s n @ CHR 0x22 # rest) = Some (shortened s n, rest)"
proof (induction s n rule: json_escape.induct)
  case (2 c cs)
  then show ?case by (simp add: read_string.simps with_char_def shortened_def)
next
  case (3 c cs n)
  then show ?case by (simp add: read_json_char with_char_def shortened_def)
qed (simp add: read_string.simps shortened_def)

text \<open>Values and members.\<close>

datatype json_value = JV_string string | JV_number u64 | JV_flag bool

fun render_value :: "json_value \<Rightarrow> string" where
  "render_value (JV_string s) = quoted (json_escape s 256)"
| "render_value (JV_number v) = show_u64 v"
| "render_value (JV_flag b) = bool_text b"

fun value_read :: "json_value \<Rightarrow> json_value" where
  "value_read (JV_string s) = JV_string (shortened s 256)"
| "value_read v = v"

definition is_digit :: "char \<Rightarrow> bool" where
  "is_digit c = (48 \<le> (of_char c :: nat) \<and> (of_char c :: nat) < 58)"

definition read_value :: "string \<Rightarrow> (json_value \<times> string) option" where
  "read_value s =
     (case s of
        [] \<Rightarrow> None
      | c # cs \<Rightarrow>
          if c = CHR 0x22 then map_option (\<lambda>(v, rest). (JV_string v, rest)) (read_string cs)
          else if is_digit c then
            Some (JV_number (of_nat (read_nat (takeWhile is_digit s))), dropWhile is_digit s)
          else if take 4 s = ''true'' then Some (JV_flag True, drop 4 s)
          else if take 5 s = ''false'' then Some (JV_flag False, drop 5 s)
          else None)"

definition read_member :: "string \<Rightarrow> ((string \<times> json_value) \<times> string) option" where
  "read_member s =
     (if take 1 s \<noteq> [CHR 0x22] then None
      else case read_string (drop 1 s) of
        None \<Rightarrow> None
      | Some (key, rest) \<Rightarrow>
          if take 1 rest \<noteq> '':'' then None
          else map_option (\<lambda>(v, rest'). ((key, v), rest')) (read_value (drop 1 rest)))"

fun read_members :: "nat \<Rightarrow> string \<Rightarrow> ((string \<times> json_value) list \<times> string) option" where
  "read_members 0 s = None"
| "read_members (Suc n) s =
     (case read_member s of
        None \<Rightarrow> None
      | Some (m, rest) \<Rightarrow>
          if take 1 rest = '','' then map_option (\<lambda>(ms, r). (m # ms, r)) (read_members n (drop 1 rest))
          else if take 1 rest = ''}'' then Some ([m], drop 1 rest) else None)"

definition read_object :: "string \<Rightarrow> ((string \<times> json_value) list \<times> string) option" where
  "read_object s = (if take 1 s \<noteq> ''{'' then None else read_members (length s) (drop 1 s))"

lemma show_nat_digits: "list_all is_digit (show_nat n) \<and> show_nat n \<noteq> []"
proof (induction n rule: show_nat.induct)
  case (1 n)
  have d: "is_digit (digit_char k)" if "k < 10" for k using that by (simp add: is_digit_def digit_char_def)
  show ?case using 1 d by (simp add: show_nat.simps [of n])
qed

lemma stops_digits: "list_all P xs \<Longrightarrow> ys = [] \<or> \<not> P (hd ys) \<Longrightarrow> takeWhile P (xs @ ys) = xs \<and> dropWhile P (xs @ ys) = ys"
  by (induction xs) (cases ys; simp)+

lemma read_number: "rest \<noteq> [] \<Longrightarrow> hd rest \<in> {CHR '','', CHR ''}''} \<Longrightarrow> read_value (show_u64 v @ rest) = Some (JV_number v, rest)"
proof -
  assume r: "rest \<noteq> []" "hd rest \<in> {CHR '','', CHR ''}''}"
  obtain c cs where c: "show_u64 v = c # cs" "is_digit c" "list_all is_digit (show_u64 v)"
    using show_nat_digits [of "unat v"] by (cases "show_u64 v") (auto simp: show_u64_def)
  have n: "\<not> is_digit (hd rest)" using r(2) by (auto simp: is_digit_def)
  have q: "c \<noteq> CHR 0x22" using c(2) by (auto simp: is_digit_def)
  have w: "takeWhile is_digit (show_u64 v @ rest) = show_u64 v" "dropWhile is_digit (show_u64 v @ rest) = rest"
    using stops_digits [OF c(3), of rest] n by simp_all
  have "read_value (show_u64 v @ rest) = Some (JV_number (of_nat (read_nat (takeWhile is_digit (show_u64 v @ rest)))), dropWhile is_digit (show_u64 v @ rest))"
    using c(1,2) q by (simp add: read_value_def)
  then show ?thesis unfolding w by (simp add: show_u64_def)
qed

lemma read_rendered: "rest \<noteq> [] \<Longrightarrow> hd rest \<in> {CHR '','', CHR ''}''} \<Longrightarrow> read_value (render_value v @ rest) = Some (value_read v, rest)"
proof (cases v)
  case (JV_string s)
  then show ?thesis by (simp add: read_value_def quoted_def read_json_escape)
next
  case (JV_number n)
  then show "rest \<noteq> [] \<Longrightarrow> hd rest \<in> {CHR '','', CHR ''}''} \<Longrightarrow> ?thesis" using read_number by simp
next
  case (JV_flag b)
  then show ?thesis by (simp add: read_value_def bool_text_def is_digit_def)
qed

text \<open>A key that needs no escape.\<close>

definition plain_key :: "string \<Rightarrow> bool" where
  "plain_key k = list_all (\<lambda>c. json_char c = [c]) k"

lemma read_plain: "plain_key k \<Longrightarrow> read_string (k @ CHR 0x22 # rest) = Some (k, rest)"
proof (induction k)
  case (Cons c k)
  then show ?case using read_json_char [of c "k @ CHR 0x22 # rest"] by (simp add: plain_key_def with_char_def)
qed (simp add: read_string.simps)

definition member_text :: "string \<times> json_value \<Rightarrow> string" where
  "member_text m = quoted (fst m) @ '':'' @ render_value (snd m)"

lemma read_member_text:
  assumes "plain_key (fst m)" "rest \<noteq> []" "hd rest \<in> {CHR '','', CHR ''}''}"
  shows "read_member (member_text m @ rest) = Some ((fst m, value_read (snd m)), rest)"
  using read_plain [OF assms(1), of "CHR '':'' # render_value (snd m) @ rest"] read_rendered [OF assms(2,3)]
  by (simp add: read_member_def member_text_def quoted_def)

fun members_text :: "(string \<times> json_value) list \<Rightarrow> string" where
  "members_text [] = []"
| "members_text [m] = member_text m"
| "members_text (m # ms) = member_text m @ '','' @ members_text ms"

lemma read_members_text:
  assumes "ms \<noteq> []" "\<forall>m \<in> set ms. plain_key (fst m)" "length ms \<le> n"
  shows "read_members n (members_text ms @ ''}'' @ rest) = Some (map (\<lambda>m. (fst m, value_read (snd m))) ms, rest)"
  using assms
proof (induction ms arbitrary: n rule: members_text.induct)
  case (2 m)
  then obtain k where n: "n = Suc k" by (cases n) auto
  show ?case using read_member_text [of m "''}'' @ rest"] 2 by (simp add: n)
next
  case (3 m m' ms)
  then obtain k where n: "n = Suc k" by (cases n) auto
  have "read_members k (members_text (m' # ms) @ ''}'' @ rest) = Some (map (\<lambda>m. (fst m, value_read (snd m))) (m' # ms), rest)"
    using 3 n by simp
  then show ?case using read_member_text [of m "'','' @ members_text (m' # ms) @ ''}'' @ rest"] 3(3)
    by (simp add: n)
qed simp

section \<open>The members of an explanation\<close>

definition put_member :: "string \<times> json_value \<Rightarrow> json_out \<Rightarrow> json_out" where
  "put_member m = json_put (fst m) (render_value (snd m))"

lemma json_puts:
  "json_number k v = put_member (k, JV_number v)" "json_flag k b = put_member (k, JV_flag b)"
  "json_member k t = put_member (k, JV_string t)"
  by (simp_all add: json_number_def json_flag_def json_member_def put_member_def)

lemma put_member_step:
  "json_all (map put_member (m # ms)) (out, first) =
     json_all (map put_member ms) (out @ (if first then [] else '','') @ member_text m, False)"
  by (simp add: json_all_def put_member_def json_put_def member_text_def)

lemma put_members:
  "ms \<noteq> [] \<Longrightarrow> fst (json_all (map put_member ms) (out, first)) = out @ (if first then [] else '','') @ members_text ms"
proof (induction ms arbitrary: out first rule: members_text.induct)
  case (2 m)
  then show ?case unfolding put_member_step by (simp add: json_all_def)
next
  case (3 m m' ms)
  show ?case unfolding put_member_step [of m] by (subst 3) simp_all
qed simp

definition head_members :: "explanation \<Rightarrow> (string \<times> json_value) list" where
  "head_members x =
     [(''flow'', JV_number (id_value (ex_flow x))),
      (''flow_generation'', JV_number (gen_value (ex_flow_gen x))),
      (''resource'', JV_number (id_value (ex_resource x))),
      (''binding_present'', JV_flag (ex_binding x \<noteq> None)),
      (''envelope_present'', JV_flag (ex_envelope x \<noteq> None)),
      (''attempt_present'', JV_flag (ex_attempt x \<noteq> None)),
      (''grant_present'', JV_flag (ex_grant x \<noteq> None)),
      (''refusal'', JV_string (error_name (ex_refusal x))),
      (''refusal_detail'', JV_string (ex_refusal_detail x)),
      (''authority_drift'', JV_string (drift_name (ex_drift x))),
      (''stale_or_revoke_reason'', JV_string (ex_reason x)),
      (''asserted_effect'', JV_string (effect_name (ex_effect x)))]"

definition grant_members :: "rate_grant \<Rightarrow> (string \<times> json_value) list" where
  "grant_members g =
     [(''ceiling_bps'', JV_number (g_ceiling_bps g)), (''floor_bps'', JV_number (g_floor_bps g)),
      (''upstream_revision'', JV_number (g_revision g)), (''authoritative'', JV_flag (g_authoritative g))]"

definition envelope_members :: "explanation \<Rightarrow> envelope \<Rightarrow> (string \<times> json_value) list" where
  "envelope_members x e =
     (let c = e_cadence e in
      [(''envelope_id'', JV_number (id_value (gr_id (e_ref e)))),
       (''envelope_generation'', JV_number (gen_value (gr_gen (e_ref e)))),
       (''requested_rate_bps'', JV_number (e_requested_rate_bps e)),
       (''authorized_rate_bps'', JV_number (c_rate_bps c)),
       (''clamped_to_ceiling'', JV_flag (e_clamped_to_ceiling e)),
       (''clamped_to_floor'', JV_flag (e_clamped_to_floor e)),
       (''shape'', JV_string (shape_name (c_shape c))),
       (''quantum_bytes'', JV_number (c_quantum_bytes c)),
       (''interval_ns'', JV_number (c_interval_ns c)),
       (''window_ns'', JV_number (c_window_ns c)),
       (''grants_per_window'', JV_number (c_grants_per_window c)),
       (''bytes_per_window'', JV_number (c_bytes_per_window c)),
       (''burst_budget_bytes'', JV_number (burst_bytes_of x e)),
       (''burst_budget_packets'', JV_number (burst_packets_of x e)),
       (''upstream_synthetic'', JV_flag (e_upstream_synthetic e)),
       (''policy_synthetic'', JV_flag (e_policy_synthetic e)),
       (''authority_digest'', JV_number (av_digest (e_authority e)))])"

definition attempt_members :: "app_record \<Rightarrow> (string \<times> json_value) list" where
  "attempt_members r =
     [(''attempt_id'', JV_number (id_value (r_attempt r))),
      (''state'', JV_string (state_name (r_state r))),
      (''last_known_state'', JV_string (state_name (r_last_known_state r))),
      (''effect'', JV_string (effect_name (r_effect r))),
      (''evidence_kind'', JV_string (evidence_kind_name (r_evidence_kind r))),
      (''backend'', JV_string (ref_text (r_backend r))),
      (''backend_synthetic'', JV_flag (r_backend_synthetic r)),
      (''observed_rate_bps'', JV_number (r_observed_rate_bps r)),
      (''observed_quantum_bytes'', JV_number (r_observed_quantum_bytes r)),
      (''observed_burst_bytes'', JV_number (r_observed_burst_bytes r)),
      (''backend_seq'', JV_number (r_backend_seq r)),
      (''evidence_integrity_ok'', JV_flag (r_evidence_integrity_ok r)),
      (''reason'', JV_string (error_name (r_reason r))),
      (''requires_revalidation'', JV_flag (r_requires_revalidation r)),
      (''revision'', JV_number (r_revision r)),
      (''detail'', JV_string (r_detail r))]"

definition explanation_members :: "explanation \<Rightarrow> (string \<times> json_value) list" where
  "explanation_members x =
     head_members x @ (case ex_grant x of None \<Rightarrow> [] | Some g \<Rightarrow> grant_members g) @
     (case ex_envelope x of None \<Rightarrow> [] | Some e \<Rightarrow> envelope_members x e) @
     (case ex_attempt x of None \<Rightarrow> [] | Some r \<Rightarrow> attempt_members r)"

lemma json_sections:
  "json_head x = map put_member (head_members x)" "json_grant g = map put_member (grant_members g)"
  "json_envelope x e = map put_member (envelope_members x e)" "json_attempt r = map put_member (attempt_members r)"
  by (simp_all add: json_puts json_head_def head_members_def json_grant_def grant_members_def json_envelope_def
      envelope_members_def json_attempt_def attempt_members_def Let_def)

lemma explanation_json_text: "explanation_json x = ''{'' @ members_text (explanation_members x) @ ''}''"
proof -
  have "explanation_members x \<noteq> []" by (simp add: explanation_members_def head_members_def)
  note p = put_members [OF this, of "''{''" True]
  have "json_head x @ (case ex_grant x of None \<Rightarrow> [] | Some g \<Rightarrow> json_grant g) @
        (case ex_envelope x of None \<Rightarrow> [] | Some e \<Rightarrow> json_envelope x e) @
        (case ex_attempt x of None \<Rightarrow> [] | Some r \<Rightarrow> json_attempt r) = map put_member (explanation_members x)"
    by (simp add: explanation_members_def json_sections split: option.split)
  then show ?thesis using p by (simp add: explanation_json_def)
qed

lemma plain_keys:
  "\<forall>m \<in> set (head_members x). plain_key (fst m)" "\<forall>m \<in> set (grant_members g). plain_key (fst m)"
  "\<forall>m \<in> set (envelope_members x e). plain_key (fst m)" "\<forall>m \<in> set (attempt_members r). plain_key (fst m)"
  by (simp_all add: head_members_def grant_members_def envelope_members_def attempt_members_def Let_def plain_key_def json_char.simps)

lemma members_text_length: "length ms \<le> length (members_text ms)"
  by (induction ms rule: members_text.induct) (simp_all add: member_text_def quoted_def)

lemma explanation_json_reads:
  "read_object (explanation_json x) = Some (map (\<lambda>m. (fst m, value_read (snd m))) (explanation_members x), [])"
proof -
  let ?ms = "explanation_members x"
  have "?ms \<noteq> []" by (simp add: explanation_members_def head_members_def)
  moreover have "\<forall>m \<in> set ?ms. plain_key (fst m)"
    using plain_keys
    by (cases "ex_grant x"; cases "ex_envelope x"; cases "ex_attempt x"; simp add: explanation_members_def ball_Un)
  moreover have "length ?ms \<le> length (''{'' @ members_text ?ms @ ''}'')" using members_text_length [of ?ms] by simp
  ultimately have "read_members (length (''{'' @ members_text ?ms @ ''}'')) (members_text ?ms @ ''}'' @ []) =
      Some (map (\<lambda>m. (fst m, value_read (snd m))) ?ms, [])" by (rule read_members_text)
  then show ?thesis by (simp add: explanation_json_text read_object_def)
qed

section \<open>What an explanation asserts\<close>

lemma newest_attempt_from: "newest_attempt f best as = Some r \<Longrightarrow> best = Some r \<or> (\<exists>i < length (fb_attempts f). record_at f i = r)"
proof (induction as arbitrary: best)
  case (Cons a as)
  show ?case
  proof (cases "find_attempt a f")
    case None
    then show ?thesis using Cons by simp
  next
    case (Some i)
    then have i: "i < length (fb_attempts f)" by (rule find_attempt_length)
    let ?b = "case best of None \<Rightarrow> Some (record_at f i)
       | Some b \<Rightarrow> if id_value (r_attempt (record_at f i)) > id_value (r_attempt b) then Some (record_at f i) else Some b"
    have "newest_attempt f ?b as = Some r" using Cons.prems Some by (simp add: Let_def)
    moreover have "?b = best \<or> ?b = Some (record_at f i)" by (cases best) simp_all
    ultimately show ?thesis using Cons.IH [of ?b] i by auto
  qed
qed simp

lemma explain_lookup_attempt:
  "ex_attempt (explain_lookup flow f) = Some r \<Longrightarrow> \<exists>i < length (fb_attempts f). record_at f i = r"
proof -
  have "ex_attempt (explain_binding flow f) = None"
    by (simp add: explain_binding_def blank_explanation_def Let_def split: sum.split)
  then show "ex_attempt (explain_lookup flow f) = Some r \<Longrightarrow> \<exists>i < length (fb_attempts f). record_at f i = r"
    using newest_attempt_from [of f None _ r] by (auto simp: explain_lookup_def Let_def split: option.splits if_splits)
qed

lemma explain_verdict_effect:
  assumes "ex_effect (explain_verdict (explain_current current (explain_grant answer (explain_lookup flow f)))) = l" "l \<noteq> EL_None"
  shows "\<exists>i < length (fb_attempts f). \<not> r_requires_revalidation (record_at f i) \<and> r_effect (record_at f i) = l"
    "ex_drift (explain_verdict (explain_current current (explain_grant answer (explain_lookup flow f)))) = AD_None"
proof -
  let ?o = "explain_current current (explain_grant answer (explain_lookup flow f))"
  have l: "ex_effect (explain_lookup flow f) = EL_None"
    by (simp add: explain_lookup_def explain_binding_def blank_explanation_def Let_def split: sum.split option.split)
  have o: "ex_effect ?o = EL_None" "ex_attempt ?o = ex_attempt (explain_lookup flow f)"
    using l by (simp_all add: explain_current_def explain_grant_def split: sum.split)
  have d: "ex_drift ?o = AD_None" using assms by (auto simp: explain_verdict_def Let_def split: if_splits)
  obtain r where r: "ex_attempt ?o = Some r" "\<not> r_requires_revalidation r" "r_effect r = l"
    using assms o(1) d by (auto simp: explain_verdict_def explain_attempt_def Let_def split: if_splits option.splits)
  then show "\<exists>i < length (fb_attempts f). \<not> r_requires_revalidation (record_at f i) \<and> r_effect (record_at f i) = l"
    using explain_lookup_attempt [of flow f r] o(2) by auto
  show "ex_drift (explain_verdict ?o) = AD_None"
    using d by (simp add: explain_verdict_def explain_attempt_def Let_def split: option.split)
qed

end
