(* ===== verification/PF_Transport.thy ===== *)
theory PF_Transport
  imports PF_Codec PF_Crc32c PF_Limits
begin

text \<open>
  \<^verbatim>\<open>include/pacing/transport.hpp\<close> and \<^verbatim>\<open>src/transport.cpp\<close>: frames with a
  checksum over a stream socket, and a connection that is unusable once its framing has failed.

  The socket is not code of the library. A connection carries the bytes that were handed to the
  socket and the bytes the peer has sent and will send; \<open>io k\<close> is what the \<open>k\<close>-th call of
  \<^verbatim>\<open>send\<close> or \<^verbatim>\<open>recv\<close> returns (0 where it fails or the peer has closed), at most the want
  that was asked for, as the interface of the operating system states. So every way a stream can
  be cut into pieces is covered.
\<close>

section \<open>Frames, operations and stamps\<close>

datatype frame_type = FT_Hello | FT_Welcome | FT_Request | FT_Response | FT_Fault | FT_Shutdown

fun frame_type_num :: "frame_type \<Rightarrow> u16" where
  "frame_type_num FT_Hello = 1"
| "frame_type_num FT_Welcome = 2"
| "frame_type_num FT_Request = 3"
| "frame_type_num FT_Response = 4"
| "frame_type_num FT_Fault = 5"
| "frame_type_num FT_Shutdown = 6"

definition frame_types :: "frame_type list" where
  "frame_types = [FT_Hello, FT_Welcome, FT_Request, FT_Response, FT_Fault, FT_Shutdown]"

text \<open>The cast of a discriminator, refused where it is zero or above the last one.\<close>

definition frame_type_of_num :: "u16 \<Rightarrow> frame_type option" where
  "frame_type_of_num n = find (\<lambda>t. frame_type_num t = n) frame_types"

lemma frame_type_of_num_num [simp]: "frame_type_of_num (frame_type_num t) = Some t"
  by (cases t) (simp_all add: frame_type_of_num_def frame_types_def)

lemma frame_type_of_numD: "frame_type_of_num n = Some t \<Longrightarrow> frame_type_num t = n"
  by (auto simp: frame_type_of_num_def find_Some_iff)

datatype operation =
    OP_None | OP_Epoch | OP_BindFlow | OP_PublishPolicy | OP_DeriveEnvelope | OP_ApplyEnvelope
  | OP_VerifyAttempt | OP_CancelAttempt | OP_RevokeEnvelope | OP_Explain | OP_Stats
  | OP_AdvanceEpoch | OP_Revalidate | OP_Backends | OP_Recover | OP_Stop

fun operation_num :: "operation \<Rightarrow> u16" where
  "operation_num OP_None = 0"
| "operation_num OP_Epoch = 1"
| "operation_num OP_BindFlow = 2"
| "operation_num OP_PublishPolicy = 3"
| "operation_num OP_DeriveEnvelope = 4"
| "operation_num OP_ApplyEnvelope = 5"
| "operation_num OP_VerifyAttempt = 6"
| "operation_num OP_CancelAttempt = 7"
| "operation_num OP_RevokeEnvelope = 8"
| "operation_num OP_Explain = 9"
| "operation_num OP_Stats = 10"
| "operation_num OP_AdvanceEpoch = 11"
| "operation_num OP_Revalidate = 12"
| "operation_num OP_Backends = 13"
| "operation_num OP_Recover = 14"
| "operation_num OP_Stop = 15"

definition operations_listed :: "operation list" where
  "operations_listed =
     [OP_Epoch, OP_BindFlow, OP_PublishPolicy, OP_DeriveEnvelope, OP_ApplyEnvelope, OP_VerifyAttempt,
      OP_CancelAttempt, OP_RevokeEnvelope, OP_Explain, OP_Stats, OP_AdvanceEpoch, OP_Revalidate,
      OP_Backends, OP_Recover, OP_Stop]"

definition operation_of_num :: "u16 \<Rightarrow> operation option" where
  "operation_of_num n = find (\<lambda>p. operation_num p = n) (OP_None # operations_listed)"

lemma operation_of_num_num [simp]: "operation_of_num (operation_num p) = Some p"
  by (cases p) (simp_all add: operation_of_num_def operations_listed_def)

fun operation_name :: "operation \<Rightarrow> string" where
  "operation_name OP_None = ''none''"
| "operation_name OP_Epoch = ''epoch''"
| "operation_name OP_BindFlow = ''bind-flow''"
| "operation_name OP_PublishPolicy = ''publish-policy''"
| "operation_name OP_DeriveEnvelope = ''derive-envelope''"
| "operation_name OP_ApplyEnvelope = ''apply-envelope''"
| "operation_name OP_VerifyAttempt = ''verify-attempt''"
| "operation_name OP_CancelAttempt = ''cancel-attempt''"
| "operation_name OP_RevokeEnvelope = ''revoke-envelope''"
| "operation_name OP_Explain = ''explain''"
| "operation_name OP_Stats = ''stats''"
| "operation_name OP_AdvanceEpoch = ''advance-epoch''"
| "operation_name OP_Revalidate = ''revalidate''"
| "operation_name OP_Backends = ''backends''"
| "operation_name OP_Recover = ''recover''"
| "operation_name OP_Stop = ''stop''"

definition parse_operation :: "string \<Rightarrow> operation option" where
  "parse_operation text = find (\<lambda>p. operation_name p = text) operations_listed"

lemma parse_operation_name: "parse_operation (operation_name p) = (if p = OP_None then None else Some p)"
  by (cases p) (simp_all add: parse_operation_def operations_listed_def)

lemma parse_operation_only: "parse_operation text = Some p \<Longrightarrow> text = operation_name p"
  by (auto simp: parse_operation_def find_Some_iff)

record caller_stamp =
  cs_epoch :: u64
  cs_boot_counter :: u64
  cs_boot_nonce :: u64
  cs_worker_incarnation :: u64
  cs_worker_nonce :: u64

definition encode_stamp :: "caller_stamp \<Rightarrow> (writer \<Rightarrow> writer) list" where
  "encode_stamp s =
     [w_u64 (cs_epoch s), w_u64 (cs_boot_counter s), w_u64 (cs_boot_nonce s),
      w_u64 (cs_worker_incarnation s), w_u64 (cs_worker_nonce s)]"

definition decode_stamp :: "caller_stamp status_or decode" where
  "decode_stamp = do {
     e \<leftarrow> rd_u64; c \<leftarrow> rd_u64; n \<leftarrow> rd_u64; wi \<leftarrow> rd_u64; wn \<leftarrow> rd_u64;
     rd_check (State_Monad.return (Inr
       \<lparr>cs_epoch = e, cs_boot_counter = c, cs_boot_nonce = n, cs_worker_incarnation = wi,
        cs_worker_nonce = wn\<rparr>)) }"

record wire_frame =
  fr_type :: frame_type
  fr_request_id :: u64
  fr_payload :: "u8 list"

section \<open>The socket\<close>

definition kChunk :: nat where
  "kChunk = 2 ^ 20"

text \<open>\<open>send_all\<close> returns whether everything was sent, and what was.\<close>

function send_all :: "(nat \<Rightarrow> nat) \<Rightarrow> nat \<Rightarrow> u8 list \<Rightarrow> bool \<times> u8 list" where
  "send_all io k data =
     (if data = [] then (True, [])
      else
        (let n = min (io k) (min kChunk (length data)) in
         if n = 0 then (False, [])
         else (let (ok, sent) = send_all io (k + 1) (drop n data) in (ok, take n data @ sent))))"
  by pat_completeness auto
termination by (relation "measure (\<lambda>(io, k, data). length data)") (auto simp: min_def split: if_splits)

text \<open>\<open>recv_exact\<close> reads from the bytes the peer sends; it returns the bytes it wanted, or
  nothing, and what remains of the stream.\<close>

function recv_exact :: "(nat \<Rightarrow> nat) \<Rightarrow> nat \<Rightarrow> nat \<Rightarrow> u8 list \<Rightarrow> u8 list option \<times> u8 list" where
  "recv_exact io k want stream =
     (if want = 0 then (Some [], stream)
      else
        (let n = min (io k) (min (min kChunk want) (length stream)) in
         if n = 0 then (None, stream)
         else (let (got, rest) = recv_exact io (k + 1) (want - n) (drop n stream)
               in (map_option (\<lambda>b. take n stream @ b) got, rest))))"
  by pat_completeness auto
termination by (relation "measure (\<lambda>(io, k, want, stream). want)") (auto simp: min_def kChunk_def split: if_splits)

declare send_all.simps [simp del] recv_exact.simps [simp del]

section \<open>A connection\<close>

text \<open>\<open>fc_handle\<close> is -1 where there is no socket.\<close>

record connection =
  co_handle :: int
  co_poisoned :: bool
  co_reason :: status
  co_sent :: "u8 list"
  co_incoming :: "u8 list"

definition co_valid :: "connection \<Rightarrow> bool" where
  "co_valid c = (co_handle c \<ge> 0)"

definition connection_new :: connection where
  "connection_new = \<lparr>co_handle = - 1, co_poisoned = False, co_reason = success, co_sent = [], co_incoming = []\<rparr>"

definition adopt :: "int \<Rightarrow> u8 list \<Rightarrow> connection" where
  "adopt h stream = connection_new\<lparr>co_handle := h, co_incoming := stream\<rparr>"

definition co_close :: "connection \<Rightarrow> connection" where
  "co_close c = c\<lparr>co_handle := - 1\<rparr>"

definition poison :: "status \<Rightarrow> connection \<Rightarrow> connection" where
  "poison reason c = (if co_poisoned c then c else co_close (c\<lparr>co_poisoned := True, co_reason := reason\<rparr>))"

definition kFrameMagic :: u32 where
  "kFrameMagic = 0x31524650"

definition kFrameHeaderBytes :: nat where
  "kFrameHeaderBytes = 24"

definition kWireProtocolVersion :: u16 where
  "kWireProtocolVersion = 1"

text \<open>The sixteen header bytes the checksum covers, and the whole header.\<close>

definition frame_covered :: "wire_frame \<Rightarrow> u8 list" where
  "frame_covered fr =
     le_bytes 2 kWireProtocolVersion @ le_bytes 2 (frame_type_num (fr_type fr)) @
     le_bytes 8 (fr_request_id fr) @ le_bytes 4 (of_nat (length (fr_payload fr)) :: u32)"

definition frame_header :: "wire_frame \<Rightarrow> u8 list" where
  "frame_header fr =
     le_bytes 4 kFrameMagic @ frame_covered fr @
     le_bytes 4 (crc32c_extend (crc32c (frame_covered fr)) (fr_payload fr))"

definition unusable :: status where
  "unusable = Status EC_InvalidState ''connection is unusable after a framing failure''"

definition co_send :: "(nat \<Rightarrow> nat) \<Rightarrow> (nat \<Rightarrow> nat) \<Rightarrow> limits \<Rightarrow> wire_frame \<Rightarrow> connection \<Rightarrow> status \<times> connection" where
  "co_send io io' l fr c =
     (if co_poisoned c then (unusable, c)
      else if co_handle c = - 1 then (Status EC_BackendUnavailable ''connection is closed'', c)
      else if length (fr_payload fr) > unat (l_max_frame_payload_bytes l) then
        (Status EC_Oversized ''frame payload above configured bound'', c)
      else if length (fr_payload fr) > 0xFFFFFFFF then
        (Status EC_Oversized ''frame payload length is not representable'', c)
      else
        (let (ok, sent) = send_all io 0 (frame_header fr); c1 = c\<lparr>co_sent := co_sent c @ sent\<rparr>;
             s = Status EC_IoFailure ''frame header send failed''
         in if \<not> ok then (s, poison s c1)
            else if fr_payload fr = [] then (success, c1)
            else
              (let (ok', sent') = send_all io' 0 (fr_payload fr); c2 = c1\<lparr>co_sent := co_sent c1 @ sent'\<rparr>;
                   s' = Status EC_IoFailure ''frame payload send failed''
               in if \<not> ok' then (s', poison s' c2) else (success, c2))))"

text \<open>What a received header says, in the order of the checks; \<open>h\<close> has 24 bytes.\<close>

definition slice_of :: "nat \<Rightarrow> nat \<Rightarrow> u8 list \<Rightarrow> u8 list" where
  "slice_of i n bs = take n (drop i bs)"

definition frame_header_type :: "u8 list \<Rightarrow> frame_type status_or" where
  "frame_header_type h =
     (if le_value (slice_of 0 4 h) \<noteq> kFrameMagic then
        Inl (Status EC_MalformedInput ''frame magic mismatch'')
      else if le_value (slice_of 4 2 h) \<noteq> kWireProtocolVersion then
        Inl (Status EC_Unsupported ''frame protocol version mismatch'')
      else case frame_type_of_num (le_value (slice_of 6 2 h)) of
        None \<Rightarrow> Inl (Status EC_MalformedInput ''frame type discriminator out of range'')
      | Some t \<Rightarrow> Inr t)"

definition header_length :: "u8 list \<Rightarrow> u32" where
  "header_length h = le_value (slice_of 16 4 h)"

definition header_crc :: "u8 list \<Rightarrow> u32" where
  "header_crc h = le_value (slice_of 20 4 h)"

definition co_receive ::
    "(nat \<Rightarrow> nat) \<Rightarrow> (nat \<Rightarrow> nat) \<Rightarrow> limits \<Rightarrow> connection \<Rightarrow> wire_frame status_or \<times> connection" where
  "co_receive io io' l c =
     (if co_poisoned c then (Inl unusable, c)
      else if co_handle c = - 1 then (Inl (Status EC_BackendUnavailable ''connection is closed''), c)
      else
        (let (got, rest) = recv_exact io 0 kFrameHeaderBytes (co_incoming c); c1 = c\<lparr>co_incoming := rest\<rparr> in
         case got of
           None \<Rightarrow>
             (let s = Status EC_IoFailure ''frame header read failed or peer closed'' in (Inl s, poison s c1))
         | Some h \<Rightarrow>
             (case frame_header_type h of
                Inl s \<Rightarrow> (Inl s, poison s c1)
              | Inr t \<Rightarrow>
                  if header_length h > l_max_frame_payload_bytes l then
                    (let s = Status EC_Oversized ''frame payload above configured bound'' in (Inl s, poison s c1))
                  else
                    (let (body, rest') = recv_exact io' 0 (unat (header_length h)) (co_incoming c1);
                         c2 = c1\<lparr>co_incoming := rest'\<rparr>
                     in case body of
                          None \<Rightarrow>
                            (let s = Status EC_MalformedInput ''frame payload truncated'' in (Inl s, poison s c2))
                        | Some payload \<Rightarrow>
                            if crc32c_extend (crc32c (slice_of 4 16 h)) payload \<noteq> header_crc h then
                              (let s = Status EC_IntegrityFailure ''frame checksum mismatch'' in (Inl s, poison s c2))
                            else
                              (Inr \<lparr>fr_type = t, fr_request_id = le_value (slice_of 8 8 h), fr_payload = payload\<rparr>,
                               c2)))))"

section \<open>Connecting and listening\<close>

text \<open>What the operating system answers when a client connects: whether the name resolved, and
  for each address whether a socket could be made and connected, with its handle and the bytes
  the peer will send.\<close>

record dial_answer =
  da_resolved :: bool
  da_addresses :: "(int option \<times> bool \<times> u8 list) list"

fun dial :: "(int option \<times> bool \<times> u8 list) list \<Rightarrow> (int \<times> u8 list) option" where
  "dial [] = None"
| "dial ((s, connected, stream) # as) =
     (case s of
        None \<Rightarrow> dial as
      | Some h \<Rightarrow> if connected then Some (h, stream) else dial as)"

definition transport_global_init :: status where
  "transport_global_init = success"

text \<open>A name that resolves to no address counts as one that does not resolve.\<close>

definition connect_to :: "dial_answer \<Rightarrow> connection \<Rightarrow> status \<times> connection" where
  "connect_to a c =
     (if \<not> st_ok transport_global_init then (transport_global_init, c)
      else if co_poisoned c then (unusable, c)
      else
        (let c1 = co_close c in
         if \<not> da_resolved a \<or> da_addresses a = [] then
           (Status EC_IoFailure ''address resolution failed'', c1)
         else case dial (da_addresses a) of
           None \<Rightarrow> (Status EC_BackendUnavailable ''connect failed'', c1)
         | Some (h, stream) \<Rightarrow> (success, c1\<lparr>co_handle := h, co_sent := [], co_incoming := stream\<rparr>)))"

text \<open>The loop \<^verbatim>\<open>for (u32 attempt = 0; attempt <= retries; ++attempt)\<close>; \<open>k\<close> counts the
  calls. Not returning is \<open>None\<close>: with the largest 32-bit bound the counter wraps before it
  passes the bound.\<close>

partial_function (option) connect_attempts ::
    "(nat \<Rightarrow> dial_answer) \<Rightarrow> nat \<Rightarrow> u32 \<Rightarrow> u32 \<Rightarrow> connection \<Rightarrow> (status \<times> connection) option" where
  "connect_attempts answer k attempt retries c =
     (if attempt > retries then
        Some (Status EC_BackendUnavailable ''listener did not become reachable'', c)
      else if st_ok (fst (connect_to (answer k) c)) then Some (connect_to (answer k) c)
      else connect_attempts answer (k + 1) (attempt + 1) retries (snd (connect_to (answer k) c)))"

definition connect_loopback :: "(nat \<Rightarrow> dial_answer) \<Rightarrow> u32 \<Rightarrow> connection \<Rightarrow> (status \<times> connection) option" where
  "connect_loopback answer retries c = connect_attempts answer 0 0 retries c"

text \<open>A listener, and what the operating system answers when it is set up and when it accepts.\<close>

record listener =
  ls_handle :: int

definition listener_new :: listener where
  "listener_new = \<lparr>ls_handle = - 1\<rparr>"

definition listener_close :: "listener \<Rightarrow> listener" where
  "listener_close s = s\<lparr>ls_handle := - 1\<rparr>"

record listen_answer =
  la_socket :: "int option"
  la_bound :: bool
  la_listening :: bool
  la_port :: "u16 option"

definition listen_loopback :: "listen_answer \<Rightarrow> listener \<Rightarrow> u16 status_or \<times> listener" where
  "listen_loopback a s =
     (if \<not> st_ok transport_global_init then (Inl transport_global_init, s)
      else
        (let s1 = listener_close s in
         case la_socket a of
           None \<Rightarrow> (Inl (Status EC_IoFailure ''listener socket creation failed''), s1)
         | Some h \<Rightarrow>
             if \<not> la_bound a then (Inl (Status EC_IoFailure ''listener bind failed''), s1)
             else if \<not> la_listening a then (Inl (Status EC_IoFailure ''listener listen failed''), s1)
             else
               (case la_port a of
                  None \<Rightarrow> (Inl (Status EC_IoFailure ''listener address lookup failed''), s1)
                | Some port \<Rightarrow> (Inr port, s1\<lparr>ls_handle := h\<rparr>))))"

definition listener_accept :: "(int \<times> u8 list) option \<Rightarrow> listener \<Rightarrow> connection status_or" where
  "listener_accept answer s =
     (if ls_handle s = - 1 then Inl (Status EC_InvalidState ''listener is closed'')
      else case answer of
        None \<Rightarrow> Inl (Status EC_IoFailure ''accept failed'')
      | Some (h, stream) \<Rightarrow> Inr (adopt h stream))"

section \<open>What goes over the socket\<close>

lemma send_all_empty [simp]: "send_all io k [] = (True, [])"
  by (simp add: send_all.simps)

lemma send_all_stop: "data \<noteq> [] \<Longrightarrow> min (io k) (min kChunk (length data)) = 0 \<Longrightarrow> send_all io k data = (False, [])"
  by (simp add: send_all.simps [of io k data] Let_def)

lemma send_all_step:
  assumes "data \<noteq> []" "n = min (io k) (min kChunk (length data))" "n \<noteq> 0"
  shows "send_all io k data = (fst (send_all io (k + 1) (drop n data)), take n data @ snd (send_all io (k + 1) (drop n data)))"
  using assms by (simp only: send_all.simps [of io k data] Let_def split_beta if_False)

text \<open>The three ways a call goes: nothing to do, a failure, some progress.\<close>

lemma send_all_induct:
  fixes io :: "nat \<Rightarrow> nat" and data :: "u8 list"
  assumes "\<And>io k. P io k []" "\<And>io k data. data \<noteq> [] \<Longrightarrow> min (io k) (min kChunk (length data)) = 0 \<Longrightarrow> P io k data"
    and "\<And>io k data n. data \<noteq> [] \<Longrightarrow> n = min (io k) (min kChunk (length data)) \<Longrightarrow> n \<noteq> 0 \<Longrightarrow> P io (k + 1) (drop n data) \<Longrightarrow> P io k data"
  shows "P io k data"
proof (induction io k data rule: send_all.induct)
  case (1 io k data)
  then show ?case using assms by (cases "data = []") metis+
qed

lemma send_all_success: "fst (send_all io k data) \<Longrightarrow> snd (send_all io k data) = data"
  by (induction io k data rule: send_all_induct) (simp_all add: send_all_stop send_all_step)

lemma send_all_prefix: "\<exists>n. snd (send_all io k data) = take n data"
proof (induction io k data rule: send_all_induct)
  case (3 io k data n)
  then obtain m where "snd (send_all io (k + 1) (drop n data)) = take m (drop n data)" by blast
  then have "snd (send_all io k data) = take (n + m) data" using send_all_step [of data n io k, OF 3(1-3)] by (simp add: take_add)
  then show ?case by blast
qed (auto simp: send_all_stop intro: exI [of _ 0])

text \<open>A socket that takes at least one byte each time takes everything.\<close>

lemma send_all_progress: "(\<forall>i. io i > 0) \<Longrightarrow> fst (send_all io k data)"
proof (induction io k data rule: send_all_induct)
  case (2 io k data)
  then have "io k > 0" "kChunk > 0" "length data > 0" by (auto simp: kChunk_def)
  then show ?case using 2(2) by (simp add: min_def split: if_splits)
next
  case (3 io k data n)
  then show ?case using send_all_step [of data n io k, OF 3(1-3)] by simp
qed simp

lemma recv_exact_none_wanted [simp]: "recv_exact io k 0 stream = (Some [], stream)"
  by (simp add: recv_exact.simps)

lemma recv_exact_stop: "want \<noteq> 0 \<Longrightarrow> min (io k) (min (min kChunk want) (length stream)) = 0 \<Longrightarrow> recv_exact io k want stream = (None, stream)"
  by (simp only: recv_exact.simps [of io k want] Let_def if_False if_True) simp

lemma recv_exact_step:
  assumes "want \<noteq> 0" "n = min (io k) (min (min kChunk want) (length stream))" "n \<noteq> 0"
  shows "recv_exact io k want stream =
    (map_option (\<lambda>b. take n stream @ b) (fst (recv_exact io (k + 1) (want - n) (drop n stream))),
     snd (recv_exact io (k + 1) (want - n) (drop n stream)))"
  using assms by (simp only: recv_exact.simps [of io k want] Let_def split_beta if_False)

lemma recv_exact_induct:
  fixes io :: "nat \<Rightarrow> nat" and stream :: "u8 list"
  assumes "\<And>io k stream. P io k 0 stream"
    and "\<And>io k want stream. want \<noteq> 0 \<Longrightarrow> min (io k) (min (min kChunk want) (length stream)) = 0 \<Longrightarrow> P io k want stream"
    and "\<And>io k want stream n. want \<noteq> 0 \<Longrightarrow> n = min (io k) (min (min kChunk want) (length stream)) \<Longrightarrow> n \<noteq> 0 \<Longrightarrow>
           P io (k + 1) (want - n) (drop n stream) \<Longrightarrow> P io k want stream"
  shows "P io k want stream"
proof (induction io k want stream rule: recv_exact.induct)
  case (1 io k want stream)
  then show ?case using assms by (cases "want = 0") metis+
qed

lemma recv_exact_some: "fst (recv_exact io k want stream) = Some b \<Longrightarrow>
    stream = b @ snd (recv_exact io k want stream) \<and> length b = want"
proof (induction io k want stream arbitrary: b rule: recv_exact_induct)
  case (3 io k want stream n)
  note s = recv_exact_step [of want n io k stream, OF 3(1-3)]
  obtain b' where b': "fst (recv_exact io (k + 1) (want - n) (drop n stream)) = Some b'" "b = take n stream @ b'"
    using 3(5) s by auto
  have i: "drop n stream = b' @ snd (recv_exact io (k + 1) (want - n) (drop n stream))" "length b' = want - n"
    using 3(4) [OF b'(1)] by simp_all
  have n: "n \<le> want" "n \<le> length stream" using 3(2) by simp_all
  have "stream = take n stream @ b' @ snd (recv_exact io k want stream)"
    using append_take_drop_id [of n stream] i(1) s by simp
  then show ?case using b'(2) i(2) n by simp
qed (simp_all add: recv_exact_stop)

lemma recv_exact_progress: "(\<forall>i. io i > 0) \<Longrightarrow> want \<le> length stream \<Longrightarrow> fst (recv_exact io k want stream) \<noteq> None"
proof (induction io k want stream rule: recv_exact_induct)
  case (2 io k want stream)
  then have "io k > 0" "kChunk > 0" "length stream > 0" by (auto simp: kChunk_def)
  then show ?case using 2(1,2) by (simp add: min_def split: if_splits)
next
  case (3 io k want stream n)
  then show ?case using recv_exact_step [of want n io k stream, OF 3(1-3)] by simp
qed simp

lemma recv_exact_all:
  assumes "\<forall>i. io i > 0"
  shows "recv_exact io k (length b) (b @ rest) = (Some b, rest)"
proof -
  obtain b' where r: "fst (recv_exact io k (length b) (b @ rest)) = Some b'"
    using recv_exact_progress [OF assms, of "length b" "b @ rest" k] by auto
  then show ?thesis using recv_exact_some [OF r] by (auto simp: prod_eq_iff append_eq_append_conv)
qed

section \<open>Reading a header\<close>

lemma le_value_bit:
  assumes "LENGTH('a::len) = 8 * length bs" "i < length bs" "j < 8"
  shows "bit (le_value bs :: 'a word) (8 * i + j) = bit (bs ! i) j"
proof -
  have "8 * i + j < 8 * length bs" using assms(2,3) by linarith
  then show ?thesis using assms by (simp add: le_value_def bit_le_fold)
qed

lemma le_value_inj:
  assumes "length a = length b" "LENGTH('a::len) = 8 * length a" "le_value a = (le_value b :: 'a word)"
  shows "a = b"
proof (rule nth_equalityI)
  fix i assume i: "i < length a"
  show "a ! i = b ! i"
  proof (rule bit_word_eqI)
    fix j assume "j < LENGTH(8)"
    then have j: "j < 8" by simp
    show "bit (a ! i) j = bit (b ! i) j"
      using le_value_bit [of a i j, where 'a = 'a] le_value_bit [of b i j, where 'a = 'a] assms i j by simp
  qed
qed (rule assms(1))

lemma header_lengths [simp]: "length (frame_covered fr) = 16" "length (frame_header fr) = 24"
  by (simp_all add: frame_covered_def frame_header_def)

lemma header_slices:
  "slice_of 0 4 (frame_header fr) = le_bytes 4 kFrameMagic"
  "slice_of 4 2 (frame_header fr) = le_bytes 2 kWireProtocolVersion"
  "slice_of 6 2 (frame_header fr) = le_bytes 2 (frame_type_num (fr_type fr))"
  "slice_of 8 8 (frame_header fr) = le_bytes 8 (fr_request_id fr)"
  "slice_of 16 4 (frame_header fr) = le_bytes 4 (of_nat (length (fr_payload fr)) :: u32)"
  "slice_of 20 4 (frame_header fr) = le_bytes 4 (crc32c_extend (crc32c (frame_covered fr)) (fr_payload fr))"
  "slice_of 4 16 (frame_header fr) = frame_covered fr"
  by (simp_all add: slice_of_def frame_header_def frame_covered_def)

lemma header_reads:
  "frame_header_type (frame_header fr) = Inr (fr_type fr)"
  "header_length (frame_header fr) = of_nat (length (fr_payload fr))"
  "header_crc (frame_header fr) = crc32c_extend (crc32c (frame_covered fr)) (fr_payload fr)"
  "le_value (slice_of 8 8 (frame_header fr)) = fr_request_id fr"
  by (simp_all add: frame_header_type_def header_length_def header_crc_def header_slices le_value_bytes)

section \<open>Delivery\<close>

lemma co_send_success:
  assumes "co_send io io' l fr c = (s, c')" "st_ok s"
  shows "c' = c\<lparr>co_sent := co_sent c @ frame_header fr @ fr_payload fr\<rparr>"
    "\<not> co_poisoned c" "co_handle c \<noteq> - 1" "length (fr_payload fr) \<le> unat (l_max_frame_payload_bytes l)"
    "length (fr_payload fr) \<le> 0xFFFFFFFF"
  using assms send_all_success [of io 0 "frame_header fr"] send_all_success [of io' 0 "fr_payload fr"]
  by (auto simp: co_send_def Let_def split_beta unusable_def st_ok_def split: if_splits)

lemma u32_bound: "unat (v :: u32) < 4294967296"
  by (rule order.strict_trans2 [OF unsigned_less]) simp

lemma co_receive_frame:
  assumes "\<not> co_poisoned r" "co_handle r \<noteq> - 1" "co_incoming r = frame_header fr @ fr_payload fr @ rest"
    and "\<forall>i. io i > 0" "\<forall>i. io' i > 0"
    and "length (fr_payload fr) \<le> unat (l_max_frame_payload_bytes l)"
  shows "co_receive io io' l r = (Inr fr, r\<lparr>co_incoming := rest\<rparr>)"
proof -
  have h: "recv_exact io 0 kFrameHeaderBytes (co_incoming r) = (Some (frame_header fr), fr_payload fr @ rest)"
    using recv_exact_all [OF assms(4), of 0 "frame_header fr" "fr_payload fr @ rest"] assms(3)
    by (simp add: kFrameHeaderBytes_def)
  have lt: "length (fr_payload fr) < 4294967296"
    using assms(6) u32_bound [of "l_max_frame_payload_bytes l"] by linarith
  have u: "unat (header_length (frame_header fr)) = length (fr_payload fr)"
    using lt by (simp add: header_reads unat_of_nat_u32)
  then have le: "\<not> header_length (frame_header fr) > l_max_frame_payload_bytes l"
    using assms(6) by (simp add: word_less_nat_alt)
  have b: "recv_exact io' 0 (unat (header_length (frame_header fr))) (fr_payload fr @ rest) = (Some (fr_payload fr), rest)"
    unfolding u by (rule recv_exact_all [OF assms(5)])
  have c: "crc32c_extend (crc32c (slice_of 4 16 (frame_header fr))) (fr_payload fr) = header_crc (frame_header fr)"
    by (simp add: header_slices header_reads)
  show ?thesis
    using assms(1,2) h le b c by (simp add: co_receive_def Let_def header_reads)
qed

section \<open>Refusal\<close>

lemma poison_effect: "co_poisoned (poison s c)" "\<not> co_poisoned c \<Longrightarrow> co_handle (poison s c) = - 1"
  by (simp_all add: poison_def co_close_def)

lemma co_receive_failure:
  assumes "co_receive io io' l c = (Inl s, c')" "co_handle c \<noteq> - 1" "\<not> co_poisoned c"
  shows "co_poisoned c' \<and> co_handle c' = - 1"
  using assms
  by (auto simp: co_receive_def Let_def split_beta poison_def co_close_def split: option.splits sum.splits if_splits)

lemma co_send_failure:
  assumes "co_send io io' l fr c = (s, c')" "\<not> st_ok s" "co_handle c \<noteq> - 1" "\<not> co_poisoned c"
    "length (fr_payload fr) \<le> unat (l_max_frame_payload_bytes l)" "length (fr_payload fr) \<le> 0xFFFFFFFF"
  shows "co_poisoned c' \<and> co_handle c' = - 1"
  using assms
  by (auto simp: co_send_def Let_def split_beta poison_def co_close_def st_ok_def success_def split: if_splits)

lemma poisoned_refuses:
  assumes "co_poisoned c"
  shows "co_send io io' l fr c = (unusable, c)" "co_receive io io' l c = (Inl unusable, c)" "connect_to a c = (unusable, c)"
  using assms by (simp_all add: co_send_def co_receive_def connect_to_def transport_global_init_def)

section \<open>Corruption\<close>

lemma co_receive_accepts:
  assumes "co_receive io io' l c = (Inr fr, c')"
  shows "\<exists>h b. co_incoming c = h @ b @ co_incoming c' \<and> length h = 24 \<and> length b = unat (header_length h) \<and>
     le_value (slice_of 0 4 h) = kFrameMagic \<and> crc32c (slice_of 4 16 h @ b) = header_crc h"
proof -
  obtain got rest where g: "recv_exact io 0 kFrameHeaderBytes (co_incoming c) = (got, rest)" by (metis prod.exhaust)
  obtain h where h: "got = Some h" using assms g by (auto simp: co_receive_def Let_def split: if_splits option.splits)
  obtain body rest' where b: "recv_exact io' 0 (unat (header_length h)) rest = (body, rest')" by (metis prod.exhaust)
  have t: "frame_header_type h = Inr (fr_type fr)"
    using assms g h b by (auto simp: co_receive_def Let_def split: if_splits option.splits sum.splits)
  have r: "body = Some (fr_payload fr)" "crc32c_extend (crc32c (slice_of 4 16 h)) (fr_payload fr) = header_crc h" "co_incoming c' = rest'"
    using assms g h b by (auto simp: co_receive_def Let_def split: if_splits option.splits sum.splits)
  have "co_incoming c = h @ rest \<and> length h = kFrameHeaderBytes"
    using recv_exact_some [of io 0 kFrameHeaderBytes "co_incoming c" h] g h by simp
  moreover have "rest = fr_payload fr @ rest' \<and> length (fr_payload fr) = unat (header_length h)"
    using recv_exact_some [of io' 0 "unat (header_length h)" rest "fr_payload fr"] b r(1) by simp
  moreover have "le_value (slice_of 0 4 h) = kFrameMagic" using t by (simp add: frame_header_type_def split: if_splits)
  moreover have "crc32c (slice_of 4 16 h @ fr_payload fr) = header_crc h"
    using r(2) by (simp add: crc32c_def crc32c_extend_append)
  ultimately show ?thesis using r(3) by (intro exI [of _ h] exI [of _ "fr_payload fr"]) (simp add: kFrameHeaderBytes_def)
qed

text \<open>One changed byte outside the length field is never accepted.\<close>

lemma update_parts:
  "p < length a \<Longrightarrow> (a @ b)[p := x] = a[p := x] @ b" "length a \<le> p \<Longrightarrow> (a @ b)[p := x] = a @ b[p - length a := x]"
  by (simp_all add: list_update_append)

lemma crc32c_changed:
  assumes "p < length d" "x \<noteq> d ! p"
  shows "crc32c (d[p := x]) \<noteq> crc32c d"
proof -
  have "d[p := x] = take p d @ x # drop (Suc p) d" by (rule upd_conv_take_nth_drop [OF assms(1)])
  moreover have "d = take p d @ (d ! p) # drop (Suc p) d" by (rule id_take_nth_drop [OF assms(1)])
  ultimately show ?thesis using crc32c_one_byte [OF assms(2)] by metis
qed

lemma slice_of_update:
  "p \<notin> {i..<i + n} \<Longrightarrow> slice_of i n (xs[p := x]) = slice_of i n xs"
  "i \<le> p \<Longrightarrow> p < i + n \<Longrightarrow> slice_of i n (xs[p := x]) = (slice_of i n xs)[p - i := x]"
proof -
  show "slice_of i n (xs[p := x]) = slice_of i n xs" if "p \<notin> {i..<i + n}"
  proof (cases "p < i")
    case True
    then show ?thesis by (simp add: slice_of_def)
  next
    case False
    then have "n \<le> p - i" "i \<le> p" using that by simp_all
    then show ?thesis by (simp add: slice_of_def drop_update_swap)
  qed
  show "i \<le> p \<Longrightarrow> p < i + n \<Longrightarrow> slice_of i n (xs[p := x]) = (slice_of i n xs)[p - i := x]"
    by (simp add: slice_of_def drop_update_swap take_update_swap)
qed

lemma slice_of_take: "i + n \<le> m \<Longrightarrow> slice_of i n (take m xs) = slice_of i n xs"
  by (simp add: slice_of_def drop_take min_def)

lemma slice_of_append: "i + n \<le> length xs \<Longrightarrow> slice_of i n (xs @ ys) = slice_of i n xs"
  by (simp add: slice_of_def)

lemma nth_slice: "j < n \<Longrightarrow> i + n \<le> length xs \<Longrightarrow> slice_of i n xs ! j = xs ! (i + j)"
  by (simp add: slice_of_def)

lemma length_slice [simp]: "i + n \<le> length xs \<Longrightarrow> length (slice_of i n xs) = n"
  by (simp add: slice_of_def)

lemma update_changes: "p < length xs \<Longrightarrow> x \<noteq> xs ! p \<Longrightarrow> xs[p := x] \<noteq> xs"
  by (metis nth_list_update_eq)

lemma corrupted_frame:
  assumes "co_incoming c = (frame_header fr @ fr_payload fr)[p := x] @ rest" "p < length (frame_header fr @ fr_payload fr)"
    and "x \<noteq> (frame_header fr @ fr_payload fr) ! p" "p \<notin> {16..<20}"
    and "length (fr_payload fr) < 4294967296" "co_receive io io' l c = (Inr fr', c')"
  shows False
proof -
  define b0 where "b0 = fr_payload fr"
  define o0 where "o0 = frame_header fr @ b0"
  define y where "y = o0[p := x]"
  have ly: "length y = 24 + length b0" "length o0 = 24 + length b0" by (simp_all add: y_def o0_def)
  have p: "p < length o0" "x \<noteq> o0 ! p" using assms(2,3) by (simp_all add: o0_def b0_def)
  obtain h b where h: "co_incoming c = h @ b @ co_incoming c'" "length h = 24" "length b = unat (header_length h)"
     "le_value (slice_of 0 4 h) = kFrameMagic" "crc32c (slice_of 4 16 h @ b) = header_crc h"
    using co_receive_accepts [OF assms(6)] by blast
  have eq: "h @ b @ co_incoming c' = y @ rest" using h(1) assms(1) by (simp add: y_def o0_def b0_def)
  have hy: "h = take 24 y" using arg_cong [OF eq, of "take 24"] h(2) ly by simp
  have sl: "slice_of i n h = slice_of i n y" if "i + n \<le> 24" for i n unfolding hy by (rule slice_of_take [OF that])
  have so: "slice_of i n o0 = slice_of i n (frame_header fr)" if "i + n \<le> 24" for i n
    using that by (simp add: o0_def slice_of_append)
  have "slice_of 16 4 y = slice_of 16 4 (frame_header fr)"
    using slice_of_update(1) [of p 16 4 o0 x] assms(4) so [of 16 4] by (simp add: y_def)
  then have "unat (header_length h) = length b0"
    using assms(5) by (simp add: header_length_def sl header_slices le_value_bytes b0_def unat_of_nat_u32)
  then have bd: "b = drop 24 y" using arg_cong [OF eq, of "\<lambda>z. take (length b0) (drop 24 z)"] h(2,3) ly by simp
  have crc0: "crc32c (slice_of 4 16 o0 @ b0) = le_value (slice_of 20 4 o0)"
    by (simp add: so header_slices le_value_bytes crc32c_def crc32c_extend_append b0_def)
  have crc: "crc32c (slice_of 4 16 y @ drop 24 y) = le_value (slice_of 20 4 y)"
    using h(5) by (simp add: sl bd header_crc_def)
  consider "p < 4" | "4 \<le> p" "p < 16" | "20 \<le> p" "p < 24" | "24 \<le> p" using assms(4) by force
  then show False
  proof cases
    case 1
    have "slice_of 0 4 y = (slice_of 0 4 o0)[p := x]" using slice_of_update(2) [of 0 p 4 o0 x] 1 by (simp add: y_def)
    moreover have "slice_of 0 4 o0 ! p = o0 ! p" using 1 ly nth_slice [of p 4 0 o0] by simp
    ultimately have "slice_of 0 4 y \<noteq> slice_of 0 4 o0" using update_changes [of p "slice_of 0 4 o0" x] 1 p ly by simp
    moreover have "le_value (slice_of 0 4 y) = (le_value (slice_of 0 4 o0) :: u32)"
      using h(4) by (simp add: sl so header_slices le_value_bytes)
    ultimately show False using le_value_inj [of "slice_of 0 4 y" "slice_of 0 4 o0", where 'a = 32] ly by simp
  next
    case 2
    have q: "p - 4 < 16" using 2 by linarith
    have "slice_of 4 16 y = (slice_of 4 16 o0)[p - 4 := x]" "slice_of 20 4 y = slice_of 20 4 o0"
      using slice_of_update(2) [of 4 p 16 o0 x] slice_of_update(1) [of p 20 4 o0 x] 2 by (simp_all add: y_def)
    moreover have "drop 24 y = b0" using 2 by (simp add: y_def o0_def)
    ultimately have "crc32c ((slice_of 4 16 o0 @ b0)[p - 4 := x]) = crc32c (slice_of 4 16 o0 @ b0)"
      using crc crc0 ly update_parts(1) [of "p - 4" "slice_of 4 16 o0" b0 x] q by simp
    moreover have "(slice_of 4 16 o0 @ b0) ! (p - 4) = o0 ! p"
      using 2 q ly nth_slice [of "p - 4" 16 4 o0] by (simp add: nth_append)
    ultimately show False using crc32c_changed [of "p - 4" "slice_of 4 16 o0 @ b0" x] 2 q p ly by simp
  next
    case 3
    have "slice_of 4 16 y = slice_of 4 16 o0" "slice_of 20 4 y = (slice_of 20 4 o0)[p - 20 := x]"
      using slice_of_update(1) [of p 4 16 o0 x] slice_of_update(2) [of 20 p 4 o0 x] 3 by (simp_all add: y_def)
    moreover have "drop 24 y = b0" using 3 by (simp add: y_def o0_def)
    ultimately have "le_value ((slice_of 20 4 o0)[p - 20 := x]) = (le_value (slice_of 20 4 o0) :: u32)"
      using crc crc0 by simp
    moreover have "slice_of 20 4 o0 ! (p - 20) = o0 ! p" using 3 ly nth_slice [of "p - 20" 4 20 o0] by simp
    ultimately show False
      using le_value_inj [of "(slice_of 20 4 o0)[p - 20 := x]" "slice_of 20 4 o0", where 'a = 32] ly 3 p
        update_changes [of "p - 20" "slice_of 20 4 o0" x] by simp
  next
    case 4
    have q: "\<not> p - 8 < 16" "p - 8 - 16 = p - 24" using 4 by linarith+
    have "slice_of 4 16 y = slice_of 4 16 o0" "slice_of 20 4 y = slice_of 20 4 o0"
      using slice_of_update(1) [of p 4 16 o0 x] slice_of_update(1) [of p 20 4 o0 x] 4 by (simp_all add: y_def)
    moreover have "drop 24 y = b0[p - 24 := x]" using 4 by (simp add: y_def o0_def list_update_append)
    ultimately have "crc32c ((slice_of 4 16 o0 @ b0)[p - 8 := x]) = crc32c (slice_of 4 16 o0 @ b0)"
      using crc crc0 q ly by (simp add: list_update_append)
    moreover have "(slice_of 4 16 o0 @ b0) ! (p - 8) = o0 ! p"
      using 4 q ly by (simp add: nth_append o0_def)
    ultimately show False using crc32c_changed [of "p - 8" "slice_of 4 16 o0 @ b0" x] 4 q p ly by simp
  qed
qed

section \<open>Connecting\<close>

lemma u32_suc: "a < b \<Longrightarrow> unat (a + 1 :: u32) = Suc (unat a)"
proof -
  assume "a < b"
  then have "unat a < unat b" by (simp add: word_less_nat_alt)
  then have "unat a + 1 < 4294967296" using unat_u32_less [of b] by linarith
  then show "unat (a + 1) = Suc (unat a)" by (simp add: unat_word_ariths)
qed

lemma connect_attempts_returns:
  assumes "retries < 0xFFFFFFFF" "unat attempt \<le> unat retries + 1"
  shows "\<exists>r. connect_attempts answer k attempt retries c = Some r"
  using assms(2)
proof (induction "unat retries + 1 - unat attempt" arbitrary: k attempt c rule: less_induct)
  case less
  show ?case
  proof (cases "attempt > retries \<or> st_ok (fst (connect_to (answer k) c))")
    case True
    then show ?thesis by (subst connect_attempts.simps) auto
  next
    case False
    then have a: "unat attempt \<le> unat retries" by (simp add: word_le_nat_alt [symmetric] not_less)
    have "unat (attempt + 1) = Suc (unat attempt)"
      using a assms(1) by (intro u32_suc [of attempt "0xFFFFFFFF"]) (simp add: word_less_nat_alt)
    then obtain r where "connect_attempts answer (k + 1) (attempt + 1) retries (snd (connect_to (answer k) c)) = Some r"
      using less.hyps [of "attempt + 1" "k + 1" "snd (connect_to (answer k) c)"] a by (auto simp: Suc_diff_le)
    then show ?thesis using False by (subst connect_attempts.simps) simp
  qed
qed

lemma connect_attempts_ends:
  "connect_attempts answer k attempt retries c = Some r \<Longrightarrow>
     retries = 0xFFFFFFFF \<longrightarrow> (\<forall>k c. \<not> st_ok (fst (connect_to (answer k) c))) \<longrightarrow> False"
proof (erule connect_attempts.raw_induct [rotated])
  fix f :: "(nat \<Rightarrow> dial_answer) \<Rightarrow> nat \<Rightarrow> u32 \<Rightarrow> u32 \<Rightarrow> connection \<Rightarrow> (status \<times> connection) option"
  fix answer k attempt retries c r
  assume ih: "\<And>answer k attempt retries c r. f answer k attempt retries c = Some r \<Longrightarrow>
      retries = 0xFFFFFFFF \<longrightarrow> (\<forall>k c. \<not> st_ok (fst (connect_to (answer k) c))) \<longrightarrow> False"
    and body: "(if attempt > retries then Some (Status EC_BackendUnavailable ''listener did not become reachable'', c)
      else if st_ok (fst (connect_to (answer k) c)) then Some (connect_to (answer k) c)
      else f answer (k + 1) (attempt + 1) retries (snd (connect_to (answer k) c))) = Some r"
  have top: "\<not> attempt > (0xFFFFFFFF :: u32)" by (simp add: word_less_nat_alt not_less)
     (use unat_u32_less [of attempt] in linarith)
  show "retries = 0xFFFFFFFF \<longrightarrow> (\<forall>k c. \<not> st_ok (fst (connect_to (answer k) c))) \<longrightarrow> False"
    using ih body top by (auto split: if_splits)
qed

lemma connect_attempts_diverges:
  "(\<And>k c. \<not> st_ok (fst (connect_to (answer k) c))) \<Longrightarrow> connect_attempts answer k attempt 0xFFFFFFFF c = None"
  using connect_attempts_ends [of answer k attempt "0xFFFFFFFF" c] by (cases "connect_attempts answer k attempt 0xFFFFFFFF c") auto

end
