(* ===== verification/PF_Channel.thy ===== *)
theory PF_Channel
  imports PF_Transport
begin

text \<open>
  What the control protocol relies on when it uses \<^verbatim>\<open>FramedConnection\<close>: the interface of a channel
  as a locale, what a client of it may conclude for whole sequences of messages, and its
  interpretation on the model of \<^verbatim>\<open>src/transport.cpp\<close> over sockets that make progress.
\<close>

section \<open>The interface\<close>

text \<open>Several messages one after the other; sending stops at the first failure.\<close>

fun send_each :: "('m \<Rightarrow> 'c \<Rightarrow> status \<times> 'c) \<Rightarrow> 'm list \<Rightarrow> 'c \<Rightarrow> status \<times> 'c" where
  "send_each send [] c = (success, c)"
| "send_each send (m # ms) c =
     (let (s, c') = send m c in if \<not> st_ok s then (s, c') else send_each send ms c')"

fun receive_each :: "('c \<Rightarrow> 'm status_or \<times> 'c) \<Rightarrow> nat \<Rightarrow> 'c \<Rightarrow> 'm list status_or \<times> 'c" where
  "receive_each receive 0 c = (Inr [], c)"
| "receive_each receive (Suc n) c =
     (case receive c of
        (Inl s, c') \<Rightarrow> (Inl s, c')
      | (Inr m, c') \<Rightarrow>
          (case receive_each receive n c' of
             (Inl s, c'') \<Rightarrow> (Inl s, c'')
           | (Inr ms, c'') \<Rightarrow> (Inr (m # ms), c'')))"

text \<open>
  A channel sends and receives messages over a pair of byte streams. A usable end takes every
  message it can carry, and what is before it on the incoming stream is what it receives. An
  unusable end refuses both without touching its streams, and a failed receive leaves it unusable.
\<close>

locale channel =
  fixes send :: "'m \<Rightarrow> 'c \<Rightarrow> status \<times> 'c"
    and receive :: "'c \<Rightarrow> 'm status_or \<times> 'c"
    and usable :: "'c \<Rightarrow> bool"
    and carries :: "'m \<Rightarrow> bool"
    and wired :: "'m \<Rightarrow> u8 list"
    and out :: "'c \<Rightarrow> u8 list"
    and inp :: "'c \<Rightarrow> u8 list"
  assumes send_ok: "usable c \<Longrightarrow> carries m \<Longrightarrow>
      \<exists>c'. send m c = (success, c') \<and> usable c' \<and> out c' = out c @ wired m \<and> inp c' = inp c"
    and receive_ok: "usable c \<Longrightarrow> carries m \<Longrightarrow> inp c = wired m @ rest \<Longrightarrow>
      \<exists>c'. receive c = (Inr m, c') \<and> usable c' \<and> inp c' = rest \<and> out c' = out c"
    and receive_fails: "receive c = (Inl s, c') \<Longrightarrow> \<not> usable c'"
begin

lemma sends:
  assumes "usable c" "\<forall>m \<in> set ms. carries m"
  shows "\<exists>c'. send_each send ms c = (success, c') \<and> usable c' \<and> out c' = out c @ concat (map wired ms) \<and> inp c' = inp c"
  using assms
proof (induction ms arbitrary: c)
  case (Cons m ms)
  then obtain c1 where c1: "send m c = (success, c1)" "usable c1" "out c1 = out c @ wired m" "inp c1 = inp c"
    using send_ok [of c m] by auto
  then obtain c2 where "send_each send ms c1 = (success, c2)" "usable c2"
      "out c2 = out c1 @ concat (map wired ms)" "inp c2 = inp c1"
    using Cons.IH [of c1] Cons.prems(2) by auto
  then show ?case using c1 by simp
qed simp

lemma receives:
  assumes "usable c" "\<forall>m \<in> set ms. carries m" "inp c = concat (map wired ms) @ rest"
  shows "\<exists>c'. receive_each receive (length ms) c = (Inr ms, c') \<and> usable c' \<and> inp c' = rest \<and> out c' = out c"
  using assms
proof (induction ms arbitrary: c)
  case (Cons m ms)
  then obtain c1 where c1: "receive c = (Inr m, c1)" "usable c1" "inp c1 = concat (map wired ms) @ rest" "out c1 = out c"
    using receive_ok [of c m "concat (map wired ms) @ rest"] by auto
  then obtain c2 where "receive_each receive (length ms) c1 = (Inr ms, c2)" "usable c2" "inp c2 = rest" "out c2 = out c1"
    using Cons.IH [of c1] Cons.prems(2) by auto
  then show ?case using c1 by simp
qed simp

text \<open>What one end sends, the other end receives, in order and nothing else.\<close>

lemma delivered:
  assumes "usable a" "usable b" "\<forall>m \<in> set ms. carries m" "send_each send ms a = (s, a')"
    and "inp b = drop (length (out a)) (out a') @ rest"
  shows "s = success \<and> (\<exists>b'. receive_each receive (length ms) b = (Inr ms, b') \<and> usable b' \<and> inp b' = rest \<and> out b' = out b)"
proof -
  have "s = success" "out a' = out a @ concat (map wired ms)" using sends [OF assms(1,3)] assms(4) by auto
  then show ?thesis using receives [OF assms(2,3), of rest] assms(5) by simp
qed

text \<open>A peer that answers nothing sensible makes the end unusable; it does not produce a message.\<close>

lemma receive_each_fails: "receive_each receive n c = (Inl s, c') \<Longrightarrow> \<not> usable c'"
proof (induction n arbitrary: c)
  case (Suc n)
  then show ?case using receive_fails [of c] by (auto split: prod.splits sum.splits)
qed simp

end

section \<open>Framed connections\<close>

definition healthy :: "connection \<Rightarrow> bool" where
  "healthy c = (\<not> co_poisoned c \<and> co_handle c \<noteq> - 1)"

definition wire :: "wire_frame \<Rightarrow> u8 list" where
  "wire fr = frame_header fr @ fr_payload fr"

definition fits :: "limits \<Rightarrow> wire_frame \<Rightarrow> bool" where
  "fits l fr = (length (fr_payload fr) \<le> unat (l_max_frame_payload_bytes l))"

text \<open>A socket makes progress when each call takes or gives at least one byte.\<close>

definition progresses :: "(nat \<Rightarrow> nat) \<Rightarrow> bool" where
  "progresses io = (\<forall>i. io i > 0)"

lemma co_send_ok:
  assumes "progresses io" "progresses io'" "healthy c" "fits l fr"
  shows "co_send io io' l fr c = (success, c\<lparr>co_sent := co_sent c @ wire fr\<rparr>)"
proof -
  have n: "length (fr_payload fr) \<le> 0xFFFFFFFF"
    using assms(4) u32_bound [of "l_max_frame_payload_bytes l"] unfolding fits_def by linarith
  have s: "send_all io 0 d = (True, d)" "send_all io' 0 d = (True, d)" for d
    using assms(1,2) send_all_progress [of io 0 d] send_all_success [of io 0 d]
      send_all_progress [of io' 0 d] send_all_success [of io' 0 d]
    by (simp_all add: prod_eq_iff progresses_def)
  show ?thesis
    using assms(3,4) n by (simp add: co_send_def healthy_def fits_def s wire_def not_less Let_def)
qed

lemma co_receive_ok:
  assumes "progresses io" "progresses io'" "healthy c" "fits l fr" "co_incoming c = wire fr @ rest"
  shows "co_receive io io' l c = (Inr fr, c\<lparr>co_incoming := rest\<rparr>)"
  using assms by (intro co_receive_frame) (simp_all add: progresses_def healthy_def fits_def wire_def)

lemma co_receive_Inl: "co_receive io io' l c = (Inl s, c') \<Longrightarrow> \<not> healthy c'"
  using co_receive_failure [of io io' l c s c']
  by (cases "healthy c") (auto simp: healthy_def co_receive_def split: if_splits)

interpretation framed: channel "co_send si si' l" "co_receive ri ri' l"
    "\<lambda>c. progresses si \<and> progresses si' \<and> progresses ri \<and> progresses ri' \<and> healthy c" "fits l" wire co_sent co_incoming
  for si si' ri ri' l
proof
  fix c m
  assume "progresses si \<and> progresses si' \<and> progresses ri \<and> progresses ri' \<and> healthy c" "fits l m"
  then show "\<exists>c'. co_send si si' l m c = (success, c') \<and>
      (progresses si \<and> progresses si' \<and> progresses ri \<and> progresses ri' \<and> healthy c') \<and>
      co_sent c' = co_sent c @ wire m \<and> co_incoming c' = co_incoming c"
    using co_send_ok [of si si' c l m] by (simp add: healthy_def)
next
  fix c m rest
  assume "progresses si \<and> progresses si' \<and> progresses ri \<and> progresses ri' \<and> healthy c" "fits l m"
    and "co_incoming c = wire m @ rest"
  then show "\<exists>c'. co_receive ri ri' l c = (Inr m, c') \<and>
      (progresses si \<and> progresses si' \<and> progresses ri \<and> progresses ri' \<and> healthy c') \<and>
      co_incoming c' = rest \<and> co_sent c' = co_sent c"
    using co_receive_ok [of ri ri' c l m rest] by (simp add: healthy_def)
next
  fix c s c'
  assume "co_receive ri ri' l c = (Inl s, c')"
  then show "\<not> (progresses si \<and> progresses si' \<and> progresses ri \<and> progresses ri' \<and> healthy c')"
    using co_receive_Inl by blast
qed

end
