(* ===== verification/PF_Control.thy ===== *)
theory PF_Control
  imports PF_Explain PF_Channel PF_Progress
begin

text \<open>
  The messages and the dispatcher of \<^verbatim>\<open>include/pacing/control.hpp\<close> and
  \<^verbatim>\<open>src/control.cpp\<close>: the request and response codec, the staleness check, and one decoded
  request applied to the coordinator.

  A request that changes the state is a call of the coordinator (\<open>request\<close> of the coordinator
  model) followed by an answer read from the state; the two parts are separate functions, because
  other threads may run between them. \<open>dispatch\<close> runs one request alone, with \<open>w k\<close> what the world
  answers at the \<open>k\<close>-th lock section.
\<close>

section \<open>Messages\<close>

record control_request =
  rq_op :: operation
  rq_stamp :: caller_stamp
  rq_fields :: "u8 list"

record control_response =
  rs_code :: error_code
  rs_detail :: string
  rs_payload :: "u8 list"

definition kControlCapacity :: nat where
  "kControlCapacity = 2 ^ 20"

definition failure :: "error_code \<Rightarrow> string \<Rightarrow> control_response" where
  "failure code detail = \<lparr>rs_code = code, rs_detail = detail, rs_payload = []\<rparr>"

definition ok_response :: control_response where
  "ok_response = \<lparr>rs_code = EC_Ok, rs_detail = [], rs_payload = []\<rparr>"

definition failed :: "status \<Rightarrow> control_response" where
  "failed s = failure (st_code s) (st_detail s)"

text \<open>The response that carries what a fresh writer holds after some calls, first where the code
  looks at the writer, then where it does not.\<close>

definition carrying :: "nat \<Rightarrow> (writer \<Rightarrow> writer) list \<Rightarrow> control_response" where
  "carrying cap fs =
     (if encodable cap fs then ok_response\<lparr>rs_payload := record_bytes cap fs\<rparr>
      else failed (w_status (w_seq fs (writer_new cap))))"

definition carrying_unchecked :: "nat \<Rightarrow> (writer \<Rightarrow> writer) list \<Rightarrow> control_response" where
  "carrying_unchecked cap fs = ok_response\<lparr>rs_payload := record_bytes cap fs\<rparr>"

section \<open>The codec\<close>

definition w_bytes :: "u8 list \<Rightarrow> (writer \<Rightarrow> writer) list" where
  "w_bytes d = w_u32 (of_nat (length d)) # map w_u8 d"

definition encode_request :: "control_request \<Rightarrow> (writer \<Rightarrow> writer) list" where
  "encode_request q = w_u16 (operation_num (rq_op q)) # encode_stamp (rq_stamp q) @ w_bytes (rq_fields q)"

definition decode_request :: "limits \<Rightarrow> control_request status_or decode" where
  "decode_request l = do {
     raw \<leftarrow> rd_u16;
     rd_check (case operation_of_num raw of
       None \<Rightarrow> State_Monad.return (Inl (Status EC_MalformedInput ''operation discriminator out of range''))
     | Some op \<Rightarrow>
         rd_try decode_stamp (\<lambda>stamp. do {
           n \<leftarrow> rd_u32;
           rd_check (if n > l_max_frame_payload_bytes l then
               State_Monad.return (Inl (Status EC_Oversized ''request field block above configured bound''))
             else do {
               fields \<leftarrow> rd_tail (unat n);
               rd_check (State_Monad.return (Inr \<lparr>rq_op = op, rq_stamp = stamp, rq_fields = fields\<rparr>)) }) })) }"

definition encode_response :: "control_response \<Rightarrow> (writer \<Rightarrow> writer) list" where
  "encode_response s = w_u16 (error_code_num (rs_code s)) # w_str (rs_detail s) # w_bytes (rs_payload s)"

definition decode_response :: "limits \<Rightarrow> control_response status_or decode" where
  "decode_response l = do {
     raw \<leftarrow> rd_u16;
     rd_check (do {
       detail \<leftarrow> rd_str (unat (l_max_explanation_bytes l));
       rd_check (do {
         n \<leftarrow> rd_u32;
         rd_check (if n > l_max_frame_payload_bytes l then
             State_Monad.return (Inl (Status EC_Oversized ''response payload above configured bound''))
           else do {
             payload \<leftarrow> rd_tail (unat n);
             rd_check (State_Monad.return (Inr
               \<lparr>rs_code = error_code_of_num raw, rs_detail = detail, rs_payload = payload\<rparr>)) }) }) }) }"

text \<open>The answer to an epoch request and to a hello.\<close>

definition epoch_fields :: "fabric \<Rightarrow> (writer \<Rightarrow> writer) list" where
  "epoch_fields f =
     [w_u64 (epoch_value (fb_epoch f)), w_u64 (bo_counter (fb_boot f)), w_u64 (bo_nonce (fb_boot f)),
      w_bool (fb_running f)]"

definition decode_epoch_payload :: "(epoch \<times> boot_id \<times> bool) status_or decode" where
  "decode_epoch_payload = do {
     e \<leftarrow> rd_u64; c \<leftarrow> rd_u64; n \<leftarrow> rd_u64; running \<leftarrow> rd_bool;
     rd_check (State_Monad.return (Inr (Epoch e, \<lparr>bo_counter = c, bo_nonce = n\<rparr>, running))) }"

definition decode_attempt_payload :: "limits \<Rightarrow> app_record status_or decode" where
  "decode_attempt_payload l = decode_attempt l"

definition decode_envelope_payload :: "limits \<Rightarrow> envelope status_or decode" where
  "decode_envelope_payload l = decode_envelope l"

section \<open>The dispatcher\<close>

record dispatcher =
  dp_limits :: limits
  dp_served :: u64
  dp_refused :: u64
  dp_stale :: u64

definition dispatcher_new :: "limits \<Rightarrow> dispatcher" where
  "dispatcher_new l = \<lparr>dp_limits = l, dp_served = 0, dp_refused = 0, dp_stale = 0\<rparr>"

definition stale_check :: "fabric \<Rightarrow> control_request \<Rightarrow> dispatcher \<Rightarrow> control_response \<times> dispatcher" where
  "stale_check f q d =
     (let s = rq_stamp q; reject = (\<lambda>c detail. (failure c detail, d\<lparr>dp_stale := dp_stale d + 1\<rparr>)) in
      if cs_epoch s = 0 then reject EC_StaleEpoch ''request carries no coordinator epoch''
      else if cs_epoch s \<noteq> epoch_value (fb_epoch f) then
        reject EC_StaleEpoch ''request epoch is not the current coordinator epoch''
      else if cs_boot_nonce s \<noteq> 0 \<and> cs_boot_nonce s \<noteq> bo_nonce (fb_boot f) then
        reject EC_StaleBoot ''request boot nonce is not the current coordinator boot''
      else (ok_response, d))"

text \<open>The fields of each operation. A field block is read to its end; publish-policy tells a
  refused policy from trailing bytes.\<close>

definition read_fields :: "string \<Rightarrow> 'a decode \<Rightarrow> u8 list \<Rightarrow> 'a status_or" where
  "read_fields complaint p bs =
     (let (x, r) = run_state p (reader_new bs) in
      if \<not> rd_ok r \<or> \<not> rd_exhausted r then Inl (Status EC_MalformedInput complaint) else Inr x)"

definition bind_fields :: "binding decode" where
  "bind_fields = do {
     flow \<leftarrow> rd_id; resource \<leftarrow> rd_ref; path \<leftarrow> rd_ref; sc \<leftarrow> rd_id; tenant \<leftarrow> rd_id;
     burst_bytes \<leftarrow> rd_u64; burst_packets \<leftarrow> rd_u64; quiesced \<leftarrow> rd_bool; provenance \<leftarrow> rd_id;
     State_Monad.return
       \<lparr>b_flow = flow, b_gen = gen_unknown, b_resource = resource, b_path = path, b_service_class = sc,
        b_tenant = tenant, b_declared_max_burst_bytes = burst_bytes,
        b_declared_max_burst_packets = burst_packets, b_quiesced = quiesced, b_provenance = provenance\<rparr> }"

definition policy_fields :: "limits \<Rightarrow> u8 list \<Rightarrow> policy status_or" where
  "policy_fields l bs =
     (let (x, r) = run_state (decode_policy l) (reader_new bs) in
      case x of
        Inl s \<Rightarrow> Inl s
      | Inr p \<Rightarrow>
          if \<not> rd_exhausted r then
            Inl (Status EC_MalformedInput ''publish-policy fields have trailing bytes'')
          else Inr p)"

definition apply_fields :: "request decode" where
  "apply_fields = do { r \<leftarrow> rd_ref; k \<leftarrow> rd_id; a \<leftarrow> rd_id; State_Monad.return (RQ_apply_envelope r k a) }"

definition cancel_fields :: "limits \<Rightarrow> request decode" where
  "cancel_fields l = do {
     a \<leftarrow> rd_id; reason \<leftarrow> rd_str (unat (l_max_explanation_bytes l));
     State_Monad.return (RQ_cancel_attempt a reason) }"

definition revoke_fields :: "limits \<Rightarrow> request decode" where
  "revoke_fields l = do {
     r \<leftarrow> rd_ref; reason \<leftarrow> rd_str (unat (l_max_explanation_bytes l));
     State_Monad.return (RQ_revoke_envelope r reason) }"

definition attempt_fields :: "u8 list \<Rightarrow> attempt_id status_or" where
  "attempt_fields = read_fields ''attempt fields are malformed'' rd_id"

text \<open>The call of the coordinator a request asks for, when it asks for one that changes its state.\<close>

definition call_of :: "limits \<Rightarrow> control_request \<Rightarrow> request status_or option" where
  "call_of l q =
     (let bs = rq_fields q in
      case rq_op q of
        OP_BindFlow \<Rightarrow>
          Some (map_sum id RQ_bind_flow (read_fields ''bind-flow fields are malformed'' bind_fields bs))
      | OP_PublishPolicy \<Rightarrow> Some (map_sum id RQ_publish_policy (policy_fields l bs))
      | OP_DeriveEnvelope \<Rightarrow>
          Some (map_sum id RQ_derive_envelope (read_fields ''derive-envelope fields are malformed'' rd_id bs))
      | OP_ApplyEnvelope \<Rightarrow> Some (read_fields ''apply-envelope fields are malformed'' apply_fields bs)
      | OP_VerifyAttempt \<Rightarrow> Some (map_sum id RQ_verify_attempt (attempt_fields bs))
      | OP_Revalidate \<Rightarrow> Some (map_sum id RQ_revalidate (attempt_fields bs))
      | OP_CancelAttempt \<Rightarrow>
          Some (read_fields ''cancel-attempt fields are malformed'' (cancel_fields l) bs)
      | OP_RevokeEnvelope \<Rightarrow>
          Some (read_fields ''revoke-envelope fields are malformed'' (revoke_fields l) bs)
      | OP_AdvanceEpoch \<Rightarrow> Some (Inr RQ_advance_epoch)
      | _ \<Rightarrow> None)"

text \<open>The answer after the call, from what it returned and from the state as it is then.\<close>

definition returned_status :: "outcome \<Rightarrow> status" where
  "returned_status oc = (case oc of OC_status s \<Rightarrow> s | _ \<Rightarrow> success)"

definition attempt_answer :: "attempt_id \<Rightarrow> status \<Rightarrow> fabric \<Rightarrow> control_response" where
  "attempt_answer a s f =
     (if \<not> st_ok s then failed s
      else case observe_attempt a f of
        Inl s \<Rightarrow> failed s
      | Inr r \<Rightarrow> carrying_unchecked kControlCapacity (encode_attempt r))"

fun answer_of :: "request \<Rightarrow> outcome \<Rightarrow> fabric \<Rightarrow> control_response" where
  "answer_of (RQ_bind_flow b) oc f =
     (if \<not> st_ok (returned_status oc) then failed (returned_status oc)
      else case observe_binding (b_flow b) f of
        Inl s \<Rightarrow> failed s
      | Inr stored \<Rightarrow> carrying_unchecked 64 [w_u64 (gen_value (b_gen stored))])"
| "answer_of (RQ_publish_policy p) oc f =
     (case oc of
        OC_policy r \<Rightarrow> carrying_unchecked 64 (w_ref r)
      | _ \<Rightarrow> failed (returned_status oc))"
| "answer_of (RQ_derive_envelope flow) oc f =
     (case oc of
        OC_envelope e \<Rightarrow> carrying kControlCapacity (encode_envelope e)
      | _ \<Rightarrow> failed (returned_status oc))"
| "answer_of (RQ_apply_envelope ref backend requested) oc f =
     (case oc of
        OC_attempt a \<Rightarrow> carrying_unchecked 64 [w_u64 (id_value a)]
      | _ \<Rightarrow> failed (returned_status oc))"
| "answer_of (RQ_verify_attempt a) oc f = attempt_answer a (returned_status oc) f"
| "answer_of (RQ_revalidate a) oc f = attempt_answer a (returned_status oc) f"
| "answer_of (RQ_cancel_attempt a reason) oc f = attempt_answer a (returned_status oc) f"
| "answer_of RQ_advance_epoch oc f =
     (if \<not> st_ok (returned_status oc) then failed (returned_status oc)
      else carrying_unchecked 64 [w_u64 (epoch_value (fb_epoch f))])"
| "answer_of _ oc f = (if \<not> st_ok (returned_status oc) then failed (returned_status oc) else ok_response)"

text \<open>The requests that only look.\<close>

definition explain_answer :: "limits \<Rightarrow> explanation \<Rightarrow> control_response" where
  "explain_answer l x =
     carrying kControlCapacity
       ([w_str (to_json x (unat (l_max_explanation_bytes l))), w_u16 (error_code_num (ex_refusal x)),
         w_bool (ex_attempt x \<noteq> None), w_bool (ex_envelope x \<noteq> None)]
        @ (case ex_attempt x of None \<Rightarrow> [] | Some r \<Rightarrow> encode_attempt r)
        @ (case ex_envelope x of None \<Rightarrow> [] | Some e \<Rightarrow> encode_envelope e))"

definition reported_stats :: "stat list" where
  "reported_stats =
     [ST_envelopes_derived, ST_envelopes_refused, ST_applies_requested, ST_applies_reserved,
      ST_applies_committed, ST_applies_unverified, ST_applies_mismatched, ST_applies_refused,
      ST_duplicate_applies, ST_late_completions_discarded, ST_cancellations, ST_revocations,
      ST_fences, ST_stale_rejections, ST_revalidations, ST_readback_unavailable,
      ST_events_emitted, ST_journal_appends, ST_checkpoints, ST_envelopes_evicted,
      ST_attempts_evicted]"

definition stats_answer :: "dispatcher \<Rightarrow> fabric \<Rightarrow> control_response" where
  "stats_answer d f =
     (let counters = map (fb_stats f) reported_stats @ [dp_served d, dp_refused d, dp_stale d] in
      carrying_unchecked 512 (w_u32 (of_nat (length counters)) # map w_u64 counters))"

definition backends_answer :: "env \<Rightarrow> fabric \<Rightarrow> control_response" where
  "backends_answer en f =
     (let ds = list_backends en f in
      carrying kControlCapacity (w_u32 (of_nat (length ds)) # concat (map encode_backend_descriptor ds)))"

definition recover_answer :: "fabric \<Rightarrow> control_response" where
  "recover_answer f =
     (let rc = fb_recovery f in
      carrying_unchecked 1024
        [w_bool (rc_performed rc), w_bool (rc_durable_directory_used rc), w_u64 (rc_bindings_restored rc),
         w_u64 (rc_policies_restored rc), w_u64 (rc_envelopes_invalidated rc),
         w_u64 (rc_attempts_requiring_revalidation rc), w_u64 (rc_attempts_ambiguous rc),
         w_u64 (rc_backends_requiring_registration rc), w_u64 (rc_records_replayed rc),
         w_u64 (rc_records_rejected rc), w_u64 (epoch_value (fb_epoch f)),
         w_u64 (bo_counter (fb_boot f)), w_u64 (bo_nonce (fb_boot f)),
         w_u16 (error_code_num (rc_code rc)), w_str (rc_detail rc)])"

definition direct_answer ::
    "(nat \<Rightarrow> env) \<Rightarrow> control_request \<Rightarrow> dispatcher \<Rightarrow> fabric \<Rightarrow> control_response \<times> dispatcher \<times> fabric" where
  "direct_answer w q d f =
     (case rq_op q of
        OP_Epoch \<Rightarrow> (carrying kControlCapacity (epoch_fields f), d, f)
      | OP_Explain \<Rightarrow>
          (case read_fields ''explain fields are malformed'' rd_id (rq_fields q) of
             Inl s \<Rightarrow> (failed s, d, f)
           | Inr flow \<Rightarrow>
               (case explain (w 0) (w 1) flow f of
                  (Inl s, f1) \<Rightarrow> (failed s, d, f1)
                | (Inr x, f1) \<Rightarrow> (explain_answer (dp_limits d) x, d, f1)))
      | OP_Stats \<Rightarrow> (stats_answer d f, d, f)
      | OP_Backends \<Rightarrow> (backends_answer (w 0) f, d, f)
      | OP_Recover \<Rightarrow> (recover_answer f, d, f)
      | OP_Stop \<Rightarrow> (ok_response, d, f)
      | _ \<Rightarrow> (failure EC_Unsupported ''operation is not supported'', d\<lparr>dp_refused := dp_refused d + 1\<rparr>, f))"

text \<open>No operation of the coordinator has more than sixteen lock sections.\<close>

definition kOperationSteps :: nat where
  "kOperationSteps = 16"

definition checked_stale :: "operation \<Rightarrow> bool" where
  "checked_stale op = (op \<noteq> OP_Epoch \<and> op \<noteq> OP_Stop)"

text \<open>\<open>None\<close> stands for a call of the coordinator that has not returned after that many sections.\<close>

definition dispatch ::
    "(nat \<Rightarrow> env) \<Rightarrow> control_request \<Rightarrow> dispatcher \<Rightarrow> fabric \<Rightarrow>
     (control_response \<times> backend_call list \<times> dispatcher \<times> fabric) option" where
  "dispatch w q d f =
     (let d1 = d\<lparr>dp_served := dp_served d + 1\<rparr>;
          (stale, d2) = (if checked_stale (rq_op q) then stale_check f q d1 else (ok_response, d1))
      in if rs_code stale \<noteq> EC_Ok then Some (stale, [], d2\<lparr>dp_refused := dp_refused d2 + 1\<rparr>, f)
         else case call_of (dp_limits d2) q of
           None \<Rightarrow> (let (answer, d3, f1) = direct_answer w q d2 f in Some (answer, [], d3, f1))
         | Some (Inl s) \<Rightarrow> Some (failed s, [], d2, f)
         | Some (Inr rq) \<Rightarrow>
             (case run_job (map w [0..<kOperationSteps]) (J_call rq) f of
                (calls, J_done oc, f1) \<Rightarrow> Some (answer_of rq oc f1, calls, d2, f1)
              | _ \<Rightarrow> None))"

section \<open>The messages are read as they were written\<close>

lemma emits_bytes: "emits (w_seq (map w_u8 d)) d"
  by (induction d) (use emits_seq_Cons [OF emits_u8] emits_seq_Nil in auto)

lemma codes_tail: "codes (map w_u8 d) (rd_tail (length d)) d"
  unfolding codes_def rd_tail_def using emits_bytes reads_take [of d "length d" "[]" "\<lambda>b. b"] by auto

lemma codes_bytes:
  assumes "length d \<le> unat (m :: u32)" "codes [] (f d) x"
  shows "codes (w_bytes d)
    (State_Monad.bind rd_u32 (\<lambda>n. rd_check (if n > m then p else State_Monad.bind (rd_tail (unat n)) f))) x"
proof -
  have l: "length d < 4294967296" using assms(1) u32_bound [of m] by linarith
  then have u: "unat (of_nat (length d) :: u32) = length d" by (rule unat_of_nat_u32)
  then have "\<not> (of_nat (length d) :: u32) > m" using assms(1) by (simp add: word_less_nat_alt)
  then show ?thesis
    unfolding w_bytes_def
    using codes_bind [of "map w_u8 d" "rd_tail (length d)" d "[]" f x, OF codes_tail assms(2)] u
    by (intro codes_Cons [OF codes_atoms(3)] codes_check) simp
qed

lemma codes_stamp [codes_rules]: "codes (encode_stamp s) decode_stamp (Inr s)"
  unfolding encode_stamp_def decode_stamp_def
  by (rule codes_rules codes_return)+ simp

definition request_wf :: "limits \<Rightarrow> control_request \<Rightarrow> bool" where
  "request_wf l q = (length (rq_fields q) \<le> unat (l_max_frame_payload_bytes l))"

definition response_wf :: "limits \<Rightarrow> control_response \<Rightarrow> bool" where
  "response_wf l s =
     (genuine_code (rs_code s) \<and> length (rs_detail s) \<le> unat (l_max_explanation_bytes l) \<and>
      length (rs_detail s) \<le> kMaxStringBytes \<and>
      length (rs_payload s) \<le> unat (l_max_frame_payload_bytes l))"

lemma codes_request: "request_wf l q \<Longrightarrow> codes (encode_request q) (decode_request l) (Inr q)"
  unfolding encode_request_def decode_request_def
  by (rule codes_Cons [OF codes_atoms(2)], rule codes_check, simp,
      rule codes_try [OF codes_stamp], rule codes_bytes)
     (auto simp: request_wf_def intro!: codes_check codes_return)

lemma codes_response: "response_wf l s \<Longrightarrow> codes (encode_response s) (decode_response l) (Inr s)"
  unfolding encode_response_def decode_response_def response_wf_def
  by (rule codes_Cons [OF codes_atoms(2)], rule codes_check, rule codes_Cons [OF codes_str], simp, simp,
      rule codes_check, rule codes_bytes) (auto simp: error_code_of_num_num intro!: codes_check codes_return)

lemma sized_bytes: "sized (w_bytes d) (4 + length d)"
proof -
  have "emits (w_seq (w_bytes d)) (le_bytes 4 (of_nat (length d) :: u32) @ d)"
    unfolding w_bytes_def by (rule emits_seq_Cons [OF emits_u32 emits_bytes])
  then show ?thesis
    unfolding sized_def by (intro exI [of _ "le_bytes 4 (of_nat (length d) :: u32) @ d"]) simp
qed

lemma sized_request: "sized (encode_request q) (46 + length (rq_fields q))"
  unfolding encode_request_def encode_stamp_def
  by (rule sized_eq, (rule size_rules sized_bytes)+) simp

lemma sized_response:
  "length (rs_detail s) \<le> kMaxStringBytes \<Longrightarrow> sized (encode_response s) (10 + length (rs_detail s) + length (rs_payload s))"
  unfolding encode_response_def by (rule sized_eq, (rule size_rules sized_bytes | assumption)+) simp

lemma steady_messages [steady_rules]: "steady (decode_request l)" "steady (decode_response l)"
  unfolding decode_request_def decode_response_def decode_stamp_def rd_tail_def by (intro steady_rules steady_take)+

interpretation request_codec: codec "\<lambda>q. record_bytes cap (encode_request q)" "decode_request l"
    "\<lambda>q. request_wf l q \<and> encodable cap (encode_request q)" for cap l
  by (rule codec_of_codes [where encode = encode_request and good = "request_wf l"]) (erule codes_request, rule steady_rules)

interpretation response_codec: codec "\<lambda>s. record_bytes cap (encode_response s)" "decode_response l"
    "\<lambda>s. response_wf l s \<and> encodable cap (encode_response s)" for cap l
  by (rule codec_of_codes [where encode = encode_response and good = "response_wf l"]) (erule codes_response, rule steady_rules)

text \<open>A field block that holds exactly what its decoder reads.\<close>

lemma reads_exactly: "reads p d x \<Longrightarrow> run_state p (reader_new d) = (x, rd_on [])"
  unfolding reads_def reader_new_def by (drule spec [of _ "[]"]) simp

lemma read_fields_exact:
  assumes "codes fs p x" "encodable cap fs"
  shows "read_fields complaint p (record_bytes cap fs) = Inr x"
  using reads_exactly [OF codes_reads [OF assms]] by (simp add: read_fields_def rd_ok_def rd_exhausted_def)

section \<open>What the dispatcher guarantees\<close>

lemma call_guarded: "call_of l q = Some (Inr rq) \<Longrightarrow> guarded rq"
  by (auto simp: call_of_def read_fields_def Let_def split_beta apply_fields_def cancel_fields_def
           revoke_fields_def map_sum_def
      split: operation.splits sum.splits if_splits)

lemma every_dispatch_answers: "\<exists>answer calls d' f'. dispatch w q d f = Some (answer, calls, d', f')"
proof -
  have "\<exists>cs oc g. run_job (map w [0..<kOperationSteps]) (J_call rq) f = (cs, J_done oc, g)"
    if "call_of l q = Some (Inr rq)" for l rq
    by (rule run_finishes [OF call_guarded [OF that]]) (simp add: kOperationSteps_def)
  then show ?thesis
    by (fastforce simp: dispatch_def Let_def split_beta split: option.splits sum.splits)
qed

definition is_stale :: "fabric \<Rightarrow> control_request \<Rightarrow> bool" where
  "is_stale f q =
     (cs_epoch (rq_stamp q) = 0 \<or> cs_epoch (rq_stamp q) \<noteq> epoch_value (fb_epoch f) \<or>
      cs_boot_nonce (rq_stamp q) \<noteq> 0 \<and> cs_boot_nonce (rq_stamp q) \<noteq> bo_nonce (fb_boot f))"

lemma stale_check_refuses:
  "rs_code (fst (stale_check f q d)) = EC_Ok \<longleftrightarrow> \<not> is_stale f q"
  "is_stale f q \<Longrightarrow> rs_code (fst (stale_check f q d)) \<in> {EC_StaleEpoch, EC_StaleBoot}"
  "is_stale f q \<Longrightarrow> snd (stale_check f q d) = d\<lparr>dp_stale := dp_stale d + 1\<rparr>"
  "\<not> is_stale f q \<Longrightarrow> snd (stale_check f q d) = d"
  by (auto simp: stale_check_def is_stale_def Let_def failure_def ok_response_def)

lemma stale_check_payload: "rs_payload (fst (stale_check f q d)) = []"
  by (simp add: stale_check_def Let_def failure_def ok_response_def)

lemma stale_dispatch:
  assumes "checked_stale (rq_op q)" "is_stale f q"
  shows "\<exists>answer. dispatch w q d f =
      Some (answer, [], d\<lparr>dp_served := dp_served d + 1, dp_refused := dp_refused d + 1, dp_stale := dp_stale d + 1\<rparr>, f) \<and>
      rs_code answer \<in> {EC_StaleEpoch, EC_StaleBoot} \<and> rs_payload answer = []"
proof -
  define d1 where "d1 = d\<lparr>dp_served := dp_served d + 1\<rparr>"
  have "dispatch w q d f =
      Some (fst (stale_check f q d1), [], d\<lparr>dp_served := dp_served d + 1, dp_refused := dp_refused d + 1, dp_stale := dp_stale d + 1\<rparr>, f)"
    using assms(1) stale_check_refuses(1,3) [of f q d1] assms(2)
    by (simp add: dispatch_def Let_def split_beta) (simp add: d1_def)
  then show ?thesis using stale_check_refuses(2) [OF assms(2), of d1] stale_check_payload [of f q d1] by blast
qed

end
