(* ===== verification/PF_Server.thy ===== *)
theory PF_Server
  imports PF_Control
begin

text \<open>
  The server and the client of \<^verbatim>\<open>include/pacing/control.hpp\<close> and \<^verbatim>\<open>src/control.cpp\<close>.
  One thread serves one connection; a turn of it receives a frame, handles it and sends the answer.
  The turns of the threads, the accept loop and \<^verbatim>\<open>stop\<close> interleave (\<open>serves\<close>); the coordinator
  they share may be in any state at each turn.
\<close>

section \<open>The server\<close>

record server_config =
  sg_limits :: limits
  sg_port :: u16
  sg_max_connections :: u32
  sg_name :: string

record session =
  ss_connection :: connection
  ss_established :: bool
  ss_claimed :: caller_stamp
  ss_agent_name :: string

definition blank_stamp :: caller_stamp where
  "blank_stamp = \<lparr>cs_epoch = 0, cs_boot_counter = 0, cs_boot_nonce = 0, cs_worker_incarnation = 0, cs_worker_nonce = 0\<rparr>"

definition session_new :: "connection \<Rightarrow> session" where
  "session_new c = \<lparr>ss_connection = c, ss_established = False, ss_claimed = blank_stamp, ss_agent_name = []\<rparr>"

text \<open>\<open>sv_sessions\<close> are the connections with the state their threads hold, under a number per
  thread.\<close>

record server =
  sv_config :: server_config
  sv_listener :: listener
  sv_dispatcher :: dispatcher
  sv_sessions :: "(nat \<times> session) list"
  sv_threads :: nat
  sv_active :: u32
  sv_stopping :: bool
  sv_started :: bool

definition server_new :: "server_config \<Rightarrow> server" where
  "server_new g =
     \<lparr>sv_config = g, sv_listener = listener_new, sv_dispatcher = dispatcher_new (sg_limits g),
      sv_sessions = [], sv_threads = 0, sv_active = 0, sv_stopping = False, sv_started = False\<rparr>"

definition server_start :: "listen_answer \<Rightarrow> server \<Rightarrow> u16 status_or \<times> server" where
  "server_start a s =
     (if sv_started s then (Inl (Status EC_InvalidState ''server already started''), s)
      else case listen_loopback a (sv_listener s) of
        (Inl e, l) \<Rightarrow> (Inl e, s\<lparr>sv_listener := l\<rparr>)
      | (Inr port, l) \<Rightarrow> (Inr port, s\<lparr>sv_listener := l, sv_started := True\<rparr>))"

definition close_session :: "session \<Rightarrow> session" where
  "close_session x = x\<lparr>ss_connection := co_close (ss_connection x)\<rparr>"

definition server_stop :: "server \<Rightarrow> server" where
  "server_stop s =
     (if sv_stopping s then s
      else s\<lparr>sv_stopping := True, sv_listener := listener_close (sv_listener s),
             sv_sessions := map (map_prod id close_session) (sv_sessions s)\<rparr>)"

text \<open>What the socket does for the four calls of a turn.\<close>

record turn_io =
  io_recv_header :: "nat \<Rightarrow> nat"
  io_recv_body :: "nat \<Rightarrow> nat"
  io_send_header :: "nat \<Rightarrow> nat"
  io_send_body :: "nat \<Rightarrow> nat"

definition send_response ::
    "turn_io \<Rightarrow> limits \<Rightarrow> u64 \<Rightarrow> bool \<Rightarrow> control_response \<Rightarrow> session \<Rightarrow> status \<times> session" where
  "send_response io l k fault answer x =
     (let fs = encode_response answer in
      if \<not> encodable kControlCapacity fs then (w_status (w_seq fs (writer_new kControlCapacity)), x)
      else
        (let (s, c) = co_send (io_send_header io) (io_send_body io) l
               \<lparr>fr_type = (if fault then FT_Fault else FT_Response), fr_request_id = k,
                fr_payload = record_bytes kControlCapacity fs\<rparr> (ss_connection x)
         in (s, x\<lparr>ss_connection := c\<rparr>)))"

text \<open>How a turn ends: the loop goes on, the loop breaks, or the server is stopped and the loop
  breaks.\<close>

datatype turn_end = Again | Leave | Leave_and_stop

definition hello_fields :: "limits \<Rightarrow> (string \<times> caller_stamp) status_or decode" where
  "hello_fields l = do {
     name \<leftarrow> rd_str (unat (l_max_name_bytes l));
     rd_try decode_stamp (\<lambda>stamp. State_Monad.return (Inr (name, stamp))) }"

definition hello_turn :: "turn_io \<Rightarrow> limits \<Rightarrow> wire_frame \<Rightarrow> session \<Rightarrow> fabric \<Rightarrow> turn_end \<times> session" where
  "hello_turn io l fr x f =
     (case run_state (hello_fields l) (reader_new (fr_payload fr)) of
        (Inr (name, stamp), r) \<Rightarrow>
          if \<not> rd_ok r \<or> \<not> rd_exhausted r then
            (Leave, snd (send_response io l (fr_request_id fr) True
                           (failure EC_MalformedInput ''hello payload is malformed'') x))
          else
            (let x1 = x\<lparr>ss_established := True, ss_claimed := stamp, ss_agent_name := name\<rparr>;
                 fs = epoch_fields f
             in if \<not> encodable 128 fs then
                  (Leave, snd (send_response io l (fr_request_id fr) True
                                 (failed (w_status (w_seq fs (writer_new 128)))) x1))
                else
                  (let (s, x2) = send_response io l (fr_request_id fr) False
                          (ok_response\<lparr>rs_payload := record_bytes 128 fs\<rparr>) x1
                   in (if st_ok s then Again else Leave, x2)))
      | (Inl _, r) \<Rightarrow>
          (Leave, snd (send_response io l (fr_request_id fr) True
                         (failure EC_MalformedInput ''hello payload is malformed'') x)))"

definition read_request :: "limits \<Rightarrow> u8 list \<Rightarrow> control_request status_or" where
  "read_request l bs =
     (let (q, r) = run_state (decode_request l) (reader_new bs) in
      case q of
        Inl s \<Rightarrow> Inl s
      | Inr q \<Rightarrow>
          if \<not> rd_exhausted r then Inl (Status EC_MalformedInput ''request has trailing bytes'') else Inr q)"

type_synonym turn_result = "turn_end \<times> session \<times> backend_call list \<times> dispatcher \<times> fabric"

definition request_turn ::
    "(nat \<Rightarrow> env) \<Rightarrow> turn_io \<Rightarrow> limits \<Rightarrow> wire_frame \<Rightarrow> session \<Rightarrow> dispatcher \<Rightarrow> fabric \<Rightarrow> turn_result option" where
  "request_turn w io l fr x d f =
     (case read_request l (fr_payload fr) of
        Inl s \<Rightarrow> Some (Again, snd (send_response io l (fr_request_id fr) True (failed s) x), [], d, f)
      | Inr q \<Rightarrow>
          (case dispatch w q d f of
             None \<Rightarrow> None
           | Some (answer, calls, d1, f1) \<Rightarrow>
               (let (s, x1) = send_response io l (fr_request_id fr) (rs_code answer \<noteq> EC_Ok) answer x
                in Some (if \<not> st_ok s then Leave
                         else if rq_op q = OP_Stop then Leave_and_stop else Again,
                         x1, calls, d1, f1))))"

definition serve_turn ::
    "(nat \<Rightarrow> env) \<Rightarrow> turn_io \<Rightarrow> limits \<Rightarrow> session \<Rightarrow> dispatcher \<Rightarrow> fabric \<Rightarrow> turn_result option" where
  "serve_turn w io l x d f =
     (let (received, c) = co_receive (io_recv_header io) (io_recv_body io) l (ss_connection x);
          x1 = x\<lparr>ss_connection := c\<rparr>
      in case received of
           Inl _ \<Rightarrow> Some (Leave, x1, [], d, f)
         | Inr fr \<Rightarrow>
             if fr_type fr = FT_Shutdown then Some (Leave, x1, [], d, f)
             else if fr_type fr = FT_Hello then
               (let (t, x2) = hello_turn io l fr x1 f in Some (t, x2, [], d, f))
             else if fr_type fr \<noteq> FT_Request then
               Some (Again, snd (send_response io l (fr_request_id fr) True
                       (failure EC_MalformedInput ''unexpected frame type'') x1), [], d, f)
             else if \<not> ss_established x1 then
               Some (Again, snd (send_response io l (fr_request_id fr) True
                       (failure EC_InvalidState ''hello handshake required before requests'') x1), [], d, f)
             else request_turn w io l fr x1 d f)"

text \<open>The end of a serving thread.\<close>

definition erase_session :: "nat \<Rightarrow> (nat \<times> session) list \<Rightarrow> (nat \<times> session) list" where
  "erase_session k xs = filter (\<lambda>e. fst e \<noteq> k) xs"

definition serve_close :: "nat \<Rightarrow> server \<Rightarrow> server" where
  "serve_close k s =
     s\<lparr>sv_active := (if sv_active s > 0 then sv_active s - 1 else sv_active s),
       sv_sessions := erase_session k (sv_sessions s)\<rparr>"

definition put_session :: "nat \<Rightarrow> session \<Rightarrow> (nat \<times> session) list \<Rightarrow> (nat \<times> session) list" where
  "put_session k x xs = map (\<lambda>e. if fst e = k then (k, x) else e) xs"

definition after_turn :: "nat \<Rightarrow> turn_end \<Rightarrow> server \<Rightarrow> server" where
  "after_turn k t s =
     (case t of Again \<Rightarrow> s | Leave \<Rightarrow> serve_close k s | Leave_and_stop \<Rightarrow> serve_close k (server_stop s))"

definition server_turn ::
    "(nat \<Rightarrow> env) \<Rightarrow> turn_io \<Rightarrow> nat \<Rightarrow> server \<Rightarrow> fabric \<Rightarrow> (server \<times> backend_call list \<times> fabric) option" where
  "server_turn w io k s f =
     (case map_of (sv_sessions s) k of
        None \<Rightarrow> None
      | Some x \<Rightarrow>
          (case serve_turn w io (sg_limits (sv_config s)) x (sv_dispatcher s) f of
             None \<Rightarrow> None
           | Some (t, x1, calls, d1, f1) \<Rightarrow>
               Some (after_turn k t (s\<lparr>sv_sessions := put_session k x1 (sv_sessions s), sv_dispatcher := d1\<rparr>),
                     calls, f1)))"

text \<open>One turn of the accept loop; it says whether the loop goes on. A connection that is not
  admitted is closed at once and leaves nothing behind.\<close>

definition server_accept :: "(int \<times> u8 list) option \<Rightarrow> server \<Rightarrow> bool \<times> server" where
  "server_accept answer s =
     (case listener_accept answer (sv_listener s) of
        Inl _ \<Rightarrow> (\<not> sv_stopping s, s)
      | Inr c \<Rightarrow>
          if \<not> sv_stopping s \<and> sv_active s < sg_max_connections (sv_config s) then
            (True, s\<lparr>sv_sessions := sv_sessions s @ [(sv_threads s, session_new c)],
                     sv_threads := sv_threads s + 1, sv_active := sv_active s + 1\<rparr>)
          else (True, s))"

text \<open>The accept loop alone; not returning is \<open>None\<close>. When it has ended, \<^verbatim>\<open>run\<close> waits for the
  serving threads and closes the listener.\<close>

partial_function (option) accept_loop ::
    "(nat \<Rightarrow> (int \<times> u8 list) option) \<Rightarrow> nat \<Rightarrow> server \<Rightarrow> server option" where
  "accept_loop answer k s =
     (if fst (server_accept (answer k) s) then accept_loop answer (k + 1) (snd (server_accept (answer k) s))
      else Some (snd (server_accept (answer k) s)))"

definition run_finished :: "server \<Rightarrow> server option" where
  "run_finished s =
     (if sv_active s = 0 then Some (s\<lparr>sv_listener := listener_close (sv_listener s)\<rparr>) else None)"

text \<open>All that can happen to a server, in any order.\<close>

inductive serves :: "server_config \<Rightarrow> server \<Rightarrow> bool" for g where
  new: "serves g (server_new g)"
| start: "serves g s \<Longrightarrow> serves g (snd (server_start a s))"
| accept: "serves g s \<Longrightarrow> serves g (snd (server_accept answer s))"
| turn: "serves g s \<Longrightarrow> server_turn w io k s f = Some (s', calls, f') \<Longrightarrow> serves g s'"
| stop: "serves g s \<Longrightarrow> serves g (server_stop s)"
| finished: "serves g s \<Longrightarrow> run_finished s = Some s' \<Longrightarrow> serves g s'"

section \<open>What reaches the coordinator\<close>

text \<open>Before a hello, nothing: neither the dispatcher nor the coordinator is touched.\<close>

lemma unestablished_turn:
  assumes "serve_turn w io l x d f = Some (t, x', calls, d', f')" "\<not> ss_established x"
  shows "calls = [] \<and> d' = d \<and> f' = f"
  using assms by (auto simp: serve_turn_def Let_def split_beta split: sum.splits if_splits)

text \<open>A turn always ends: the dispatcher answers every request.\<close>

lemma every_turn_ends: "\<exists>t x' calls d' f'. serve_turn w io l x d f = Some (t, x', calls, d', f')"
proof -
  have "request_turn w io l fr y d f \<noteq> None" for fr y
    using every_dispatch_answers [of w _ d f]
    by (auto simp: request_turn_def Let_def split_beta split: sum.splits option.splits) (metis option.discI)
  then show ?thesis
    by (fastforce simp: serve_turn_def Let_def split_beta split: sum.splits)
qed

lemma co_receive_closed: "co_handle c = - 1 \<Longrightarrow> \<exists>s. co_receive io io' l c = (Inl s, c)"
  by (simp add: co_receive_def)

lemma closed_turn: "co_handle (ss_connection x) = - 1 \<Longrightarrow> serve_turn w io l x d f = Some (Leave, x, [], d, f)"
  using co_receive_closed [of "ss_connection x" "io_recv_header io" "io_recv_body io" l]
  by (auto simp: serve_turn_def Let_def)

section \<open>The connections of a server\<close>

definition server_ok :: "server_config \<Rightarrow> server \<Rightarrow> bool" where
  "server_ok g s =
     (sv_config s = g \<and> unat (sv_active s) = length (sv_sessions s) \<and> sv_active s \<le> sg_max_connections g \<and>
      distinct (map fst (sv_sessions s)) \<and> (\<forall>e \<in> set (sv_sessions s). fst e < sv_threads s) \<and>
      (sv_stopping s \<longrightarrow> (\<forall>e \<in> set (sv_sessions s). co_handle (ss_connection (snd e)) = - 1)))"

lemma server_ok_stop: "server_ok g s \<Longrightarrow> server_ok g (server_stop s)"
  by (auto simp: server_ok_def server_stop_def close_session_def co_close_def comp_def)

lemma erase_length:
  "distinct (map fst xs) \<Longrightarrow> k \<in> fst ` set xs \<Longrightarrow> length (erase_session k xs) = length xs - 1"
proof (induction xs)
  case (Cons e xs)
  show ?case
  proof (cases "fst e = k")
    case True
    then have "k \<notin> fst ` set xs" using Cons.prems(1) by simp
    then have "erase_session k xs = xs" unfolding erase_session_def by (metis (mono_tags, lifting) filter_True image_eqI)
    then show ?thesis using True by (simp add: erase_session_def)
  next
    case False
    then have "k \<in> fst ` set xs" using Cons.prems(2) by auto
    then show ?thesis using False Cons by (cases xs) (auto simp: erase_session_def)
  qed
qed simp

lemma map_fst_put [simp]: "map fst (put_session k x xs) = map fst xs"
  by (simp add: put_session_def)

lemma map_fst_stop [simp]: "map fst (sv_sessions (server_stop s)) = map fst (sv_sessions s)"
  by (simp add: server_stop_def comp_def)

lemma set_put: "fst ` set (put_session k x xs) = fst ` set xs"
  using map_fst_put [of k x xs] by (metis list.set_map)

lemma set_stop: "fst ` set (sv_sessions (server_stop s)) = fst ` set (sv_sessions s)"
  using map_fst_stop [of s] by (metis list.set_map)

lemma server_ok_close:
  assumes "server_ok g s" "k \<in> fst ` set (sv_sessions s)"
  shows "server_ok g (serve_close k s)"
proof -
  have l: "unat (sv_active s) = length (sv_sessions s)" "distinct (map fst (sv_sessions s))"
    using assms(1) by (simp_all add: server_ok_def)
  have "sv_sessions s \<noteq> []" using assms(2) by auto
  then have p: "unat (sv_active s) > 0" using l(1) by simp
  then have a: "sv_active s > 0" "unat (sv_active s - 1) = unat (sv_active s) - 1"
    by (simp_all add: word_less_nat_alt unat_sub word_le_nat_alt)
  have "length (erase_session k (sv_sessions s)) = length (sv_sessions s) - 1" by (rule erase_length [OF l(2) assms(2)])
  moreover have "distinct (map fst (erase_session k (sv_sessions s)))"
    using l(2) by (simp add: erase_session_def distinct_map_filter)
  ultimately show ?thesis
    using assms(1) a l(1) by (auto simp: server_ok_def serve_close_def erase_session_def word_le_nat_alt)
qed

lemma put_session_set: "e \<in> set (put_session k x xs) \<Longrightarrow> e = (k, x) \<or> e \<in> set xs"
  by (auto simp: put_session_def)

lemma server_ok_put:
  assumes "server_ok g s" "k \<in> fst ` set (sv_sessions s)" "sv_stopping s \<longrightarrow> co_handle (ss_connection x) = - 1"
  shows "server_ok g (s\<lparr>sv_sessions := put_session k x (sv_sessions s), sv_dispatcher := d\<rparr>)"
proof -
  have "length (put_session k x (sv_sessions s)) = length (sv_sessions s)" by (simp add: put_session_def)
  then show ?thesis
    using assms by (auto simp: server_ok_def dest!: put_session_set)
qed

lemma server_ok_accept: "server_ok g s \<Longrightarrow> server_ok g (snd (server_accept answer s))"
proof -
  assume ok: "server_ok g s"
  have "unat (sv_active s + 1) = Suc (unat (sv_active s))" if "sv_active s < sg_max_connections g"
    by (rule u32_suc [OF that])
  then show ?thesis
    using ok by (auto simp: server_ok_def server_accept_def word_le_nat_alt word_less_nat_alt less_Suc_eq
        split: sum.splits)
qed

lemma session_present: "map_of xs k = Some x \<Longrightarrow> k \<in> fst ` set xs"
  by (metis domI dom_map_of_conv_image_fst)

lemma server_ok_turn:
  assumes "server_ok g s" "server_turn w io k s f = Some (s', calls, f')"
  shows "server_ok g s'"
proof -
  obtain x t x1 d1 f1 where x: "map_of (sv_sessions s) k = Some x"
    and t: "serve_turn w io (sg_limits (sv_config s)) x (sv_dispatcher s) f = Some (t, x1, calls, d1, f1)"
    and s': "s' = after_turn k t (s\<lparr>sv_sessions := put_session k x1 (sv_sessions s), sv_dispatcher := d1\<rparr>)"
    using assms(2) by (auto simp: server_turn_def split: option.splits)
  let ?s = "s\<lparr>sv_sessions := put_session k x1 (sv_sessions s), sv_dispatcher := d1\<rparr>"
  have k: "k \<in> fst ` set (sv_sessions s)" by (rule session_present [OF x])
  have "co_handle (ss_connection x1) = - 1" if "sv_stopping s"
  proof -
    have "co_handle (ss_connection x) = - 1" using assms(1) that map_of_SomeD [OF x] by (auto simp: server_ok_def)
    then show ?thesis using closed_turn t by simp
  qed
  then have ok: "server_ok g ?s" using server_ok_put [OF assms(1) k] by blast
  have k1: "k \<in> fst ` set (sv_sessions ?s)" "k \<in> fst ` set (sv_sessions (server_stop ?s))"
    using k by (simp_all add: set_put set_stop)
  show ?thesis
    unfolding s' after_turn_def
    using ok server_ok_close [OF ok k1(1)] server_ok_close [OF server_ok_stop [OF ok] k1(2)]
    by (simp split: turn_end.splits)
qed

lemma server_ok_reached: "serves g s \<Longrightarrow> server_ok g s"
proof (induction rule: serves.induct)
  case (start s a)
  then show ?case by (auto simp: server_ok_def server_start_def split: sum.splits prod.splits)
next
  case (turn s w io k f s' calls f')
  then show ?case using server_ok_turn by blast
next
  case (finished s s')
  then show ?case by (auto simp: server_ok_def run_finished_def split: if_splits)
qed (auto simp: server_ok_stop server_ok_accept, simp add: server_ok_def server_new_def)

text \<open>Once stopping, a turn of any thread ends it and reaches neither the dispatcher nor the
  coordinator.\<close>

lemma stopping_turn:
  assumes "serves g s" "sv_stopping s" "map_of (sv_sessions s) k = Some x"
  shows "\<exists>s'. server_turn w io k s f = Some (s', [], f) \<and> sv_dispatcher s' = sv_dispatcher s \<and>
    length (sv_sessions s') < length (sv_sessions s) \<and> sv_stopping s'"
proof -
  have ok: "server_ok g s" by (rule server_ok_reached [OF assms(1)])
  have c: "co_handle (ss_connection x) = - 1"
    using ok assms(2) map_of_SomeD [OF assms(3)] by (auto simp: server_ok_def)
  let ?s = "s\<lparr>sv_sessions := put_session k x (sv_sessions s)\<rparr>"
  have "server_turn w io k s f = Some (serve_close k ?s, [], f)"
    by (simp add: server_turn_def assms(3) closed_turn [OF c] after_turn_def)
  moreover have "length (erase_session k (put_session k x (sv_sessions s))) = length (put_session k x (sv_sessions s)) - 1"
  proof (rule erase_length)
    show "distinct (map fst (put_session k x (sv_sessions s)))" using ok by (simp add: server_ok_def)
    show "k \<in> fst ` set (put_session k x (sv_sessions s))"
      using session_present [OF assms(3)] by (simp add: set_put)
  qed
  moreover have "length (put_session k x (sv_sessions s)) = length (sv_sessions s)" "sv_sessions s \<noteq> []"
    using assms(3) by (auto simp: put_session_def)
  ultimately show ?thesis using assms(2) by (auto simp: serve_close_def)
qed

section \<open>The accept loop\<close>

lemma accept_goes_on:
  "\<not> sv_stopping s \<Longrightarrow> fst (server_accept answer s) \<and> \<not> sv_stopping (snd (server_accept answer s))"
  by (auto simp: server_accept_def split: sum.splits)

lemma accept_loop_ends: "accept_loop answer k s = Some s' \<Longrightarrow> \<not> sv_stopping s \<longrightarrow> False"
proof (erule accept_loop.raw_induct [rotated])
  fix r :: "(nat \<Rightarrow> (int \<times> u8 list) option) \<Rightarrow> nat \<Rightarrow> server \<Rightarrow> server option" and answer k s s'
  assume "\<And>answer k s s'. r answer k s = Some s' \<Longrightarrow> \<not> sv_stopping s \<longrightarrow> False"
    and "(if fst (server_accept (answer k) s) then r answer (k + 1) (snd (server_accept (answer k) s))
          else Some (snd (server_accept (answer k) s))) = Some s'"
  then show "\<not> sv_stopping s \<longrightarrow> False"
    using accept_goes_on [of s "answer k"] by (metis option.discI)
qed

lemma accept_loop_stuck: "\<not> sv_stopping s \<Longrightarrow> accept_loop answer k s = None"
  using accept_loop_ends [of answer k s] by (cases "accept_loop answer k s") auto

lemma accept_loop_stopped:
  assumes "sv_stopping s" "ls_handle (sv_listener s) = - 1"
  shows "accept_loop answer k s = Some s"
  using assms by (subst accept_loop.simps) (simp add: server_accept_def listener_accept_def)

text \<open>\<^verbatim>\<open>start\<close> does not look at \<open>sv_stopping\<close>: a stop before it is lost, and so is every later one.\<close>

lemma stop_before_start_is_lost:
  assumes "la_socket a = Some h" "la_bound a" "la_listening a" "la_port a = Some port"
  shows "let s = snd (server_start a (server_stop (server_new g)))
         in ls_handle (sv_listener s) = h \<and> server_stop s = s \<and> server_accept (Some (i, stream)) s = (h \<noteq> - 1, s)"
  using assms by (simp add: server_start_def server_stop_def server_new_def listen_loopback_def transport_global_init_def
      st_ok_def success_def listener_accept_def server_accept_def Let_def)

end
