(* ===== verification/PF_Client.thy ===== *)
theory PF_Client
  imports PF_Server
begin

text \<open>
  The client of \<^verbatim>\<open>include/pacing/control.hpp\<close> and \<^verbatim>\<open>src/control.cpp\<close>: the
  handshake, the calls, the field blocks of the typed helpers; and the exchange of a client with the
  server over a stream of bytes.
\<close>

section \<open>The client\<close>

record client =
  cl_connection :: connection
  cl_limits :: limits
  cl_stamp :: caller_stamp
  cl_request_id :: u64
  cl_agent_name :: string

definition client_new :: client where
  "client_new =
     \<lparr>cl_connection = connection_new, cl_limits = default_limits, cl_stamp = blank_stamp, cl_request_id = 0,
      cl_agent_name = []\<rparr>"

definition client_connect :: "(nat \<Rightarrow> dial_answer) \<Rightarrow> u32 \<Rightarrow> client \<Rightarrow> (status \<times> client) option" where
  "client_connect answer retries c =
     map_option (\<lambda>(s, conn). (s, c\<lparr>cl_connection := conn\<rparr>)) (connect_loopback answer retries (cl_connection c))"

definition client_close :: "client \<Rightarrow> client" where
  "client_close c = c\<lparr>cl_connection := co_close (cl_connection c)\<rparr>"

definition client_connected :: "client \<Rightarrow> bool" where
  "client_connected c = co_valid (cl_connection c)"

text \<open>A frame out, a frame in.\<close>

definition exchange :: "turn_io \<Rightarrow> wire_frame \<Rightarrow> client \<Rightarrow> wire_frame status_or \<times> client" where
  "exchange io fr c =
     (let (s, conn) = co_send (io_send_header io) (io_send_body io) (cl_limits c) fr (cl_connection c) in
      if \<not> st_ok s then (Inl s, c\<lparr>cl_connection := conn\<rparr>)
      else
        (let (r, conn') = co_receive (io_recv_header io) (io_recv_body io) (cl_limits c) conn
         in (r, c\<lparr>cl_connection := conn'\<rparr>)))"

text \<open>A payload that is read to its end.\<close>

definition read_whole :: "'a status_or decode \<Rightarrow> u8 list \<Rightarrow> 'a option" where
  "read_whole p bs =
     (let (x, r) = run_state p (reader_new bs) in
      case x of Inl _ \<Rightarrow> None | Inr v \<Rightarrow> if \<not> rd_exhausted r then None else Some v)"

definition welcomed :: "limits \<Rightarrow> wire_frame \<Rightarrow> (epoch \<times> boot_id \<times> bool) status_or" where
  "welcomed l reply =
     (if fr_type reply \<noteq> FT_Response then
        Inl (Status EC_InvalidState ''server did not answer the handshake with a welcome'')
      else case read_whole (decode_response l) (fr_payload reply) of
        None \<Rightarrow> Inl (Status EC_MalformedInput ''welcome payload is malformed'')
      | Some response \<Rightarrow>
          if rs_code response \<noteq> EC_Ok then Inl (Status (rs_code response) (rs_detail response))
          else case read_whole decode_epoch_payload (rs_payload response) of
            None \<Rightarrow> Inl (Status EC_MalformedInput ''welcome payload is incomplete'')
          | Some w \<Rightarrow> Inr w)"

definition handshake :: "turn_io \<Rightarrow> string \<Rightarrow> client \<Rightarrow> status \<times> client" where
  "handshake io name c =
     (let c0 = c\<lparr>cl_agent_name := name\<rparr>; fs = w_str name # encode_stamp (cl_stamp c0) in
      if \<not> encodable kControlCapacity fs then (w_status (w_seq fs (writer_new kControlCapacity)), c0)
      else
        (let c1 = c0\<lparr>cl_request_id := cl_request_id c0 + 1\<rparr>;
             (r, c2) = exchange io
               \<lparr>fr_type = FT_Hello, fr_request_id = cl_request_id c1,
                fr_payload = record_bytes kControlCapacity fs\<rparr> c1
         in case r of
              Inl s \<Rightarrow> (s, c2)
            | Inr reply \<Rightarrow>
                (case welcomed (cl_limits c2) reply of
                   Inl s \<Rightarrow> (s, c2)
                 | Inr (e, boot, running) \<Rightarrow>
                     (success, c2\<lparr>cl_stamp :=
                        \<lparr>cs_epoch = epoch_value e, cs_boot_counter = bo_counter boot, cs_boot_nonce = bo_nonce boot,
                         cs_worker_incarnation = bo_counter boot, cs_worker_nonce = bo_nonce boot\<rparr>\<rparr>))))"

definition call_with_stamp ::
    "turn_io \<Rightarrow> operation \<Rightarrow> u8 list \<Rightarrow> caller_stamp \<Rightarrow> client \<Rightarrow> control_response \<times> client" where
  "call_with_stamp io op block stamp c =
     (let fs = encode_request \<lparr>rq_op = op, rq_stamp = stamp, rq_fields = block\<rparr> in
      if \<not> encodable kControlCapacity fs then (failed (w_status (w_seq fs (writer_new kControlCapacity))), c)
      else
        (let c1 = c\<lparr>cl_request_id := cl_request_id c + 1\<rparr>;
             (r, c2) = exchange io
               \<lparr>fr_type = FT_Request, fr_request_id = cl_request_id c1,
                fr_payload = record_bytes kControlCapacity fs\<rparr> c1
         in case r of
              Inl s \<Rightarrow> (failed s, c2)
            | Inr reply \<Rightarrow>
                if fr_type reply \<noteq> FT_Response \<and> fr_type reply \<noteq> FT_Fault then
                  (failure EC_MalformedInput ''unexpected reply frame type'', c2)
                else
                  (case read_whole (decode_response (cl_limits c2)) (fr_payload reply) of
                     None \<Rightarrow> (failure EC_MalformedInput ''reply payload is malformed'', c2)
                   | Some response \<Rightarrow> (response, c2))))"

definition client_call :: "turn_io \<Rightarrow> operation \<Rightarrow> u8 list \<Rightarrow> client \<Rightarrow> control_response \<times> client" where
  "client_call io op block c = call_with_stamp io op block (cl_stamp c) c"

text \<open>The typed helpers: first those that look at their writer, then those that do not.\<close>

definition call_checked ::
    "turn_io \<Rightarrow> operation \<Rightarrow> (writer \<Rightarrow> writer) list \<Rightarrow> client \<Rightarrow> control_response \<times> client" where
  "call_checked io op fs c =
     (if \<not> encodable kControlCapacity fs then (failed (w_status (w_seq fs (writer_new kControlCapacity))), c)
      else client_call io op (record_bytes kControlCapacity fs) c)"

definition encode_bind_fields :: "binding \<Rightarrow> (writer \<Rightarrow> writer) list" where
  "encode_bind_fields b =
     [w_u64 (id_value (b_flow b))] @ w_ref (b_resource b) @ w_ref (b_path b) @
     [w_u64 (id_value (b_service_class b)), w_u64 (id_value (b_tenant b)),
      w_u64 (b_declared_max_burst_bytes b), w_u64 (b_declared_max_burst_packets b),
      w_bool (b_quiesced b), w_u64 (id_value (b_provenance b))]"

definition client_bind_flow :: "turn_io \<Rightarrow> binding \<Rightarrow> client \<Rightarrow> control_response \<times> client" where
  "client_bind_flow io b = call_checked io OP_BindFlow (encode_bind_fields b)"

definition client_publish_policy :: "turn_io \<Rightarrow> policy \<Rightarrow> client \<Rightarrow> control_response \<times> client" where
  "client_publish_policy io p = call_checked io OP_PublishPolicy (encode_policy p)"

definition client_derive_envelope :: "turn_io \<Rightarrow> flow_id \<Rightarrow> client \<Rightarrow> control_response \<times> client" where
  "client_derive_envelope io flow = client_call io OP_DeriveEnvelope (record_bytes 64 [w_u64 (id_value flow)])"

definition encode_apply_fields :: "envelope_ref \<Rightarrow> backend_id \<Rightarrow> attempt_id \<Rightarrow> (writer \<Rightarrow> writer) list" where
  "encode_apply_fields r k a = w_ref r @ [w_u64 (id_value k), w_u64 (id_value a)]"

definition client_apply_envelope ::
    "turn_io \<Rightarrow> envelope_ref \<Rightarrow> backend_id \<Rightarrow> attempt_id \<Rightarrow> client \<Rightarrow> control_response \<times> client" where
  "client_apply_envelope io r k a = client_call io OP_ApplyEnvelope (record_bytes 64 (encode_apply_fields r k a))"

definition client_verify_attempt :: "turn_io \<Rightarrow> attempt_id \<Rightarrow> client \<Rightarrow> control_response \<times> client" where
  "client_verify_attempt io a = client_call io OP_VerifyAttempt (record_bytes 64 [w_u64 (id_value a)])"

definition client_revalidate :: "turn_io \<Rightarrow> attempt_id \<Rightarrow> client \<Rightarrow> control_response \<times> client" where
  "client_revalidate io a = client_call io OP_Revalidate (record_bytes 64 [w_u64 (id_value a)])"

definition cancel_block :: "attempt_id \<Rightarrow> string \<Rightarrow> u8 list" where
  "cancel_block a reason = record_bytes 512 [w_u64 (id_value a), w_str reason]"

definition client_cancel_attempt :: "turn_io \<Rightarrow> attempt_id \<Rightarrow> string \<Rightarrow> client \<Rightarrow> control_response \<times> client" where
  "client_cancel_attempt io a reason = client_call io OP_CancelAttempt (cancel_block a reason)"

definition revoke_block :: "envelope_ref \<Rightarrow> string \<Rightarrow> u8 list" where
  "revoke_block r reason = record_bytes 512 (w_ref r @ [w_str reason])"

definition client_revoke_envelope :: "turn_io \<Rightarrow> envelope_ref \<Rightarrow> string \<Rightarrow> client \<Rightarrow> control_response \<times> client" where
  "client_revoke_envelope io r reason = client_call io OP_RevokeEnvelope (revoke_block r reason)"

definition client_explain :: "turn_io \<Rightarrow> flow_id \<Rightarrow> client \<Rightarrow> control_response \<times> client" where
  "client_explain io flow = client_call io OP_Explain (record_bytes 64 [w_u64 (id_value flow)])"

text \<open>The helpers without fields.\<close>

definition client_epoch :: "turn_io \<Rightarrow> client \<Rightarrow> control_response \<times> client" where
  "client_epoch io = client_call io OP_Epoch []"

definition client_stats :: "turn_io \<Rightarrow> client \<Rightarrow> control_response \<times> client" where
  "client_stats io = client_call io OP_Stats []"

definition client_advance_epoch :: "turn_io \<Rightarrow> client \<Rightarrow> control_response \<times> client" where
  "client_advance_epoch io = client_call io OP_AdvanceEpoch []"

definition client_backends :: "turn_io \<Rightarrow> client \<Rightarrow> control_response \<times> client" where
  "client_backends io = client_call io OP_Backends []"

definition client_recover :: "turn_io \<Rightarrow> client \<Rightarrow> control_response \<times> client" where
  "client_recover io = client_call io OP_Recover []"

definition client_stop :: "turn_io \<Rightarrow> client \<Rightarrow> control_response \<times> client" where
  "client_stop io = client_call io OP_Stop []"

section \<open>The field blocks arrive\<close>

lemma bind_fields_arrive: "codes (encode_bind_fields b) bind_fields (b\<lparr>b_gen := gen_unknown\<rparr>)"
  unfolding encode_bind_fields_def bind_fields_def append_Cons append_Nil append_assoc
  by (rule codes_rules codes_return)+ simp

lemma apply_fields_arrive: "codes (encode_apply_fields r k a) apply_fields (RQ_apply_envelope r k a)"
  unfolding encode_apply_fields_def apply_fields_def by (rule codes_rules codes_return)+ simp

lemma sized_bind_fields: "sized (encode_bind_fields b) 81"
  unfolding encode_bind_fields_def append_Cons append_Nil append_assoc
  by (rule sized_eq, (rule size_rules)+, simp)

lemma sized_apply_fields: "sized (encode_apply_fields r k a) 32"
  unfolding encode_apply_fields_def by (rule sized_eq, (rule size_rules)+, simp)

lemma typed_blocks_fit [simp]:
  "encodable 64 [w_u64 v]" "encodable kControlCapacity (encode_bind_fields b)" "encodable 64 (encode_apply_fields r k a)"
  by (simp_all add: sized_encodable [OF sized_atoms(4) [OF sized_Nil]] sized_encodable [OF sized_bind_fields]
      sized_encodable [OF sized_apply_fields] kControlCapacity_def)

lemmas typed_blocks_read =
  read_fields_exact [OF bind_fields_arrive typed_blocks_fit(2)] read_fields_exact [OF apply_fields_arrive typed_blocks_fit(3)]
  read_fields_exact [OF codes_id typed_blocks_fit(1)]

text \<open>The server gets the call the helper was asked for.\<close>

lemma call_of_typed:
  "call_of l \<lparr>rq_op = OP_BindFlow, rq_stamp = s, rq_fields = record_bytes kControlCapacity (encode_bind_fields b)\<rparr> =
     Some (Inr (RQ_bind_flow (b\<lparr>b_gen := gen_unknown\<rparr>)))"
  "call_of l \<lparr>rq_op = OP_DeriveEnvelope, rq_stamp = s, rq_fields = record_bytes 64 [w_u64 (id_value flow)]\<rparr> =
     Some (Inr (RQ_derive_envelope flow))"
  "call_of l \<lparr>rq_op = OP_ApplyEnvelope, rq_stamp = s, rq_fields = record_bytes 64 (encode_apply_fields r k a)\<rparr> =
     Some (Inr (RQ_apply_envelope r k a))"
  "call_of l \<lparr>rq_op = OP_VerifyAttempt, rq_stamp = s, rq_fields = record_bytes 64 [w_u64 (id_value a)]\<rparr> =
     Some (Inr (RQ_verify_attempt a))"
  "call_of l \<lparr>rq_op = OP_Revalidate, rq_stamp = s, rq_fields = record_bytes 64 [w_u64 (id_value a)]\<rparr> =
     Some (Inr (RQ_revalidate a))"
  by (simp_all add: call_of_def Let_def typed_blocks_read attempt_fields_def)

text \<open>A reason of up to 500 bytes arrives. A longer one overflows the writer of 512 bytes, which the
  client does not look at: the block holds the length and no text, and the server refuses it.\<close>

lemma sized_cancel_block: "length s \<le> kMaxStringBytes \<Longrightarrow> sized [w_u64 v, w_str s] (12 + length s)"
  by (rule sized_eq, (rule size_rules | assumption)+, simp)

lemma cancel_arrives:
  assumes "length s \<le> 500" "length s \<le> unat (l_max_explanation_bytes l)"
  shows "read_fields complaint (cancel_fields l) (cancel_block a s) = Inr (RQ_cancel_attempt a s)"
proof -
  have k: "length s \<le> kMaxStringBytes" using assms(1) by (simp add: kMaxStringBytes_def)
  have "codes [w_u64 (id_value a), w_str s] (cancel_fields l) (RQ_cancel_attempt a s)"
    unfolding cancel_fields_def
    by (rule codes_rules codes_return codes_str | simp add: assms k; fail)+
  then show ?thesis
    unfolding cancel_block_def
    by (rule read_fields_exact) (simp add: sized_encodable [OF sized_cancel_block [OF k]] assms(1))
qed

lemma overflowing_reason:
  assumes "500 < length s" "length s \<le> kMaxStringBytes"
  shows "cancel_block a s = le_bytes 8 (id_value a) @ le_bytes 4 (of_nat (length s) :: u32)"
proof -
  have "512 - length s < 12" using assms(1) by linarith
  then show ?thesis
    using assms
    by (simp add: cancel_block_def record_bytes_def w_seq_def writer_new_def w_u64_def w_u32_def w_raw_def w_str_def w_ok_def)
qed

lemma long_reason_is_refused:
  assumes "500 < length s" "length s \<le> kMaxStringBytes" "length s \<le> unat (l_max_explanation_bytes l)"
  shows "read_fields complaint (cancel_fields l) (cancel_block a s) = Inl (Status EC_MalformedInput complaint)"
proof -
  have u: "unat (of_nat (length s) :: u32) = length s"
    using assms(2) by (simp add: kMaxStringBytes_def unat_of_nat_u32)
  have s: "s \<noteq> []" using assms(1) by auto
  have i: "run_state rd_id (rd_on (le_bytes 8 (id_value a) @ r)) = (a, rd_on r)" for r
    using reads_u64 [of "id_value a"] by (simp add: rd_id_def reads_def)
  have n: "run_state rd_u32 (rd_on (le_bytes 4 v @ r)) = (v, rd_on r)" for v :: u32 and r
    using reads_u32 [of v] by (simp add: reads_def)
  have "run_state (cancel_fields l) (reader_new (cancel_block a s)) =
      (RQ_cancel_attempt a [], \<lparr>rd_rest = [], rd_failure = Some (Status EC_MalformedInput ''truncated encoded input'')\<rparr>)"
    unfolding overflowing_reason [OF assms(1,2)] reader_new_def
    using n [of "of_nat (length s)" "[]"] assms s
    by (simp add: cancel_fields_def i rd_str_def u rd_is_ok_def rd_ok_def rd_take_def not_less)
  then show ?thesis by (simp add: read_fields_def rd_ok_def)
qed

section \<open>A call goes through\<close>

definition live_io :: "turn_io \<Rightarrow> bool" where
  "live_io io =
     (progresses (io_send_header io) \<and> progresses (io_send_body io) \<and>
      progresses (io_recv_header io) \<and> progresses (io_recv_body io))"

lemma live_send:
  "live_io io \<Longrightarrow> healthy c \<Longrightarrow> fits l fr \<Longrightarrow>
   co_send (io_send_header io) (io_send_body io) l fr c = (success, c\<lparr>co_sent := co_sent c @ wire fr\<rparr>)"
  by (rule co_send_ok) (simp_all add: live_io_def)

lemma live_receive:
  "live_io io \<Longrightarrow> healthy c \<Longrightarrow> fits l fr \<Longrightarrow> co_incoming c = wire fr @ rest \<Longrightarrow>
   co_receive (io_recv_header io) (io_recv_body io) l c = (Inr fr, c\<lparr>co_incoming := rest\<rparr>)"
  by (rule co_receive_ok) (simp_all add: live_io_def)

text \<open>The frame of a request, and that of its answer.\<close>

definition request_frame :: "u64 \<Rightarrow> control_request \<Rightarrow> wire_frame" where
  "request_frame k q =
     \<lparr>fr_type = FT_Request, fr_request_id = k, fr_payload = record_bytes kControlCapacity (encode_request q)\<rparr>"

definition answer_frame :: "u64 \<Rightarrow> control_response \<Rightarrow> wire_frame" where
  "answer_frame k s =
     \<lparr>fr_type = (if rs_code s \<noteq> EC_Ok then FT_Fault else FT_Response), fr_request_id = k,
      fr_payload = record_bytes kControlCapacity (encode_response s)\<rparr>"

definition request_ready :: "limits \<Rightarrow> control_request \<Rightarrow> bool" where
  "request_ready l q =
     (46 + length (rq_fields q) \<le> kControlCapacity \<and>
      46 + length (rq_fields q) \<le> unat (l_max_frame_payload_bytes l))"

definition response_ready :: "limits \<Rightarrow> control_response \<Rightarrow> bool" where
  "response_ready l s =
     (response_wf l s \<and> 10 + length (rs_detail s) + length (rs_payload s) \<le> kControlCapacity \<and>
      10 + length (rs_detail s) + length (rs_payload s) \<le> unat (l_max_frame_payload_bytes l))"

lemma request_ready_parts:
  assumes "request_ready l q"
  shows "encodable kControlCapacity (encode_request q)" "fits l (request_frame k q)" "request_wf l q"
  using assms sized_encodable [OF sized_request] sized_record_bytes [OF sized_request, of q kControlCapacity]
  by (simp_all add: request_ready_def fits_def request_frame_def request_wf_def)

lemma response_ready_parts:
  assumes "response_ready l s"
  shows "encodable kControlCapacity (encode_response s)" "fits l (answer_frame k s)" "response_wf l s"
proof -
  have n: "sized (encode_response s) (10 + length (rs_detail s) + length (rs_payload s))"
    using assms by (intro sized_response) (simp add: response_ready_def response_wf_def)
  show "encodable kControlCapacity (encode_response s)" "fits l (answer_frame k s)" "response_wf l s"
    using assms sized_encodable [OF n] sized_record_bytes [OF n, of kControlCapacity]
    by (simp_all add: response_ready_def fits_def answer_frame_def)
qed

lemma read_request_exact: "request_ready l q \<Longrightarrow> read_request l (record_bytes kControlCapacity (encode_request q)) = Inr q"
  using reads_exactly [OF codes_reads [OF codes_request [OF request_ready_parts(3)] request_ready_parts(1)]]
  by (simp add: read_request_def rd_exhausted_def rd_ok_def)

lemma read_response_exact:
  "response_ready l s \<Longrightarrow> read_whole (decode_response l) (record_bytes kControlCapacity (encode_response s)) = Some s"
  using reads_exactly [OF codes_reads [OF codes_response [OF response_ready_parts(3)] response_ready_parts(1)]]
  by (simp add: read_whole_def rd_exhausted_def rd_ok_def)

text \<open>The server's side: a request frame in, the frame of the dispatcher's answer out.\<close>

lemma server_answers:
  assumes "live_io io" "healthy (ss_connection x)" "ss_established x" "request_ready l q"
    and "co_incoming (ss_connection x) = wire (request_frame k q) @ rest"
    and "dispatch w q d f = Some (answer, calls, d', f')" "response_ready l answer"
  shows "\<exists>t x'. serve_turn w io l x d f = Some (t, x', calls, d', f') \<and>
    co_sent (ss_connection x') = co_sent (ss_connection x) @ wire (answer_frame k answer) \<and>
    t = (if rq_op q = OP_Stop then Leave_and_stop else Again)"
proof -
  let ?c = "(ss_connection x)\<lparr>co_incoming := rest\<rparr>"
  have r: "co_receive (io_recv_header io) (io_recv_body io) l (ss_connection x) = (Inr (request_frame k q), ?c)"
    by (rule live_receive [OF assms(1,2) request_ready_parts(2) [OF assms(4)] assms(5)])
  have h: "healthy ?c" using assms(2) by (simp add: healthy_def)
  have s: "co_send (io_send_header io) (io_send_body io) l (answer_frame k answer) ?c =
      (success, ?c\<lparr>co_sent := co_sent ?c @ wire (answer_frame k answer)\<rparr>)"
    by (rule live_send [OF assms(1) h response_ready_parts(2) [OF assms(7)]])
  show ?thesis
    using assms(3,6) r s response_ready_parts(1) [OF assms(7)] read_request_exact [OF assms(4)]
    by (simp add: serve_turn_def request_turn_def send_response_def request_frame_def answer_frame_def Let_def)
qed

text \<open>The client's side.\<close>

lemma client_receives:
  assumes "live_io io" "healthy (cl_connection c)" "request_ready (cl_limits c) \<lparr>rq_op = op, rq_stamp = stamp, rq_fields = bs\<rparr>"
    and "co_incoming (cl_connection c) = wire (answer_frame k answer) @ rest" "response_ready (cl_limits c) answer"
  shows "fst (call_with_stamp io op bs stamp c) = answer"
    and "co_sent (cl_connection (snd (call_with_stamp io op bs stamp c))) = co_sent (cl_connection c) @
      wire (request_frame (cl_request_id c + 1) \<lparr>rq_op = op, rq_stamp = stamp, rq_fields = bs\<rparr>)"
proof -
  let ?q = "\<lparr>rq_op = op, rq_stamp = stamp, rq_fields = bs\<rparr>" and ?k = "cl_request_id c + 1"
  let ?c = "(cl_connection c)\<lparr>co_sent := co_sent (cl_connection c) @ wire (request_frame ?k ?q)\<rparr>"
  have s: "co_send (io_send_header io) (io_send_body io) (cl_limits c) (request_frame ?k ?q) (cl_connection c) = (success, ?c)"
    by (rule live_send [OF assms(1,2) request_ready_parts(2) [OF assms(3)]])
  have "healthy ?c" "co_incoming ?c = wire (answer_frame k answer) @ rest" using assms(2,4) by (simp_all add: healthy_def)
  then have r: "co_receive (io_recv_header io) (io_recv_body io) (cl_limits c) ?c =
      (Inr (answer_frame k answer), ?c\<lparr>co_incoming := rest\<rparr>)"
    by (intro live_receive [OF assms(1) _ response_ready_parts(2) [OF assms(5)]])
  have "call_with_stamp io op bs stamp c = (answer, c\<lparr>cl_request_id := ?k, cl_connection := ?c\<lparr>co_incoming := rest\<rparr>\<rparr>)"
    using s r request_ready_parts(1) [OF assms(3)] read_response_exact [OF assms(5)]
    by (simp add: call_with_stamp_def exchange_def Let_def st_ok_def success_def request_frame_def answer_frame_def)
  then show "fst (call_with_stamp io op bs stamp c) = answer"
    and "co_sent (cl_connection (snd (call_with_stamp io op bs stamp c))) = co_sent (cl_connection c) @ wire (request_frame ?k ?q)"
    by simp_all
qed

section \<open>A handshake goes through\<close>

definition hello_block :: "string \<Rightarrow> caller_stamp \<Rightarrow> (writer \<Rightarrow> writer) list" where
  "hello_block name stamp = w_str name # encode_stamp stamp"

definition hello_frame :: "u64 \<Rightarrow> string \<Rightarrow> caller_stamp \<Rightarrow> wire_frame" where
  "hello_frame k name stamp =
     \<lparr>fr_type = FT_Hello, fr_request_id = k, fr_payload = record_bytes kControlCapacity (hello_block name stamp)\<rparr>"

definition welcome_response :: "fabric \<Rightarrow> control_response" where
  "welcome_response f = ok_response\<lparr>rs_payload := record_bytes 128 (epoch_fields f)\<rparr>"

definition stamp_of :: "fabric \<Rightarrow> caller_stamp" where
  "stamp_of f =
     \<lparr>cs_epoch = epoch_value (fb_epoch f), cs_boot_counter = bo_counter (fb_boot f), cs_boot_nonce = bo_nonce (fb_boot f),
      cs_worker_incarnation = bo_counter (fb_boot f), cs_worker_nonce = bo_nonce (fb_boot f)\<rparr>"

definition name_ready :: "limits \<Rightarrow> string \<Rightarrow> bool" where
  "name_ready l name = (length name \<le> unat (l_max_name_bytes l) \<and> length name \<le> 1000000 \<and>
     44 + length name \<le> unat (l_max_frame_payload_bytes l))"

lemma codes_hello:
  assumes "name_ready l name"
  shows "codes (hello_block name stamp) (hello_fields l) (Inr (name, stamp))"
proof -
  have "codes (encode_stamp stamp @ []) (rd_try decode_stamp (\<lambda>stamp. rd_return (Inr (name, stamp)))) (Inr (name, stamp))"
    by (rule codes_try [OF codes_stamp codes_return]) simp
  then show ?thesis
    unfolding hello_block_def hello_fields_def
    using assms by (intro codes_Cons [OF codes_str]) (simp_all add: name_ready_def kMaxStringBytes_def)
qed

lemma sized_hello: "length name \<le> kMaxStringBytes \<Longrightarrow> sized (hello_block name stamp) (44 + length name)"
  unfolding hello_block_def encode_stamp_def by (rule sized_eq, (rule size_rules | assumption)+, simp)

lemma codes_epoch_fields: "codes (epoch_fields f) decode_epoch_payload (Inr (fb_epoch f, fb_boot f, fb_running f))"
  unfolding epoch_fields_def decode_epoch_payload_def by (rule codes_rules codes_return)+ simp

lemma sized_epoch_fields: "sized (epoch_fields f) 25"
  unfolding epoch_fields_def by (rule sized_eq, (rule size_rules)+, simp)

lemma epoch_fields_fit [simp]: "encodable 128 (epoch_fields f)" "length (record_bytes 128 (epoch_fields f)) = 25"
  using sized_encodable [OF sized_epoch_fields] sized_record_bytes [OF sized_epoch_fields] by simp_all

lemma hello_ready:
  assumes "name_ready l name"
  shows "encodable kControlCapacity (hello_block name stamp)" "fits l (hello_frame k name stamp)"
proof -
  have s: "sized (hello_block name stamp) (44 + length name)"
    using assms by (intro sized_hello) (simp add: name_ready_def kMaxStringBytes_def)
  have c: "44 + length name \<le> kControlCapacity" using assms by (simp add: name_ready_def kControlCapacity_def)
  show "encodable kControlCapacity (hello_block name stamp)" "fits l (hello_frame k name stamp)"
    using assms sized_encodable [OF s] sized_record_bytes [OF s c] c
    by (simp_all add: fits_def hello_frame_def name_ready_def)
qed

lemma welcome_ready: "35 \<le> unat (l_max_frame_payload_bytes l) \<Longrightarrow> response_ready l (welcome_response f)"
  by (simp add: response_ready_def response_wf_def welcome_response_def ok_response_def kControlCapacity_def)

lemma welcome_read:
  "35 \<le> unat (l_max_frame_payload_bytes l) \<Longrightarrow> welcomed l (answer_frame k (welcome_response f)) = Inr (fb_epoch f, fb_boot f, fb_running f)"
  using read_response_exact [OF welcome_ready, of l f]
    reads_exactly [OF codes_reads [OF codes_epoch_fields epoch_fields_fit(1)], of f]
  by (simp add: welcomed_def answer_frame_def welcome_response_def ok_response_def read_whole_def rd_exhausted_def rd_ok_def)

lemma welcome_exact:
  assumes "live_io io" "healthy (ss_connection x)" "name_ready l name" "35 \<le> unat (l_max_frame_payload_bytes l)"
    and "co_incoming (ss_connection x) = wire (hello_frame k name stamp) @ rest"
  shows "serve_turn w io l x d f =
    Some (Again,
      x\<lparr>ss_connection := (ss_connection x)\<lparr>co_incoming := rest,
          co_sent := co_sent (ss_connection x) @ wire (answer_frame k (welcome_response f))\<rparr>,
        ss_established := True, ss_claimed := stamp, ss_agent_name := name\<rparr>, [], d, f)"
proof -
  let ?c = "(ss_connection x)\<lparr>co_incoming := rest\<rparr>"
  have r: "co_receive (io_recv_header io) (io_recv_body io) l (ss_connection x) = (Inr (hello_frame k name stamp), ?c)"
    by (rule live_receive [OF assms(1,2) hello_ready(2) [OF assms(3)] assms(5)])
  have h: "healthy ?c" using assms(2) by (simp add: healthy_def)
  have s: "co_send (io_send_header io) (io_send_body io) l (answer_frame k (welcome_response f)) ?c =
      (success, ?c\<lparr>co_sent := co_sent ?c @ wire (answer_frame k (welcome_response f))\<rparr>)"
    by (rule live_send [OF assms(1) h response_ready_parts(2) [OF welcome_ready [OF assms(4)]]])
  have n: "run_state (hello_fields l) (reader_new (record_bytes kControlCapacity (hello_block name stamp))) = (Inr (name, stamp), rd_on [])"
    by (rule reads_exactly [OF codes_reads [OF codes_hello [OF assms(3)] hello_ready(1) [OF assms(3)]]])
  show ?thesis
    using r s n response_ready_parts(1) [OF welcome_ready [OF assms(4)], of f]
    by (simp add: serve_turn_def hello_turn_def send_response_def hello_frame_def answer_frame_def Let_def rd_ok_def
        rd_exhausted_def st_ok_def success_def welcome_response_def ok_response_def)
qed

lemma server_welcomes:
  assumes "live_io io" "healthy (ss_connection x)" "name_ready l name" "35 \<le> unat (l_max_frame_payload_bytes l)"
    and "co_incoming (ss_connection x) = wire (hello_frame k name stamp) @ rest"
  shows "\<exists>x'. serve_turn w io l x d f = Some (Again, x', [], d, f) \<and> ss_established x' \<and> ss_claimed x' = stamp \<and>
    co_sent (ss_connection x') = co_sent (ss_connection x) @ wire (answer_frame k (welcome_response f))"
  unfolding welcome_exact [OF assms] by simp

lemma handshake_exact:
  assumes "live_io io" "healthy (cl_connection c)" "name_ready (cl_limits c) name"
    and "35 \<le> unat (l_max_frame_payload_bytes (cl_limits c))"
    and "co_incoming (cl_connection c) = wire (answer_frame k (welcome_response f)) @ rest"
  shows "handshake io name c = (success, c\<lparr>cl_agent_name := name, cl_request_id := cl_request_id c + 1,
      cl_connection := (cl_connection c)\<lparr>co_incoming := rest,
        co_sent := co_sent (cl_connection c) @ wire (hello_frame (cl_request_id c + 1) name (cl_stamp c))\<rparr>,
      cl_stamp := stamp_of f\<rparr>)"
proof -
  let ?h = "hello_frame (cl_request_id c + 1) name (cl_stamp c)"
  let ?c = "(cl_connection c)\<lparr>co_sent := co_sent (cl_connection c) @ wire ?h\<rparr>"
  have s: "co_send (io_send_header io) (io_send_body io) (cl_limits c) ?h (cl_connection c) = (success, ?c)"
    by (rule live_send [OF assms(1,2) hello_ready(2) [OF assms(3)]])
  have "healthy ?c" "co_incoming ?c = wire (answer_frame k (welcome_response f)) @ rest" using assms(2,5) by (simp_all add: healthy_def)
  then have r: "co_receive (io_recv_header io) (io_recv_body io) (cl_limits c) ?c =
      (Inr (answer_frame k (welcome_response f)), ?c\<lparr>co_incoming := rest\<rparr>)"
    by (intro live_receive [OF assms(1) _ response_ready_parts(2) [OF welcome_ready [OF assms(4)]]])
  show ?thesis
    using s r hello_ready(1) [OF assms(3), of "cl_stamp c"] welcome_read [OF assms(4), of k f]
    by (simp add: handshake_def exchange_def Let_def st_ok_def success_def hello_frame_def hello_block_def stamp_of_def)
qed

lemma client_handshakes:
  assumes "live_io io" "healthy (cl_connection c)" "name_ready (cl_limits c) name"
    and "35 \<le> unat (l_max_frame_payload_bytes (cl_limits c))"
    and "co_incoming (cl_connection c) = wire (answer_frame k (welcome_response f)) @ rest"
  shows "fst (handshake io name c) = success" "cl_stamp (snd (handshake io name c)) = stamp_of f"
    and "co_sent (cl_connection (snd (handshake io name c))) = co_sent (cl_connection c) @
      wire (hello_frame (cl_request_id c + 1) name (cl_stamp c))"
  unfolding handshake_exact [OF assms] by simp_all

lemma stamp_is_current: "epoch_valid (fb_epoch f) \<Longrightarrow> rq_stamp q = stamp_of f \<Longrightarrow> \<not> is_stale f q"
  by (simp add: is_stale_def stamp_of_def epoch_valid_def)

end
