(* ===== verification/PF_Examples.thy ===== *)
theory PF_Examples
  imports PF_Client PF_Commit
begin

text \<open>
  More concrete states for the witnesses: a coordinator with one applied attempt, and a client with
  a server session over live sockets. No definition here models code.
\<close>

section \<open>An applied attempt\<close>

definition applied_record :: app_record where
  "applied_record = sample_record\<lparr>r_state := AS_Applied, r_last_known_state := AS_Applied,
     r_effect := EL_SyntheticVerified, r_evidence_kind := EK_SyntheticReadback,
     r_observed_rate_bps := 5000000000, r_observed_quantum_bytes := 1500,
     r_observed_burst_bytes := 1500, r_observed_interval_ns := 2400, r_evidence_integrity_ok := True\<rparr>"

definition applied_fabric :: fabric where
  "applied_fabric =
     (fabric_new sample_config sample_disk)\<lparr>
       fb_envelopes := [\<lparr>ee_envelope = sample_envelope, ee_revoked = False, ee_live = True, ee_reason = []\<rparr>],
       fb_envelope_index := [1 \<mapsto> 0], fb_latest := [1 \<mapsto> 0],
       fb_attempts := [\<lparr>at_record = applied_record, at_live = True\<rparr>],
       fb_attempt_index := [1 \<mapsto> 0], fb_by_envelope := [1 \<mapsto> [Id 1]],
       fb_envelope_ids := 1, fb_attempt_ids := 1, fb_epoch := Epoch 6\<rparr>"

lemma applied_state:
  "tables_agree applied_fabric" "consistent_ledger applied_fabric" "keyed applied_fabric" "all_justified applied_fabric"
proof -
  show "tables_agree applied_fabric"
    by (simp add: tables_agree_def applied_fabric_def applied_record_def sample_record_def sample_envelope_def)
  show "consistent_ledger applied_fabric"
  proof -
    have "id_value (r_attempt applied_record) = 1" "is_terminal (r_state applied_record)"
      by (simp_all add: applied_record_def sample_record_def)
    then have "([1 \<mapsto> 0] :: u64 \<Rightarrow> nat option) k = Some i \<longleftrightarrow>
        i < length [\<lparr>at_record = applied_record, at_live = True\<rparr>] \<and>
        id_value (r_attempt (at_record ([\<lparr>at_record = applied_record, at_live = True\<rparr>] ! i))) = k" for k i
      by auto
    then show ?thesis
      using \<open>is_terminal (r_state applied_record)\<close>
      by (simp add: consistent_ledger_def ledger_ok_def applied_fabric_def count_pending_def fabric_new_def)
  qed
  show "keyed applied_fabric"
    by (simp add: keyed_def applied_fabric_def sample_envelope_def)
  show "all_justified applied_fabric"
    by (simp add: all_justified_def effect_justified_def applied_fabric_def applied_record_def sample_record_def sample_cadence_def)
qed

lemma applied_lookup:
  "ex_attempt (explain_lookup (Id 1) applied_fabric) = Some applied_record"
  "ex_drift (explain_lookup (Id 1) applied_fabric) = AD_None"
proof -
  have a: "find_attempt (Id 1) applied_fabric = Some 0" "attempts_of (Id 1) applied_fabric = [Id 1]"
    by (simp_all add: applied_fabric_def find_attempt_def attempts_of_def)
  have "newest_attempt applied_fabric None [Id 1] = Some applied_record"
    using a(1) by (simp add: applied_fabric_def)
  then show "ex_attempt (explain_lookup (Id 1) applied_fabric) = Some applied_record"
    using a(2) by (simp add: explain_lookup_def explain_binding_def applied_fabric_def sample_envelope_def Let_def)
  show "ex_drift (explain_lookup (Id 1) applied_fabric) = AD_None"
    by (simp add: explain_lookup_def explain_binding_def blank_explanation_def Let_def split: sum.split option.split)
qed

text \<open>The flow is not bound any more, so the authority cannot be fetched; the recorded effect is
  asserted nevertheless.\<close>

lemma applied_explained:
  "\<exists>x g. explain en1 en2 (Id 1) applied_fabric = (Inr x, g) \<and> ex_effect x = EL_SyntheticVerified"
proof -
  have "binding_get (Id 1) (fb_bindings applied_fabric) = Inl (Status EC_NotFound ''flow binding not found'')"
    by (simp add: applied_fabric_def fabric_new_def binding_get_def)
  then obtain s where "fetch_local (Id 1) applied_fabric = Inl s" 
    by (cases "st_ok (require_trustworthy_clock applied_fabric)") (simp_all add: fetch_local_def)
  then have f: "fetch_authority en2 (Id 1) applied_fabric = (Inl s, applied_fabric)" by (simp add: fetch_authority_def)
  let ?o = "explain_current (Inl s) (explain_grant (en_grant en1) (explain_lookup (Id 1) applied_fabric))"
  have o: "ex_attempt ?o = Some applied_record" "ex_drift ?o = AD_None"
    using applied_lookup by (simp_all add: explain_current_def explain_grant_def split: sum.split)
  have "ex_effect (explain_verdict ?o) = EL_SyntheticVerified"
    using o by (simp add: explain_verdict_def explain_attempt_def Let_def applied_record_def sample_record_def)
  then show ?thesis using f by (simp add: explain_def id_valid_def)
qed

section \<open>A client and a server\<close>

definition sample_frame :: wire_frame where
  "sample_frame = \<lparr>fr_type = FT_Request, fr_request_id = 9, fr_payload = [10, 20, 30]\<rparr>"

definition sample_io :: turn_io where
  "sample_io = \<lparr>io_recv_header = \<lambda>_. 8, io_recv_body = \<lambda>_. 8, io_send_header = \<lambda>_. 8, io_send_body = \<lambda>_. 8\<rparr>"

lemma sample_io_live: "live_io sample_io"
  by (simp add: live_io_def sample_io_def progresses_def)

definition sample_call :: control_request where
  "sample_call = \<lparr>rq_op = OP_Epoch, rq_stamp = blank_stamp, rq_fields = []\<rparr>"

definition sample_answer :: control_response where
  "sample_answer = carrying kControlCapacity (epoch_fields applied_fabric)"

definition sample_client :: client where
  "sample_client = client_new\<lparr>cl_connection := adopt 4 (wire (answer_frame 1 sample_answer))\<rparr>"

definition sample_session :: session where
  "sample_session = (session_new (adopt 5 (wire (request_frame 1 sample_call))))\<lparr>ss_established := True\<rparr>"

lemma sample_ends:
  "healthy (cl_connection sample_client)" "healthy (ss_connection sample_session)" "ss_established sample_session"
  "co_incoming (cl_connection sample_client) = wire (answer_frame 1 sample_answer)"
  "co_incoming (ss_connection sample_session) = wire (request_frame 1 sample_call)"
  "cl_limits sample_client = default_limits" "cl_request_id sample_client = 0"
  by (simp_all add: sample_client_def sample_session_def session_new_def client_new_def adopt_def connection_new_def healthy_def)

lemma sample_dispatched:
  "dispatch w sample_call d applied_fabric =
     Some (sample_answer, [], d\<lparr>dp_served := dp_served d + 1\<rparr>, applied_fabric)"
  by (simp add: dispatch_def sample_call_def checked_stale_def call_of_def direct_answer_def sample_answer_def ok_response_def)

lemma sample_ready: "request_ready default_limits sample_call" "response_ready default_limits sample_answer"
proof -
  show "request_ready default_limits sample_call"
    by (simp add: request_ready_def sample_call_def kControlCapacity_def default_limits_def)
  have "encodable kControlCapacity (epoch_fields applied_fabric)"
    by (simp add: sized_encodable [OF sized_epoch_fields] kControlCapacity_def)
  moreover have "length (record_bytes kControlCapacity (epoch_fields applied_fabric)) = 25"
    by (rule sized_record_bytes [OF sized_epoch_fields]) (simp add: kControlCapacity_def)
  ultimately show "response_ready default_limits sample_answer"
    by (simp add: response_ready_def response_wf_def sample_answer_def carrying_def ok_response_def kControlCapacity_def default_limits_def)
qed

definition hello_client :: client where
  "hello_client = client_new\<lparr>cl_connection := adopt 4 (wire (answer_frame 1 (welcome_response applied_fabric)))\<rparr>"

definition hello_session :: session where
  "hello_session = session_new (adopt 5 (wire (hello_frame 1 ''agent'' blank_stamp)))"

lemma hello_ends:
  "healthy (cl_connection hello_client)" "healthy (ss_connection hello_session)"
  "co_incoming (cl_connection hello_client) = wire (answer_frame 1 (welcome_response applied_fabric))"
  "co_incoming (ss_connection hello_session) = wire (hello_frame 1 ''agent'' blank_stamp)"
  "cl_limits hello_client = default_limits" "cl_request_id hello_client = 0" "cl_stamp hello_client = blank_stamp"
  by (simp_all add: hello_client_def hello_session_def session_new_def client_new_def adopt_def connection_new_def healthy_def)

lemma hello_names:
  "name_ready (cl_limits hello_client) ''agent''" "name_ready default_limits ''agent''" "epoch_valid (fb_epoch applied_fabric)"
  "35 \<le> unat (l_max_frame_payload_bytes (cl_limits hello_client))" "35 \<le> unat (l_max_frame_payload_bytes default_limits)"
  by (simp_all add: hello_client_def client_new_def name_ready_def default_limits_def applied_fabric_def epoch_valid_def)

section \<open>A server with a connection\<close>

definition busy_server :: server where
  "busy_server =
     snd (server_accept (Some (5, [])) (snd (server_start
       \<lparr>la_socket = Some 3, la_bound = True, la_listening = True, la_port = Some 9411\<rparr>
       (server_new \<lparr>sg_limits = default_limits, sg_port = 0, sg_max_connections = 64, sg_name = ''pacingd''\<rparr>))))"

lemma busy_serves:
  "serves \<lparr>sg_limits = default_limits, sg_port = 0, sg_max_connections = 64, sg_name = ''pacingd''\<rparr> busy_server"
  "sv_active busy_server = 1"
  "map_of (sv_sessions (server_stop busy_server)) 0 = Some (close_session (session_new (adopt 5 [])))"
proof -
  show "serves \<lparr>sg_limits = default_limits, sg_port = 0, sg_max_connections = 64, sg_name = ''pacingd''\<rparr> busy_server"
    unfolding busy_server_def by (intro serves.intros)
  show "sv_active busy_server = 1" "map_of (sv_sessions (server_stop busy_server)) 0 = Some (close_session (session_new (adopt 5 [])))"
    by (simp_all add: busy_server_def server_start_def server_new_def server_accept_def listen_loopback_def
        transport_global_init_def st_ok_def success_def listener_accept_def listener_close_def server_stop_def)
qed

end
