(* ===== verification/PF_Options.thy ===== *)
theory PF_Options
  imports PF_Client
begin

text \<open>
  What the three programs of \<^verbatim>\<open>src/tools\<close> read from their command lines: numbers, as
  \<^verbatim>\<open>strtoull\<close> reads them, and the option loops of \<^verbatim>\<open>pacingd\<close>, \<^verbatim>\<open>pacing-agent\<close> and
  \<^verbatim>\<open>pacingctl\<close>. An argument is a string without zero byte; the list of arguments is \<^verbatim>\<open>argv\<close>
  without the program's name.
\<close>

section \<open>Numbers\<close>

text \<open>\<^verbatim>\<open>strtoull\<close> in base 10: white space, a sign, digits. It returns the value and the text after
  it; without a digit the value is 0 and the text is all of the input. A number above \<^verbatim>\<open>2^64 - 1\<close>
  is \<^verbatim>\<open>2^64 - 1\<close>, a negative one wraps.\<close>

definition is_blank :: "char \<Rightarrow> bool" where
  "is_blank c = ((of_char c :: nat) = 32 \<or> 9 \<le> (of_char c :: nat) \<and> (of_char c :: nat) \<le> 13)"

definition strtoull :: "string \<Rightarrow> u64 \<times> string" where
  "strtoull s =
     (let t = dropWhile is_blank s;
          negative = (take 1 t = ''-'');
          u = (if negative \<or> take 1 t = ''+'' then drop 1 t else t);
          digits = takeWhile is_digit u
      in if digits = [] then (0, s)
         else (if read_nat digits > unat kU64Max then kU64Max
               else if negative then - of_nat (read_nat digits) else of_nat (read_nat digits),
               dropWhile is_digit u))"

definition parse_u64 :: "string option \<Rightarrow> u64 option" where
  "parse_u64 text =
     (case text of
        None \<Rightarrow> None
      | Some s \<Rightarrow>
          if s = [] then None
          else (let (v, rest) = strtoull s in if rest \<noteq> [] then None else Some v))"

lemma digit_is_not_blank: "is_digit c \<Longrightarrow> \<not> is_blank c \<and> c \<noteq> CHR ''-'' \<and> c \<noteq> CHR ''+''"
  by (auto simp: is_digit_def is_blank_def)

lemma strtoull_digits:
  assumes "list_all is_digit ds" "ds \<noteq> []" "read_nat ds \<le> unat kU64Max"
  shows "strtoull ds = (of_nat (read_nat ds), [])"
proof -
  obtain c cs where c: "ds = c # cs" "is_digit c" using assms(1,2) by (cases ds) auto
  have "dropWhile is_blank ds = ds" "take 1 ds \<noteq> ''-''" "take 1 ds \<noteq> ''+''"
    using c digit_is_not_blank [OF c(2)] by auto
  moreover have "takeWhile is_digit ds = ds" "dropWhile is_digit ds = []"
    using stops_digits [OF assms(1), of "[]"] by simp_all
  ultimately show ?thesis
    unfolding strtoull_def Let_def using assms(2,3) by (simp only: simp_thms if_True if_False not_less [symmetric])
qed

text \<open>A number that is printed is read back.\<close>

lemma parse_show [simp]: "parse_u64 (Some (show_u64 v)) = Some v"
proof -
  have d: "list_all is_digit (show_u64 v)" "show_u64 v \<noteq> []"
    using show_nat_digits [of "unat v"] by (simp_all add: show_u64_def)
  have "read_nat (show_u64 v) = unat v" by (simp add: show_u64_def)
  moreover have "unat v \<le> unat kU64Max"
    by (metis kU64Max_def word_le_nat_alt word_order.extremum)
  ultimately show ?thesis
    using strtoull_digits [OF d] d(2) by (simp add: parse_u64_def)
qed

text \<open>A text that is accepted is blanks, at most one sign, and digits to the end.\<close>

lemma parse_shape:
  assumes "parse_u64 (Some s) = Some v"
  shows "\<exists>bs sign ds. s = bs @ sign @ ds \<and> list_all is_blank bs \<and> sign \<in> {[], ''-'', ''+''} \<and>
    list_all is_digit ds \<and> ds \<noteq> [] \<and>
    v = (if read_nat ds > unat kU64Max then kU64Max
         else if sign = ''-'' then - of_nat (read_nat ds) else of_nat (read_nat ds))"
proof -
  define t where "t = dropWhile is_blank s"
  define sign where "sign = (if take 1 t = ''-'' \<or> take 1 t = ''+'' then take 1 t else [])"
  define u where "u = (if take 1 t = ''-'' \<or> take 1 t = ''+'' then drop 1 t else t)"
  define ds where "ds = takeWhile is_digit u"
  have e: "strtoull s = (if ds = [] then (0, s)
         else (if read_nat ds > unat kU64Max then kU64Max
               else if take 1 t = ''-'' then - of_nat (read_nat ds) else of_nat (read_nat ds), dropWhile is_digit u))"
    unfolding t_def u_def ds_def strtoull_def Let_def by (rule refl)
  have "s \<noteq> []" and n: "(\<lambda>(v, rest). if rest \<noteq> [] then None else Some v) (strtoull s) = Some v"
    using assms by (simp_all add: parse_u64_def split: if_split_asm)
  then have ds: "ds \<noteq> []" using e by auto
  then have "dropWhile is_digit u = []" using n e by (simp only: if_False prod.case split: if_split_asm) auto
  then have u: "u = ds" unfolding ds_def using takeWhile_dropWhile_id [of is_digit u] by (metis append_Nil2)
  have v: "v = (if read_nat ds > unat kU64Max then kU64Max
         else if take 1 t = ''-'' then - of_nat (read_nat ds) else of_nat (read_nat ds))"
    using n e ds \<open>dropWhile is_digit u = []\<close> by (simp only: if_False prod.case simp_thms option.inject)
  have "s = takeWhile is_blank s @ t" by (simp add: t_def)
  moreover have "t = sign @ u" by (simp add: sign_def u_def)
  ultimately have s: "s = takeWhile is_blank s @ sign @ ds" using u by simp
  have "list_all is_blank (takeWhile is_blank s)" "list_all is_digit ds"
    unfolding ds_def by (metis list_all_iff set_takeWhileD)+
  moreover have "sign \<in> {[], ''-'', ''+''}" "sign = ''-'' \<longleftrightarrow> take 1 t = ''-''" by (auto simp: sign_def)
  ultimately show ?thesis using s ds v by metis
qed

section \<open>pacingd\<close>

record daemon_options =
  do_port :: u16
  do_durable_directory :: string
  do_port_file :: string
  do_name :: string
  do_instance :: u64
  do_resource :: u64
  do_ceiling_bps :: u64
  do_floor_bps :: u64
  do_grant_generation :: u64
  do_backend_id :: u64
  do_quiet :: bool

definition daemon_defaults :: daemon_options where
  "daemon_defaults =
     \<lparr>do_port = 0, do_durable_directory = [], do_port_file = [], do_name = ''pacingd'', do_instance = 1,
      do_resource = 1, do_ceiling_bps = 10000000000, do_floor_bps = 0, do_grant_generation = 1,
      do_backend_id = 9, do_quiet = False\<rparr>"

text \<open>One argument: \<open>None\<close> refuses it; else the new options, and whether the next argument was taken
  with it.\<close>

type_synonym 'o option_step = "string \<Rightarrow> string option \<Rightarrow> 'o \<Rightarrow> ('o \<times> bool) option"

definition taking :: "'v option \<Rightarrow> ('v \<Rightarrow> 'o) \<Rightarrow> ('o \<times> bool) option" where
  "taking v put = map_option (\<lambda>x. (put x, True)) v"

definition daemon_option :: "daemon_options option_step" where
  "daemon_option arg following o1 =
     (if arg = ''--port'' then
        (case parse_u64 following of
           None \<Rightarrow> None
         | Some v \<Rightarrow> if v > 65535 then None else Some (o1\<lparr>do_port := ucast v\<rparr>, True))
      else if arg = ''--port-file'' then taking following (\<lambda>v. o1\<lparr>do_port_file := v\<rparr>)
      else if arg = ''--durable'' then taking following (\<lambda>v. o1\<lparr>do_durable_directory := v\<rparr>)
      else if arg = ''--name'' then taking following (\<lambda>v. o1\<lparr>do_name := take 64 v\<rparr>)
      else if arg = ''--instance'' then taking (parse_u64 following) (\<lambda>v. o1\<lparr>do_instance := v\<rparr>)
      else if arg = ''--resource'' then taking (parse_u64 following) (\<lambda>v. o1\<lparr>do_resource := v\<rparr>)
      else if arg = ''--ceiling-bps'' then taking (parse_u64 following) (\<lambda>v. o1\<lparr>do_ceiling_bps := v\<rparr>)
      else if arg = ''--floor-bps'' then taking (parse_u64 following) (\<lambda>v. o1\<lparr>do_floor_bps := v\<rparr>)
      else if arg = ''--grant-generation'' then
        taking (parse_u64 following) (\<lambda>v. o1\<lparr>do_grant_generation := v\<rparr>)
      else if arg = ''--backend-id'' then taking (parse_u64 following) (\<lambda>v. o1\<lparr>do_backend_id := v\<rparr>)
      else if arg = ''--quiet'' then Some (o1\<lparr>do_quiet := True\<rparr>, False)
      else None)"

text \<open>The loop over the arguments, the same in \<^verbatim>\<open>pacingd\<close> and \<^verbatim>\<open>pacing-agent\<close>.\<close>

fun scan_options :: "'o option_step \<Rightarrow> string list \<Rightarrow> 'o \<Rightarrow> 'o option" where
  "scan_options step [] o1 = Some o1"
| "scan_options step (arg # rest) o1 =
     (case step arg (if rest = [] then None else Some (hd rest)) o1 of
        None \<Rightarrow> None
      | Some (o2, took) \<Rightarrow> scan_options step (if took then tl rest else rest) o2)"

definition parse_daemon_options :: "string list \<Rightarrow> daemon_options option" where
  "parse_daemon_options argv = scan_options daemon_option argv daemon_defaults"

section \<open>pacing-agent\<close>

record agent_options =
  ao_port :: u16
  ao_flow :: u64
  ao_resource :: u64
  ao_path :: u64
  ao_backend :: u64
  ao_policy :: u64
  ao_quantum :: u64
  ao_window_ns :: u64
  ao_rate_bps :: u64
  ao_iterations :: u64
  ao_pause_ms :: u64
  ao_configure :: bool
  ao_verbose :: bool
  ao_name :: string
  ao_ready_file :: string

definition agent_defaults :: agent_options where
  "agent_defaults =
     \<lparr>ao_port = 0, ao_flow = 100, ao_resource = 1, ao_path = 1, ao_backend = 9, ao_policy = 1,
      ao_quantum = 1500, ao_window_ns = 1000000, ao_rate_bps = 1000000000, ao_iterations = 1,
      ao_pause_ms = 0, ao_configure = False, ao_verbose = False, ao_name = ''pacing-agent'',
      ao_ready_file = []\<rparr>"

definition agent_numbers :: "string list" where
  "agent_numbers =
     [''--port'', ''--flow'', ''--resource'', ''--path'', ''--backend'', ''--policy'', ''--quantum'', ''--window-ns'',
      ''--rate-bps'', ''--iterations'', ''--pause-ms'']"

definition agent_number :: "string \<Rightarrow> u64 \<Rightarrow> agent_options \<Rightarrow> agent_options option" where
  "agent_number arg v o1 =
     (if arg = ''--port'' then (if v = 0 \<or> v > 65535 then None else Some (o1\<lparr>ao_port := ucast v\<rparr>))
      else Some (if arg = ''--flow'' then o1\<lparr>ao_flow := v\<rparr>
                 else if arg = ''--resource'' then o1\<lparr>ao_resource := v\<rparr>
                 else if arg = ''--path'' then o1\<lparr>ao_path := v\<rparr>
                 else if arg = ''--backend'' then o1\<lparr>ao_backend := v\<rparr>
                 else if arg = ''--policy'' then o1\<lparr>ao_policy := v\<rparr>
                 else if arg = ''--quantum'' then o1\<lparr>ao_quantum := v\<rparr>
                 else if arg = ''--window-ns'' then o1\<lparr>ao_window_ns := v\<rparr>
                 else if arg = ''--rate-bps'' then o1\<lparr>ao_rate_bps := v\<rparr>
                 else if arg = ''--iterations'' then o1\<lparr>ao_iterations := v\<rparr>
                 else o1\<lparr>ao_pause_ms := v\<rparr>))"

definition agent_option :: "agent_options option_step" where
  "agent_option arg following o1 =
     (if arg = ''--configure'' then Some (o1\<lparr>ao_configure := True\<rparr>, False)
      else if arg = ''--verbose'' then Some (o1\<lparr>ao_verbose := True\<rparr>, False)
      else if arg = ''--ready-file'' then taking following (\<lambda>v. o1\<lparr>ao_ready_file := v\<rparr>)
      else if arg \<in> set agent_numbers then
        (case parse_u64 following of
           None \<Rightarrow> None
         | Some v \<Rightarrow> map_option (\<lambda>o2. (o2, True)) (agent_number arg v o1))
      else None)"

definition parse_agent_options :: "string list \<Rightarrow> agent_options option" where
  "parse_agent_options argv =
     (case scan_options agent_option argv agent_defaults of
        None \<Rightarrow> None
      | Some o1 \<Rightarrow> if ao_port o1 \<noteq> 0 then Some o1 else None)"

section \<open>pacingctl\<close>

record command_line =
  ct_port :: u16
  ct_command :: string
  ct_args :: "(string \<times> string) list"

definition ctl_option :: "string \<Rightarrow> string option \<Rightarrow> command_line \<Rightarrow> string + (command_line \<times> bool)" where
  "ctl_option arg following ln =
     (if arg = ''--port'' then
        (case parse_u64 following of
           None \<Rightarrow> Inl ''bad --port''
         | Some v \<Rightarrow>
             if v = 0 \<or> v > 65535 then Inl ''bad --port'' else Inr (ln\<lparr>ct_port := ucast v\<rparr>, True))
      else if take 2 arg = ''--'' then
        (case following of
           None \<Rightarrow> Inl ''option requires a value''
         | Some v \<Rightarrow> Inr (ln\<lparr>ct_args := ct_args ln @ [(drop 2 arg, v)]\<rparr>, True))
      else if ct_command ln = [] then Inr (ln\<lparr>ct_command := arg\<rparr>, False)
      else Inl ''unexpected argument'')"

fun ctl_scan :: "string list \<Rightarrow> command_line \<Rightarrow> string + command_line" where
  "ctl_scan [] ln = Inr ln"
| "ctl_scan (arg # rest) ln =
     (case ctl_option arg (if rest = [] then None else Some (hd rest)) ln of
        Inl e \<Rightarrow> Inl e
      | Inr (ln', took) \<Rightarrow> ctl_scan (if took then tl rest else rest) ln')"

definition blank_line :: command_line where
  "blank_line = \<lparr>ct_port = 0, ct_command = [], ct_args = []\<rparr>"

text \<open>The first value under a key that is a number; a value that is none counts as absent.\<close>

fun value_in :: "(string \<times> string) list \<Rightarrow> string \<Rightarrow> u64 \<Rightarrow> u64" where
  "value_in [] k fallback = fallback"
| "value_in ((k', v) # args) k fallback =
     (if k' = k then (case parse_u64 (Some v) of Some n \<Rightarrow> n | None \<Rightarrow> value_in args k fallback)
      else value_in args k fallback)"

definition value_of :: "command_line \<Rightarrow> string \<Rightarrow> u64 \<Rightarrow> u64" where
  "value_of ln k fallback = value_in (ct_args ln) k fallback"

definition text_of :: "command_line \<Rightarrow> string \<Rightarrow> string \<Rightarrow> string" where
  "text_of ln k fallback = (case map_of (ct_args ln) k of Some v \<Rightarrow> v | None \<Rightarrow> fallback)"

definition has_option :: "command_line \<Rightarrow> string \<Rightarrow> bool" where
  "has_option ln k = (map_of (ct_args ln) k \<noteq> None)"

section \<open>What the scans accept\<close>

lemma scan_invariant:
  assumes "\<And>arg following o1 o2 took. P o1 \<Longrightarrow> step arg following o1 = Some (o2, took) \<Longrightarrow> P o2"
  shows "scan_options step argv o1 = Some o2 \<Longrightarrow> P o1 \<Longrightarrow> P o2"
proof (induction argv arbitrary: o1 rule: length_induct)
  case (1 argv)
  show ?case
  proof (cases argv)
    case Nil
    then show ?thesis using 1 by simp
  next
    case (Cons arg rest)
    then obtain o3 took where s: "step arg (if rest = [] then None else Some (hd rest)) o1 = Some (o3, took)"
      and r: "scan_options step (if took then tl rest else rest) o3 = Some o2"
      using 1(2) by (auto split: option.splits)
    have "length (if took then tl rest else rest) < length argv" using Cons by (simp add: less_Suc_eq_le)
    then show ?thesis using 1(1) r assms [OF 1(3) s] by blast
  qed
qed

end
