(* ===== verification/PF_Tools.thy ===== *)
theory PF_Tools
  imports PF_Options
begin

text \<open>
  The programs of \<^verbatim>\<open>src/tools\<close>: \<^verbatim>\<open>pacingd\<close>, which hosts a coordinator with a synthetic backend
  and a configured authority, \<^verbatim>\<open>pacing-agent\<close>, which drives one, and \<^verbatim>\<open>pacingctl\<close>, the
  operator's command line. What a program prints is a list of lines, in order; its end is its exit
  code. Names of files that cannot be opened, the sockets and the world of the coordinator are
  arguments. Memory that is released on the way out of \<^verbatim>\<open>main\<close> is not modelled.
\<close>

section \<open>Printing\<close>

text \<open>\<open>Usage\<close> is the usage text of the program, on the error stream; \<open>File\<close> a file that is
  written, by its name. \<^verbatim>\<open>printf\<close> takes a text up to its first zero byte.\<close>

datatype printed = Out string | Err string | Usage | File string string

definition c_text :: "string \<Rightarrow> string" where
  "c_text s = takeWhile (\<lambda>c. c \<noteq> CHR 0x00) s"

section \<open>pacingd\<close>

record daemon_world =
  dw_disk :: disk
  dw_start :: env
  dw_register :: "nat \<Rightarrow> env"
  dw_listen :: listen_answer
  dw_port_file_opens :: bool

record daemon =
  dm_authority :: static_authority
  dm_backend :: synthetic_backend
  dm_fabric :: fabric
  dm_server :: server

definition daemon_grant :: "daemon_options \<Rightarrow> rate_grant" where
  "daemon_grant o1 =
     default_grant\<lparr>g_ref := \<lparr>gr_id = Id 1, gr_gen = Generation 1\<rparr>, g_resource := Id (do_resource o1),
       g_ceiling_bps := do_ceiling_bps o1, g_floor_bps := do_floor_bps o1,
       g_revision := do_grant_generation o1, g_authoritative := True\<rparr>"

definition daemon_config :: "daemon_options \<Rightarrow> fabric_config" where
  "daemon_config o1 =
     \<lparr>fc_limits = default_limits, fc_durable_directory = do_durable_directory o1,
      fc_fabric_instance = do_instance o1, fc_tick_period_ns = 1000000,
      fc_envelope_lifetime_ns = 2000000000, fc_enable_durability = (do_durable_directory o1 \<noteq> []),
      fc_max_pending_attempts = 4096\<rparr>"

definition daemon_backend :: "daemon_options \<Rightarrow> synthetic_backend" where
  "daemon_backend o1 = synthetic_new \<lparr>gr_id = Id (do_backend_id o1), gr_gen = Generation 1\<rparr> ''synthetic-shaper''"

definition daemon_server_config :: "daemon_options \<Rightarrow> server_config" where
  "daemon_server_config o1 =
     \<lparr>sg_limits = default_limits, sg_port = do_port o1, sg_max_connections = 64, sg_name = do_name o1\<rparr>"

text \<open>The registration, with the backend answering for itself. \<open>None\<close> stands for a call that has not
  returned.\<close>

definition daemon_register ::
    "(nat \<Rightarrow> env) \<Rightarrow> synthetic_backend \<Rightarrow> fabric \<Rightarrow> (status \<times> fabric) option" where
  "daemon_register w b f =
     (case run_job (map (\<lambda>k. (w k)\<lparr>en_describe := \<lambda>_. synthetic_describe b\<rparr>) [0..<kOperationSteps])
             (J_call (RQ_register_backend (Some 0))) f of
        (_, J_done oc, f1) \<Rightarrow> Some (returned_status oc, f1)
      | _ \<Rightarrow> None)"

definition daemon_banner :: "u16 \<Rightarrow> fabric \<Rightarrow> string" where
  "daemon_banner port f =
     ''pacingd listening on port '' @ show_nat (unat port) @ '' (epoch '' @ show_u64 (epoch_value (fb_epoch f)) @
     '', boot '' @ show_u64 (bo_counter (fb_boot f)) @ '')''"

text \<open>Everything before the accept loop: what was printed, and the exit code or the daemon that
  serves.\<close>

definition daemon_listen ::
    "daemon_world \<Rightarrow> daemon_options \<Rightarrow> fabric \<Rightarrow> printed list \<times> (nat + daemon)" where
  "daemon_listen w o1 f =
     (case server_start (dw_listen w) (server_new (daemon_server_config o1)) of
        (Inl s, _) \<Rightarrow> ([Err (''pacingd: listen failed: '' @ c_text (status_text s))], Inl 6)
      | (Inr port, sv) \<Rightarrow>
          if do_port_file o1 \<noteq> [] \<and> \<not> dw_port_file_opens w then
            ([Err ''pacingd: cannot write port file''], Inl 7)
          else
            ((if do_port_file o1 \<noteq> [] then [File (do_port_file o1) (show_nat (unat port) @ newline)] else []) @
             (if do_quiet o1 then [] else [Out (daemon_banner port f)]),
             Inr \<lparr>dm_authority = authority_install (daemon_grant o1) [], dm_backend = daemon_backend o1,
                  dm_fabric = f, dm_server = sv\<rparr>))"

definition daemon_setup ::
    "daemon_world \<Rightarrow> daemon_options \<Rightarrow> (printed list \<times> (nat + daemon)) option" where
  "daemon_setup w o1 =
     (if \<not> st_ok transport_global_init then
        Some ([Err ''pacingd: transport initialisation failed''], Inl 3)
      else
        (let (s, f) = start_fabric (dw_start w) (fabric_new (daemon_config o1) (dw_disk w)) in
         if \<not> st_ok s then
           Some ([Err (''pacingd: fabric initialisation failed: '' @ c_text (status_text s))], Inl 4)
         else
           (case daemon_register (dw_register w) (daemon_backend o1) f of
              None \<Rightarrow> None
            | Some (s', f') \<Rightarrow>
                if \<not> st_ok s' then
                  Some ([Err (''pacingd: backend registration failed: '' @ c_text (status_text s'))], Inl 5)
                else Some (daemon_listen w o1 f'))))"

definition daemon_begin ::
    "daemon_world \<Rightarrow> string list \<Rightarrow> (printed list \<times> (nat + daemon)) option" where
  "daemon_begin w argv =
     (case parse_daemon_options argv of None \<Rightarrow> Some ([Usage], Inl 2) | Some o1 \<Rightarrow> daemon_setup w o1)"

text \<open>After the accept loop has returned with \<open>served\<close>.\<close>

definition daemon_end ::
    "env list \<Rightarrow> status \<Rightarrow> fabric \<Rightarrow> server \<Rightarrow> (printed list \<times> nat \<times> fabric \<times> server) option" where
  "daemon_end ens served f sv =
     (case run_job ens (J_call RQ_shutdown) f of
        (_, J_done _, f') \<Rightarrow>
          Some (if \<not> st_ok served then [Err (''pacingd: serve failed: '' @ c_text (status_text served))] else [],
                if \<not> st_ok served then 8 else 0, f', server_stop sv)
      | _ \<Rightarrow> None)"

section \<open>pacing-agent\<close>

record agent_world =
  aw_dial :: "nat \<Rightarrow> dial_answer"
  aw_io :: "nat \<Rightarrow> turn_io"
  aw_ready_file_opens :: bool

text \<open>A part of the program: lines, the exit code if it ended here, and the client.\<close>

type_synonym part = "printed list \<times> nat option \<times> client"

definition after :: "part \<Rightarrow> (client \<Rightarrow> part) \<Rightarrow> part" where
  "after p k =
     (case p of
        (ls, Some e, c) \<Rightarrow> (ls, Some e, c)
      | (ls, None, c) \<Rightarrow> (let (ls', e, c') = k c in (ls @ ls', e, c')))"

definition agent_binding :: "agent_options \<Rightarrow> binding" where
  "agent_binding o1 =
     \<lparr>b_flow = Id (ao_flow o1), b_gen = gen_unknown, b_resource = \<lparr>gr_id = Id (ao_resource o1), gr_gen = Generation 1\<rparr>,
      b_path = \<lparr>gr_id = Id (ao_path o1), gr_gen = Generation 1\<rparr>, b_service_class = Id 0, b_tenant = Id 0,
      b_declared_max_burst_bytes = 0, b_declared_max_burst_packets = 0, b_quiesced = False,
      b_provenance = Id 0\<rparr>"

text \<open>The members of a policy that the programs leave as they are.\<close>

definition blank_policy :: policy where
  "blank_policy =
     \<lparr>p_ref = no_ref, p_layer = PL_Resource, p_resource = Id 0, p_flow = Id 0, p_rate_share_ppm = 1000000,
      p_rate_bps = 0, p_min_rate_bps = 0, p_burst_bytes = 0, p_burst_packets = 0, p_quantum_bytes = 0,
      p_window_ns = 0, p_shape = CS_Uniform, p_grants_per_window_hint = 0, p_path = no_ref,
      p_default_service_class = Id 0, p_exceptions = [], p_tenant = Id 0, p_provenance = Id 0,
      p_published_at = Instant 0\<rparr>"

definition agent_policy :: "agent_options \<Rightarrow> policy" where
  "agent_policy o1 =
     blank_policy\<lparr>p_ref := \<lparr>gr_id = Id (ao_policy o1), gr_gen = gen_unknown\<rparr>, p_layer := PL_Resource,
       p_resource := Id (ao_resource o1), p_path := \<lparr>gr_id = Id (ao_path o1), gr_gen = Generation 1\<rparr>,
       p_rate_bps := ao_rate_bps o1, p_quantum_bytes := ao_quantum o1, p_window_ns := ao_window_ns o1\<rparr>"

definition agent_configure :: "agent_options \<Rightarrow> (nat \<Rightarrow> turn_io) \<Rightarrow> client \<Rightarrow> part" where
  "agent_configure o1 io c =
     (let (bound, c1) = client_bind_flow (io 0) (agent_binding o1) c in
      if rs_code bound \<noteq> EC_Ok then
        ([Err (''pacing-agent: bind failed: '' @ c_text (rs_detail bound))], Some 4, c1)
      else
        (let (published, c2) = client_publish_policy (io 1) (agent_policy o1) c1 in
         if rs_code published \<noteq> EC_Ok then
           ([Err (''pacing-agent: publish failed: '' @ c_text (rs_detail published))], Some 4, c2)
         else
           ([Out (''agent configured flow='' @ show_u64 (ao_flow o1) @ '' policy='' @ show_u64 (ao_policy o1))],
            None, c2)))"

definition agent_round :: "agent_options \<Rightarrow> (nat \<Rightarrow> turn_io) \<Rightarrow> u64 \<Rightarrow> client \<Rightarrow> part" where
  "agent_round o1 io i c =
     (let (derived, c1) = client_derive_envelope (io 0) (Id (ao_flow o1)) c in
      if rs_code derived \<noteq> EC_Ok then
        ([Out (''iteration '' @ show_u64 i @ '' derive refused: '' @ error_name (rs_code derived) @ '': '' @
               c_text (rs_detail derived))], None, c1)
      else case fst (run_state (decode_envelope_payload default_limits) (reader_new (rs_payload derived))) of
        Inl _ \<Rightarrow> ([Err ''pacing-agent: malformed envelope reply''], Some 5, c1)
      | Inr e \<Rightarrow>
          (let (applied, c2) = client_apply_envelope (io 1) (e_ref e) (Id (ao_backend o1)) (Id 0) c1;
               attempt = (if rs_code applied = EC_Ok
                          then fst (run_state rd_u64 (reader_new (rs_payload applied))) else 0)
           in ([Out (''iteration '' @ show_u64 i @ '' envelope='' @ show_u64 (id_value (gr_id (e_ref e))) @
                     '' attempt='' @ show_u64 attempt @ '' apply='' @ error_name (rs_code applied))], None, c2)))"

text \<open>The rounds from number \<open>i\<close> on while some are left; the pause between two is no step.\<close>

fun agent_rounds :: "agent_options \<Rightarrow> (nat \<Rightarrow> turn_io) \<Rightarrow> nat \<Rightarrow> u64 \<Rightarrow> client \<Rightarrow> part" where
  "agent_rounds o1 io 0 i c = ([], None, c)"
| "agent_rounds o1 io (Suc n) i c =
     after (agent_round o1 (\<lambda>k. io (2 * unat i + k)) i c) (agent_rounds o1 io n (i + 1))"

definition agent_ready :: "agent_world \<Rightarrow> agent_options \<Rightarrow> client \<Rightarrow> part" where
  "agent_ready w o1 c =
     (if ao_ready_file o1 = [] then ([], None, c)
      else if \<not> aw_ready_file_opens w then ([Err ''pacing-agent: cannot write ready file''], Some 4, c)
      else ([File (ao_ready_file o1) (''ready'' @ newline)], None, c))"

definition agent_stamp_line :: "client \<Rightarrow> string" where
  "agent_stamp_line c =
     ''agent stamp epoch='' @ show_u64 (cs_epoch (cl_stamp c)) @ '' boot='' @ show_u64 (cs_boot_nonce (cl_stamp c))"

text \<open>From an established connection on.\<close>

definition agent_work :: "agent_world \<Rightarrow> agent_options \<Rightarrow> client \<Rightarrow> part" where
  "agent_work w o1 c =
     after (let (s, c1) = handshake (aw_io w 0) (ao_name o1) c in
            if \<not> st_ok s then
              ([Err (''pacing-agent: handshake failed: '' @ c_text (status_text s))], Some 3, c1)
            else ([Out (agent_stamp_line c1)], None, c1))
       (\<lambda>c. after (agent_ready w o1 c)
       (\<lambda>c. after (if ao_configure o1 then agent_configure o1 (\<lambda>k. aw_io w (1 + k)) c else ([], None, c))
       (\<lambda>c. after (agent_rounds o1 (\<lambda>k. aw_io w (3 + k)) (unat (ao_iterations o1)) 0 c)
       (\<lambda>c. ([], Some 0, client_close c)))))"

definition agent_main :: "agent_world \<Rightarrow> string list \<Rightarrow> part option" where
  "agent_main w argv =
     (case parse_agent_options argv of
        None \<Rightarrow> Some ([Usage], Some 2, client_new)
      | Some o1 \<Rightarrow>
          if \<not> st_ok transport_global_init then
            Some ([Err ''pacing-agent: transport initialisation failed''], Some 3, client_new)
          else case client_connect (aw_dial w) 40 client_new of
            None \<Rightarrow> None
          | Some (s, c) \<Rightarrow>
              if \<not> st_ok s then
                Some ([Err (''pacing-agent: connect failed: '' @ c_text (status_text s))], Some 3, c)
              else Some (agent_work w o1 c))"

section \<open>pacingctl\<close>

definition ctl_fail :: "string \<Rightarrow> printed list \<times> nat" where
  "ctl_fail message = ([Err (''pacingctl: '' @ message)], 2)"

definition print_response :: "control_response \<Rightarrow> bool \<Rightarrow> printed list" where
  "print_response r ok_expected =
     (if rs_code r \<noteq> EC_Ok then [Out (error_name (rs_code r) @ '': '' @ c_text (rs_detail r))]
      else if rs_payload r \<noteq> [] then [Out (c_text (map char_of_byte (rs_payload r)))]
      else if ok_expected then [Out ''ok''] else [])"

definition ctl_verdict :: "control_response \<Rightarrow> printed list \<times> nat" where
  "ctl_verdict r = (print_response r True, if rs_code r = EC_Ok then 0 else 1)"

definition ctl_binding :: "command_line \<Rightarrow> binding" where
  "ctl_binding ln =
     \<lparr>b_flow = Id (value_of ln ''flow'' 0), b_gen = gen_unknown,
      b_resource = \<lparr>gr_id = Id (value_of ln ''resource'' 0), gr_gen = Generation (value_of ln ''resource-gen'' 1)\<rparr>,
      b_path = \<lparr>gr_id = Id (value_of ln ''path'' 1), gr_gen = Generation (value_of ln ''path-gen'' 1)\<rparr>,
      b_service_class = Id (value_of ln ''service-class'' 0), b_tenant = Id 0,
      b_declared_max_burst_bytes = value_of ln ''burst-bytes'' 0,
      b_declared_max_burst_packets = value_of ln ''burst-packets'' 0, b_quiesced = False,
      b_provenance = Id 0\<rparr>"

definition ctl_policy :: "command_line \<Rightarrow> policy" where
  "ctl_policy ln =
     blank_policy\<lparr>p_ref := \<lparr>gr_id = Id (value_of ln ''policy'' 0), gr_gen = gen_unknown\<rparr>,
       p_layer := PL_Resource, p_resource := Id (value_of ln ''resource'' 0),
       p_path := \<lparr>gr_id = Id (value_of ln ''path'' 1), gr_gen = Generation (value_of ln ''path-gen'' 1)\<rparr>,
       p_rate_bps := value_of ln ''rate-bps'' 0, p_rate_share_ppm := value_of ln ''rate-share-ppm'' 1000000,
       p_min_rate_bps := value_of ln ''min-rate-bps'' 0, p_burst_bytes := value_of ln ''burst-bytes'' 0,
       p_burst_packets := value_of ln ''burst-packets'' 0, p_quantum_bytes := value_of ln ''quantum'' 1500,
       p_window_ns := value_of ln ''window-ns'' 1000000\<rparr>"

definition with_shape :: "command_line \<Rightarrow> policy \<Rightarrow> policy option" where
  "with_shape ln p =
     (if has_option ln ''shape'' then
        map_option (\<lambda>s. p\<lparr>p_shape := s\<rparr>) (parse_cadence_shape (text_of ln ''shape'' ''uniform''))
      else Some p)"

text \<open>The call of a command; \<open>None\<close> is an unknown command.\<close>

definition first_envelope :: "command_line \<Rightarrow> envelope_ref" where
  "first_envelope ln = \<lparr>gr_id = Id (value_of ln ''envelope'' 0), gr_gen = Generation 1\<rparr>"

definition ctl_call :: "command_line \<Rightarrow> policy \<Rightarrow> (turn_io \<Rightarrow> client \<Rightarrow> control_response \<times> client) option" where
  "ctl_call ln p =
     (let command = ct_command ln; attempt = Id (value_of ln ''attempt'' 0) in
      if command = ''epoch'' then Some client_epoch
      else if command = ''stats'' then Some client_stats
      else if command = ''backends'' then Some client_backends
      else if command = ''recover'' then Some client_recover
      else if command = ''stop'' then Some client_stop
      else if command = ''advance-epoch'' then Some client_advance_epoch
      else if command = ''bind-flow'' then Some (\<lambda>io. client_bind_flow io (ctl_binding ln))
      else if command = ''publish-policy'' then Some (\<lambda>io. client_publish_policy io p)
      else if command = ''derive'' then Some (\<lambda>io. client_derive_envelope io (Id (value_of ln ''flow'' 0)))
      else if command = ''apply'' then
        Some (\<lambda>io. client_apply_envelope io (first_envelope ln) (Id (value_of ln ''backend'' 0)) attempt)
      else if command = ''verify'' then Some (\<lambda>io. client_verify_attempt io attempt)
      else if command = ''revalidate'' then Some (\<lambda>io. client_revalidate io attempt)
      else if command = ''cancel'' then
        Some (\<lambda>io. client_cancel_attempt io attempt (text_of ln ''reason'' ''operator cancellation''))
      else if command = ''revoke'' then
        Some (\<lambda>io. client_revoke_envelope io (first_envelope ln) (text_of ln ''reason'' ''operator revocation''))
      else if command = ''explain'' then Some (\<lambda>io. client_explain io (Id (value_of ln ''flow'' 0)))
      else None)"

text \<open>What a command prints of the response, and its exit code. Epoch and the attempt commands fall
  back to the plain form where the payload is not the one they know; derive and explain refuse it.\<close>

definition epoch_line :: "epoch \<times> boot_id \<times> bool \<Rightarrow> string" where
  "epoch_line x =
     (let (e, boot, running) = x in
      ''epoch='' @ show_u64 (epoch_value e) @ '' boot_counter='' @ show_u64 (bo_counter boot) @
      '' boot_nonce='' @ show_u64 (bo_nonce boot) @ '' running='' @ bool_text running)"

definition attempt_line :: "app_record \<Rightarrow> string" where
  "attempt_line r =
     ''attempt='' @ show_u64 (id_value (r_attempt r)) @ '' state='' @ state_name (r_state r) @
     '' effect='' @ effect_name (r_effect r) @ '' reason='' @ error_name (r_reason r)"

definition report_epoch :: "control_response \<Rightarrow> printed list \<times> nat" where
  "report_epoch r =
     (if rs_code r = EC_Ok then
        (case fst (run_state decode_epoch_payload (reader_new (rs_payload r))) of
           Inr x \<Rightarrow> ([Out (epoch_line x)], 0)
         | Inl _ \<Rightarrow> ctl_verdict r)
      else ctl_verdict r)"

definition report_attempt :: "control_response \<Rightarrow> printed list \<times> nat" where
  "report_attempt r =
     (if rs_code r = EC_Ok \<and> rs_payload r \<noteq> [] then
        (case fst (run_state (decode_attempt_payload default_limits) (reader_new (rs_payload r))) of
           Inr a \<Rightarrow> ([Out (attempt_line a)], 0)
         | Inl _ \<Rightarrow> ctl_verdict r)
      else ctl_verdict r)"

definition report_envelope :: "control_response \<Rightarrow> printed list \<times> nat" where
  "report_envelope r =
     (if rs_code r \<noteq> EC_Ok then (print_response r False, 1)
      else case fst (run_state (decode_envelope_payload default_limits) (reader_new (rs_payload r))) of
        Inl _ \<Rightarrow> ctl_fail ''bad envelope payload''
      | Inr e \<Rightarrow> ([Out (c_text (envelope_text e)), Out (''authority '' @ c_text (authority_text (e_authority e)))], 0))"

definition report_explanation :: "control_response \<Rightarrow> printed list \<times> nat" where
  "report_explanation r =
     (if rs_code r \<noteq> EC_Ok then (print_response r False, 1)
      else
        (let (json, rd) = run_state (rd_str (unat (l_max_explanation_bytes default_limits))) (reader_new (rs_payload r)) in
         if \<not> rd_ok rd then ctl_fail ''bad explain payload'' else ([Out (c_text json)], 0)))"

definition ctl_report :: "string \<Rightarrow> control_response \<Rightarrow> printed list \<times> nat" where
  "ctl_report command r =
     (if command = ''epoch'' then report_epoch r
      else if command = ''derive'' then report_envelope r
      else if command \<in> {''verify'', ''revalidate'', ''cancel''} then report_attempt r
      else if command = ''explain'' then report_explanation r
      else ctl_verdict r)"

definition ctl_command :: "turn_io \<Rightarrow> command_line \<Rightarrow> client \<Rightarrow> (printed list \<times> nat) \<times> client" where
  "ctl_command io ln c =
     (case (if ct_command ln = ''publish-policy'' then with_shape ln (ctl_policy ln) else Some (ctl_policy ln)) of
        None \<Rightarrow> (ctl_fail ''bad --shape'', c)
      | Some p \<Rightarrow>
          (case ctl_call ln p of
             None \<Rightarrow> (([Usage], 2), c)
           | Some call \<Rightarrow> (let (r, c1) = call io c in (ctl_report (ct_command ln) r, c1))))"

record ctl_world =
  cw_dial :: "nat \<Rightarrow> dial_answer"
  cw_hello :: turn_io
  cw_call :: turn_io

definition ctl_session :: "ctl_world \<Rightarrow> command_line \<Rightarrow> client \<Rightarrow> (printed list \<times> nat) \<times> client" where
  "ctl_session w ln c =
     (let (s, c1) = handshake (cw_hello w) ''pacingctl'' c in
      if \<not> st_ok s then (([Err (''pacingctl: handshake failed: '' @ c_text (status_text s))], 3), c1)
      else ctl_command (cw_call w) ln c1)"

definition ctl_run :: "ctl_world \<Rightarrow> command_line \<Rightarrow> ((printed list \<times> nat) \<times> client) option" where
  "ctl_run w ln =
     (if \<not> st_ok transport_global_init then Some (ctl_fail ''transport initialisation failed'', client_new)
      else case client_connect (cw_dial w) 400 client_new of
        None \<Rightarrow> None
      | Some (s, c) \<Rightarrow>
          if \<not> st_ok s then
            Some (([Err (''pacingctl: connect failed: '' @ c_text (status_text s))], 3), c)
          else Some (ctl_session w ln c))"

definition ctl_main :: "ctl_world \<Rightarrow> string list \<Rightarrow> ((printed list \<times> nat) \<times> client) option" where
  "ctl_main w argv =
     (if length argv < 3 then Some (([Usage], 2), client_new)
      else case ctl_scan argv blank_line of
        Inl message \<Rightarrow> Some (ctl_fail message, client_new)
      | Inr ln \<Rightarrow>
          if ct_command ln = [] \<or> ct_port ln = 0 then Some (([Usage], 2), client_new) else ctl_run w ln)"

end
