(* ===== verification/PF_Operator.thy ===== *)
theory PF_Operator
  imports PF_Restart PF_Examples PF_Tools
begin

text \<open>
  What the programs of \<^verbatim>\<open>src/tools\<close> guarantee: command lines are read as they are written, the
  programs end, \<^verbatim>\<open>pacingd\<close> serves only a coordinator it has set up, and a command of \<^verbatim>\<open>pacingctl\<close>
  goes through the handshake, the server and the dispatcher and reports their answer.
\<close>

section \<open>Command lines\<close>

definition ctl_words :: "(string \<times> string) list \<Rightarrow> string list" where
  "ctl_words args = concat (map (\<lambda>(k, v). [''--'' @ k, v]) args)"

lemma ctl_scan_words:
  "''port'' \<notin> fst ` set args \<Longrightarrow>
   ctl_scan (ctl_words args @ rest) ln = ctl_scan rest (ln\<lparr>ct_args := ct_args ln @ args\<rparr>)"
proof (induction args arbitrary: ln)
  case Nil
  then show ?case by (simp add: ctl_words_def)
next
  case (Cons a args)
  obtain k v where a: "a = (k, v)" by (metis prod.exhaust)
  have "ctl_words (a # args) = (''--'' @ k) # v # ctl_words args" by (simp add: ctl_words_def a)
  moreover have "''port'' \<noteq> k" "''port'' \<notin> fst ` set args" using Cons.prems a by auto
  ultimately show ?case using Cons.IH [of "ln\<lparr>ct_args := ct_args ln @ [a]\<rparr>"] a by (simp add: ctl_option_def)
qed

lemma port_word:
  "ucast (ucast port :: u64) = (port :: u16)" "\<not> (ucast port :: u64) > 65535" "(ucast port :: u64) = 0 \<longleftrightarrow> port = 0"
proof -
  have l: "unat port < 65536" by (rule unat_u16_less)
  then have "unat port < 18446744073709551616" by linarith
  then have u: "unat (ucast port :: u64) = unat port"
    by (simp add: unsigned_ucast_eq take_bit_nat_eq_self_iff)
  have "\<not> 65535 < unat port" using l by linarith
  then show "\<not> (ucast port :: u64) > 65535" using u by (simp add: word_less_nat_alt)
  show "ucast (ucast port :: u64) = (port :: u16)"
  proof -
    have "unat (ucast (ucast port :: u64) :: u16) = take_bit 16 (unat (ucast port :: u64))"
      using unsigned_ucast_eq [of "ucast port :: u64", where ?'a = nat and ?'c = 16] by simp
    then show ?thesis using u l by (simp only: word_unat_eq_iff) (simp add: take_bit_nat_eq_self_iff)
  qed
  show "(ucast port :: u64) = 0 \<longleftrightarrow> port = 0" using u by (metis unat_eq_zero)
qed

lemma ctl_scan_line:
  assumes "port \<noteq> 0" "command \<noteq> []" "take 2 command \<noteq> ''--''" "''port'' \<notin> fst ` set args"
  shows "ctl_scan (''--port'' # show_u64 (ucast port) # command # ctl_words args) blank_line =
    Inr \<lparr>ct_port = port, ct_command = command, ct_args = args\<rparr>"
proof -
  have "command \<noteq> ''--port''" using assms(3) by auto
  then show ?thesis
    using assms ctl_scan_words [OF assms(4), of "[]"]
    by (simp add: ctl_option_def blank_line_def port_word)
qed

text \<open>The first number under a key is the one that counts.\<close>

lemma value_of_first:
  "k \<notin> fst ` set xs \<Longrightarrow> value_of \<lparr>ct_port = port, ct_command = command, ct_args = xs @ (k, show_u64 v) # ys\<rparr> k d = v"
proof -
  have "k \<notin> fst ` set xs \<Longrightarrow> value_in (xs @ (k, show_u64 v) # ys) k d = v"
    by (induction xs) auto
  then show "k \<notin> fst ` set xs \<Longrightarrow> ?thesis" by (simp add: value_of_def)
qed

section \<open>The programs end\<close>

lemma connects: "retries < 0xFFFFFFFF \<Longrightarrow> \<exists>s c'. client_connect answer retries c = Some (s, c')"
  using connect_attempts_returns [of retries 0 answer 0 "cl_connection c"]
  by (auto simp: client_connect_def connect_loopback_def)

lemma ctl_always_ends: "\<exists>ls e c. ctl_main w argv = Some ((ls, e), c)"
proof -
  obtain s c where "client_connect (cw_dial w) 400 client_new = Some (s, c)"
    using connects [of 400 "cw_dial w" client_new] by auto
  then show ?thesis
    by (auto simp: ctl_main_def ctl_run_def split: sum.split) (metis prod.exhaust)+
qed

definition bounded_exit :: "part \<Rightarrow> bool" where
  "bounded_exit p = (case fst (snd p) of None \<Rightarrow> True | Some e \<Rightarrow> e \<le> 5)"

lemma bounded_after: "bounded_exit p \<Longrightarrow> (\<And>c. bounded_exit (k c)) \<Longrightarrow> bounded_exit (after p k)"
proof -
  assume p: "bounded_exit p" and k: "\<And>c. bounded_exit (k c)"
  obtain ls r c where c: "p = (ls, r, c)" by (metis prod.exhaust)
  show "bounded_exit (after p k)"
    using p k [of c] by (cases r) (simp_all add: c after_def bounded_exit_def split_beta)
qed

lemma bounded_rounds: "bounded_exit (agent_rounds o1 io n i c)"
proof (induction n arbitrary: i c)
  case (Suc n)
  have "bounded_exit (agent_round o1 (\<lambda>k. io (2 * unat i + k)) i c)"
    by (auto simp: bounded_exit_def agent_round_def Let_def split_beta split: sum.split)
  then show ?case by (simp add: bounded_after Suc.IH)
qed (simp add: bounded_exit_def)

lemma bounded_parts: "bounded_exit (agent_ready w o1 c)" "bounded_exit (agent_configure o1 io c)"
  by (simp_all add: bounded_exit_def agent_ready_def agent_configure_def Let_def split_beta)

lemma exit_after: "(\<And>c. fst (snd (k c)) \<noteq> None) \<Longrightarrow> fst (snd (after p k)) \<noteq> None"
  by (simp add: after_def split_beta split: prod.split option.split)

lemma work_ends: "\<exists>ls e c'. agent_work w o1 c = (ls, Some e, c') \<and> e \<le> 5"
proof -
  have "fst (snd (agent_work w o1 c)) \<noteq> None"
    unfolding agent_work_def by (intro exit_after) simp
  moreover have "bounded_exit (agent_work w o1 c)"
    unfolding agent_work_def
    by (intro bounded_after bounded_rounds bounded_parts)
       (simp_all add: bounded_parts bounded_exit_def [of "(x, Some y, z)" for x y z] bounded_exit_def [of "(x, None, z)" for x z] Let_def split_beta)
  ultimately show ?thesis
    by (cases "agent_work w o1 c") (auto simp: bounded_exit_def)
qed

lemma agent_always_ends: "\<exists>ls e c. agent_main w argv = Some (ls, Some e, c) \<and> e \<le> 5"
proof -
  obtain s c where "client_connect (aw_dial w) 40 client_new = Some (s, c)"
    using connects [of 40 "aw_dial w" client_new] by auto
  then show ?thesis
    using work_ends [of w] by (auto simp: agent_main_def split: option.split)
qed

lemma registration_returns: "\<exists>s f'. daemon_register w b f = Some (s, f')"
  using run_finishes [of "RQ_register_backend (Some 0)"
      "map (\<lambda>k. (w k)\<lparr>en_describe := \<lambda>_. synthetic_describe b\<rparr>) [0..<kOperationSteps]" f]
  by (auto simp: daemon_register_def kOperationSteps_def)

lemma daemon_always_decides: "\<exists>ls r. daemon_begin w argv = Some (ls, r) \<and> r \<in> Inl ` {2..7} \<union> range Inr"
proof -
  have l: "\<exists>ls r. daemon_listen w o1 f = (ls, r) \<and> r \<in> Inl ` {2..7} \<union> range Inr" for o1 f
    by (auto simp: daemon_listen_def split: prod.split sum.split)
  have "\<exists>ls r. daemon_setup w o1 = Some (ls, r) \<and> r \<in> Inl ` {2..7} \<union> range Inr" for o1
  proof -
    obtain s f where "start_fabric (dw_start w) (fabric_new (daemon_config o1) (dw_disk w)) = (s, f)"
      by (metis prod.exhaust)
    moreover obtain s' f' where "daemon_register (dw_register w) (daemon_backend o1) f = Some (s', f')"
      using registration_returns by blast
    ultimately show ?thesis using l [of o1 f'] by (auto simp: daemon_setup_def)
  qed
  then show ?thesis by (auto simp: daemon_begin_def split: option.split)
qed

section \<open>pacingd\<close>

lemma register_accepted:
  assumes "register_backend en (Some h) now f = ((s, ev), g)" "st_ok s" "fb_backends f = []"
  shows "fb_running f" "descriptor_usable (en_describe en h)"
    "fb_backends g = [(gr_id (bd_ref (en_describe en h)), h)]"
    "fb_running g = fb_running f" "fb_envelopes g = fb_envelopes f" "fb_attempts g = fb_attempts f"
    "fb_epoch g = fb_epoch f" "fb_boot g = fb_boot f" "fb_active g = fb_active f"
  using assms
  by (auto simp: register_backend_def check_backend_def find_backend_def not_running_def st_ok_def Let_def split_beta
      split: sum.splits if_splits)

lemma run_done [simp]: "run_job ens (J_done oc) f = ([], J_done oc, f)"
  by (induction ens) simp_all

lemma sixteen: "[0..<kOperationSteps] = 0 # 1 # 2 # 3 # [4..<kOperationSteps]"
  by (simp add: kOperationSteps_def upt_conv_Cons)

lemma registration:
  assumes "daemon_register w b f = Some (s, f')"
  shows "\<exists>en now ev g. register_backend en (Some 0) now (sample_clock now (op_enter f)) = ((s, ev), g) \<and>
    en_describe en 0 = synthetic_describe b \<and> f' = op_leave (case ev of None \<Rightarrow> g | Some e \<Rightarrow> emit e g)"
proof -
  define v where "v k = (w k)\<lparr>en_describe := \<lambda>_. synthetic_describe b\<rparr>" for k
  let ?now = "en_clock (v 0)"
  obtain s' ev g where r: "register_backend (v 1) (Some 0) ?now (sample_clock ?now (op_enter f)) = ((s', ev), g)"
    by (metis prod.exhaust)
  have c: "call_step (v 0) (RQ_register_backend (Some 0)) f =
      (J_work (RQ_register_backend (Some 0)) ?now, sample_clock ?now (op_enter f))"
    by (simp add: call_step_def Let_def st_ok_def success_def)
  have "daemon_register w b f = Some (s', op_leave (case ev of None \<Rightarrow> g | Some e \<Rightarrow> emit e g))"
    unfolding daemon_register_def sixteen v_def [symmetric]
    using c r by (cases ev) (simp_all add: with_event_def returned_status_def split_beta)
  then have "s = s'" "f' = op_leave (case ev of None \<Rightarrow> g | Some e \<Rightarrow> emit e g)" using assms by simp_all
  moreover have "en_describe (v 1) 0 = synthetic_describe b" by (simp add: v_def)
  ultimately show ?thesis using r by blast
qed

text \<open>What holds when the accept loop begins.\<close>

definition fresh_daemon :: "daemon_options \<Rightarrow> daemon \<Rightarrow> bool" where
  "fresh_daemon o1 dm =
     (fb_running (dm_fabric dm) \<and>
      fb_backends (dm_fabric dm) = [(Id (do_backend_id o1), 0)] \<and> do_backend_id o1 \<noteq> 0 \<and>
      list_all ee_revoked (fb_envelopes (dm_fabric dm)) \<and>
      list_all (\<lambda>a. out_of_force (at_record a)) (fb_attempts (dm_fabric dm)) \<and>
      sv_started (dm_server dm) \<and> \<not> sv_stopping (dm_server dm) \<and> sv_sessions (dm_server dm) = [] \<and>
      serves (daemon_server_config o1) (dm_server dm) \<and>
      authority_fetch (Id (do_resource o1)) (dm_authority dm) = Inr (daemon_grant o1) \<and>
      g_ceiling_bps (daemon_grant o1) = do_ceiling_bps o1)"

lemma listening:
  assumes "daemon_listen w o1 f = (ls, Inr dm)"
  shows "dm_fabric dm = f" "sv_started (dm_server dm)" "\<not> sv_stopping (dm_server dm)" "sv_sessions (dm_server dm) = []"
    "serves (daemon_server_config o1) (dm_server dm)" "dm_authority dm = authority_install (daemon_grant o1) []"
proof -
  obtain p sv where s: "server_start (dw_listen w) (server_new (daemon_server_config o1)) = (Inr p, sv)"
    using assms by (auto simp: daemon_listen_def split: prod.splits sum.splits)
  then have dm: "dm = \<lparr>dm_authority = authority_install (daemon_grant o1) [], dm_backend = daemon_backend o1,
      dm_fabric = f, dm_server = sv\<rparr>"
    using assms by (auto simp: daemon_listen_def split: if_splits)
  then show "dm_fabric dm = f" "dm_authority dm = authority_install (daemon_grant o1) []" by simp_all
  show "sv_started (dm_server dm)" "\<not> sv_stopping (dm_server dm)" "sv_sessions (dm_server dm) = []"
    using s dm by (auto simp: server_start_def server_new_def split: prod.splits sum.splits)
  show "serves (daemon_server_config o1) (dm_server dm)"
    using s dm serves.start [OF serves.new, of "daemon_server_config o1" "dw_listen w"] by simp
qed

lemma daemon_is_fresh:
  assumes "daemon_begin w argv = Some (ls, Inr dm)"
  shows "\<exists>o1. parse_daemon_options argv = Some o1 \<and> fresh_daemon o1 dm"
proof -
  obtain o1 where o: "parse_daemon_options argv = Some o1" "daemon_setup w o1 = Some (ls, Inr dm)"
    using assms by (auto simp: daemon_begin_def split: option.splits)
  obtain s f where st: "start_fabric (dw_start w) (fabric_new (daemon_config o1) (dw_disk w)) = (s, f)"
    by (metis prod.exhaust)
  obtain s' f' where rg: "daemon_register (dw_register w) (daemon_backend o1) f = Some (s', f')"
    using registration_returns by blast
  have ok: "st_ok s" "st_ok s'" "daemon_listen w o1 f' = (ls, Inr dm)"
    using o(2) st rg by (auto simp: daemon_setup_def split: if_splits)
  note fresh = start_success [OF st ok(1)]
  have d: "bd_ref (synthetic_describe (daemon_backend o1)) = \<lparr>gr_id = Id (do_backend_id o1), gr_gen = Generation 1\<rparr>"
    by (simp add: synthetic_describe_def daemon_backend_def synthetic_new_def)
  obtain en now ev g where r: "register_backend en (Some 0) now (sample_clock now (op_enter f)) = ((s', ev), g)"
    and e: "en_describe en 0 = synthetic_describe (daemon_backend o1)"
    and f': "f' = op_leave (case ev of None \<Rightarrow> g | Some e \<Rightarrow> emit e g)"
    using registration [OF rg] by blast
  have "fb_backends (sample_clock now (op_enter f)) = []" using fresh(1) by (simp add: fenced_off_def)
  note a = register_accepted [OF r ok(2) this, unfolded e d]
  have g: "fb_running f'" "fb_backends f' = [(Id (do_backend_id o1), 0)]" "fb_envelopes f' = fb_envelopes f"
    "fb_attempts f' = fb_attempts f"
    using a(1,3-6) by (auto simp: f' split: option.split)
  have "do_backend_id o1 \<noteq> 0" using a(2) d by (simp add: descriptor_usable_def id_valid_def)
  moreover have "list_all ee_revoked (fb_envelopes f')" "list_all (\<lambda>a. out_of_force (at_record a)) (fb_attempts f')"
    using fresh(1) g(3,4) by (simp_all add: fenced_off_def list_all_iff)
  moreover have "authority_fetch (Id (do_resource o1)) (authority_install (daemon_grant o1) []) = Inr (daemon_grant o1)"
    by (simp add: authority_fetch_def authority_install_def daemon_grant_def)
  moreover have "g_ceiling_bps (daemon_grant o1) = do_ceiling_bps o1" by (simp add: daemon_grant_def)
  ultimately have "fresh_daemon o1 dm"
    unfolding fresh_daemon_def using g(1,2) listening [OF ok(3)] by simp
  then show ?thesis using o(1) by blast
qed

text \<open>The end: with no operation in flight a shutdown returns, and the daemon exits with zero.\<close>

lemma shutdown_alone:
  assumes "fb_initialized f" "fb_active f = 0" "6 \<le> length ens"
  shows "\<exists>g. daemon_end ens success f sv = Some ([], 0, g, server_stop sv) \<and> \<not> fb_running g \<and>
    \<not> fb_initialized g \<and> fb_backends g = [] \<and> fb_durable g = None"
proof -
  obtain e0 e1 e2 e3 e4 es where ens: "ens = e0 # e1 # e2 # e3 # e4 # es"
    using assms(3) by (auto simp: Suc_le_length_iff numeral_eq_Suc)
  show ?thesis
    using assms(1,2)
    by (simp add: ens daemon_end_def call_step_def shutdown_stop_def shutdown_close_def shutdown_clear_def
        Let_def st_ok_def success_def split_beta)
qed

section \<open>pacingctl\<close>

text \<open>The request a command stands for: the operation and its fields.\<close>

definition ctl_request :: "command_line \<Rightarrow> policy \<Rightarrow> (operation \<times> u8 list) option" where
  "ctl_request ln p =
     map_of
       [(''epoch'', (OP_Epoch, [])), (''stats'', (OP_Stats, [])), (''backends'', (OP_Backends, [])),
        (''recover'', (OP_Recover, [])), (''stop'', (OP_Stop, [])), (''advance-epoch'', (OP_AdvanceEpoch, [])),
        (''bind-flow'', (OP_BindFlow, record_bytes kControlCapacity (encode_bind_fields (ctl_binding ln)))),
        (''publish-policy'', (OP_PublishPolicy, record_bytes kControlCapacity (encode_policy p))),
        (''derive'', (OP_DeriveEnvelope, record_bytes 64 [w_u64 (value_of ln ''flow'' 0)])),
        (''apply'', (OP_ApplyEnvelope, record_bytes 64 (encode_apply_fields (first_envelope ln)
           (Id (value_of ln ''backend'' 0)) (Id (value_of ln ''attempt'' 0))))),
        (''verify'', (OP_VerifyAttempt, record_bytes 64 [w_u64 (value_of ln ''attempt'' 0)])),
        (''revalidate'', (OP_Revalidate, record_bytes 64 [w_u64 (value_of ln ''attempt'' 0)])),
        (''cancel'', (OP_CancelAttempt,
           cancel_block (Id (value_of ln ''attempt'' 0)) (text_of ln ''reason'' ''operator cancellation''))),
        (''revoke'', (OP_RevokeEnvelope,
           revoke_block (first_envelope ln) (text_of ln ''reason'' ''operator revocation''))),
        (''explain'', (OP_Explain, record_bytes 64 [w_u64 (value_of ln ''flow'' 0)]))] (ct_command ln)"

lemma ctl_calls:
  assumes "ctl_request ln p = Some (op, block)" "p_exceptions p = []"
  shows "\<exists>call. ctl_call ln p = Some call \<and> (\<forall>io c. call io c = client_call io op block c)"
proof -
  have "encodable kControlCapacity (encode_policy p)"
    using assms(2) by (simp add: sized_encodable [OF sized_policy] kControlCapacity_def)
  then show ?thesis
    using assms(1)
    by (auto simp: ctl_request_def ctl_call_def Let_def client_epoch_def client_stats_def client_backends_def
        client_recover_def client_stop_def client_advance_epoch_def client_bind_flow_def client_publish_policy_def
        client_derive_envelope_def client_apply_envelope_def client_verify_attempt_def client_revalidate_def
        client_cancel_attempt_def client_revoke_envelope_def client_explain_def call_checked_def split: if_splits)
qed

lemma reason_block_bound: "length (cancel_block a reason) \<le> 512" "length (revoke_block r reason) \<le> 512"
  by (simp_all add: cancel_block_def revoke_block_def w_ref_def record_bytes_def w_seq_def writer_new_def w_u64_def w_u32_def
      w_raw_def w_str_def w_ok_def) arith+

lemma ctl_block_bound:
  assumes "ctl_request ln p = Some (op, block)" "p_exceptions p = []"
  shows "length block \<le> 512"
proof -
  have "length (record_bytes kControlCapacity (encode_bind_fields b)) = 81"
    "length (record_bytes kControlCapacity (encode_policy p)) = 150"
    "length (record_bytes 64 (encode_apply_fields r k a)) = 32" "length (record_bytes 64 [w_u64 v]) = 8" for b r k a v
    using assms(2) sized_record_bytes [OF sized_bind_fields] sized_record_bytes [OF sized_policy]
      sized_record_bytes [OF sized_apply_fields] sized_record_bytes [OF sized_atoms(4) [OF sized_Nil]]
    by (simp_all add: kControlCapacity_def)
  then show ?thesis
    using assms(1) reason_block_bound by (auto simp: ctl_request_def split: if_splits)
qed

lemma other_call: "ct_command ln \<noteq> ''publish-policy'' \<Longrightarrow> ctl_call ln p = ctl_call ln p'"
  by (simp add: ctl_call_def Let_def)

text \<open>A command over an open connection whose peer has sent a welcome and an answer.\<close>

definition session_input :: "command_line \<Rightarrow> policy \<Rightarrow> fabric \<Rightarrow> control_request option" where
  "session_input ln p f =
     map_option (\<lambda>(op, block). \<lparr>rq_op = op, rq_stamp = stamp_of f, rq_fields = block\<rparr>) (ctl_request ln p)"

lemma ctl_session_exact:
  assumes "live_io (cw_hello w)" "live_io (cw_call w)"
    and "with_shape ln (ctl_policy ln) = Some p" "session_input ln p f = Some q"
    and "healthy (cl_connection c)" "cl_limits c = default_limits" "cl_request_id c = 0" "cl_stamp c = blank_stamp"
    and "co_incoming (cl_connection c) = wire (answer_frame 1 (welcome_response f)) @ wire (answer_frame 2 answer) @ rest"
    and "response_ready default_limits answer"
  shows "\<exists>c'. ctl_session w ln c = (ctl_report (ct_command ln) answer, c') \<and>
    co_sent (cl_connection c') = co_sent (cl_connection c) @
      wire (hello_frame 1 ''pacingctl'' blank_stamp) @ wire (request_frame 2 q)"
proof -
  obtain op block where q: "ctl_request ln p = Some (op, block)" "q = \<lparr>rq_op = op, rq_stamp = stamp_of f, rq_fields = block\<rparr>"
    using assms(4) by (auto simp: session_input_def)
  have p: "p_exceptions p = []"
    using assms(3) by (auto simp: with_shape_def ctl_policy_def blank_policy_def split: if_splits)
  have b: "length block \<le> 512" by (rule ctl_block_bound [OF q(1) p])
  have n: "name_ready (cl_limits c) ''pacingctl''" "35 \<le> unat (l_max_frame_payload_bytes (cl_limits c))"
    by (simp_all add: assms(6) name_ready_def default_limits_def)
  define c1 where "c1 = c\<lparr>cl_agent_name := ''pacingctl'', cl_request_id := cl_request_id c + 1,
      cl_connection := (cl_connection c)\<lparr>co_incoming := wire (answer_frame 2 answer) @ rest,
        co_sent := co_sent (cl_connection c) @ wire (hello_frame (cl_request_id c + 1) ''pacingctl'' (cl_stamp c))\<rparr>,
      cl_stamp := stamp_of f\<rparr>"
  have h: "handshake (cw_hello w) ''pacingctl'' c = (success, c1)"
    unfolding c1_def by (rule handshake_exact [OF assms(1,5) n assms(9)])
  have c1: "healthy (cl_connection c1)" "cl_limits c1 = default_limits" "cl_stamp c1 = stamp_of f"
    "co_incoming (cl_connection c1) = wire (answer_frame 2 answer) @ rest" "cl_request_id c1 + 1 = 2"
    using assms(5-8) by (simp_all add: c1_def healthy_def)
  have r: "request_ready (cl_limits c1) \<lparr>rq_op = op, rq_stamp = stamp_of f, rq_fields = block\<rparr>"
    using b c1(2) by (simp add: request_ready_def kControlCapacity_def default_limits_def)
  note got = client_receives [OF assms(2) c1(1) r c1(4), unfolded c1(2,5), OF assms(10)]
  obtain call where call: "ctl_call ln p = Some call" "\<And>io c. call io c = client_call io op block c"
    using ctl_calls [OF q(1) p] by blast
  let ?r = "call_with_stamp (cw_call w) op block (stamp_of f) c1"
  have "ctl_command (cw_call w) ln c1 = (ctl_report (ct_command ln) (fst ?r), snd ?r)"
  proof -
    have "\<exists>p'. (if ct_command ln = ''publish-policy'' then with_shape ln (ctl_policy ln) else Some (ctl_policy ln)) = Some p' \<and>
        ctl_call ln p' = Some call"
      using call(1) assms(3) other_call [of ln p "ctl_policy ln"] by (cases "ct_command ln = ''publish-policy''") simp_all
    then show ?thesis using call(2) c1(3) by (auto simp: ctl_command_def client_call_def split_beta)
  qed
  then have "ctl_session w ln c = (ctl_report (ct_command ln) answer, snd ?r)"
    using h got(1) by (simp add: ctl_session_def st_ok_def success_def)
  moreover have "co_sent (cl_connection (snd ?r)) = co_sent (cl_connection c) @
      wire (hello_frame 1 ''pacingctl'' blank_stamp) @ wire (request_frame 2 q)"
    using got(2) assms(7,8) by (simp add: c1_def q(2))
  ultimately show ?thesis by blast
qed

definition answers_first :: "dial_answer \<Rightarrow> u8 list \<Rightarrow> bool" where
  "answers_first a stream = (da_resolved a \<and> (\<exists>h. dial (da_addresses a) = Some (h, stream) \<and> h \<noteq> - 1))"

lemma connect_first:
  assumes "answers_first (answer 0) stream"
  shows "\<exists>c. client_connect answer retries client_new = Some (success, c) \<and> healthy (cl_connection c) \<and>
    co_incoming (cl_connection c) = stream \<and> co_sent (cl_connection c) = [] \<and>
    cl_limits c = default_limits \<and> cl_request_id c = 0 \<and> cl_stamp c = blank_stamp"
proof -
  obtain h where h: "dial (da_addresses (answer 0)) = Some (h, stream)" "h \<noteq> - 1" "da_resolved (answer 0)"
    using assms by (auto simp: answers_first_def)
  then have "da_addresses (answer 0) \<noteq> []" by auto
  then have "connect_to (answer 0) connection_new =
      (success, connection_new\<lparr>co_handle := h, co_sent := [], co_incoming := stream\<rparr>)"
    using h by (simp add: connect_to_def connection_new_def co_close_def transport_global_init_def st_ok_def success_def)
  then have "connect_attempts answer 0 0 retries connection_new =
      Some (success, connection_new\<lparr>co_handle := h, co_sent := [], co_incoming := stream\<rparr>)"
    by (subst connect_attempts.simps) (simp add: st_ok_def success_def)
  then show ?thesis
    using h(2) by (simp add: client_connect_def connect_loopback_def client_new_def healthy_def connection_new_def)
qed

lemma ctl_main_exact:
  assumes "3 \<le> length argv" "ctl_scan argv blank_line = Inr ln" "ct_command ln \<noteq> []" "ct_port ln \<noteq> 0"
    and "live_io (cw_hello w)" "live_io (cw_call w)"
    and "with_shape ln (ctl_policy ln) = Some p" "session_input ln p f = Some q"
    and "answers_first (cw_dial w 0) (wire (answer_frame 1 (welcome_response f)) @ wire (answer_frame 2 answer) @ rest)"
    and "response_ready default_limits answer"
  shows "\<exists>c. ctl_main w argv = Some (ctl_report (ct_command ln) answer, c) \<and>
    co_sent (cl_connection c) = wire (hello_frame 1 ''pacingctl'' blank_stamp) @ wire (request_frame 2 q)"
proof -
  obtain c where c: "client_connect (cw_dial w) 400 client_new = Some (success, c)" "healthy (cl_connection c)"
      "co_incoming (cl_connection c) = wire (answer_frame 1 (welcome_response f)) @ wire (answer_frame 2 answer) @ rest"
      "co_sent (cl_connection c) = []" "cl_limits c = default_limits" "cl_request_id c = 0" "cl_stamp c = blank_stamp"
    using connect_first [of "cw_dial w", OF assms(9), of 400] by blast
  show ?thesis
    using ctl_session_exact [OF assms(5-8) c(2,5-7,3) assms(10)] assms(1-4) c(1,4)
    by (auto simp: ctl_main_def ctl_run_def transport_global_init_def st_ok_def success_def)
qed

text \<open>The two turns of the server.\<close>

lemma serving_exact:
  assumes "live_io io1" "live_io io2" "healthy (ss_connection x)"
    and "co_incoming (ss_connection x) = wire (hello_frame 1 ''pacingctl'' blank_stamp) @ wire (request_frame 2 q)"
    and "request_ready default_limits q" "dispatch wd q d f = Some (answer, calls, d', f')"
    and "response_ready default_limits answer"
  shows "\<exists>x1 x2 t. serve_turn wd io1 default_limits x d f = Some (Again, x1, [], d, f) \<and>
    serve_turn wd io2 default_limits x1 d f = Some (t, x2, calls, d', f') \<and>
    co_sent (ss_connection x2) = co_sent (ss_connection x) @
      wire (answer_frame 1 (welcome_response f)) @ wire (answer_frame 2 answer)"
proof -
  have n: "name_ready default_limits ''pacingctl''" "35 \<le> unat (l_max_frame_payload_bytes default_limits)"
    by (simp_all add: name_ready_def default_limits_def)
  define x1 where "x1 = x\<lparr>ss_connection := (ss_connection x)\<lparr>co_incoming := wire (request_frame 2 q),
      co_sent := co_sent (ss_connection x) @ wire (answer_frame 1 (welcome_response f))\<rparr>,
      ss_established := True, ss_claimed := blank_stamp, ss_agent_name := ''pacingctl''\<rparr>"
  have t1: "serve_turn wd io1 default_limits x d f = Some (Again, x1, [], d, f)"
    unfolding x1_def by (rule welcome_exact [OF assms(1,3) n assms(4)])
  have "healthy (ss_connection x1)" "ss_established x1" "co_incoming (ss_connection x1) = wire (request_frame 2 q) @ []"
    using assms(3) by (simp_all add: x1_def healthy_def)
  from server_answers [OF assms(2) this(1,2) assms(5) this(3) assms(6,7)] t1 show ?thesis
    by (fastforce simp: x1_def)
qed

lemma session_request_ready:
  assumes "with_shape ln (ctl_policy ln) = Some p" "session_input ln p f = Some q"
  shows "request_ready default_limits q" "rq_stamp q = stamp_of f"
proof -
  obtain op block where q: "ctl_request ln p = Some (op, block)" "q = \<lparr>rq_op = op, rq_stamp = stamp_of f, rq_fields = block\<rparr>"
    using assms(2) by (auto simp: session_input_def)
  have "p_exceptions p = []"
    using assms(1) by (auto simp: with_shape_def ctl_policy_def blank_policy_def split: if_splits)
  then show "request_ready default_limits q" "rq_stamp q = stamp_of f"
    using ctl_block_bound [OF q(1)] q(2) by (simp_all add: request_ready_def kControlCapacity_def default_limits_def)
qed

section \<open>What is printed\<close>

text \<open>A command exits with zero only on a response that is Ok.\<close>

lemma report_zero: "snd (ctl_report command r) = 0 \<Longrightarrow> rs_code r = EC_Ok"
  by (auto simp: ctl_report_def report_epoch_def report_envelope_def report_attempt_def report_explanation_def
      ctl_verdict_def ctl_fail_def split_beta split: if_splits sum.splits)

lemma report_ok: "rs_code r = EC_Ok \<Longrightarrow> snd (ctl_report command r) \<in> {0, 2}"
  by (auto simp: ctl_report_def report_epoch_def report_envelope_def report_attempt_def report_explanation_def
      ctl_verdict_def ctl_fail_def split_beta split: if_splits sum.splits)

lemma refusal_is_shown:
  "rs_code r \<noteq> EC_Ok \<Longrightarrow> ctl_report command r = ([Out (error_name (rs_code r) @ '': '' @ c_text (rs_detail r))], 1)"
  by (simp add: ctl_report_def report_epoch_def report_envelope_def report_attempt_def report_explanation_def
      ctl_verdict_def print_response_def)

text \<open>The statistics are printed as a C string: the payload begins with the number of counters in
  four bytes, 24, so the line is that one character whatever the counters are.\<close>

lemma emits_counters: "emits (w_seq (map w_u64 cs)) (concat (map (le_bytes 8) cs))"
  by (induction cs) (use emits_seq_Cons [OF emits_u64] emits_seq_Nil in auto)

lemma stats_payload:
  "\<exists>rest. rs_payload (stats_answer d f) = [24, 0, 0, 0] @ rest"
proof -
  define cs where "cs = map (fb_stats f) reported_stats @ [dp_served d, dp_refused d, dp_stale d]"
  have n: "length cs = 24" by (simp add: cs_def reported_stats_def)
  have e: "emits (w_seq (w_u32 24 # map w_u64 cs)) (le_bytes 4 (24 :: u32) @ concat (map (le_bytes 8) cs))"
    by (rule emits_seq_Cons [OF emits_u32 emits_counters])
  have "length (concat (map (le_bytes 8) cs)) = 192"
    using n by (simp add: length_concat comp_def sum_list_triv)
  then have "record_bytes 512 (w_u32 24 # map w_u64 cs) = le_bytes 4 (24 :: u32) @ concat (map (le_bytes 8) cs)"
    using e unfolding emits_def by (auto simp: record_bytes_def writer_new_def w_bounded_def w_ok_def dest!: spec [of _ "writer_new 512"])
  moreover have "le_bytes 4 (24 :: u32) = [24, 0, 0, 0]" by code_simp
  ultimately show ?thesis
    using n by (simp add: stats_answer_def carrying_unchecked_def Let_def cs_def [symmetric])
qed

lemma stats_shows_one_character: "ctl_report ''stats'' (stats_answer d f) = ([Out [CHR 0x18]], 0)"
proof -
  obtain rest where "rs_payload (stats_answer d f) = [24, 0, 0, 0] @ rest" using stats_payload by blast
  moreover have "char_of_byte 24 = CHR 0x18" "char_of_byte 0 = CHR 0x00" by code_simp+
  moreover have "rs_code (stats_answer d f) = EC_Ok"
    by (simp add: stats_answer_def carrying_unchecked_def ok_response_def)
  ultimately show ?thesis
    by (simp add: ctl_report_def ctl_verdict_def print_response_def c_text_def)
qed

end
