(* ===== verification/PF_Sessions.thy ===== *)
theory PF_Sessions
  imports PF_Operator
begin

text \<open>
  Concrete runs of the programs for the witnesses: a daemon without a durable directory, and an
  operator asking for the epoch. No definition here models code.
\<close>

section \<open>A daemon\<close>

definition quiet_world :: daemon_world where
  "quiet_world =
     \<lparr>dw_disk = \<lparr>dk_snapshot = None, dk_journal = None\<rparr>, dw_start = sample_env, dw_register = (\<lambda>_. sample_env),
      dw_listen = \<lparr>la_socket = Some 3, la_bound = True, la_listening = True, la_port = Some 9411\<rparr>,
      dw_port_file_opens = True\<rparr>"

definition quiet_options :: daemon_options where
  "quiet_options = daemon_defaults\<lparr>do_quiet := True\<rparr>"

lemma quiet_parsed: "parse_daemon_options [''--quiet''] = Some quiet_options"
  by (simp add: parse_daemon_options_def daemon_option_def quiet_options_def)

lemma quiet_started:
  "\<exists>f. start_fabric sample_env (fabric_new (daemon_config quiet_options) (dw_disk quiet_world)) = (success, f) \<and>
     fb_running f \<and> fb_durable f = None \<and> fb_backends f = [] \<and> fb_limits f = default_limits"
proof -
  have c: "st_ok (check_config (daemon_config quiet_options))" by code_simp
  have d: "fc_enable_durability (daemon_config quiet_options) = False" "fc_limits (daemon_config quiet_options) = default_limits"
    by (simp_all add: daemon_config_def quiet_options_def daemon_defaults_def)
  have n: "fb_initialized (sample_clock now (fabric_new k dsk)) = False" "fb_config (sample_clock now (fabric_new k dsk)) = k"
    "fb_durable (sample_clock now (fabric_new k dsk)) = None" "fb_backends (sample_clock now (fabric_new k dsk)) = []"
    for now k dsk
    by (simp_all add: fabric_new_def sample_clock_def)
  show ?thesis
    using c d n
    by (simp add: start_fabric_def initialize_def initialize_durability_def Let_def split_beta make_nonce_def
        st_ok_def success_def)
qed

lemma sized_descriptor:
  "length (bd_name d) \<le> kMaxStringBytes \<Longrightarrow> sized (encode_backend_descriptor d) (46 + length (bd_name d))"
  unfolding encode_backend_descriptor_def by (rule sized_eq, (rule size_rules | assumption)+, simp)

lemma quiet_registered:
  assumes "fb_running f" "fb_durable f = None" "fb_backends f = []" "fb_limits f = default_limits"
    and "en_describe en 0 = synthetic_describe (daemon_backend quiet_options)"
  shows "\<exists>ev g. register_backend en (Some 0) now f = ((success, ev), g)"
proof -
  have d: "descriptor_usable (en_describe en 0)" "length (bd_name (en_describe en 0)) = 16"
    by (simp_all add: assms(5) descriptor_usable_def synthetic_describe_def daemon_backend_def synthetic_new_def
        quiet_options_def daemon_defaults_def ref_known_def id_valid_def gen_known_def)
  have "length (bd_name (en_describe en 0)) \<le> kMaxStringBytes" using d(2) by (simp add: kMaxStringBytes_def)
  then have "sized (encode_backend_descriptor (en_describe en 0)) (46 + length (bd_name (en_describe en 0)))"
    by (rule sized_descriptor)
  then have "encodable 1024 (encode_backend_descriptor (en_describe en 0))" using d(2) by (simp add: sized_encodable)
  then have "\<exists>payload. encoded 1024 (encode_backend_descriptor (en_describe en 0)) = Inr payload"
    by (simp add: encoded_def encodable_def Let_def w_ok_def)
  then show ?thesis
    using assms(1-4) d
    by (auto simp: register_backend_def check_backend_def find_backend_def Let_def memory_journal default_limits_def)
qed

lemma quiet_daemon: "\<exists>dm. daemon_begin quiet_world [''--quiet''] = Some ([], Inr dm)"
proof -
  obtain f where f: "start_fabric sample_env (fabric_new (daemon_config quiet_options) (dw_disk quiet_world)) = (success, f)"
    "fb_running f" "fb_durable f = None" "fb_backends f = []" "fb_limits f = default_limits"
    using quiet_started by blast
  obtain s f' where rg: "daemon_register (dw_register quiet_world) (daemon_backend quiet_options) f = Some (s, f')"
    using registration_returns by blast
  obtain en now ev g where r: "register_backend en (Some 0) now (sample_clock now (op_enter f)) = ((s, ev), g)"
    "en_describe en 0 = synthetic_describe (daemon_backend quiet_options)"
    using registration [OF rg] by blast
  have "s = success"
    using quiet_registered [OF _ _ _ _ r(2), of "sample_clock now (op_enter f)" now] f(2-5) r(1) by auto
  moreover have "\<exists>dm. daemon_listen quiet_world quiet_options f' = ([], Inr dm)"
    by (simp add: daemon_listen_def server_start_def server_new_def listen_loopback_def transport_global_init_def st_ok_def
        success_def quiet_world_def quiet_options_def daemon_defaults_def)
  ultimately show ?thesis
    using f(1) rg by (simp add: daemon_begin_def quiet_parsed daemon_setup_def transport_global_init_def st_ok_def success_def quiet_world_def)
qed

section \<open>An operator\<close>

definition operator_input :: control_request where
  "operator_input = \<lparr>rq_op = OP_Epoch, rq_stamp = stamp_of applied_fabric, rq_fields = []\<rparr>"

definition operator_world :: ctl_world where
  "operator_world =
     \<lparr>cw_dial = (\<lambda>_. \<lparr>da_resolved = True, da_addresses = [(Some 4, True,
        wire (answer_frame 1 (welcome_response applied_fabric)) @ wire (answer_frame 2 sample_answer))]\<rparr>),
      cw_hello = sample_io, cw_call = sample_io\<rparr>"

definition operator_session :: session where
  "operator_session =
     session_new (adopt 5 (wire (hello_frame 1 ''pacingctl'' blank_stamp) @ wire (request_frame 2 operator_input)))"

definition operator_line :: command_line where
  "operator_line = \<lparr>ct_port = 9411, ct_command = ''epoch'', ct_args = []\<rparr>"

definition operator_words :: "string list" where
  "operator_words = [''--port'', show_u64 9411, ''epoch'']"

lemma operator_parts:
  "3 \<le> length operator_words" "ctl_scan operator_words blank_line = Inr operator_line"
  "ct_command operator_line \<noteq> []" "ct_port operator_line \<noteq> 0" "live_io (cw_hello operator_world)" "live_io (cw_call operator_world)"
  "with_shape operator_line (ctl_policy operator_line) = Some (ctl_policy operator_line)"
  "session_input operator_line (ctl_policy operator_line) applied_fabric = Some operator_input"
  "answers_first (cw_dial operator_world 0)
     (wire (answer_frame 1 (welcome_response applied_fabric)) @ wire (answer_frame 2 sample_answer) @ [])"
  "healthy (ss_connection operator_session)"
  "co_incoming (ss_connection operator_session) = wire (hello_frame 1 ''pacingctl'' blank_stamp) @ wire (request_frame 2 operator_input)"
  "dispatch (\<lambda>_. sample_env) operator_input (dispatcher_new default_limits) applied_fabric =
     Some (sample_answer, [], (dispatcher_new default_limits)\<lparr>dp_served := 1\<rparr>, applied_fabric)"
  "epoch_valid (fb_epoch applied_fabric)"
proof -
  show "ctl_scan operator_words blank_line = Inr operator_line"
    using ctl_scan_line [of 9411 "''epoch''" "[]"]
    by (simp add: operator_words_def operator_line_def ctl_words_def)
  show "answers_first (cw_dial operator_world 0)
     (wire (answer_frame 1 (welcome_response applied_fabric)) @ wire (answer_frame 2 sample_answer) @ [])"
    by (simp add: answers_first_def operator_world_def)
  show "session_input operator_line (ctl_policy operator_line) applied_fabric = Some operator_input"
    by (simp add: session_input_def ctl_request_def operator_line_def operator_input_def)
  show "dispatch (\<lambda>_. sample_env) operator_input (dispatcher_new default_limits) applied_fabric =
     Some (sample_answer, [], (dispatcher_new default_limits)\<lparr>dp_served := 1\<rparr>, applied_fabric)"
    by (simp add: dispatch_def operator_input_def checked_stale_def call_of_def direct_answer_def sample_answer_def
        ok_response_def dispatcher_new_def)
qed (simp_all add: operator_words_def operator_line_def operator_world_def operator_session_def sample_io_live with_shape_def
  has_option_def session_new_def adopt_def connection_new_def healthy_def hello_names)

end
