(* ===== verification/Spec2Isabelle.thy ===== *)
theory Spec2Isabelle
  imports PF_Samples PF_Backend PF_Crc32c PF_Application PF_Codec PF_Durable PF_Serialize PF_Upstream PF_Binding PF_Policy PF_Ledger PF_Commit PF_Typing PF_Sessions
begin

text \<open>
  Pacing Fabric: a model of the coordinator library, of the control protocol in front of it and of the
  programs that host, drive and operate it.

  \<^bold>\<open>The program.\<close> A coordinator (\<^verbatim>\<open>PacingFabric\<close>, \<^verbatim>\<open>src/fabric.cpp\<close>) turns authored intent
  into paced traffic. A flow is bound to a resource and a path (\<^verbatim>\<open>binding.cpp\<close>), a policy says
  what rate is asked for (\<^verbatim>\<open>policy.cpp\<close>), an upstream authority grants a ceiling
  (\<^verbatim>\<open>upstream.hpp\<close>). From the three an envelope is derived (\<^verbatim>\<open>envelope.cpp\<close>, \<^verbatim>\<open>rate.cpp\<close>): a
  cadence under a vector of the generations it rests on, valid for a time. Applying an envelope is
  an attempt (\<^verbatim>\<open>application.cpp\<close>): reserved, journalled, handed to a backend, read back, and
  asserted only when the readback matches. Every record is journalled and checkpointed
  (\<^verbatim>\<open>durable.cpp\<close>, \<^verbatim>\<open>serialize.cpp\<close>, \<^verbatim>\<open>codec.hpp\<close>, \<^verbatim>\<open>crc32c.cpp\<close>); a restart replays
  them, raises the epoch and leaves nothing in force. Clients reach the coordinator through frames on
  a stream socket (\<^verbatim>\<open>transport.cpp\<close>), a dispatcher, a server and a client (\<^verbatim>\<open>control.cpp\<close>);
  \<^verbatim>\<open>explain.cpp\<close> renders why a flow is paced as it is. \<^verbatim>\<open>pacingd\<close> hosts a coordinator,
  \<^verbatim>\<open>pacing-agent\<close> drives one, \<^verbatim>\<open>pacingctl\<close> is the operator's command line (\<^verbatim>\<open>tools\<close>).

  \<^bold>\<open>Which theory models what.\<close>
  \<^item> Data and arithmetic: \<^verbatim>\<open>PF_Prelude\<close> (word types, fact collections, generic lemmas),
    \<^verbatim>\<open>PF_Status\<close> (\<^verbatim>\<open>status.cpp\<close>; \<^verbatim>\<open>Result\<close> is a sum), \<^verbatim>\<open>PF_Checked\<close> (\<^verbatim>\<open>checked.hpp\<close>, at width),
    \<^verbatim>\<open>PF_Ids\<close> (\<^verbatim>\<open>id.cpp\<close>), \<^verbatim>\<open>PF_Time\<close> (\<^verbatim>\<open>time.cpp\<close>), \<^verbatim>\<open>PF_Limits\<close> (\<^verbatim>\<open>limits.cpp\<close>),
    \<^verbatim>\<open>PF_Rate\<close> (\<^verbatim>\<open>rate.cpp\<close>), \<^verbatim>\<open>PF_Envelope\<close> (\<^verbatim>\<open>envelope.cpp\<close>), \<^verbatim>\<open>PF_Application\<close>
    (\<^verbatim>\<open>application.cpp\<close>, \<^verbatim>\<open>events.cpp\<close>), \<^verbatim>\<open>PF_Text\<close> (printed forms).
  \<^item> Stores: \<^verbatim>\<open>PF_Registry\<close> (the interface of generation-bound publications, a locale and its
    extension), interpreted by \<^verbatim>\<open>PF_Policy\<close> (\<^verbatim>\<open>policy.cpp\<close>) and \<^verbatim>\<open>PF_Binding\<close>
    (\<^verbatim>\<open>binding.cpp\<close>); \<^verbatim>\<open>PF_Upstream\<close> (\<^verbatim>\<open>StaticRateAuthority\<close>, the locale of rate authorities);
    \<^verbatim>\<open>PF_Backend\<close> (\<^verbatim>\<open>SyntheticPacingBackend\<close>, the locale of backends).
  \<^item> Bytes: \<^verbatim>\<open>PF_Codec\<close> (\<^verbatim>\<open>codec.hpp\<close>; writer and reader, the locale of codecs), \<^verbatim>\<open>PF_Serialize\<close>
    (\<^verbatim>\<open>serialize.cpp\<close>, interpreting it for every record), \<^verbatim>\<open>PF_Typing\<close> (what decoders return),
    \<^verbatim>\<open>PF_Crc32c\<close> (\<^verbatim>\<open>crc32c.cpp\<close>), \<^verbatim>\<open>PF_Durable\<close> (\<^verbatim>\<open>durable.cpp\<close>: journal, snapshot, recovery).
  \<^item> The coordinator: \<^verbatim>\<open>PF_Fabric\<close> (state, tables, journalling), \<^verbatim>\<open>PF_Operations\<close> (every operation, one
    function per lock section), \<^verbatim>\<open>PF_Recovery\<close> (recovery, \<^verbatim>\<open>initialize\<close>, \<^verbatim>\<open>shutdown\<close>),
    \<^verbatim>\<open>PF_System\<close> (the transition system), \<^verbatim>\<open>PF_Explain\<close> (lookups, \<^verbatim>\<open>explain\<close>, renderings).
  \<^item> The control protocol: \<^verbatim>\<open>PF_Transport\<close> (\<^verbatim>\<open>transport.cpp\<close>), \<^verbatim>\<open>PF_Channel\<close> (the locale of
    message channels, interpreted on framed connections), \<^verbatim>\<open>PF_Control\<close> (messages and dispatcher), \<^verbatim>\<open>PF_Server\<close>, \<^verbatim>\<open>PF_Client\<close> (all of \<^verbatim>\<open>control.cpp\<close>).
  \<^item> The programs: \<^verbatim>\<open>PF_Options\<close> (numbers and option loops), \<^verbatim>\<open>PF_Tools\<close> (the three programs, a
    list of printed lines and an exit code each), \<^verbatim>\<open>PF_Operator\<close> (what they guarantee).
  \<^item> Proofs about the coordinator: \<^verbatim>\<open>PF_Frames\<close> (what helpers leave alone), \<^verbatim>\<open>PF_Ledger\<close> and
    \<^verbatim>\<open>PF_Pending\<close> (the attempt ledger), \<^verbatim>\<open>PF_Restart\<close> (recovery), \<^verbatim>\<open>PF_Effects\<close> (asserted
    effects), \<^verbatim>\<open>PF_Progress\<close> (termination, the active counter, the clock), \<^verbatim>\<open>PF_Contracts\<close> (single
    sections), \<^verbatim>\<open>PF_Governance\<close> (fencing, late completions), \<^verbatim>\<open>PF_Commit\<close> (a whole application).
    \<^verbatim>\<open>PF_Samples\<close>, \<^verbatim>\<open>PF_Runs\<close>, \<^verbatim>\<open>PF_Examples\<close> and \<^verbatim>\<open>PF_Sessions\<close> hold concrete inputs for witnesses only.

  \<^bold>\<open>How state and operations correspond.\<close> \<open>fabric\<close> has a field per member of
  \<^verbatim>\<open>PacingFabric\<close>; vectors are lists, the hash indices maps, enumerations datatypes, integers words
  of their width, so that every wrap of the source is one here. A decoder is a state monad over the
  reader; an encoder is the list of its writer calls. \<^verbatim>\<open>mu_\<close> is held for exactly one step: an
  operation in flight is a \<open>job\<close>, a step runs its next lock section or external call, and \<open>reach\<close>
  interleaves any number of jobs. What the code does not decide is in the environment of a step
  (\<open>env\<close>): the clock, the answers of authority and backend, the outcome of each file operation, the
  entropy of nonces. A property of reachable states thus holds for every such answer. \<open>run_job\<close>
  runs one operation alone. For files, \<open>disk\<close> holds the bytes a crash leaves; for sockets, functions
  say how many bytes each call takes or gives, so every cutting of a stream is covered.

  \<^bold>\<open>What the lemmas show.\<close> Derivation: no envelope exceeds ceiling, floor, burst bounds or lifetime
  of its grant, and only overflow refuses a valid request. Stores: generations grow and are not
  reused. Encodings: round trips, no prefix decodes, decoders return well-formed data. Durability:
  an append or a checkpoint that stops anywhere is recovered whole or not at all. Restart: nothing
  is in force, epoch and boot exceed every persisted one. Reachable states: the pending and active
  counters are exact, asserted effects rest on matching evidence, a distrusted clock stays so.
  Operations: they end, reserve durably before calling the backend, commit on matching evidence,
  commit nothing late, and an epoch advance fences older authority. Explanations: bounded, readable,
  asserting only justified effects. Transport: delivery over any cutting, refusal of corrupted
  frames, finality of framing failures. Control: messages round-trip, stale requests never reach the
  coordinator, every request is answered, a call returns what the dispatcher answered, the server
  bounds its connections and ends service on a stop. Programs: they end, command lines are read as
  written, a command goes through hello, server and dispatcher and is reported as answered, the daemon
  serves only what it has set up. Some properties state what the code does where
  its documentation promises something else; they say so.

  \<^bold>\<open>Bounds.\<close> The envelope counter of one incarnation is assumed not to wrap (\<open>reach\<close> stops a
  run at \<^verbatim>\<open>2^64 - 1\<close> envelopes; the code does not check it). No operation but a shutdown, which
  waits for the others, has more than sixteen sections (\<open>kOperationSteps\<close>), so sixteen steps are
  enough fuel and \<open>every_operation_finishes\<close> proves it. Loops that may not end (the connect and the
  accept loop) are partial functions, with \<open>None\<close> for not returning.

  \<^bold>\<open>Not modelled.\<close> Threads as such, condition variables and memory ordering below the lock sections;
  real sockets, files and clocks (answers of the environment); socket options and the Windows branches;
  a server \<^verbatim>\<open>stop\<close> is one step although marking and closing are apart in the code.
  Of the programs: usage texts, pauses, and what is released on the way out of \<^verbatim>\<open>main\<close>. The
  benchmark, the tests and the downstream example are no part of the program.
\<close>

section \<open>Exact arithmetic\<close>

text \<open>
  C39. The 128-by-64 multiply and divide of the code (limb products, restoring shift-subtract
  division over 128 bits) returns the exact quotient and remainder, and refuses exactly a zero
  divisor or a quotient above 64 bits.
\<close>

lemma wide_division_exact:
  "mul_div_mod a b d =
     (if d = 0 \<or> unat a * unat b div unat d \<ge> 2 ^ 64 then None
      else Some (of_nat (unat a * unat b div unat d), of_nat (unat a * unat b mod unat d)))"
  by (rule mul_div_mod_exact)

section \<open>Derivation of a cadence\<close>

text \<open>
  C9. Whenever derive_cadence succeeds, the cadence it returns has a rate between the floors
  (upstream and authored) and the upstream ceiling, its grants never release bytes faster than the
  ceiling (per grant interval and per window), and its burst is within every bound that was passed
  in.
\<close>

lemma derivation_never_exceeds_the_ceiling:
  assumes "derive_cadence i l = Inr out"
  shows "cadence_within i l (do_cadence out)"
  using assms by (rule derive_cadence_within)

lemma derivation_never_exceeds_the_ceiling_witness:
  "derive_cadence sample_input default_limits = Inr sample_outcome \<and>
   cadence_within sample_input default_limits sample_cadence"
  using derivation_never_exceeds_the_ceiling [OF sample_derives] sample_derives
  by (simp add: sample_outcome_def)

text \<open>
  C31. When the bound checks, the target, the interval and the burst of derive_cadence are
  accepted under coherent limits, the derivation succeeds exactly when the 64-bit product of the
  bytes of a window with the bits-times-nanoseconds factor does not overflow, and its only
  remaining refusal is ArithmeticOverflow.
\<close>

lemma derivation_refuses_only_overflow:
  assumes "limits_are_coherent l" "st_ok (derivation_bounds i l)"
    and "derivation_target i l = Inr (t, cc, cf)" "derivation_interval i l t = Inr x"
    and "derivation_burst i l t = Inr (b, p)"
  shows "(so_ok (derive_cadence i l) \<longleftrightarrow>
            unat (di_window_ns i) div unat x * unat (di_quantum_bytes i) * 8000000000 \<le> 2 ^ 64 - 1) \<and>
         (\<not> so_ok (derive_cadence i l) \<longrightarrow> so_code (derive_cadence i l) = EC_ArithmeticOverflow)"
  using derive_cadence_complete [OF assms] by simp

lemma derivation_refuses_only_overflow_witness:
  "so_ok (derive_cadence sample_input default_limits)"
proof -
  have b: "st_ok (derivation_bounds sample_input default_limits)" by code_simp
  have t: "derivation_target sample_input default_limits = Inr (5000000000, False, False)" by code_simp
  have i: "derivation_interval sample_input default_limits 5000000000 = Inr 2400" by code_simp
  have p: "derivation_burst sample_input default_limits 5000000000 = Inr (1500, 1)" by code_simp
  have "unat (di_window_ns sample_input) = 1000000" "unat (di_quantum_bytes sample_input) = 1500"
    by (simp_all add: sample_input_def)
  with derivation_refuses_only_overflow [OF default_limits_coherent b t i p] show ?thesis by simp
qed

section \<open>Authority, bindings and policies\<close>

text \<open>
  C24. Over any history of publications and removals of a policy store, a policy found under an
  identity with the same generation as an earlier one is that very policy: a removed and
  republished policy never comes back under a generation a holder may still cite.
\<close>

lemma policy_generations_never_reused:
  assumes "policy_wf es" "policy_lookup k es = Some p"
    "policy_lookup k (fold (policy_op_run l) ops es) = Some p'" "policy_gen p' = policy_gen p"
  shows "p' = p"
  using assms by (rule policy_ops_no_reuse)

lemma policy_generations_never_reused_witness:
  "let es = fold (policy_op_run default_limits) [Remove (Id 21), Publish sample_policy, Remove (Id 5)] [live_entry sample_policy]
   in policy_lookup (Id 21) es \<noteq> None \<and>
      \<not> (\<exists>p. policy_lookup (Id 21) es = Some p \<and> p \<noteq> sample_policy \<and> policy_gen p = policy_gen sample_policy)"
proof -
  let ?es = "[live_entry sample_policy]"
  have wf: "policy_wf ?es" by (simp add: policy_wf_def sample_policy_def gen_first_def)
  have l: "policy_lookup (Id 21) ?es = Some sample_policy" by code_simp
  have "policy_lookup (Id 21) (fold (policy_op_run default_limits) [Remove (Id 21), Publish sample_policy, Remove (Id 5)] ?es) \<noteq> None"
    by code_simp
  then show ?thesis using policy_generations_never_reused [OF wf l] unfolding Let_def by blast
qed

text \<open>A publication makes exactly its policy visible.\<close>

lemma policy_publication_is_visible:
  assumes "policy_wf es" "policy_publish l p es = (Inr r, es')"
  shows "policy_wf es' \<and> gr_id r = policy_key p \<and> gen_known (gr_gen r) \<and>
         (\<forall>g. policy_issued (policy_key p) es = Some g \<longrightarrow> g < gr_gen r) \<and>
         (\<forall>k. policy_lookup k es' =
           (if k = policy_key p then Some (with_policy_gen (gr_gen r) p) else policy_lookup k es))"
proof -
  have "gr_id r = policy_key p \<and> gen_known (gr_gen r)"
    using assms(2) by (cases rule: policy_publish_InrE) simp_all
  then show ?thesis
    using policy_publish_wf [OF assms] policy_publish_issued_less [OF assms(2)] policy_publish_lookup [OF assms]
    by blast
qed

lemma rebinding_invalidates_holders:
  assumes "binding_wf es" "binding_lookup f es = Some old" "binding_bind l b es = (s, es')" "st_ok s"
    and "b_flow b = f"
  shows "\<exists>new. binding_lookup f es' = Some new \<and> b_gen old < b_gen new"
proof -
  have p: "binding_put l b es = Some es'" using assms(3,4) by (simp add: binding_put_def)
  obtain new where "binding_lookup f es' = Some new"
    using bindings.put_get [OF assms(1) p] assms(5) by blast
  then show ?thesis using bindings.put_advances [OF assms(1) p] assms(2,5) by blast
qed

lemma rebinding_invalidates_holders_witness:
  "\<exists>new. binding_lookup (Id 1) (snd (binding_bind default_limits sample_binding [live_entry (sample_binding\<lparr>b_gen := gen_first\<rparr>)])) = Some new \<and>
         gen_first < b_gen new"
proof -
  let ?es = "[live_entry (sample_binding\<lparr>b_gen := gen_first\<rparr>)]"
  have "binding_wf ?es" by (simp add: binding_wf_def live_unique_def gen_first_def sample_binding_def)
  moreover have "binding_lookup (Id 1) ?es = Some (sample_binding\<lparr>b_gen := gen_first\<rparr>)" by code_simp
  moreover have "st_ok (fst (binding_bind default_limits sample_binding ?es))" by code_simp
  ultimately show ?thesis
    using rebinding_invalidates_holders [of ?es "Id 1" "sample_binding\<lparr>b_gen := gen_first\<rparr>" default_limits sample_binding]
    by (simp add: sample_binding_def prod_eq_iff)
qed

text \<open>After an unbind the generations of a flow start again.\<close>

lemma unbinding_forgets_the_generation:
  assumes "binding_bind l b [] = (s1, es1)" "st_ok s1" "\<not> gen_known (b_gen b)"
    and "binding_unbind (b_flow b) es1 = (s2, es2)"
    and "\<not> gen_known (b_gen b')" "b_flow b' = b_flow b"
    and "binding_bind l b' es2 = (s3, es3)" "st_ok s3"
  shows "binding_lookup (b_flow b) es1 = Some (b\<lparr>b_gen := gen_first\<rparr>) \<and>
         binding_lookup (b_flow b) es3 = Some (b'\<lparr>b_gen := gen_first\<rparr>)"
  using assms by (rule rebind_after_unbind)

section \<open>The backend contract\<close>

text \<open>
  C32. The synthetic backend implements the backend contract: what an accepted apply installed is
  what the next readback of that attempt reports, rate, quantum, burst and interval.
\<close>

lemma readback_reports_the_installed_effect:
  assumes "synthetic_inv w" "synthetic_apply rq w = ((s, ack), w1)" "ack_accepted ack"
    and "synthetic_readback rq w1 = ((s', ev), w2)"
  shows "ev_present ev \<and> observed_effect ev = cadence_effect (rq_cadence rq) \<and> ev_attempt ev = rq_attempt rq"
  using assms by (rule synthetic.install_observe)

lemma readback_reports_the_installed_effect_witness:
  "observed_effect (snd (fst (synthetic_readback sample_request
      (snd (synthetic_apply sample_request (synthetic_new (mk_ref (Id 9) gen_first) ''s'')))))) =
   (5000000000, 1500, 1500, 2400)"
proof -
  let ?w = "synthetic_new (mk_ref (Id 9) gen_first) ''s''"
  have i: "synthetic_inv ?w" by code_simp
  have a: "ack_accepted (snd (fst (synthetic_apply sample_request ?w)))" by code_simp
  obtain s ack w1 where 1: "synthetic_apply sample_request ?w = ((s, ack), w1)" by (metis prod.exhaust)
  obtain s' ev w2 where 2: "synthetic_readback sample_request w1 = ((s', ev), w2)" by (metis prod.exhaust)
  have "cadence_effect (rq_cadence sample_request) = (5000000000, 1500, 1500, 2400)" by code_simp
  with readback_reports_the_installed_effect [OF i 1 _ 2] a show ?thesis by (simp add: 1 2)
qed

section \<open>Encodings\<close>

text \<open>The round trip of policies.\<close>

lemma policy_roundtrip:
  assumes "policy_decodable l p" "150 + 44 * length (p_exceptions p) \<le> cap"
  shows "run_state (decode_policy l) (reader_new (record_bytes cap (encode_policy p) @ rest)) = (Inr p, reader_new rest)"
  using assms by (intro policy_codec.decode_encode) (simp add: sized_encodable [OF sized_policy])

text \<open>The round trip of envelopes.\<close>

lemma envelope_roundtrip:
  assumes "envelope_wf e" "310 \<le> cap"
  shows "length (record_bytes cap (encode_envelope e)) = 310 \<and>
         run_state (decode_envelope l) (reader_new (record_bytes cap (encode_envelope e) @ rest)) = (Inr e, reader_new rest)"
  using assms sized_encodable [OF sized_envelope] sized_record_bytes [OF sized_envelope]
    envelope_codec.decode_encode by blast

text \<open>
  C30. Decoding the encoding of a well-formed application attempt returns the attempt and leaves
  exactly the bytes that follow it; the encoding fits whenever the writer has 327 bytes and the
  detail text.
\<close>

lemma attempt_roundtrip:
  assumes "attempt_wf l r" "327 + length (r_detail r) \<le> cap"
  shows "run_state (decode_attempt l) (reader_new (record_bytes cap (encode_attempt r) @ rest)) = (Inr r, reader_new rest)"
  using assms by (intro attempt_codec.decode_encode) (simp add: sized_encodable [OF sized_attempt] attempt_wf_def)

lemma attempt_roundtrip_witness:
  "run_state (decode_attempt default_limits) (reader_new (record_bytes 4096 (encode_attempt sample_record))) =
     (Inr sample_record, reader_new [])"
proof -
  have "attempt_wf default_limits sample_record"
    by (simp add: attempt_wf_def sample_defs av_complete_def boot_valid_def gen_first_def default_limits_def kMaxStringBytes_def)
  moreover have "327 + length (r_detail sample_record) \<le> 4096" by (simp add: sample_record_def)
  ultimately show ?thesis using attempt_roundtrip [of default_limits sample_record 4096 "[]"] by simp
qed

text \<open>No proper prefix of an encoded attempt decodes.\<close>

lemma truncated_attempt_is_refused:
  assumes "attempt_wf l r" "327 + length (r_detail r) \<le> cap" "n < 327 + length (r_detail r)"
  shows "run_state (decode_attempt l) (reader_new (take n (record_bytes cap (encode_attempt r)))) \<noteq> (Inr y, reader_new [])"
proof -
  have s: "sized (encode_attempt r) (327 + length (r_detail r))"
    using assms(1) by (intro sized_attempt) (simp add: attempt_wf_def)
  show ?thesis
    using attempt_codec.truncated [of l r cap n] assms sized_encodable [OF s] sized_record_bytes [OF s] by auto
qed

section \<open>Durability\<close>

text \<open>
  C40. The table-driven checksum equals the bit-by-bit reference definition of CRC-32C for every
  seed and input.
\<close>

lemma checksum_is_the_bitwise_crc: "crc32c_extend seed data = crc_bitwise seed data"
  by (rule crc32c_extend_bitwise)

text \<open>
  C25. A journal cut at any byte is loaded as the longest prefix of whole records that fits before
  the cut, without those the snapshot barrier covers.
\<close>

lemma cut_journal_recovers_a_prefix:
  assumes "snapshot_holds l (dk_snapshot k) snap barrier" "list_all (frame_ok l) js"
    and "n \<le> length (sum_frames js)" "dk_journal k = Some (journal_header @ take n (sum_frames js))"
    and "kJournalHeaderBytes + n \<le> unat (l_max_journal_bytes l)"
  shows "\<exists>c \<le> length js. recovered_by l k = Some (snap @ filter (\<lambda>r. barrier < dr_sequence r) (take c js)) \<and>
           length (sum_frames (take c js)) \<le> n \<and>
           (c < length js \<longrightarrow> n < length (sum_frames (take (Suc c) js)))"
  using assms by (rule recovered_by_cut)

lemma cut_journal_recovers_a_prefix_witness:
  "recovered_by default_limits \<lparr>dk_snapshot = None, dk_journal = Some (journal_header @ take 5 (sum_frames [sample_durable]))\<rparr> = Some []"
proof -
  let ?k = "\<lparr>dk_snapshot = None, dk_journal = Some (journal_header @ take 5 (sum_frames [sample_durable]))\<rparr>"
  have l: "length (sum_frames [sample_durable]) = kRecordHeaderBytes + 3"
    by (simp add: sample_durable_def)
  have ok: "list_all (frame_ok default_limits) [sample_durable]"
    by (simp add: frame_ok_def sample_durable_def default_limits_def record_types_def)
  have k: "5 \<le> length (sum_frames [sample_durable])" "\<not> length (sum_frames [sample_durable]) \<le> 5"
    unfolding l by (simp_all add: kRecordHeaderBytes_def)
  have j: "dk_journal ?k = Some (journal_header @ take 5 (sum_frames [sample_durable]))" by simp
  have s: "snapshot_holds default_limits (dk_snapshot ?k) [] 0" by (simp add: snapshot_holds_def)
  have b: "kJournalHeaderBytes + 5 \<le> unat (l_max_journal_bytes default_limits)"
    by (simp add: kJournalHeaderBytes_def default_limits_def)
  obtain c where "c \<le> 1" "recovered_by default_limits ?k = Some (filter (\<lambda>r. 0 < dr_sequence r) (take c [sample_durable]))"
    "length (sum_frames (take c [sample_durable])) \<le> 5"
    using cut_journal_recovers_a_prefix [OF s ok k(1) j b] by auto
  then show ?thesis using k(2) by (cases c) auto
qed







section \<open>The coordinator\<close>

subsection \<open>Restarts\<close>

text \<open>
  C1. After initialize succeeds, on whatever disk and with whatever answers of the file system, no
  envelope of the ledger is in force, no backend is registered, no attempt is pending, and no
  attempt is reported with an effect: each is terminal and requires revalidation.
\<close>

lemma restart_leaves_nothing_in_force:
  assumes "start_fabric en (fabric_new c dsk) = (s0, f0)" "st_ok s0"
  shows "(\<forall>e \<in> set (fb_envelopes f0). ee_revoked e) \<and> fb_backends f0 = [] \<and> fb_pending f0 = 0 \<and>
    (\<forall>a \<in> set (fb_attempts f0). r_requires_revalidation (at_record a) \<and> r_effect (at_record a) = EL_None \<and>
       is_terminal (r_state (at_record a)) \<and> r_state (at_record a) \<notin> {AS_Applied, AS_AppliedUnverified, AS_Mismatched})"
  using start_success(1) [OF assms] by (simp add: fenced_off_def out_of_force_def)

lemma restart_leaves_nothing_in_force_witness:
  "fb_backends sample_fabric = [] \<and> fb_pending sample_fabric = 0"
  using restart_leaves_nothing_in_force [of sample_env sample_config sample_disk _ sample_fabric] sample_starts(1) by blast

text \<open>
  C22. After initialize succeeds on a durable directory, the epoch and the boot counter are
  strictly above those of every epoch record that was recovered.
\<close>

lemma restart_outranks_every_persisted_epoch:
  assumes "start_fabric en (fabric_new c dsk) = (s0, f0)" "st_ok s0"
    and "fc_enable_durability c" "fc_durable_directory c \<noteq> []"
    and "durable_open (en_open_io en) dsk (durable_new (fc_durable_directory c) (fc_limits c)) = (opened, k, d0)"
    and "d \<in> set (ds_recovered d0)" "persisted_epoch d = Some (ep, b)"
  shows "ep < fb_epoch f0 \<and> bo_counter b < bo_counter (fb_boot f0)"
  using start_success(4) [OF assms] by (simp add: less_epoch_def)

lemma restart_outranks_every_persisted_epoch_witness:
  "Epoch 5 < fb_epoch sample_fabric \<and> 3 < bo_counter (fb_boot sample_fabric)"
proof -
  have c: "fc_enable_durability sample_config" "fc_durable_directory sample_config \<noteq> []"
    by (simp_all add: sample_config_def)
  obtain d where d: "durable_open (en_open_io sample_env) sample_disk
      (durable_new (fc_durable_directory sample_config) (fc_limits sample_config)) = (success, sample_disk, d)"
    "ds_recovered d = [sample_epoch_record]"
    using sample_open by (auto simp: sample_env_def sample_config_def)
  then have m: "sample_epoch_record \<in> set (ds_recovered d)" by simp
  obtain s where s: "start_fabric sample_env (fabric_new sample_config sample_disk) = (s, sample_fabric)" "st_ok s"
    using sample_starts(1) by blast
  show ?thesis using restart_outranks_every_persisted_epoch [OF s c d(1) m sample_persisted] by simp
qed



subsection \<open>Every reachable state\<close>

text \<open>
  C3. In every reachable state the pending counter, which bounds admission, equals the number of
  live attempts that are not terminal, and the attempt index maps exactly the identities of the
  ledger to their places.
\<close>

lemma pending_count_is_exact:
  assumes "start_fabric en (fabric_new c dsk) = (s0, f0)" "st_ok s0" "reach f0 s"
  shows "unat (fb_pending (sy_fabric s)) = count_pending (fb_attempts (sy_fabric s)) \<and>
    (\<forall>k i. fb_attempt_index (sy_fabric s) k = Some i \<longleftrightarrow>
       i < length (fb_attempts (sy_fabric s)) \<and> id_value (r_attempt (record_at (sy_fabric s) i)) = k)"
proof -
  have "consistent_ledger f0" using fenced_off_start start_success(1) [OF assms(1,2)] by blast
  from ledger_reach [OF assms(3) this] show ?thesis by (simp add: consistent_ledger_def ledger_ok_def)
qed

lemma pending_count_is_exact_witness:
  "unat (fb_pending sample_fabric) = count_pending (fb_attempts sample_fabric)"
proof -
  obtain s where s: "start_fabric sample_env (fabric_new sample_config sample_disk) = (s, sample_fabric)" "st_ok s"
    using sample_starts(1) by blast
  from conjunct1 [OF pending_count_is_exact [OF s reach.start]] show ?thesis by simp
qed



text \<open>The active counter counts the operations inside the guard.\<close>

lemma active_operations_are_counted_exactly:
  assumes "reach f0 s" "fb_active f0 = 0"
  shows "fb_active (sy_fabric s) = of_nat (length (filter in_flight (sy_jobs s)))"
proof -
  have "operations js = of_nat (length (filter in_flight js))" for js
    by (induction js) (simp_all add: operations_def flight_def)
  then show ?thesis using active_reach [OF assms] by simp
qed

subsection \<open>One operation\<close>

text \<open>
  C12. Every operation that enters the guard, run alone, is done after at most sixteen lock
  sections, whatever the state and whatever the world answers.
\<close>

lemma every_operation_finishes:
  assumes "guarded rq" "16 \<le> length ens"
  shows "\<exists>cs oc g. run_job ens (J_call rq) f = (cs, J_done oc, g)"
  using assms by (rule run_finishes)

lemma every_operation_finishes_witness:
  "\<exists>cs oc g. run_job (replicate 16 sample_env) (J_call (RQ_apply_envelope (mk_ref (Id 1) gen_first) (Id 9) (Id 0))) memory_fabric
     = (cs, J_done oc, g)"
  by (rule every_operation_finishes) simp_all



text \<open>
  C26. Once the clock was seen to move backwards, no step of any operation clears the mark, and
  every operation that needs a trustworthy clock (derive, apply, verify, revalidate) is refused
  with ClockRegression before it does anything.
\<close>

lemma clock_regression_is_sticky:
  assumes "fb_regressed f"
  shows "fb_regressed (snd (snd (job_step en j f))) \<and>
    (needs_clock rq \<longrightarrow>
       (\<exists>d. job_step en (J_call rq) f = ([], J_leave [] (OC_status (Status EC_ClockRegression d)), op_enter f)))"
proof -
  have "guarded rq" if "needs_clock rq" using that by (cases rq) simp_all
  then show ?thesis using assms regressed_step [OF assms, of en j]
    by (auto simp: call_step_def Let_def require_trustworthy_clock_def op_enter_def st_ok_def)
qed

lemma clock_regression_is_sticky_witness:
  "fb_regressed (snd (snd (job_step sample_env (J_call (RQ_derive_envelope (Id 1))) (memory_fabric\<lparr>fb_regressed := True\<rparr>))))"
  by (rule conjunct1 [OF clock_regression_is_sticky]) simp

text \<open>
  C15. A derived envelope has a rate between the floor and the ceiling of the grant it was derived
  from, expires after now, within the configured lifetime and no later than the grant, carries the
  authority it was derived under, and is found under its identity.
\<close>

lemma derived_envelope_stays_within_its_grant:
  assumes "derive_envelope_internal en inp now f = (Inr e, g)"
  shows "c_rate_bps (e_cadence e) \<le> g_ceiling_bps (ai_grant inp) \<and>
    g_floor_bps (ai_grant inp) \<le> c_rate_bps (e_cadence e) \<and>
    inst_ns now < inst_ns (dl_instant (e_valid_until e)) \<and>
    unat (inst_ns (dl_instant (e_valid_until e))) \<le> unat (inst_ns now) + unat (l_max_envelope_lifetime_ns (fb_limits f)) \<and>
    (dl_set (g_valid_until (ai_grant inp)) \<longrightarrow>
       inst_ns (dl_instant (e_valid_until e)) \<le> inst_ns (dl_instant (g_valid_until (ai_grant inp)))) \<and>
    e_authority e = ai_vector inp \<and>
    (\<exists>i. find_envelope (gr_id (e_ref e)) g = Some i \<and> ee_envelope (fb_envelopes g ! i) = e)"
  using derive_internal_within(1) [OF assms] derive_internal_found [OF assms]
  by (auto simp: within_grant_def)

lemma derived_envelope_stays_within_its_grant_witness:
  "\<exists>e g. derive_envelope_internal sample_env sample_inputs (Instant 10) memory_fabric = (Inr e, g) \<and>
     c_rate_bps (e_cadence e) \<le> 10000000000 \<and> find_envelope (gr_id (e_ref e)) g \<noteq> None"
proof -
  obtain e g where r: "derive_envelope_internal sample_env sample_inputs (Instant 10) memory_fabric = (Inr e, g)"
    using memory_derives by blast
  show ?thesis
    using derived_envelope_stays_within_its_grant [OF r] r by (auto simp: sample_inputs_def sample_grant_def)
qed

text \<open>
  C13. When the admission of an application goes on to call the backend, a record of the attempt
  in state Reserved has been appended to the journal on disk before.
\<close>

lemma reservation_is_durable_before_the_backend_is_called:
  assumes "apply_admit en x f = (J_emit cs ev (J_apply y a), g)" "fb_durable f = Some d"
  shows "\<exists>r k sq payload. encode_attempt_payload r = Inr payload \<and> r_state r = AS_Reserved \<and> r_attempt r = a \<and>
    fb_disk g = journal_append (frame \<lparr>dr_type = DR_Attempt, dr_sequence = sq, dr_timestamp_ns = inst_ns (ax_now x), dr_payload = payload\<rparr>) k"
  using apply_admit_durable [OF assms] by blast

lemma reservation_is_durable_before_the_backend_is_called_witness:
  "\<exists>ev a g r k payload ts sq. apply_admit sample_env sample_apply journal_fabric = (J_emit [] ev (J_apply sample_apply a), g) \<and>
     encode_attempt_payload r = Inr payload \<and> r_attempt r = a \<and>
     fb_disk g = journal_append (frame \<lparr>dr_type = DR_Attempt, dr_sequence = sq, dr_timestamp_ns = ts, dr_payload = payload\<rparr>) k"
proof -
  obtain ev a g where r: "apply_admit sample_env sample_apply journal_fabric = (J_emit [] ev (J_apply sample_apply a), g)"
    using journal_fabric_admits by blast
  obtain d where "fb_durable journal_fabric = Some d" by (simp add: journal_fabric_def)
  from reservation_is_durable_before_the_backend_is_called [OF r this] show ?thesis using r by blast
qed



text \<open>
  C21. A verification whose readback was under way when its attempt was cancelled moves the
  attempt back to Applied: the final section does not look at the state again.
\<close>

lemma verification_undoes_a_cancellation:
  assumes "fb_running f" "find_attempt (vx_attempt v) f = Some i"
    and "readback_good s ev" "evidence_matches ev (record_at f i) (e_cadence (vx_envelope v))"
  shows "closed_state (r_state (record_at (snd (cancel_attempt en (vx_attempt v) reason now f)) i)) \<and>
    r_state (record_at (snd (verify_commit en v s ev (snd (cancel_attempt en (vx_attempt v) reason now f)))) i) = AS_Applied"
proof -
  note c = cancel_closes [OF assms(1,2), of en reason now]
  have "evidence_matches ev (record_at (snd (cancel_attempt en (vx_attempt v) reason now f)) i) (e_cadence (vx_envelope v))"
    using assms(4) c(4,5) by (simp add: evidence_matches_def)
  from verify_applies [OF c(2) assms(3) this] show ?thesis using c(1) by blast
qed

lemma verification_undoes_a_cancellation_witness:
  "let f = snd (cancel_attempt sample_env (Id 1) ''stop'' (Instant 20) busy_fabric)
   in closed_state (r_state (record_at f 0)) \<and>
      r_state (record_at (snd (verify_commit sample_env sample_verify success sample_evidence f)) 0) = AS_Applied"
proof -
  have "fb_running busy_fabric" "find_attempt (vx_attempt sample_verify) busy_fabric = Some 0" "readback_good success sample_evidence"
    "evidence_matches sample_evidence (record_at busy_fabric 0) (e_cadence (vx_envelope sample_verify))"
    by (simp_all add: busy_fabric_def memory_fabric_def find_attempt_def sample_verify_def readback_good_def evidence_matches_def
        sample_evidence_def sample_defs)
  from verification_undoes_a_cancellation [OF this] show ?thesis by (simp add: Let_def sample_verify_def)
qed

subsection \<open>The epoch\<close>

text \<open>
  C14. After the epoch advances, and after fencing below a given epoch, no envelope that is
  stamped with an older epoch is in force and no attempt with older authority is open.
\<close>

lemma epoch_advance_fences_older_authority:
  assumes "epoch_advanced (fb_epoch f) = (ep, False)" "fb_running f"
  shows "fb_epoch (snd (advance_epoch_locked en now f)) = ep \<and>
    (\<forall>(lower, g) \<in> {(ep, snd (advance_epoch_locked en now f)), (below, snd (fence_below en below now f))}.
      (\<forall>e \<in> set (fb_envelopes g). ee_live e \<and> av_epoch (e_authority (ee_envelope e)) < lower \<longrightarrow> ee_revoked e) \<and>
      (\<forall>a \<in> set (fb_attempts g). at_live a \<and> av_epoch (r_authority (at_record a)) < lower \<longrightarrow> closed_state (r_state (at_record a))))"
  using advance_epoch_fences [OF assms(1)] fence_below_fences [OF assms(2)] by (simp add: fenced_below_def)

lemma epoch_advance_fences_older_authority_witness:
  "fb_epoch (snd (advance_epoch_locked sample_env (Instant 20) busy_fabric)) = Epoch 2 \<and>
   ee_revoked (hd (fb_envelopes (snd (advance_epoch_locked sample_env (Instant 20) busy_fabric))))"
proof -
  let ?g = "snd (advance_epoch_locked sample_env (Instant 20) busy_fabric)"
  have adv: "epoch_advanced (fb_epoch busy_fabric) = (Epoch 2, False)" and "fb_running busy_fabric"
    by (simp_all add: busy_fabric_def memory_fabric_def epoch_advanced_def kU64Max_def)
  note e = epoch_advance_fences_older_authority [OF this, of sample_env "Instant 20" "Epoch 0"]
  have "fb_envelopes ?g = [fence_entry (Epoch 2) ''coordinator epoch advanced''
      \<lparr>ee_envelope = sample_envelope, ee_revoked = False, ee_live = True, ee_reason = []\<rparr>]"
    using advance_epoch_fences(3) [OF adv] by (simp add: busy_fabric_def)
  moreover have "av_epoch (e_authority sample_envelope) < Epoch 2"
    by (simp add: sample_envelope_def sample_authority_def less_epoch_def)
  ultimately show ?thesis using e by (simp add: fence_entry_def)
qed

section \<open>Explanations\<close>



text \<open>
  C27. The JSON rendering of any explanation, whatever characters its texts hold, is one
  well-formed object: a reader gets back exactly its members in order, the texts cut to 256
  characters.
\<close>

lemma explanation_reads_back:
  "read_object (explanation_json x) = Some (map (\<lambda>m. (fst m, value_read (snd m))) (explanation_members x), [])"
  by (rule explanation_json_reads)



text \<open>A flow that is not bound any more: its authority cannot be fetched, and the effect recorded
  before is asserted all the same.\<close>

lemma effect_is_asserted_without_authority:
  "\<exists>x g. explain en1 en2 (Id 1) applied_fabric = (Inr x, g) \<and> ex_effect x = EL_SyntheticVerified \<and>
     ex_current x = None \<and> ex_binding x = None"
proof -
  have b: "binding_get (Id 1) (fb_bindings applied_fabric) = Inl (Status EC_NotFound ''flow binding not found'')"
    by (simp add: applied_fabric_def fabric_new_def binding_get_def)
  have l: "ex_current (explain_lookup (Id 1) applied_fabric) = None" "ex_binding (explain_lookup (Id 1) applied_fabric) = None"
    using b by (simp_all add: explain_lookup_def explain_binding_def blank_explanation_def Let_def split: option.split)
  obtain s where "fetch_local (Id 1) applied_fabric = Inl s"
    using b by (cases "st_ok (require_trustworthy_clock applied_fabric)") (simp_all add: fetch_local_def)
  then have f: "fetch_authority en2 (Id 1) applied_fabric = (Inl s, applied_fabric)" by (simp add: fetch_authority_def)
  let ?o = "explain_current (Inl s) (explain_grant (en_grant en1) (explain_lookup (Id 1) applied_fabric))"
  have o: "ex_current (explain_verdict ?o) = None" "ex_binding (explain_verdict ?o) = None"
    using l by (simp_all add: explain_verdict_def explain_attempt_def explain_current_def explain_grant_def Let_def
        split: sum.split option.split)
  obtain x g where x: "explain en1 en2 (Id 1) applied_fabric = (Inr x, g)" "ex_effect x = EL_SyntheticVerified"
    using applied_explained by blast
  have "x = explain_verdict ?o" using x(1) f by (simp add: explain_def id_valid_def)
  then show ?thesis using x o by blast
qed

section \<open>Frames over a stream\<close>

text \<open>
  C28. Any sequence of frames within the bound is sent and received as that same sequence, leaving
  exactly the bytes that follow, however the sockets on either side cut the stream into pieces.
\<close>

lemma frames_are_delivered:
  assumes "progresses si" "progresses si'" "progresses ri" "progresses ri'" "healthy a" "healthy b" "\<forall>m \<in> set ms. fits l m"
    and "send_each (co_send si si' l) ms a = (s, a')" "co_incoming b = drop (length (co_sent a)) (co_sent a') @ rest"
  shows "s = success \<and> (\<exists>b'. receive_each (co_receive ri ri' l) (length ms) b = (Inr ms, b') \<and> healthy b' \<and> co_incoming b' = rest)"
  using framed.delivered [of si si' ri ri' a b ms l s a' rest] assms by blast

lemma frames_are_delivered_witness:
  "\<exists>a' b'. send_each (co_send (\<lambda>_. 2) (\<lambda>_. 7) default_limits) [sample_frame, sample_frame] (adopt 4 []) = (success, a') \<and>
     receive_each (co_receive (\<lambda>_. 1) (\<lambda>_. 3) default_limits) 2 (adopt 5 (co_sent a')) = (Inr [sample_frame, sample_frame], b')"
proof -
  obtain s a' where a: "send_each (co_send (\<lambda>_. 2) (\<lambda>_. 7) default_limits) [sample_frame, sample_frame] (adopt 4 []) = (s, a')"
    by (metis prod.exhaust)
  have "s = success \<and> (\<exists>b'. receive_each (co_receive (\<lambda>_. 1) (\<lambda>_. 3) default_limits) (length [sample_frame, sample_frame])
      (adopt 5 (co_sent a')) = (Inr [sample_frame, sample_frame], b') \<and> healthy b' \<and> co_incoming b' = [])"
    by (rule frames_are_delivered [OF _ _ _ _ _ _ _ a])
       (simp_all add: progresses_def healthy_def adopt_def connection_new_def fits_def sample_frame_def default_limits_def)
  then show ?thesis using a by (auto simp: numeral_2_eq_2)
qed

text \<open>
  C19. A frame with one byte changed, anywhere but in the four bytes of the length, is refused
  however the stream is cut into pieces, and the connection is closed and poisoned.
\<close>

lemma corrupted_frames_are_refused:
  assumes "p < length (wire fr)" "x \<noteq> wire fr ! p" "p < 16 \<or> 20 \<le> p" "length (fr_payload fr) < 4294967296"
    and "co_incoming c = (wire fr)[p := x] @ rest" "healthy c"
  shows "\<exists>s c'. co_receive io io' l c = (Inl s, c') \<and> co_poisoned c' \<and> co_handle c' = - 1"
proof -
  obtain r c' where r: "co_receive io io' l c = (r, c')" by (metis prod.exhaust)
  have "r \<noteq> Inr fr'" for fr'
    using corrupted_frame [of c fr p x rest io io' l fr' c'] assms r by (auto simp: wire_def)
  then obtain s where "r = Inl s" by (cases r) auto
  then show ?thesis using r co_receive_failure [of io io' l c s c'] assms(6) by (auto simp: healthy_def)
qed

lemma corrupted_frames_are_refused_witness:
  "\<exists>s c'. co_receive (\<lambda>_. 8) (\<lambda>_. 8) default_limits (adopt 5 ((wire sample_frame)[24 := 77])) = (Inl s, c') \<and> co_poisoned c' \<and> co_handle c' = - 1"
proof -
  have "24 < length (wire sample_frame)" "wire sample_frame ! 24 = 10" "length (fr_payload sample_frame) < 4294967296"
    by (simp_all add: wire_def sample_frame_def nth_append)
  then show ?thesis
    using corrupted_frames_are_refused [of 24 sample_frame 77 "adopt 5 ((wire sample_frame)[24 := 77])" "[]" "\<lambda>_. 8" "\<lambda>_. 8" default_limits]
    by (simp add: adopt_def connection_new_def healthy_def)
qed

text \<open>
  C34. A connection on which a receive failed, or a send of a frame within the bounds, is closed,
  and every later send, receive and connect on it is refused without touching it.
\<close>

lemma framing_failures_are_final:
  assumes "healthy c"
    and "co_receive io io' l c = (Inl s, c') \<or>
         (fits l fr \<and> co_send io io' l fr c = (s, c') \<and> \<not> st_ok s)"
  shows "\<not> co_valid c' \<and> co_send out out' l' fr' c' = (unusable, c') \<and> co_receive out out' l' c' = (Inl unusable, c') \<and>
    connect_to a c' = (unusable, c')"
proof -
  have n: "length (fr_payload fr) \<le> 0xFFFFFFFF" if "fits l fr"
    using that u32_bound [of "l_max_frame_payload_bytes l"] unfolding fits_def by linarith
  have "co_poisoned c' \<and> co_handle c' = - 1"
    using assms co_receive_failure [of io io' l c s c'] co_send_failure [of io io' l fr c s c'] n
    by (auto simp: healthy_def fits_def)
  then show ?thesis using poisoned_refuses [of c'] by (simp add: co_valid_def)
qed

lemma framing_failures_are_final_witness:
  "\<exists>c'. snd (co_receive (\<lambda>_. 8) (\<lambda>_. 8) default_limits (adopt 5 [1, 2, 3])) = c' \<and>
     co_receive (\<lambda>_. 8) (\<lambda>_. 8) default_limits c' = (Inl unusable, c')"
proof -
  obtain r c' where r: "co_receive (\<lambda>_. 8) (\<lambda>_. 8) default_limits (adopt 5 [1, 2, 3]) = (r, c')" by (metis prod.exhaust)
  have "fst (recv_exact (\<lambda>_. 8) 0 kFrameHeaderBytes [1, 2, 3]) = None"
    using recv_exact_some [of "\<lambda>_. 8" 0 kFrameHeaderBytes "[1, 2, 3]"]
    by (cases "fst (recv_exact (\<lambda>_. 8) 0 kFrameHeaderBytes [1, 2, 3])")
       (auto simp: kFrameHeaderBytes_def dest!: arg_cong [where f = length])
  then obtain s where "r = Inl s"
    using r by (auto simp: co_receive_def adopt_def connection_new_def Let_def split_beta)
  then show ?thesis
    using framing_failures_are_final [of "adopt 5 [1, 2, 3]" "\<lambda>_. 8" "\<lambda>_. 8" default_limits s c'] r
    by (auto simp: healthy_def adopt_def connection_new_def)
qed

text \<open>
  C36. Connecting to the loopback listener returns for every number of retries below the largest
  32-bit value; with that value and a listener that never appears the counter wraps and the loop
  never ends.
\<close>

lemma connecting_may_never_end:
  "(retries < 0xFFFFFFFF \<longrightarrow> connect_loopback answer retries c \<noteq> None) \<and>
   ((\<forall>k c. \<not> st_ok (fst (connect_to (answer k) c))) \<longrightarrow> connect_loopback answer 0xFFFFFFFF c = None)"
  using connect_attempts_returns [of retries 0 answer 0 c] connect_attempts_diverges [of answer 0 0 c]
  by (auto simp: connect_loopback_def)

lemma connecting_may_never_end_witness:
  "connect_loopback (\<lambda>_. \<lparr>da_resolved = False, da_addresses = []\<rparr>) 4 connection_new \<noteq> None \<and>
   connect_loopback (\<lambda>_. \<lparr>da_resolved = False, da_addresses = []\<rparr>) 0xFFFFFFFF connection_new = None"
proof -
  have "\<forall>c. \<not> st_ok (fst (connect_to \<lparr>da_resolved = False, da_addresses = []\<rparr> c))"
    by (simp add: connect_to_def transport_global_init_def st_ok_def unusable_def success_def)
  then show ?thesis
    using connecting_may_never_end [of 4 "\<lambda>_. \<lparr>da_resolved = False, da_addresses = []\<rparr>" connection_new] by simp
qed

section \<open>The control protocol\<close>

lemma messages_roundtrip:
  assumes "request_wf l q" "46 + length (rq_fields q) \<le> cap"
    and "response_wf l a" "10 + length (rs_detail a) + length (rs_payload a) \<le> cap"
  shows "run_state (decode_request l) (reader_new (record_bytes cap (encode_request q) @ rest)) = (Inr q, reader_new rest) \<and>
    run_state (decode_response l) (reader_new (record_bytes cap (encode_response a) @ rest)) = (Inr a, reader_new rest)"
proof -
  have d: "length (rs_detail a) \<le> kMaxStringBytes" using assms(3) by (simp add: response_wf_def)
  show ?thesis
    using assms sized_encodable [OF sized_request, of cap q] sized_encodable [OF sized_response [OF d], of cap]
    by (intro conjI request_codec.decode_encode response_codec.decode_encode) simp_all
qed

lemma messages_roundtrip_witness:
  "run_state (decode_request default_limits) (reader_new (record_bytes 4096 (encode_request sample_call))) = (Inr sample_call, reader_new []) \<and>
   run_state (decode_response default_limits) (reader_new (record_bytes 4096 (encode_response (failure EC_StaleEpoch ''old'')))) =
     (Inr (failure EC_StaleEpoch ''old''), reader_new [])"
  using messages_roundtrip [of default_limits sample_call 4096 "failure EC_StaleEpoch ''old''" "[]"]
  by (simp add: request_wf_def response_wf_def sample_call_def failure_def default_limits_def kMaxStringBytes_def)

text \<open>
  C5. A request, other than epoch and stop, that is stamped with no epoch, with another epoch than
  the current one or with another boot nonce than the current one is refused with StaleEpoch or
  StaleBoot: no backend is called, the state of the coordinator is untouched, and the refusal is
  counted.
\<close>

lemma stale_requests_never_reach_the_coordinator:
  assumes "rq_op q \<noteq> OP_Epoch" "rq_op q \<noteq> OP_Stop"
    and "cs_epoch (rq_stamp q) \<noteq> epoch_value (fb_epoch f) \<or> cs_epoch (rq_stamp q) = 0 \<or>
         (cs_boot_nonce (rq_stamp q) \<noteq> 0 \<and> cs_boot_nonce (rq_stamp q) \<noteq> bo_nonce (fb_boot f))"
  shows "\<exists>answer d'. dispatch w q d f = Some (answer, [], d', f) \<and> rs_code answer \<in> {EC_StaleEpoch, EC_StaleBoot} \<and>
    rs_payload answer = [] \<and> dp_refused d' = dp_refused d + 1 \<and> dp_stale d' = dp_stale d + 1"
proof -
  have "checked_stale (rq_op q)" "is_stale f q" using assms by (auto simp: checked_stale_def is_stale_def)
  then show ?thesis using stale_dispatch [of q f w d] by fastforce
qed

lemma stale_requests_never_reach_the_coordinator_witness:
  "\<exists>answer d'. dispatch (\<lambda>_. sample_env) (sample_call\<lparr>rq_op := OP_AdvanceEpoch\<rparr>) (dispatcher_new default_limits) applied_fabric =
     Some (answer, [], d', applied_fabric) \<and> dp_stale d' = 1"
  using stale_requests_never_reach_the_coordinator [of "sample_call\<lparr>rq_op := OP_AdvanceEpoch\<rparr>" applied_fabric
      "\<lambda>_. sample_env" "dispatcher_new default_limits"]
  by (auto simp: sample_call_def blank_stamp_def dispatcher_new_def)


text \<open>
  C10. A client and a server session joined by the two byte streams, whatever pieces the sockets
  cut them into: the bytes a call sends are those the server reads as the request, the dispatcher
  is run on it once, the bytes the server sends are those the client reads, and the call returns
  the answer of the dispatcher.
\<close>

lemma calls_return_the_dispatchers_answer:
  assumes "live_io io" "live_io io'" "healthy (cl_connection c)" "healthy (ss_connection x)" "ss_established x"
    and "q = \<lparr>rq_op = op, rq_stamp = stamp, rq_fields = bs\<rparr>" "request_ready (cl_limits c) q" "request_ready l q"
    and "dispatch w q d f = Some (answer, calls, d', f')" "response_ready (cl_limits c) answer" "response_ready l answer"
    and "k = cl_request_id c + 1" "co_incoming (ss_connection x) = wire (request_frame k q) @ rest"
    and "co_incoming (cl_connection c) = wire (answer_frame k answer) @ rest'"
  shows "fst (call_with_stamp io op bs stamp c) = answer \<and>
    co_sent (cl_connection (snd (call_with_stamp io op bs stamp c))) = co_sent (cl_connection c) @ wire (request_frame k q) \<and>
    (\<exists>t x'. serve_turn w io' l x d f = Some (t, x', calls, d', f') \<and>
       co_sent (ss_connection x') = co_sent (ss_connection x) @ wire (answer_frame k answer))"
  using server_answers [OF assms(2,4,5,8,13,9,11)]
    client_receives [OF assms(1,3) assms(7) [unfolded assms(6)] assms(14,10)] assms(6,12) by blast

lemma calls_return_the_dispatchers_answer_witness:
  "fst (call_with_stamp sample_io OP_Epoch [] blank_stamp sample_client) = sample_answer"
proof -
  have r: "sample_call = \<lparr>rq_op = OP_Epoch, rq_stamp = blank_stamp, rq_fields = []\<rparr>"
    "request_ready (cl_limits sample_client) sample_call" "response_ready (cl_limits sample_client) sample_answer"
    "1 = cl_request_id sample_client + 1" "co_incoming (ss_connection sample_session) = wire (request_frame 1 sample_call) @ []"
    "co_incoming (cl_connection sample_client) = wire (answer_frame 1 sample_answer) @ []"
    using sample_ready by (simp_all add: sample_ends sample_call_def)
  show ?thesis
    using calls_return_the_dispatchers_answer [OF sample_io_live sample_io_live sample_ends(1-3) r(1,2) sample_ready(1)
        sample_dispatched [of "\<lambda>_. sample_env" "dispatcher_new default_limits"] r(3) sample_ready(2) r(4-6)] by blast
qed

lemma handshakes_give_the_current_stamp:
  assumes "live_io io" "live_io io'" "healthy (cl_connection c)" "healthy (ss_connection x)"
    and "name_ready (cl_limits c) name" "name_ready l name" "epoch_valid (fb_epoch f)"
    and "35 \<le> unat (l_max_frame_payload_bytes (cl_limits c))" "35 \<le> unat (l_max_frame_payload_bytes l)"
    and "k = cl_request_id c + 1" "co_incoming (ss_connection x) = wire (hello_frame k name (cl_stamp c)) @ rest"
    and "co_incoming (cl_connection c) = wire (answer_frame k (welcome_response f)) @ rest'"
  shows "fst (handshake io name c) = success \<and>
    co_sent (cl_connection (snd (handshake io name c))) = co_sent (cl_connection c) @ wire (hello_frame k name (cl_stamp c)) \<and>
    rs_code (fst (stale_check f \<lparr>rq_op = op, rq_stamp = cl_stamp (snd (handshake io name c)), rq_fields = bs\<rparr> d')) = EC_Ok \<and>
    (\<exists>x'. serve_turn w io' l x d f = Some (Again, x', [], d, f) \<and> ss_established x' \<and>
       co_sent (ss_connection x') = co_sent (ss_connection x) @ wire (answer_frame k (welcome_response f)))"
proof -
  note h = client_handshakes [OF assms(1,3,5,8,12)]
  have "\<not> is_stale f \<lparr>rq_op = op, rq_stamp = cl_stamp (snd (handshake io name c)), rq_fields = bs\<rparr>"
    using stamp_is_current [OF assms(7)] h(2) by simp
  then show ?thesis
    using h server_welcomes [OF assms(2,4,6,9,11)] assms(10) stale_check_refuses(1) by blast
qed

lemma handshakes_give_the_current_stamp_witness:
  "fst (handshake sample_io ''agent'' hello_client) = success"
proof -
  have r: "1 = cl_request_id hello_client + 1"
    "co_incoming (ss_connection hello_session) = wire (hello_frame 1 ''agent'' (cl_stamp hello_client)) @ []"
    "co_incoming (cl_connection hello_client) = wire (answer_frame 1 (welcome_response applied_fabric)) @ []"
    by (simp_all add: hello_ends)
  show ?thesis
    using handshakes_give_the_current_stamp [OF sample_io_live sample_io_live hello_ends(1,2) hello_names r] by blast
qed

text \<open>Before a hello nothing reaches the dispatcher or the coordinator.\<close>

lemma a_hello_must_come_first:
  assumes "serve_turn w io l x d f = Some (t, x', calls, d', f')" "\<not> ss_established x"
  shows "calls = [] \<and> d' = d \<and> f' = f"
  by (rule unestablished_turn [OF assms])

text \<open>
  C17. In every state a server can reach by starts, accepts, turns of its threads and stops in any
  order, the active counter is exactly the number of admitted connections, which is within the
  configured maximum, and no two threads share a number.
\<close>

lemma connections_are_bounded:
  assumes "serves g s"
  shows "unat (sv_active s) = length (sv_sessions s) \<and> sv_active s \<le> sg_max_connections g \<and> distinct (map fst (sv_sessions s))"
  using server_ok_reached [OF assms] by (simp add: server_ok_def)

lemma connections_are_bounded_witness:
  "sv_active busy_server = 1 \<and> unat (sv_active busy_server) = length (sv_sessions busy_server)"
  using connections_are_bounded [OF busy_serves(1)] busy_serves(2) by simp

text \<open>
  C18. After a stop, the next turn of any serving thread ends it, removes its connection, and
  dispatches nothing: neither the counters nor the coordinator change.
\<close>

lemma stopping_ends_service:
  assumes "serves g s" "map_of (sv_sessions (server_stop s)) k = Some x"
  shows "\<exists>s'. server_turn w io k (server_stop s) f = Some (s', [], f) \<and> sv_dispatcher s' = sv_dispatcher s \<and>
    length (sv_sessions s') < length (sv_sessions s) \<and> serves g s' \<and> sv_stopping s'"
proof -
  have s: "serves g (server_stop s)" "sv_stopping (server_stop s)" by (rule serves.stop [OF assms(1)]) (simp add: server_stop_def)
  have d: "sv_dispatcher (server_stop s) = sv_dispatcher s" "length (sv_sessions (server_stop s)) = length (sv_sessions s)"
    by (simp_all add: server_stop_def)
  obtain s' where t: "server_turn w io k (server_stop s) f = Some (s', [], f)" "sv_dispatcher s' = sv_dispatcher (server_stop s)"
      "length (sv_sessions s') < length (sv_sessions (server_stop s))" "sv_stopping s'"
    using stopping_turn [OF s assms(2)] by blast
  then show ?thesis using serves.turn [OF s(1) t(1)] d by auto
qed

lemma stopping_ends_service_witness:
  "\<exists>s'. server_turn (\<lambda>_. sample_env) sample_io 0 (server_stop busy_server) applied_fabric = Some (s', [], applied_fabric) \<and> sv_stopping s'"
  using stopping_ends_service [OF busy_serves(1), of 0 "close_session (session_new (adopt 5 []))" "\<lambda>_. sample_env" sample_io applied_fabric]
    busy_serves(3) by blast

text \<open>A reason of more than 500 bytes overflows the writer of the client and is refused.\<close>

lemma long_reasons_are_refused:
  assumes "length s \<le> unat (l_max_explanation_bytes l)" "length s \<le> kMaxStringBytes"
  shows "call_of l \<lparr>rq_op = OP_CancelAttempt, rq_stamp = stamp, rq_fields = cancel_block a s\<rparr> =
    Some (if length s \<le> 500 then Inr (RQ_cancel_attempt a s)
          else Inl (Status EC_MalformedInput ''cancel-attempt fields are malformed''))"
  using cancel_arrives [of s l "''cancel-attempt fields are malformed''" a]
    long_reason_is_refused [of s l "''cancel-attempt fields are malformed''" a] assms
  by (simp add: call_of_def Let_def not_le)

text \<open>The accept loop does not end when its listener fails.\<close>

lemma accept_loop_outlives_its_listener:
  assumes "\<not> sv_stopping s"
  shows "accept_loop answer k s = None"
  by (rule accept_loop_stuck [OF assms])

text \<open>A stop that comes before the start is lost, and so is every later one.\<close>

lemma stop_before_start_is_forgotten:
  assumes "la_socket a = Some h" "la_bound a" "la_listening a" "la_port a = Some port" "h \<noteq> - 1"
  shows "let s = snd (server_start a (server_stop (server_new g)))
         in ls_handle (sv_listener s) = h \<and> server_stop s = s \<and> server_accept (Some (i, stream)) s = (True, s)"
  using stop_before_start_is_lost [OF assms(1-4), of g i stream] assms(5) by (simp add: Let_def)

section \<open>Typing\<close>



section \<open>The programs\<close>

text \<open>
  C11. A command line of pacingctl against a server over two byte streams: the bytes the operator
  sends are a hello and the request the command stands for, stamped so that the staleness check of
  that coordinator state accepts it; the server welcomes the hello without touching the
  coordinator, runs the dispatcher once on that request, and what it sends is what the operator
  reads; the command prints and exits as its report of exactly that answer.
\<close>

lemma operator_commands_go_through:
  assumes "3 \<le> length argv" "ctl_scan argv blank_line = Inr ln" "ct_command ln \<noteq> []" "ct_port ln \<noteq> 0"
    and "live_io (cw_hello w)" "live_io (cw_call w)" "live_io io1" "live_io io2"
    and "with_shape ln (ctl_policy ln) = Some p" "session_input ln p f = Some q" "epoch_valid (fb_epoch f)"
    and "answers_first (cw_dial w 0) (wire (answer_frame 1 (welcome_response f)) @ wire (answer_frame 2 answer) @ rest)"
    and "healthy (ss_connection x)"
    and "co_incoming (ss_connection x) = wire (hello_frame 1 ''pacingctl'' blank_stamp) @ wire (request_frame 2 q)"
    and "dispatch wd q d f = Some (answer, calls, d', f')" "response_ready default_limits answer"
  shows "\<not> is_stale f q \<and>
    (\<exists>c. ctl_main w argv = Some (ctl_report (ct_command ln) answer, c) \<and>
       co_sent (cl_connection c) = co_incoming (ss_connection x)) \<and>
    (\<exists>x1 x2 t. serve_turn wd io1 default_limits x d f = Some (Again, x1, [], d, f) \<and>
       serve_turn wd io2 default_limits x1 d f = Some (t, x2, calls, d', f') \<and>
       co_sent (ss_connection x2) = co_sent (ss_connection x) @
         wire (answer_frame 1 (welcome_response f)) @ wire (answer_frame 2 answer))"
  using stamp_is_current [OF assms(11) session_request_ready(2) [OF assms(9,10)]]
    ctl_main_exact [OF assms(1-6,9,10,12,16)]
    serving_exact [OF assms(7,8,13,14) session_request_ready(1) [OF assms(9,10)] assms(15,16)]
  by (simp add: assms(14))

lemma operator_commands_go_through_witness:
  "\<exists>c. ctl_main operator_world operator_words = Some (ctl_report ''epoch'' sample_answer, c) \<and>
     co_sent (cl_connection c) = co_incoming (ss_connection operator_session)"
  using operator_commands_go_through [OF operator_parts(1-6) sample_io_live sample_io_live operator_parts(7,8,13,9-12) sample_ready(2)]
  by (simp add: operator_line_def)

text \<open>
  C20. pacingd reaches its accept loop only with options that were accepted, a running coordinator
  that has exactly its one backend registered (whose identity is not zero), no envelope and no
  attempt of an earlier incarnation in force, the configured grant in its authority, and a server
  that is started, not stopping and has no connection yet; every other course ends before.
\<close>

lemma daemon_serves_a_fresh_coordinator:
  assumes "daemon_begin w argv = Some (ls, Inr dm)"
  shows "\<exists>o1. parse_daemon_options argv = Some o1 \<and>
    fb_running (dm_fabric dm) \<and> fb_backends (dm_fabric dm) = [(Id (do_backend_id o1), 0)] \<and> do_backend_id o1 \<noteq> 0 \<and>
    list_all ee_revoked (fb_envelopes (dm_fabric dm)) \<and>
    list_all (\<lambda>a. out_of_force (at_record a)) (fb_attempts (dm_fabric dm)) \<and>
    sv_started (dm_server dm) \<and> \<not> sv_stopping (dm_server dm) \<and> sv_sessions (dm_server dm) = [] \<and>
    serves (daemon_server_config o1) (dm_server dm) \<and>
    authority_fetch (Id (do_resource o1)) (dm_authority dm) = Inr (daemon_grant o1) \<and>
    g_ceiling_bps (daemon_grant o1) = do_ceiling_bps o1"
  using daemon_is_fresh [OF assms] by (auto simp: fresh_daemon_def)

lemma daemon_serves_a_fresh_coordinator_witness:
  "\<exists>dm. daemon_begin quiet_world [''--quiet''] = Some ([], Inr dm) \<and> fb_running (dm_fabric dm) \<and> sv_started (dm_server dm)"
  using quiet_daemon daemon_serves_a_fresh_coordinator by blast

text \<open>
  C29. A command line of pacingctl that is written out from a port, a command and keys with values
  is read back as them, whatever the values are, and a number printed under a key is the value the
  commands take for that key.
\<close>

lemma command_lines_read_back:
  assumes "port \<noteq> 0" "command \<noteq> []" "take 2 command \<noteq> ''--''" "''port'' \<notin> fst ` set args"
    and "args = xs @ (k, show_u64 v) # ys" "k \<notin> fst ` set xs"
  shows "\<exists>ln. ctl_scan (''--port'' # show_u64 (ucast port) # command # ctl_words args) blank_line = Inr ln \<and>
    ct_port ln = port \<and> ct_command ln = command \<and> ct_args ln = args \<and> value_of ln k fallback = v"
  using ctl_scan_line [OF assms(1-4)] value_of_first [OF assms(6)] assms(5) by simp

lemma command_lines_read_back_witness:
  "\<exists>ln. ctl_scan [''--port'', show_u64 9411, ''derive'', ''--flow'', show_u64 7] blank_line = Inr ln \<and>
     ct_port ln = 9411 \<and> ct_command ln = ''derive'' \<and> value_of ln ''flow'' 0 = 7"
  using command_lines_read_back [of 9411 "''derive''" "[(''flow'', show_u64 7)]" "[]" "''flow''" 7 "[]" 0]
  by (auto simp: ctl_words_def)

end
